(* ===== verification/FedPrelude.thy ===== *)
theory FedPrelude
  imports
    Main
    "HOL-Library.Word"
    "HOL-Library.Char_ord"
    "HOL-Library.List_Lexorder"
    "HOL-Library.Sublist"
    "HOL-Library.Multiset"
begin

text \<open>
  Shared vocabulary of the development: the Go types the model uses (byte strings, slices with
  their nil value, signed 64-bit integers), the parts of the Go string library the program calls,
  and the generic lemmas on lists, sorting and strings that the component theories share.

  A Go string is a sequence of bytes, and so is a \<open>[]byte\<close>: both are \<^typ>\<open>string\<close>, whose
  characters are exactly the 256 bytes, and the conversions between them are the identity. Where
  the program can tell a nil slice from an empty one (JSON writes \<open>null\<close> for the first), the
  type is \<open>'a slice\<close>. An \<open>int64\<close> is a 64-bit word read with \<open>sint\<close>, so sums wrap.
\<close>

section \<open>Types and collections\<close>

type_synonym bytes = string
type_synonym int64 = "64 word"
type_synonym 'a slice = "'a list option"

named_theorems norm_simps "normalisers are idempotent and fix trimmed values"
named_theorems wf_intros "operations keep the well-formedness of a component"

text \<open>The elements of a slice; a nil slice has none.\<close>

definition elems :: "'a slice \<Rightarrow> 'a list" where
  "elems xs = (case xs of None \<Rightarrow> [] | Some ys \<Rightarrow> ys)"

lemma elems_simps [simp]: "elems None = []" "elems (Some ys) = ys"
  by (simp_all add: elems_def)

text \<open>\<open>append([]T(nil), xs...)\<close>: a copy, which is nil when there is nothing to copy.\<close>

definition copy_nil :: "'a list \<Rightarrow> 'a slice" where
  "copy_nil xs = (if xs = [] then None else Some xs)"

lemma elems_copy_nil [simp]: "elems (copy_nil xs) = xs"
  by (simp add: copy_nil_def)

text \<open>The constant \<open>math.MaxInt64\<close>.\<close>

definition MaxInt64 :: int64 where
  "MaxInt64 = 0x7FFFFFFFFFFFFFFF"

lemma sint_MaxInt64: "sint MaxInt64 = 2 ^ 63 - 1"
  by (simp add: MaxInt64_def)

lemma sint_int64_bounds: "- (2 ^ 63) \<le> sint (x :: int64)" "sint (x :: int64) < 2 ^ 63"
  using sint_ge [of x] sint_lt [of x] by simp_all

text \<open>Signed arithmetic is exact where the result is in range.\<close>

lemma sint_plus_int64:
  assumes "- (2 ^ 63) \<le> sint (x :: int64) + sint y" "sint x + sint y < 2 ^ 63"
  shows "sint (x + y) = sint x + sint y"
  using assms by (simp add: sint_word_ariths signed_take_bit_int_eq_self)

lemma sint_minus_int64:
  assumes "- (2 ^ 63) \<le> sint (x :: int64) - sint y" "sint x - sint y < 2 ^ 63"
  shows "sint (x - y) = sint x - sint y"
  using assms by (simp add: sint_word_ariths signed_take_bit_int_eq_self)

section \<open>Stable sorting by a key\<close>

text \<open>
  \<open>sort.SliceStable\<close> with \<open>key(i) < key(j)\<close> is the library's stable \<^const>\<open>sort_key\<close>. When
  the keys are distinct the sorted permutation is unique, so the unstable \<open>sort.Slice\<close> gives the
  same list and the order in which the elements were collected does not matter.
\<close>

lemma sort_key_cong_mset:
  assumes "mset xs = mset ys" "distinct (map f xs)"
  shows "sort_key f xs = sort_key f ys"
  by (rule sort_key_inj_key_eq) (use assms in \<open>simp_all add: distinct_map\<close>)

section \<open>Subsequences\<close>

lemma subseq_append_right: "subseq xs (xs @ ys)"
  by (metis append_Nil2 list_emb_Nil list_emb_append_mono subseq_order.order_refl)

lemma subseq_distinct: "subseq xs ys \<Longrightarrow> distinct ys \<Longrightarrow> distinct xs"
proof (induction rule: list_emb.induct)
  case (list_emb_Cons2 x y xs ys)
  have "set xs \<subseteq> set ys" using list_emb_set [OF list_emb_Cons2(2)] by blast
  with list_emb_Cons2 show ?case by auto
qed auto

lemma sort_key_sorted: "sorted (map f xs) \<Longrightarrow> sort_key f xs = xs"
  by (induction xs) (auto simp: insort_is_Cons)

lemma sint_inject [simp]: "sint (a :: int64) = sint b \<longleftrightarrow> a = b"
  by (auto intro: signed_word_eqI)

end
