(* ===== verification/GoStrings.thy ===== *)
theory GoStrings
  imports FedPrelude
begin

text \<open>
  The parts of the Go libraries \<open>strings\<close>, \<open>unicode/utf8\<close>, \<open>encoding/hex\<close>,
  \<open>encoding/base64\<close> and \<open>strconv\<close> that the program calls, on byte strings. White space is
  Unicode white space in its UTF-8 encoding, as \<open>strings.TrimSpace\<close> has it. The case table of
  \<open>unicode.ToLower\<close> above ASCII is the only part that is a parameter.
\<close>

section \<open>Definitions\<close>

subsection \<open>strings.TrimSpace, strings.Trim, strings.Cut\<close>

text \<open>The UTF-8 encodings of the code points \<open>unicode.IsSpace\<close> accepts.\<close>

definition ws_runes :: "string list" where
  "ws_runes =
     [[CHR 0x20], [CHR 0x09], [CHR 0x0A], [CHR 0x0B], [CHR 0x0C], [CHR 0x0D],
      [CHR 0xC2, CHR 0x85], [CHR 0xC2, CHR 0xA0], [CHR 0xE1, CHR 0x9A, CHR 0x80],
      [CHR 0xE2, CHR 0x80, CHR 0x80], [CHR 0xE2, CHR 0x80, CHR 0x81],
      [CHR 0xE2, CHR 0x80, CHR 0x82], [CHR 0xE2, CHR 0x80, CHR 0x83],
      [CHR 0xE2, CHR 0x80, CHR 0x84], [CHR 0xE2, CHR 0x80, CHR 0x85],
      [CHR 0xE2, CHR 0x80, CHR 0x86], [CHR 0xE2, CHR 0x80, CHR 0x87],
      [CHR 0xE2, CHR 0x80, CHR 0x88], [CHR 0xE2, CHR 0x80, CHR 0x89],
      [CHR 0xE2, CHR 0x80, CHR 0x8A], [CHR 0xE2, CHR 0x80, CHR 0xA8],
      [CHR 0xE2, CHR 0x80, CHR 0xA9], [CHR 0xE2, CHR 0x80, CHR 0xAF],
      [CHR 0xE2, CHR 0x81, CHR 0x9F], [CHR 0xE3, CHR 0x80, CHR 0x80]]"

definition starts_with_one :: "string list \<Rightarrow> string \<Rightarrow> string option" where
  "starts_with_one ws s = find (\<lambda>w. w \<noteq> [] \<and> prefix w s) ws"

lemma starts_with_one_SomeD:
  "starts_with_one ws s = Some w \<Longrightarrow> w \<noteq> [] \<and> prefix w s"
  by (auto simp: starts_with_one_def find_Some_iff)

function trim_by :: "string list \<Rightarrow> string \<Rightarrow> string" where
  "trim_by ws s =
     (case starts_with_one ws s of None \<Rightarrow> s | Some w \<Rightarrow> trim_by ws (drop (length w) s))"
  by pat_completeness auto
termination
  by (relation "measure (\<lambda>(ws, s). length s)")
     (auto dest!: starts_with_one_SomeD simp: prefix_def)

declare trim_by.simps [simp del]

definition TrimSpace :: "string \<Rightarrow> string" where
  "TrimSpace s = rev (trim_by (map rev ws_runes) (rev (trim_by ws_runes s)))"

text \<open>\<open>strings.Trim\<close> for a cutset of ASCII characters.\<close>

definition Trim :: "char list \<Rightarrow> string \<Rightarrow> string" where
  "Trim cs s = rev (dropWhile (\<lambda>c. c \<in> set cs) (rev (dropWhile (\<lambda>c. c \<in> set cs) s)))"

text \<open>\<open>strings.Cut\<close> at a one-byte separator; \<open>None\<close> when it does not occur.\<close>

definition Cut :: "char \<Rightarrow> string \<Rightarrow> (string \<times> string) option" where
  "Cut c s = (if c \<in> set s
     then Some (takeWhile (\<lambda>x. x \<noteq> c) s, tl (dropWhile (\<lambda>x. x \<noteq> c) s)) else None)"

subsection \<open>unicode/utf8 and strings.ToLower\<close>

definition ascii :: "char \<Rightarrow> bool" where
  "ascii c \<longleftrightarrow> (of_char c :: nat) < 0x80"

definition byte_in :: "nat \<Rightarrow> nat \<Rightarrow> char \<Rightarrow> bool" where
  "byte_in lo hi c \<longleftrightarrow> lo \<le> of_char c \<and> (of_char c :: nat) \<le> hi"

text \<open>How many bytes a rune that begins with this byte needs; 0 for a byte that begins none.\<close>

definition rune_need :: "nat \<Rightarrow> nat" where
  "rune_need b = (if b < 0x80 then 1 else if 0xC2 \<le> b \<and> b \<le> 0xDF then 2
     else if 0xE0 \<le> b \<and> b \<le> 0xEF then 3 else if 0xF0 \<le> b \<and> b \<le> 0xF4 then 4 else 0)"

text \<open>The width of the valid rune at the head of the string, 0 where there is none.\<close>

fun rune_width :: "string \<Rightarrow> nat" where
  "rune_width [] = 0"
| "rune_width (c # cs) =
     (let b = of_char c; n = rune_need b;
          lo = (if b = 0xE0 then 0xA0 else if b = 0xF0 then 0x90 else 0x80);
          hi = (if b = 0xED then 0x9F else if b = 0xF4 then 0x8F else 0xBF)
      in if n \<le> 1 then n
         else if n - 1 \<le> length cs \<and> byte_in lo hi (hd cs) \<and>
                 list_all (byte_in 0x80 0xBF) (take (n - 2) (tl cs)) then n else 0)"

declare rune_width.simps(2) [simp del]

text \<open>The code point of one valid rune, and \<open>utf8.AppendRune\<close>.\<close>

fun rune_value :: "string \<Rightarrow> nat" where
  "rune_value [a] = of_char a"
| "rune_value [a, b] = (of_char a - 0xC0) * 64 + (of_char b - 0x80)"
| "rune_value [a, b, c] = ((of_char a - 0xE0) * 64 + (of_char b - 0x80)) * 64 + (of_char c - 0x80)"
| "rune_value [a, b, c, d] =
     (((of_char a - 0xF0) * 64 + (of_char b - 0x80)) * 64 + (of_char c - 0x80)) * 64
       + (of_char d - 0x80)"
| "rune_value _ = 0xFFFD"

definition rune_error :: string where
  "rune_error = [CHR 0xEF, CHR 0xBF, CHR 0xBD]"

definition append_rune :: "nat \<Rightarrow> string" where
  "append_rune r =
     (if r < 0x80 then [char_of r]
      else if r < 0x800 then [char_of (0xC0 + r div 64), char_of (0x80 + r mod 64)]
      else if 0xD800 \<le> r \<and> r \<le> 0xDFFF \<or> 0x10FFFF < r then rune_error
      else if r < 0x10000 then
        [char_of (0xE0 + r div 4096), char_of (0x80 + (r div 64) mod 64), char_of (0x80 + r mod 64)]
      else [char_of (0xF0 + r div 262144), char_of (0x80 + (r div 4096) mod 64),
            char_of (0x80 + (r div 64) mod 64), char_of (0x80 + r mod 64)])"

definition ascii_lower :: "char \<Rightarrow> char" where
  "ascii_lower c = (if byte_in 0x41 0x5A c then char_of ((of_char c :: nat) + 32) else c)"

text \<open>
  \<open>strings.ToLower\<close>: ASCII letters by the fixed rule, every other rune by the case table \<open>low\<close>
  of the Unicode library, a byte that begins no valid rune by the replacement character.
\<close>

function ToLower :: "(nat \<Rightarrow> nat) \<Rightarrow> string \<Rightarrow> string" where
  "ToLower low [] = []"
| "ToLower low (c # cs) =
     (let w = rune_width (c # cs)
      in if w = 0 then rune_error @ ToLower low cs
         else if w = 1 then ascii_lower c # ToLower low cs
         else append_rune (low (rune_value (take w (c # cs)))) @ ToLower low (drop (w - 1) cs))"
  by pat_completeness auto
termination
  by (relation "measure (\<lambda>(low, s). length s)") auto

declare ToLower.simps(2) [simp del]

text \<open>
  \<open>strings.EqualFold\<close> where one side is a hexadecimal digest. No non-ASCII rune folds to a
  hexadecimal digit, so only ASCII case matters.
\<close>

definition EqualFold :: "string \<Rightarrow> string \<Rightarrow> bool" where
  "EqualFold s t \<longleftrightarrow> map ascii_lower s = map ascii_lower t"

definition Contains :: "string \<Rightarrow> string \<Rightarrow> bool" where
  "Contains s sub \<longleftrightarrow> sublist sub s"

text \<open>\<open>strings.ReplaceAll(s, c, "")\<close> for a one-byte \<open>c\<close>.\<close>

definition RemoveAll :: "char \<Rightarrow> string \<Rightarrow> string" where
  "RemoveAll c s = filter (\<lambda>x. x \<noteq> c) s"

subsection \<open>encoding/hex, strconv and encoding/base64\<close>

definition hex_digit :: "nat \<Rightarrow> char" where
  "hex_digit n = (''0123456789abcdef'' ! n)"

definition hexEncode :: "bytes \<Rightarrow> string" where
  "hexEncode bs = concat (map (\<lambda>c. [hex_digit (of_char c div 16), hex_digit (of_char c mod 16)]) bs)"

fun dec_nat :: "nat \<Rightarrow> string" where
  "dec_nat n = (if n < 10 then [char_of (48 + n)] else dec_nat (n div 10) @ [char_of (48 + n mod 10)])"

declare dec_nat.simps [simp del]

definition dec_int :: "int \<Rightarrow> string" where
  "dec_int i = (if i < 0 then CHR ''-'' # dec_nat (nat (- i)) else dec_nat (nat i))"

definition b64_std :: string where
  "b64_std = ''ABCDEFGHIJKLMNOPQRSTUVWXYZabcdefghijklmnopqrstuvwxyz0123456789+/''"

definition b64_url :: string where
  "b64_url = ''ABCDEFGHIJKLMNOPQRSTUVWXYZabcdefghijklmnopqrstuvwxyz0123456789-_''"

fun b64_enc :: "string \<Rightarrow> bool \<Rightarrow> bytes \<Rightarrow> string" where
  "b64_enc al pad [] = []"
| "b64_enc al pad [x] =
     [al ! (of_char x div 4), al ! ((of_char x mod 4) * 16)] @ (if pad then ''=='' else [])"
| "b64_enc al pad [x, y] =
     [al ! (of_char x div 4), al ! ((of_char x mod 4) * 16 + of_char y div 16),
      al ! ((of_char y mod 16) * 4)] @ (if pad then ''='' else [])"
| "b64_enc al pad (x # y # z # r) =
     [al ! (of_char x div 4), al ! ((of_char x mod 4) * 16 + of_char y div 16),
      al ! ((of_char y mod 16) * 4 + of_char z div 64), al ! (of_char z mod 64)] @ b64_enc al pad r"

fun b64_val :: "string \<Rightarrow> char \<Rightarrow> nat option" where
  "b64_val [] c = None"
| "b64_val (a # al) c = (if a = c then Some 0 else map_option Suc (b64_val al c))"

text \<open>One pass over groups of four; the padded form is closed by \<open>=\<close>, the raw form by a short group.\<close>

fun b64_groups :: "string \<Rightarrow> bool \<Rightarrow> string \<Rightarrow> bytes option" where
  "b64_groups al pad [] = Some []"
| "b64_groups al pad [w] = None"
| "b64_groups al pad [w, x] =
     (case (b64_val al w, b64_val al x) of
        (Some a, Some b) \<Rightarrow> if pad then None else Some [char_of (a * 4 + b div 16)]
      | _ \<Rightarrow> None)"
| "b64_groups al pad [w, x, y] =
     (case (b64_val al w, b64_val al x, b64_val al y) of
        (Some a, Some b, Some c) \<Rightarrow>
          if pad then None
          else Some [char_of (a * 4 + b div 16), char_of ((b mod 16) * 16 + c div 4)]
      | _ \<Rightarrow> None)"
| "b64_groups al pad (w # x # y # z # r) =
     (case (b64_val al w, b64_val al x) of
        (Some a, Some b) \<Rightarrow>
          (if pad \<and> y = CHR ''='' then
             (if z = CHR ''='' \<and> r = [] then Some [char_of (a * 4 + b div 16)] else None)
           else (case b64_val al y of None \<Rightarrow> None
             | Some c \<Rightarrow>
                 (if pad \<and> z = CHR ''='' then
                    (if r = [] then Some [char_of (a * 4 + b div 16), char_of ((b mod 16) * 16 + c div 4)]
                     else None)
                  else (case b64_val al z of None \<Rightarrow> None
                    | Some d \<Rightarrow> map_option
                        ((@) [char_of (a * 4 + b div 16), char_of ((b mod 16) * 16 + c div 4),
                              char_of ((c mod 4) * 64 + d)])
                        (b64_groups al pad r)))))
      | _ \<Rightarrow> None)"

text \<open>The decoder skips carriage returns and line feeds wherever they stand.\<close>

definition b64_dec :: "string \<Rightarrow> bool \<Rightarrow> string \<Rightarrow> bytes option" where
  "b64_dec al pad s = b64_groups al pad (filter (\<lambda>c. c \<noteq> CHR 0x0A \<and> c \<noteq> CHR 0x0D) s)"

abbreviation "StdEncode \<equiv> b64_enc b64_std True"
abbreviation "StdDecode \<equiv> b64_dec b64_std True"
abbreviation "RawURLEncode \<equiv> b64_enc b64_url False"
abbreviation "RawURLDecode \<equiv> b64_dec b64_url False"

section \<open>Trimming\<close>

lemma trim_by_fix: "starts_with_one ws s = None \<Longrightarrow> trim_by ws s = s"
  by (simp add: trim_by.simps)

lemma starts_with_trim_by: "starts_with_one ws (trim_by ws s) = None"
  by (induction ws s rule: trim_by.induct) (simp add: trim_by.simps split: option.splits)

lemma trim_by_idem: "trim_by ws (trim_by ws s) = trim_by ws s"
  by (rule trim_by_fix) (rule starts_with_trim_by)

lemma suffix_trim_by: "suffix (trim_by ws s) s"
proof (induction ws s rule: trim_by.induct)
  case (1 ws s)
  show ?case
  proof (cases "starts_with_one ws s")
    case None
    then show ?thesis by (simp add: trim_by_fix)
  next
    case (Some w)
    with 1 show ?thesis
      by (simp add: trim_by.simps [of ws s]) (meson suffix_drop suffix_order.trans)
  qed
qed

lemma starts_with_prefix_mono:
  "prefix s t \<Longrightarrow> starts_with_one ws t = None \<Longrightarrow> starts_with_one ws s = None"
  by (auto simp: starts_with_one_def find_None_iff dest: prefix_order.trans)

text \<open>A trimmed string has no white space at either end.\<close>

definition trimmed :: "string \<Rightarrow> bool" where
  "trimmed s \<longleftrightarrow>
     starts_with_one ws_runes s = None \<and> starts_with_one (map rev ws_runes) (rev s) = None"

lemma TrimSpace_fix: "trimmed s \<Longrightarrow> TrimSpace s = s"
  by (simp add: trimmed_def TrimSpace_def trim_by_fix)

lemma trimmed_TrimSpace [simp, intro]: "trimmed (TrimSpace s)"
proof -
  let ?l = "trim_by ws_runes s"
  have "suffix (trim_by (map rev ws_runes) (rev ?l)) (rev ?l)" by (rule suffix_trim_by)
  then have "prefix (TrimSpace s) ?l"
    by (metis TrimSpace_def rev_rev_ident suffix_to_prefix)
  then have "starts_with_one ws_runes (TrimSpace s) = None"
    by (rule starts_with_prefix_mono) (rule starts_with_trim_by)
  moreover have "starts_with_one (map rev ws_runes) (rev (TrimSpace s)) = None"
    by (simp add: TrimSpace_def starts_with_trim_by)
  ultimately show ?thesis by (simp add: trimmed_def)
qed

lemma TrimSpace_idem [simp, norm_simps]: "TrimSpace (TrimSpace s) = TrimSpace s"
  by (rule TrimSpace_fix) (rule trimmed_TrimSpace)

lemma trimmed_Nil [simp]: "trimmed []"
  by (simp add: trimmed_def starts_with_one_def find_None_iff ws_runes_def)

lemma TrimSpace_Nil [simp]: "TrimSpace [] = []"
  by (rule TrimSpace_fix) simp

lemma trimmed_iff: "trimmed s \<longleftrightarrow> TrimSpace s = s"
  by (metis TrimSpace_fix trimmed_TrimSpace)

section \<open>Cutting\<close>

lemma Cut_Some_iff: "Cut c s = Some (a, b) \<longleftrightarrow> s = a @ c # b \<and> c \<notin> set a"
proof
  assume "Cut c s = Some (a, b)"
  then have "c \<in> set s" and a: "a = takeWhile (\<lambda>x. x \<noteq> c) s"
    and b: "b = tl (dropWhile (\<lambda>x. x \<noteq> c) s)"
    by (auto simp: Cut_def split: if_splits)
  then have "dropWhile (\<lambda>x. x \<noteq> c) s = c # b"
    by (cases "dropWhile (\<lambda>x. x \<noteq> c) s")
       (use hd_dropWhile [of "\<lambda>x. x \<noteq> c" s] in \<open>auto simp: dropWhile_eq_Nil_conv\<close>)
  with a show "s = a @ c # b \<and> c \<notin> set a"
    by (metis (mono_tags, lifting) set_takeWhileD takeWhile_dropWhile_id)
next
  assume "s = a @ c # b \<and> c \<notin> set a"
  then show "Cut c s = Some (a, b)"
    by (auto simp: Cut_def takeWhile_append dropWhile_append takeWhile_eq_all_conv
        dropWhile_eq_Nil_conv)
qed

lemma Cut_None_iff: "Cut c s = None \<longleftrightarrow> c \<notin> set s"
  by (simp add: Cut_def)

section \<open>Hexadecimal, decimal and base64\<close>

lemma of_char_less [simp]: "(of_char c :: nat) < 256"
  by simp

lemma hex_digit_inj: "m < 16 \<Longrightarrow> n < 16 \<Longrightarrow> hex_digit m = hex_digit n \<longleftrightarrow> m = n"
  unfolding hex_digit_def by (subst nth_eq_iff_index_eq) auto

lemma hexEncode_Nil [simp]: "hexEncode [] = []"
  and hexEncode_Cons [simp]:
    "hexEncode (c # cs) = hex_digit (of_char c div 16) # hex_digit (of_char c mod 16) # hexEncode cs"
  by (simp_all add: hexEncode_def)

lemma length_hexEncode [simp]: "length (hexEncode bs) = 2 * length bs"
  by (induction bs) simp_all

lemma hexEncode_inj [simp]: "hexEncode xs = hexEncode ys \<longleftrightarrow> xs = ys"
proof (induction xs arbitrary: ys)
  case Nil
  then show ?case by (cases ys) simp_all
next
  case (Cons x xs)
  show ?case
  proof (cases ys)
    case (Cons y zs)
    have "(of_char x div 16 = (of_char y div 16 :: nat) \<and> of_char x mod 16 = (of_char y mod 16 :: nat))
      \<longleftrightarrow> x = y"
      by (metis mod_div_decomp of_char_eq_iff)
    moreover have "(of_char x :: nat) div 16 < 16" "(of_char y :: nat) div 16 < 16"
      using of_char_less [of x] of_char_less [of y] by linarith+
    ultimately show ?thesis using Cons.IH Cons by (auto simp: hex_digit_inj)
  qed simp
qed

lemma hex_digit_lower: "n < 16 \<Longrightarrow> ascii_lower (hex_digit n) = hex_digit n"
proof -
  have "list_all (\<lambda>n. ascii_lower (hex_digit n) = hex_digit n) [0..<16]"
    by code_simp
  then show "n < 16 \<Longrightarrow> ?thesis" by (simp add: list_all_iff)
qed

lemma hexEncode_lower [simp]: "map ascii_lower (hexEncode bs) = hexEncode bs"
proof (induction bs)
  case (Cons c bs)
  have "(of_char c :: nat) div 16 < 16" using of_char_less [of c] by linarith
  with Cons show ?case by (simp add: hex_digit_lower)
qed simp

lemma EqualFold_hex_iff: "EqualFold (hexEncode bs) t \<longleftrightarrow> hexEncode bs = map ascii_lower t"
  by (simp add: EqualFold_def)

lemma EqualFold_refl [simp]: "EqualFold s s"
  by (simp add: EqualFold_def)

subsection \<open>Decimal integers\<close>

definition dec_val :: "string \<Rightarrow> nat" where
  "dec_val s = foldl (\<lambda>v c. 10 * v + (of_char c - 48)) 0 s"

lemma dec_val_dec_nat: "dec_val (dec_nat n) = n"
proof (induction n rule: dec_nat.induct)
  case (1 n)
  show ?case
  proof (cases "n < 10")
    case True
    then show ?thesis by (simp add: dec_nat.simps [of n] dec_val_def of_char_of)
  next
    case False
    have "48 + n mod 10 < 256" by (simp add: trans_less_add1)
    with False 1 show ?thesis
      by (simp add: dec_nat.simps [of n] dec_val_def of_char_of)
  qed
qed

definition is_digit :: "char \<Rightarrow> bool" where
  "is_digit c \<longleftrightarrow> byte_in 48 57 c"

lemma dec_nat_digits: "list_all is_digit (dec_nat n)"
proof (induction n rule: dec_nat.induct)
  case (1 n)
  have m: "n mod 10 < 10" by simp
  then have "is_digit (char_of (48 + n mod 10))"
    by (simp add: is_digit_def byte_in_def of_char_of)
  with 1 m show ?case
    by (cases "n < 10") (auto simp: dec_nat.simps [of n] is_digit_def byte_in_def of_char_of)
qed

lemma dec_nat_inj [simp]: "dec_nat m = dec_nat n \<longleftrightarrow> m = n"
  by (metis dec_val_dec_nat)

lemma dec_nat_not_Nil [simp]: "dec_nat n \<noteq> []"
  by (simp add: dec_nat.simps [of n])

definition is_num_char :: "char \<Rightarrow> bool" where
  "is_num_char c \<longleftrightarrow> is_digit c \<or> c = CHR ''-''"

lemma dec_int_num_chars: "list_all is_num_char (dec_int i)"
  using dec_nat_digits [of "nat i"] dec_nat_digits [of "nat (- i)"]
  by (auto simp: dec_int_def list_all_iff is_num_char_def)

lemma dec_int_inj [simp]: "dec_int i = dec_int j \<longleftrightarrow> i = j"
proof
  assume eq: "dec_int i = dec_int j"
  have neq: "CHR ''-'' # s \<noteq> dec_nat n" for s n
    using dec_nat_digits [of n] by (cases "dec_nat n") (auto simp: is_digit_def byte_in_def)
  from eq show "i = j"
    by (auto simp: dec_int_def neq neq [symmetric] split: if_splits)
qed simp

text \<open>A number ends where its first other character stands.\<close>

lemma split_at_first:
  assumes "list_all P xs" "list_all P ys" "\<not> P c" "\<not> P d" "xs @ c # r = ys @ d # r'"
  shows "xs = ys \<and> c = d \<and> r = r'"
  using assms
proof (induction xs arbitrary: ys)
  case Nil
  then show ?case by (cases ys) auto
next
  case (Cons x xs)
  then show ?case by (cases ys) auto
qed

lemma dec_int_framed:
  assumes "dec_int i @ c # r = dec_int j @ d # r'" "\<not> is_num_char c" "\<not> is_num_char d"
  shows "i = j \<and> c = d \<and> r = r'"
  using split_at_first [OF dec_int_num_chars dec_int_num_chars assms(2,3,1)] by simp

subsection \<open>Base64 round trip\<close>

text \<open>What the decoder needs of an alphabet: 64 distinct characters, none of them reserved.\<close>

definition b64_alphabet :: "string \<Rightarrow> bool" where
  "b64_alphabet al \<longleftrightarrow> length al = 64 \<and> distinct al \<and>
     list_all (\<lambda>c. c \<noteq> CHR ''='' \<and> c \<noteq> CHR 0x0A \<and> c \<noteq> CHR 0x0D \<and> c \<noteq> CHR 0x22) al"

lemma b64_alphabets [simp]: "b64_alphabet b64_std" "b64_alphabet b64_url"
  unfolding b64_alphabet_def b64_std_def b64_url_def by code_simp+

lemma b64_val_nth: "distinct al \<Longrightarrow> n < length al \<Longrightarrow> b64_val al (al ! n) = Some n"
proof (induction al arbitrary: n)
  case (Cons a al)
  then show ?case by (cases n) auto
qed simp

lemma b64_val_alphabet: "b64_alphabet al \<Longrightarrow> n < 64 \<Longrightarrow> b64_val al (al ! n) = Some n"
  by (simp add: b64_alphabet_def b64_val_nth)

lemma b64_alphabet_neq:
  "b64_alphabet al \<Longrightarrow> n < 64 \<Longrightarrow>
     al ! n \<noteq> CHR ''='' \<and> al ! n \<noteq> CHR 0x0A \<and> al ! n \<noteq> CHR 0x0D \<and> al ! n \<noteq> CHR 0x22"
  by (auto simp: b64_alphabet_def list_all_length)

lemma char_parts:
  fixes x y z :: char
  shows "char_of (of_char x div 4 * 4 + of_char x mod 4 :: nat) = x"
    and "char_of (of_char y div 16 * 16 + of_char y mod 16 :: nat) = y"
    and "char_of (of_char z div 64 * 64 + of_char z mod 64 :: nat) = z"
  by simp_all

lemma b64_index_bounds:
  fixes x y z :: char
  shows "(of_char x :: nat) div 4 < 64"
    and "(of_char x mod 4 :: nat) * 16 < 64"
    and "(of_char x mod 4 :: nat) * 16 + of_char y div 16 < 64"
    and "(of_char y mod 16 :: nat) * 4 < 64"
    and "(of_char y mod 16 :: nat) * 4 + of_char z div 64 < 64"
    and "(of_char z :: nat) mod 64 < 64"
  using of_char_less [of x] of_char_less [of y] of_char_less [of z] by linarith+

lemma b64_regroup:
  fixes y z :: char
  shows "(of_char y :: nat) div 16 div 16 = 0" "(of_char y :: nat) div 16 mod 16 = of_char y div 16"
    and "(of_char z :: nat) div 64 div 4 = 0" "(of_char z :: nat) div 64 mod 4 = of_char z div 64"
proof -
  have "(of_char y :: nat) div 16 < 16" "(of_char z :: nat) div 64 < 4"
    using of_char_less [of y] of_char_less [of z] by linarith+
  then show "(of_char y :: nat) div 16 div 16 = 0" "(of_char y :: nat) div 16 mod 16 = of_char y div 16"
    "(of_char z :: nat) div 64 div 4 = 0" "(of_char z :: nat) div 64 mod 4 = of_char z div 64"
    by simp_all
qed

lemma b64_groups_enc: "b64_alphabet al \<Longrightarrow> b64_groups al pad (b64_enc al pad bs) = Some bs"
proof (induction al pad bs rule: b64_enc.induct)
  case (2 al pad x)
  then show ?case
    by (auto simp: b64_val_alphabet b64_index_bounds b64_regroup)
next
  case (3 al pad x y)
  then show ?case
    by (auto simp: b64_val_alphabet b64_index_bounds b64_regroup b64_alphabet_neq)
next
  case (4 al pad x y z r)
  then show ?case
    by (simp add: b64_val_alphabet b64_index_bounds b64_regroup b64_alphabet_neq)
qed simp

lemma b64_enc_chars:
  "b64_alphabet al \<Longrightarrow> c \<in> set (b64_enc al pad bs) \<Longrightarrow>
     c \<noteq> CHR 0x0A \<and> c \<noteq> CHR 0x0D \<and> c \<noteq> CHR 0x22"
proof (induction al pad bs rule: b64_enc.induct)
  case (4 al pad x y z r)
  then show ?case using b64_alphabet_neq b64_index_bounds by auto
qed (use b64_alphabet_neq b64_index_bounds in \<open>auto split: if_splits\<close>)

lemma b64_dec_enc [simp]: "b64_alphabet al \<Longrightarrow> b64_dec al pad (b64_enc al pad bs) = Some bs"
proof -
  assume al: "b64_alphabet al"
  have "filter (\<lambda>c. c \<noteq> CHR 0x0A \<and> c \<noteq> CHR 0x0D) (b64_enc al pad bs) = b64_enc al pad bs"
    using b64_enc_chars [OF al] by (simp add: filter_id_conv)
  then show ?thesis by (simp only: b64_dec_def b64_groups_enc [OF al])
qed

lemma b64_enc_inj: "b64_alphabet al \<Longrightarrow> b64_enc al pad xs = b64_enc al pad ys \<longleftrightarrow> xs = ys"
  by (metis b64_dec_enc option.inject)

lemma b64_enc_Nil_iff [simp]: "b64_enc al pad xs = [] \<longleftrightarrow> xs = []"
  by (induction al pad xs rule: b64_enc.induct) auto

section \<open>Lower-casing keeps lower-case ASCII\<close>

lemma rune_width_ascii: "ascii c \<Longrightarrow> rune_width (c # cs) = 1"
  by (simp add: rune_width.simps ascii_def rune_need_def Let_def)

lemma ToLower_ascii_Cons [simp]: "ascii c \<Longrightarrow> ToLower low (c # cs) = ascii_lower c # ToLower low cs"
  using rune_width_ascii [of c cs] by (simp add: ToLower.simps(2) Let_def)

lemma ToLower_ascii_append:
  "list_all ascii s \<Longrightarrow> ToLower low (s @ t) = map ascii_lower s @ ToLower low t"
  by (induction s) simp_all

lemma ToLower_ascii: "list_all ascii s \<Longrightarrow> ToLower low s = map ascii_lower s"
  using ToLower_ascii_append [of s low "[]"] by simp

lemma rune_width_le: "rune_width s \<le> length s"
  by (cases s) (auto simp: rune_width.simps Let_def rune_need_def)

lemma rune_width_multibyte:
  assumes "1 < rune_width s" "b \<in> set (take (rune_width s) s)"
  shows "\<not> ascii b"
proof (cases s)
  case (Cons c cs)
  obtain d ds where cs: "cs = d # ds"
    using assms(1) Cons rune_width_le [of s] by (cases cs) auto
  have n: "rune_width s = rune_need (of_char c)" "2 \<le> rune_need (of_char c)"
    "\<not> ascii d" "list_all (byte_in 0x80 0xBF) (take (rune_need (of_char c) - 2) ds)"
    using assms(1) by (auto simp: Cons cs rune_width.simps Let_def byte_in_def ascii_def split: if_splits)
  have "\<not> ascii c" using n(2) by (auto simp: rune_need_def ascii_def split: if_splits)
  moreover have "take (rune_width s) s = c # d # take (rune_need (of_char c) - 2) ds"
    using n(1,2) by (simp add: Cons cs take_Cons' numeral_2_eq_2)
  ultimately show ?thesis
    using assms(2) n(3,4) by (auto simp: list_all_iff byte_in_def ascii_def)
qed (use assms in simp)

lemma ToLower_contains:
  assumes "m \<noteq> []" "list_all ascii m" "map ascii_lower m = m" "sublist m s"
  shows "sublist m (ToLower low s)"
  using assms(4)
proof (induction low s rule: ToLower.induct)
  case (1 low)
  then show ?case by simp
next
  case (2 low c cs)
  let ?s = "c # cs" and ?w = "rune_width (c # cs)"
  obtain x y where s: "?s = x @ m @ y" using 2 unfolding sublist_def by blast
  show ?case
  proof (cases "x = []")
    case True
    then have "ToLower low ?s = m @ ToLower low y"
      using s ToLower_ascii_append [OF assms(2)] assms(3) by simp
    then show ?thesis by (metis append_Nil sublist_def)
  next
    case False
    have wx: "max 1 ?w \<le> length x"
    proof (rule ccontr)
      assume "\<not> ?thesis"
      moreover have "1 \<le> length x" using False by (cases x) auto
      ultimately have w: "1 < ?w" "length x < ?w" by linarith+
      then have "?s ! length x \<in> set (take ?w ?s)"
        using rune_width_le [of ?s] by (metis in_set_conv_nth length_take min.absorb2 nth_take)
      moreover have "?s ! length x = hd m" using s assms(1) by (simp add: nth_append hd_conv_nth)
      ultimately have "\<not> ascii (hd m)" using rune_width_multibyte [OF w(1)] by metis
      with assms(1,2) show False by (cases m) auto
    qed
    have rest: "sublist m (drop n ?s)" if "n \<le> length x" for n
      using s that by (metis drop_append append.assoc diff_is_0_eq drop0 sublist_appendI)
    consider "?w = 0" | "?w = 1" | "1 < ?w" by linarith
    then show ?thesis
    proof cases
      case a: 1
      have "sublist m (ToLower low cs)" using "2.IH"(1) a wx rest [of 1] by simp
      with a show ?thesis by (simp add: ToLower.simps(2) Let_def sublist_append)
    next
      case b: 2
      have "sublist m (ToLower low cs)" using "2.IH"(2) b wx rest [of 1] by simp
      with b show ?thesis by (simp add: ToLower.simps(2) Let_def sublist_Cons_right)
    next
      case 3
      have "sublist m (ToLower low (drop (?w - 1) cs))"
        using "2.IH"(3) 3 wx rest [of ?w] by (simp add: drop_Cons')
      with 3 show ?thesis
        by (simp add: ToLower.simps(2) Let_def sublist_append)
    qed
  qed
qed

section \<open>Trimming keeps what is not white space\<close>

lemma trim_by_keeps:
  "c \<in> set s \<Longrightarrow> c \<notin> set (concat ws) \<Longrightarrow> c \<in> set (trim_by ws s)"
proof (induction ws s rule: trim_by.induct)
  case (1 ws s)
  show ?case
  proof (cases "starts_with_one ws s")
    case None
    with 1 show ?thesis by (simp add: trim_by.simps)
  next
    case (Some w)
    then have w: "w \<in> set ws" "prefix w s" by (auto simp: starts_with_one_def find_Some_iff)
    then obtain t where t: "s = w @ t" by (auto simp: prefix_def)
    with 1 w have "c \<in> set t" by auto
    with 1 Some t show ?thesis by (simp add: trim_by.simps [of ws "w @ t"])
  qed
qed

lemma TrimSpace_keeps: "c \<in> set s \<Longrightarrow> c \<notin> set (concat ws_runes) \<Longrightarrow> c \<in> set (TrimSpace s)"
  unfolding TrimSpace_def by (simp add: trim_by_keeps)

lemma trimmed_no_ws: "(\<And>c. c \<in> set s \<Longrightarrow> c \<notin> set (concat ws_runes)) \<Longrightarrow> TrimSpace s = s"
proof -
  have *: "trim_by ws t = t" if "\<And>c. c \<in> set t \<Longrightarrow> c \<notin> set (concat ws)" for ws t
  proof (rule trim_by_fix)
    show "starts_with_one ws t = None"
      unfolding starts_with_one_def find_None_iff
    proof
      assume "\<exists>w. w \<in> set ws \<and> w \<noteq> [] \<and> prefix w t"
      then obtain w where "w \<in> set ws" "w \<noteq> []" "prefix w t" by blast
      then have "hd w \<in> set t" "hd w \<in> set (concat ws)" using hd_in_set by (auto simp: prefix_def)
      with that show False by blast
    qed
  qed
  assume "\<And>c. c \<in> set s \<Longrightarrow> c \<notin> set (concat ws_runes)"
  then show ?thesis unfolding TrimSpace_def by (subst (1 2) *) auto
qed

lemma TrimSpace_hexEncode [simp]: "TrimSpace (hexEncode bs) = hexEncode bs"
proof (rule trimmed_no_ws)
  have "list_all (\<lambda>n. hex_digit n \<notin> set (concat ws_runes)) [0..<16]" by code_simp
  then have d: "n < 16 \<Longrightarrow> hex_digit n \<notin> set (concat ws_runes)" for n by (simp add: list_all_iff)
  have b: "(of_char c :: nat) div 16 < 16" for c
    using of_char_less [of c] by linarith
  fix c assume "c \<in> set (hexEncode bs)"
  then obtain x where "c = hex_digit (of_char (x :: char) div 16) \<or> c = hex_digit (of_char x mod 16)"
    unfolding hexEncode_def by auto
  with d [OF b, of x] d [of "of_char x mod 16"] show "c \<notin> set (concat ws_runes)" by auto
qed

lemma b64_enc_set:
  "length al = 64 \<Longrightarrow> set (b64_enc al pad bs) \<subseteq> insert (CHR ''='') (set al)"
proof (induction al pad bs rule: b64_enc.induct)
  case (4 al pad x y z r)
  then show ?case using b64_index_bounds by auto
qed (use b64_index_bounds in auto)

lemma TrimSpace_StdEncode [simp]: "TrimSpace (StdEncode bs) = StdEncode bs"
proof (rule trimmed_no_ws)
  have "list_all (\<lambda>c. c \<notin> set (concat ws_runes)) (CHR ''='' # b64_std)" by code_simp
  moreover fix c assume "c \<in> set (StdEncode bs)"
  ultimately show "c \<notin> set (concat ws_runes)"
    using b64_enc_set [of b64_std True bs] b64_alphabets(1) by (auto simp: list_all_iff b64_alphabet_def)
qed

section \<open>Faster evaluation\<close>

lemma ascii_code [code]: "ascii (Char b0 b1 b2 b3 b4 b5 b6 b7) \<longleftrightarrow> \<not> b7"
  by (simp add: ascii_def)

end
