(* ===== verification/GoJSON.thy ===== *)
theory GoJSON
  imports Complex_Main GoStrings
begin

text \<open>
  The parts of Go's \<open>encoding/json\<close> the program relies on. \<open>json\<close> is the value
  \<open>json.Unmarshal\<close> stores into an \<open>any\<close> (objects as maps, numbers as finite \<open>float64\<close>
  values, which are rational). \<open>jdoc\<close> is a document the program writes, and \<open>marshal\<close> gives
  the exact bytes of \<open>json.Marshal\<close>: fields in declaration order, HTML-escaped strings, no
  spaces. The main result is that \<open>marshal\<close> is injective on documents whose strings are valid
  UTF-8, which is what makes a signature or a digest over these bytes bind every field.
\<close>

section \<open>Definitions\<close>

datatype json =
    JSNull
  | JSBool bool
  | JSNum rat
  | JSStr string
  | JSArr "json list"
  | JSObj "(string \<times> json) list"

datatype jdoc =
    JNull
  | JBool bool
  | JInt int
  | JStr string
  | JRaw bytes
  | JArr "jdoc list"
  | JObj "(string \<times> jdoc) list"

text \<open>One ASCII character of a string, as \<open>appendString\<close> writes it with HTML escaping on.\<close>

definition esc_ascii :: "char \<Rightarrow> string" where
  "esc_ascii c =
     (if c = CHR 0x22 \<or> c = CHR 0x5C then [CHR 0x5C, c]
      else if c = CHR 0x08 then [CHR 0x5C, CHR ''b'']
      else if c = CHR 0x0C then [CHR 0x5C, CHR ''f'']
      else if c = CHR 0x0A then [CHR 0x5C, CHR ''n'']
      else if c = CHR 0x0D then [CHR 0x5C, CHR ''r'']
      else if c = CHR 0x09 then [CHR 0x5C, CHR ''t'']
      else if (of_char c :: nat) < 0x20 \<or> c = CHR ''<'' \<or> c = CHR ''>'' \<or> c = CHR ''&'' then
        [CHR 0x5C, CHR ''u'', CHR ''0'', CHR ''0'',
         hex_digit (of_char c div 16), hex_digit (of_char c mod 16)]
      else [c])"

definition line_sep :: string where
  "line_sep = [CHR 0xE2, CHR 0x80, CHR 0xA8]"

definition para_sep :: string where
  "para_sep = [CHR 0xE2, CHR 0x80, CHR 0xA9]"

text \<open>One multi-byte rune: the line and paragraph separators are escaped, the others copied.\<close>

definition esc_rune :: "string \<Rightarrow> string" where
  "esc_rune r =
     (if r = line_sep then [CHR 0x5C, CHR ''u'', CHR ''2'', CHR ''0'', CHR ''2'', CHR ''8'']
      else if r = para_sep then [CHR 0x5C, CHR ''u'', CHR ''2'', CHR ''0'', CHR ''2'', CHR ''9'']
      else r)"

function esc :: "string \<Rightarrow> string" where
  "esc [] = []"
| "esc (c # cs) =
     (let w = rune_width (c # cs)
      in if w = 0 then [CHR 0x5C, CHR ''u'', CHR ''f'', CHR ''f'', CHR ''f'', CHR ''d''] @ esc cs
         else if w = 1 then esc_ascii c @ esc cs
         else esc_rune (take w (c # cs)) @ esc (drop (w - 1) cs))"
  by pat_completeness auto
termination
  by (relation "measure length") auto

declare esc.simps(2) [simp del]

definition json_string :: "string \<Rightarrow> string" where
  "json_string s = CHR 0x22 # esc s @ [CHR 0x22]"

text \<open>The elements of an array or object, separated by commas and closed by \<open>e\<close>.\<close>

primrec jtail :: "('a \<Rightarrow> bytes) \<Rightarrow> char \<Rightarrow> 'a list \<Rightarrow> bytes" where
  "jtail f e [] = [e]"
| "jtail f e (x # xs) = CHR '','' # f x @ jtail f e xs"

definition jseq :: "('a \<Rightarrow> bytes) \<Rightarrow> char \<Rightarrow> 'a list \<Rightarrow> bytes" where
  "jseq f e xs = (case xs of [] \<Rightarrow> [e] | y # ys \<Rightarrow> f y @ jtail f e ys)"

lemma jtail_cong: "(\<And>x. x \<in> set xs \<Longrightarrow> f x = g x) \<Longrightarrow> jtail f e xs = jtail g e xs"
  by (induction xs) simp_all

lemma jseq_cong [fundef_cong]:
  "xs = ys \<Longrightarrow> e = e' \<Longrightarrow> (\<And>x. x \<in> set ys \<Longrightarrow> f x = g x) \<Longrightarrow> jseq f e xs = jseq g e' ys"
  by (cases ys) (auto simp: jseq_def intro: jtail_cong)

fun marshal :: "jdoc \<Rightarrow> bytes" where
  "marshal JNull = ''null''"
| "marshal (JBool b) = (if b then ''true'' else ''false'')"
| "marshal (JInt i) = dec_int i"
| "marshal (JStr s) = json_string s"
| "marshal (JRaw b) = b"
| "marshal (JArr xs) = CHR ''['' # jseq marshal CHR '']'' xs"
| "marshal (JObj fs) =
     CHR ''{'' # jseq (\<lambda>(k, v). json_string k @ CHR '':'' # marshal v) CHR ''}'' fs"

text \<open>A \<open>[]byte\<close> is its padded base64, a nil one \<open>null\<close>; a nil slice is \<open>null\<close>.\<close>

definition JBytes :: "char slice \<Rightarrow> jdoc" where
  "JBytes b = (case b of None \<Rightarrow> JNull | Some xs \<Rightarrow> JStr (StdEncode xs))"

definition JSlice :: "('a \<Rightarrow> jdoc) \<Rightarrow> 'a slice \<Rightarrow> jdoc" where
  "JSlice f xs = (case xs of None \<Rightarrow> JNull | Some ys \<Rightarrow> JArr (map f ys))"

text \<open>A field, and one with the \<open>omitempty\<close> option.\<close>

definition jfield :: "string \<Rightarrow> jdoc \<Rightarrow> (string \<times> jdoc) list" where
  "jfield k v = [(k, v)]"

definition jomit :: "bool \<Rightarrow> string \<Rightarrow> jdoc \<Rightarrow> (string \<times> jdoc) list" where
  "jomit skip k v = (if skip then [] else [(k, v)])"

lemma map_of_fields [simp]:
  "map_of (jfield k v @ fs) k' = (if k = k' then Some v else map_of fs k')"
  "map_of (jomit skip k v @ fs) k' = (if k = k' \<and> \<not> skip then Some v else map_of fs k')"
  "map_of (jfield k v) k' = (if k = k' then Some v else None)"
  "map_of (jomit skip k v) k' = (if k = k' \<and> \<not> skip then Some v else None)"
  by (simp_all add: jfield_def jomit_def)

section \<open>Valid UTF-8\<close>

function valid_utf8 :: "string \<Rightarrow> bool" where
  "valid_utf8 [] = True"
| "valid_utf8 (c # cs) =
     (let w = rune_width (c # cs) in w \<noteq> 0 \<and> valid_utf8 (drop (w - 1) cs))"
  by pat_completeness auto
termination
  by (relation "measure length") auto

declare valid_utf8.simps(2) [simp del]

lemma valid_utf8_ascii: "list_all ascii s \<Longrightarrow> valid_utf8 s"
  by (induction s) (simp_all add: valid_utf8.simps(2) rune_width_ascii)

fun jdoc_valid :: "jdoc \<Rightarrow> bool" where
  "jdoc_valid (JStr s) \<longleftrightarrow> valid_utf8 s"
| "jdoc_valid (JRaw b) \<longleftrightarrow> False"
| "jdoc_valid (JArr xs) \<longleftrightarrow> (\<forall>x \<in> set xs. jdoc_valid x)"
| "jdoc_valid (JObj fs) \<longleftrightarrow> (\<forall>(k, v) \<in> set fs. valid_utf8 k \<and> jdoc_valid v)"
| "jdoc_valid _ \<longleftrightarrow> True"

section \<open>Strings are written injectively\<close>

text \<open>Reading back a written string: a specification-side inverse of \<^const>\<open>esc\<close>.\<close>

definition hexval :: "char \<Rightarrow> nat" where
  "hexval c = (if byte_in 48 57 c then of_char c - 48 else of_char c - 87)"

lemma hexval_hex_digit: "n < 16 \<Longrightarrow> hexval (hex_digit n) = n"
proof -
  have "list_all (\<lambda>n. hexval (hex_digit n) = n) [0..<16]" by code_simp
  then show "n < 16 \<Longrightarrow> ?thesis" by (simp add: list_all_iff)
qed

fun unesc_char :: "char \<Rightarrow> char" where
  "unesc_char c = (if c = CHR ''b'' then CHR 0x08 else if c = CHR ''f'' then CHR 0x0C
     else if c = CHR ''n'' then CHR 0x0A else if c = CHR ''r'' then CHR 0x0D
     else if c = CHR ''t'' then CHR 0x09 else c)"

fun unesc :: "string \<Rightarrow> (string \<times> string) option" where
  "unesc [] = None"
| "unesc (c # cs) =
     (if c = CHR 0x22 then Some ([], cs)
      else if c = CHR 0x5C then
        (case cs of
           [] \<Rightarrow> None
         | x # r \<Rightarrow>
             if x = CHR ''u'' then
               (case r of a # b # d # e # r' \<Rightarrow>
                  map_option (\<lambda>(s, t). (append_rune (((hexval a * 16 + hexval b) * 16 + hexval d) * 16
                    + hexval e) @ s, t)) (unesc r')
                | _ \<Rightarrow> None)
             else map_option (\<lambda>(s, t). (unesc_char x # s, t)) (unesc r))
      else map_option (\<lambda>(s, t). (c # s, t)) (unesc cs))"

abbreviation unesc_pre :: "string \<Rightarrow> (string \<times> string) option \<Rightarrow> (string \<times> string) option" where
  "unesc_pre p \<equiv> map_option (\<lambda>(s, t). (p @ s, t))"

lemma unesc_plain: "c \<noteq> CHR 0x22 \<Longrightarrow> c \<noteq> CHR 0x5C \<Longrightarrow> unesc (c # r) = unesc_pre [c] (unesc r)"
  by simp

lemma unesc_pre_pre: "unesc_pre p (unesc_pre q m) = unesc_pre (p @ q) m"
  by (cases m) auto

lemma unesc_high: "list_all (\<lambda>c. \<not> ascii c) xs \<Longrightarrow> unesc (xs @ r) = unesc_pre xs (unesc r)"
proof (induction xs)
  case Nil
  then show ?case by (cases "unesc r") auto
next
  case (Cons x xs)
  then have "x \<noteq> CHR 0x22" "x \<noteq> CHR 0x5C" by (auto simp: ascii_def)
  with Cons show ?case by (cases "unesc r") auto
qed

lemma unesc_esc_ascii:
  assumes "ascii c"
  shows "unesc (esc_ascii c @ r) = unesc_pre [c] (unesc r)"
proof -
  have b: "(of_char c :: nat) < 128" using assms by (simp add: ascii_def)
  have rune: "append_rune (((0 * 16 + 0) * 16 + of_char c div 16) * 16 + of_char c mod 16) = [c]"
    using b by (simp add: append_rune_def)
  have d: "(of_char c :: nat) div 16 < 16" using b by linarith
  have z: "hexval CHR ''0'' = 0" by code_simp
  show ?thesis
    using rune by (simp add: esc_ascii_def hexval_hex_digit d z)
qed

lemma unesc_esc_rune:
  assumes "list_all (\<lambda>c. \<not> ascii c) xs"
  shows "unesc (esc_rune xs @ r) = unesc_pre xs (unesc r)"
proof -
  have sep: "append_rune 0x2028 = line_sep" "append_rune 0x2029 = para_sep"
    by (simp_all add: append_rune_def line_sep_def para_sep_def char_of_def bit_0)
  have hv: "hexval CHR ''2'' = 2" "hexval CHR ''0'' = 0" "hexval CHR ''8'' = 8" "hexval CHR ''9'' = 9"
    by code_simp+
  have ls: "unesc ([CHR 0x5C, CHR ''u'', CHR ''2'', CHR ''0'', CHR ''2'', CHR ''8''] @ r)
      = unesc_pre line_sep (unesc r)"
    and ps: "unesc ([CHR 0x5C, CHR ''u'', CHR ''2'', CHR ''0'', CHR ''2'', CHR ''9''] @ r)
      = unesc_pre para_sep (unesc r)"
    by (simp_all add: hv sep)
  have neq: "para_sep \<noteq> line_sep" by (simp add: line_sep_def para_sep_def)
  show ?thesis
    unfolding esc_rune_def using ls ps neq unesc_high [OF assms, of r] by (simp del: append_Cons unesc.simps)
qed

declare unesc.simps(2) [simp del]

lemma unesc_quote: "unesc (CHR 0x22 # r) = Some ([], r)"
  by (simp add: unesc.simps(2))

lemma unesc_esc: "valid_utf8 s \<Longrightarrow> unesc (esc s @ CHR 0x22 # r) = Some (s, r)"
proof (induction s rule: esc.induct)
  case (2 c cs)
  let ?w = "rune_width (c # cs)"
  have w: "?w \<noteq> 0" "valid_utf8 (drop (?w - 1) cs)"
    using "2.prems" by (simp_all add: valid_utf8.simps(2) Let_def)
  show ?case
  proof (cases "?w = 1")
    case True
    have "ascii c" using True by (auto simp: rune_width.simps Let_def rune_need_def ascii_def split: if_splits)
    with 2 True w show ?thesis by (simp add: esc.simps(2) unesc_esc_ascii)
  next
    case False
    with w have "1 < ?w" by linarith
    then have "list_all (\<lambda>b. \<not> ascii b) (take ?w (c # cs))"
      using rune_width_multibyte by (simp add: list_all_iff)
    moreover have "take ?w (c # cs) @ drop (?w - 1) cs = c # cs"
      using w by (simp add: take_Cons')
    ultimately show ?thesis
      using 2 False w by (simp add: esc.simps(2) Let_def unesc_esc_rune)
  qed
qed (simp add: unesc_quote)

lemma esc_framed:
  assumes "valid_utf8 s" "valid_utf8 t" "esc s @ CHR 0x22 # r = esc t @ CHR 0x22 # r'"
  shows "s = t \<and> r = r'"
  using unesc_esc [OF assms(1), of r] unesc_esc [OF assms(2), of r'] unfolding assms(3) by simp

lemma json_string_framed:
  assumes "valid_utf8 s" "valid_utf8 t" "json_string s @ r = json_string t @ r'"
  shows "s = t \<and> r = r'"
  by (rule esc_framed [OF assms(1,2)]) (use assms(3) in \<open>simp add: json_string_def\<close>)

section \<open>Documents are written injectively\<close>

text \<open>A number is closed by the end of the text or by a character no number contains.\<close>

definition num_end :: "string \<Rightarrow> bool" where
  "num_end r \<longleftrightarrow> r = [] \<or> \<not> is_num_char (hd r)"

lemma num_end_simps [simp]:
  "num_end []" "num_end (CHR '','' # r)" "num_end (CHR '']'' # r)" "num_end (CHR ''}'' # r)"
  by (simp_all add: num_end_def is_num_char_def is_digit_def byte_in_def)

lemma dec_int_num_end:
  assumes "dec_int i @ r = dec_int j @ r'" "num_end r" "num_end r'"
  shows "i = j \<and> r = r'"
proof -
  have tw: "takeWhile is_num_char (dec_int k @ q) = dec_int k" if "num_end q" for k q
    using dec_int_num_chars [of k] that
    by (cases q) (auto simp: takeWhile_append list_all_iff num_end_def takeWhile_eq_all_conv)
  have "dec_int i = dec_int j" using tw [OF assms(2)] tw [OF assms(3)] assms(1) by metis
  with assms(1) show ?thesis by simp
qed

fun jhead :: "jdoc \<Rightarrow> char \<Rightarrow> bool" where
  "jhead JNull c \<longleftrightarrow> c = CHR ''n''"
| "jhead (JBool b) c \<longleftrightarrow> c = (if b then CHR ''t'' else CHR ''f'')"
| "jhead (JInt i) c \<longleftrightarrow> is_num_char c"
| "jhead (JStr s) c \<longleftrightarrow> c = CHR 0x22"
| "jhead (JRaw b) c \<longleftrightarrow> False"
| "jhead (JArr xs) c \<longleftrightarrow> c = CHR ''[''"
| "jhead (JObj fs) c \<longleftrightarrow> c = CHR ''{''"

lemma dec_int_head: "\<exists>c s. dec_int i = c # s \<and> is_num_char c"
proof -
  have "dec_int i \<noteq> []" by (simp add: dec_int_def)
  then show ?thesis using dec_int_num_chars [of i] by (cases "dec_int i") auto
qed

lemma marshal_head: "jdoc_valid a \<Longrightarrow> \<exists>c s. marshal a = c # s \<and> jhead a c"
  by (cases a) (auto simp: json_string_def, metis dec_int_head)

lemma jhead_punct: "c \<in> {CHR '']'', CHR '','', CHR ''}''} \<Longrightarrow> \<not> jhead a c"
  by (cases a) (auto simp: is_num_char_def is_digit_def byte_in_def)

text \<open>The head character decides the kind of a document.\<close>

fun jkind :: "jdoc \<Rightarrow> nat" where
  "jkind JNull = 0"
| "jkind (JBool b) = (if b then 1 else 2)"
| "jkind (JInt i) = 3"
| "jkind (JStr s) = 4"
| "jkind (JRaw b) = 5"
| "jkind (JArr xs) = 6"
| "jkind (JObj fs) = 7"

lemma jhead_kind: "jhead a c \<Longrightarrow> jhead b c \<Longrightarrow> jkind a = jkind b"
  by (cases a; cases b) (auto simp: is_num_char_def is_digit_def byte_in_def split: if_splits)

lemma marshal_kind:
  assumes "jdoc_valid a" "jdoc_valid b" "marshal a @ r = marshal b @ r'"
  shows "jkind a = jkind b"
proof -
  obtain c s where a: "marshal a = c # s" "jhead a c" using marshal_head [OF assms(1)] by blast
  obtain d t where b: "marshal b = d # t" "jhead b d" using marshal_head [OF assms(2)] by blast
  have "c = d" using assms(3) a(1) b(1) by simp
  with a(2) b(2) show ?thesis by (auto intro: jhead_kind)
qed

text \<open>
  A writer is framed on a set of values when the written value can be cut off what follows it;
  a comma-separated sequence of framed values is framed.
\<close>

definition framed_on :: "('a \<Rightarrow> bytes) \<Rightarrow> 'a set \<Rightarrow> 'a set \<Rightarrow> bool" where
  "framed_on f A B \<longleftrightarrow>
     (\<forall>x \<in> A. \<forall>y \<in> B. \<forall>q q'. num_end q \<longrightarrow> num_end q' \<longrightarrow> f x @ q = f y @ q' \<longrightarrow> x = y \<and> q = q')"

lemma framed_onD:
  "framed_on f A B \<Longrightarrow> x \<in> A \<Longrightarrow> y \<in> B \<Longrightarrow> num_end q \<Longrightarrow> num_end q' \<Longrightarrow>
     f x @ q = f y @ q' \<Longrightarrow> x = y \<and> q = q'"
  unfolding framed_on_def by blast

lemma num_end_jtail: "e \<in> {CHR '']'', CHR ''}''} \<Longrightarrow> num_end (jtail f e xs @ q)"
  by (cases xs) auto

lemma jtail_framed:
  assumes "framed_on f A B" "set xs \<subseteq> A" "set ys \<subseteq> B" "e \<in> {CHR '']'', CHR ''}''}"
    and "jtail f e xs @ r = jtail f e ys @ r'"
  shows "xs = ys \<and> r = r'"
  using assms(2,3,5)
proof (induction xs arbitrary: ys)
  case Nil
  then show ?case using assms(4) by (cases ys) auto
next
  case (Cons x xs)
  then obtain y zs where ys: "ys = y # zs" using assms(4) by (cases ys) auto
  have eq: "f x @ (jtail f e xs @ r) = f y @ (jtail f e zs @ r')" using Cons.prems(3) ys by simp
  have "x = y \<and> jtail f e xs @ r = jtail f e zs @ r'"
    by (rule framed_onD [OF assms(1) _ _ num_end_jtail [OF assms(4)] num_end_jtail [OF assms(4)] eq])
       (use Cons.prems ys in auto)
  moreover from this have "xs = zs \<and> r = r'" using Cons ys by auto
  ultimately show ?case using ys by simp
qed

lemma jseq_framed:
  assumes "framed_on f A B" "set xs \<subseteq> A" "set ys \<subseteq> B" "e \<in> {CHR '']'', CHR ''}''}"
    and heads: "\<And>x. x \<in> A \<union> B \<Longrightarrow> f x \<noteq> [] \<and> hd (f x) \<noteq> e"
    and "jseq f e xs @ r = jseq f e ys @ r'"
  shows "xs = ys \<and> r = r'"
proof (cases xs; cases ys)
  fix x us y vs assume xy: "xs = x # us" "ys = y # vs"
  with assms(6) have eq: "f x @ (jtail f e us @ r) = f y @ (jtail f e vs @ r')"
    by (simp add: jseq_def)
  have *: "x = y \<and> jtail f e us @ r = jtail f e vs @ r'"
    by (rule framed_onD [OF assms(1) _ _ num_end_jtail [OF assms(4)] num_end_jtail [OF assms(4)] eq])
       (use assms(2,3) xy in auto)
  have "us = vs \<and> r = r'"
    by (rule jtail_framed [OF assms(1) _ _ assms(4)]) (use assms(2,3) xy * in auto)
  with * xy show ?thesis by simp
next
  fix y vs assume "xs = []" "ys = y # vs"
  with assms heads [of y] show ?thesis by (cases "f y") (auto simp: jseq_def)
next
  fix x us assume "xs = x # us" "ys = []"
  with assms heads [of x] show ?thesis by (cases "f x") (auto simp: jseq_def)
qed (use assms in \<open>simp add: jseq_def\<close>)

abbreviation marshal_pair :: "string \<times> jdoc \<Rightarrow> bytes" where
  "marshal_pair \<equiv> (\<lambda>(k, v). json_string k @ CHR '':'' # marshal v)"

lemma marshal_not_close:
  assumes "jdoc_valid a" "e \<in> {CHR '']'', CHR ''}''}"
  shows "marshal a \<noteq> [] \<and> hd (marshal a) \<noteq> e"
proof -
  obtain c s where "marshal a = c # s" "jhead a c" using marshal_head [OF assms(1)] by blast
  with assms(2) jhead_punct [of c a] show ?thesis by auto
qed

lemma marshal_pair_framed:
  assumes "\<And>v w q q'. v \<in> snd ` A \<Longrightarrow> w \<in> snd ` B \<Longrightarrow> num_end q \<Longrightarrow> num_end q' \<Longrightarrow>
      marshal v @ q = marshal w @ q' \<Longrightarrow> v = w \<and> q = q'"
    and utf8: "\<And>k v. (k, v) \<in> A \<union> B \<Longrightarrow> valid_utf8 k"
  shows "framed_on marshal_pair A B"
  unfolding framed_on_def
proof (intro ballI allI impI)
  fix x y q q'
  assume a: "x \<in> A" "y \<in> B" "num_end q" "num_end q'" "marshal_pair x @ q = marshal_pair y @ q'"
  obtain k v l w where kv: "x = (k, v)" "y = (l, w)" by (cases x; cases y)
  have *: "k = l \<and> CHR '':'' # marshal v @ q = CHR '':'' # marshal w @ q'"
    by (rule json_string_framed) (use a kv utf8 in auto)
  have "v = w \<and> q = q'"
  proof (rule assms(1))
    show "v \<in> snd ` A" "w \<in> snd ` B" using a kv by (metis imageI snd_conv)+
  qed (use a * in auto)
  with * kv show "x = y \<and> q = q'" by simp
qed

lemma marshal_framed:
  assumes "jdoc_valid a" "jdoc_valid b" "num_end r" "num_end r'" "marshal a @ r = marshal b @ r'"
  shows "a = b \<and> r = r'"
  using assms
proof (induction a arbitrary: b r r' rule: marshal.induct)
  case 1
  then show ?case using marshal_kind [OF 1(1,2,5)] by (cases b) (auto split: if_splits)
next
  case (2 c)
  then show ?case using marshal_kind [OF 2(1,2,5)] by (cases b) (auto split: if_splits)
next
  case (3 i)
  then obtain j where "b = JInt j"
    using marshal_kind [OF 3(1,2,5)] by (cases b) (auto split: if_splits)
  with 3 show ?case using dec_int_num_end by auto
next
  case (4 s)
  then obtain t where t: "b = JStr t"
    using marshal_kind [OF 4(1,2,5)] by (cases b) (auto split: if_splits)
  have "s = t \<and> r = r'" by (rule json_string_framed) (use 4 t in auto)
  with t show ?case by simp
next
  case (6 xs)
  then obtain ys where b: "b = JArr ys"
    using marshal_kind [OF 6(2,3,6)] by (cases b) (auto split: if_splits)
  have v: "jdoc_valid x" if "x \<in> set xs \<union> set ys" for x using that 6(2,3) b by auto
  have "framed_on marshal (set xs) (set ys)"
    unfolding framed_on_def using 6(1) v by (metis UnI1 UnI2)
  then have "xs = ys \<and> r = r'"
    by (rule jseq_framed [where e = "CHR '']''", OF _ order.refl order.refl])
       (use 6 b v marshal_not_close in \<open>fastforce+\<close>)
  with b show ?case by simp
next
  case (7 fs)
  then obtain gs where b: "b = JObj gs"
    using marshal_kind [OF 7(2,3,6)] by (cases b) (auto split: if_splits)
  have v: "valid_utf8 k \<and> jdoc_valid x" if "(k, x) \<in> set fs \<union> set gs" for k x
    using that 7(2,3) b by auto
  have "framed_on marshal_pair (set fs) (set gs)"
  proof (rule marshal_pair_framed)
    fix x w q q'
    assume a: "x \<in> snd ` set fs" "w \<in> snd ` set gs" "num_end q" "num_end q'" "marshal x @ q = marshal w @ q'"
    then obtain k l where kl: "(k, x) \<in> set fs" "(l, w) \<in> set gs" by auto
    show "x = w \<and> q = q'"
      by (rule 7(1) [OF kl(1)]) (use a kl v in auto)
  qed (use v in auto)
  then have "fs = gs \<and> r = r'"
    by (rule jseq_framed [where e = "CHR ''}''"]) (use 7 b in \<open>auto simp: json_string_def\<close>)
  with b show ?case by simp
qed simp

theorem marshal_inj:
  assumes "jdoc_valid a" "jdoc_valid b"
  shows "marshal a = marshal b \<longleftrightarrow> a = b"
  using marshal_framed [OF assms, of "[]" "[]"] by auto

lemma TrimSpace_marshal_obj: "TrimSpace (marshal (JObj fs)) \<noteq> []"
proof -
  have "CHR ''{'' \<in> set (TrimSpace (marshal (JObj fs)))"
    by (rule TrimSpace_keeps) (simp_all add: ws_runes_def)
  then show ?thesis by auto
qed

lemma JSlice_inject: "(\<And>x y. f x = f y \<longleftrightarrow> x = y) \<Longrightarrow> JSlice f v = JSlice f w \<longleftrightarrow> v = w"
  by (cases v; cases w) (auto simp: JSlice_def inj_def intro: map_injective)

lemma JSlice_JStr_inject [simp]: "JSlice JStr v = JSlice JStr w \<longleftrightarrow> v = w"
  by (rule JSlice_inject) simp

section \<open>Faster evaluation\<close>

lemma valid_utf8_code [code]:
  "valid_utf8 [] \<longleftrightarrow> True"
  "valid_utf8 (c # cs) \<longleftrightarrow> (if ascii c then valid_utf8 cs
     else let w = rune_width (c # cs) in w \<noteq> 0 \<and> valid_utf8 (drop (w - 1) cs))"
  by (simp_all add: valid_utf8.simps(2) rune_width_ascii)

lemma esc_code [code]:
  "esc [] = []"
  "esc (c # cs) = (if ascii c then esc_ascii c @ esc cs
     else let w = rune_width (c # cs)
      in if w = 0 then [CHR 0x5C, CHR ''u'', CHR ''f'', CHR ''f'', CHR ''f'', CHR ''d''] @ esc cs
         else if w = 1 then esc_ascii c @ esc cs
         else esc_rune (take w (c # cs)) @ esc (drop (w - 1) cs))"
  by (simp_all add: esc.simps(2) rune_width_ascii)

lemma esc_ascii_code [code]:
  "esc_ascii (Char b0 b1 b2 b3 b4 b5 b6 b7) =
     (let c = Char b0 b1 b2 b3 b4 b5 b6 b7
      in if c = CHR 0x22 \<or> c = CHR 0x5C then [CHR 0x5C, c]
      else if c = CHR 0x08 then [CHR 0x5C, CHR ''b'']
      else if c = CHR 0x0C then [CHR 0x5C, CHR ''f'']
      else if c = CHR 0x0A then [CHR 0x5C, CHR ''n'']
      else if c = CHR 0x0D then [CHR 0x5C, CHR ''r'']
      else if c = CHR 0x09 then [CHR 0x5C, CHR ''t'']
      else if (\<not> b5 \<and> \<not> b6 \<and> \<not> b7) \<or> c = CHR ''<'' \<or> c = CHR ''>'' \<or> c = CHR ''&'' then
        [CHR 0x5C, CHR ''u'', CHR ''0'', CHR ''0'',
         hex_digit (of_char c div 16), hex_digit (of_char c mod 16)]
      else [c])"
proof -
  have "of_bool b \<le> (1 :: nat)" for b by simp
  from this [of b0] this [of b1] this [of b2] this [of b3] this [of b4]
  have "(of_char (Char b0 b1 b2 b3 b4 b5 b6 b7) :: nat) < 0x20 \<longleftrightarrow> \<not> b5 \<and> \<not> b6 \<and> \<not> b7"
    unfolding of_char_Char by (cases b5; cases b6; cases b7) simp_all
  then show ?thesis unfolding esc_ascii_def Let_def by simp
qed

section \<open>Scans of decoded values\<close>

text \<open>The strings and keys anywhere in a decoded value.\<close>

fun json_strings :: "json \<Rightarrow> string set" where
  "json_strings (JSObj kvs) = (\<Union>(k, v) \<in> set kvs. json_strings v)"
| "json_strings (JSArr xs) = (\<Union>v \<in> set xs. json_strings v)"
| "json_strings (JSStr s) = {s}"
| "json_strings _ = {}"

fun json_keys :: "json \<Rightarrow> string set" where
  "json_keys (JSObj kvs) = (\<Union>(k, v) \<in> set kvs. insert k (json_keys v))"
| "json_keys (JSArr xs) = (\<Union>v \<in> set xs. json_keys v)"
| "json_keys _ = {}"

text \<open>
  Three packages walk a decoded value in search of material that must not leave the gateway. The
  walk is the contract of this locale: every key and every string is looked at, at any depth.
\<close>

locale json_scan =
  fixes scan :: "json \<Rightarrow> bool" and bad_key :: "string \<Rightarrow> bool" and bad_string :: "string \<Rightarrow> bool"
  assumes scan_obj: "scan (JSObj kvs) \<longleftrightarrow> (\<exists>(key, child) \<in> set kvs. bad_key key \<or> scan child)"
    and scan_arr: "scan (JSArr xs) \<longleftrightarrow> (\<exists>child \<in> set xs. scan child)"
    and scan_str: "scan (JSStr s) \<longleftrightarrow> bad_string s"
    and scan_leaf: "\<not> scan JSNull" "\<not> scan (JSBool b)" "\<not> scan (JSNum n)"
begin

lemma scan_iff: "scan v \<longleftrightarrow> (\<exists>k \<in> json_keys v. bad_key k) \<or> (\<exists>s \<in> json_strings v. bad_string s)"
proof (induction v)
  case (JSArr xs)
  then show ?case by (simp add: scan_arr; blast)
next
  case (JSObj kvs)
  have IH: "scan c \<longleftrightarrow> (\<exists>k \<in> json_keys c. bad_key k) \<or> (\<exists>s \<in> json_strings c. bad_string s)"
    if "(k, c) \<in> set kvs" for k c
    using JSObj that by fastforce
  show ?case
  proof
    assume "scan (JSObj kvs)"
    then obtain k c where kc: "(k, c) \<in> set kvs" "bad_key k \<or> scan c" by (auto simp: scan_obj)
    with IH [OF kc(1)] show "(\<exists>k \<in> json_keys (JSObj kvs). bad_key k) \<or> (\<exists>s \<in> json_strings (JSObj kvs). bad_string s)"
      by fastforce
  next
    assume "(\<exists>k \<in> json_keys (JSObj kvs). bad_key k) \<or> (\<exists>s \<in> json_strings (JSObj kvs). bad_string s)"
    then show "scan (JSObj kvs)" unfolding scan_obj using IH by fastforce
  qed
qed (simp_all add: scan_str scan_leaf)

end

end
