(* ===== verification/AppErrors.thy ===== *)
theory AppErrors
  imports FedPrelude
begin

text \<open>
  Go errors and the package \<open>apperrors\<close>. A \<open>goerror\<close> is a non-nil value of the interface
  \<open>error\<close>; a possibly nil one is an option. \<open>AppNil\<close> and \<open>AppErr\<close> are the two values of the type
  \<open>*apperrors.Error\<close>, \<open>Plain\<close> is an \<open>errors.New\<close> value, \<open>Wrapped\<close> one made by \<open>fmt.Errorf\<close> with
  the verb \<open>%w\<close> (its text and what it wraps), \<open>Coded\<close> an error of another package that
  implements \<open>ExchangeDenialCode\<close>, and \<open>Joined\<close> one whose \<open>Unwrap\<close> returns a list.
\<close>

section \<open>Definitions\<close>

datatype goerror =
    AppNil
  | AppErr (app_Code: string) (app_Layer: string) (app_Message: string) (app_Err: "goerror option")
  | Plain string
  | Wrapped string goerror
  | Coded string string "goerror option"
  | Joined string "goerror list"

definition CodeStorageUnavailable :: string where
  "CodeStorageUnavailable = ''storage.unavailable''"

definition CodeNotFoundOrUnauthorized :: string where
  "CodeNotFoundOrUnauthorized = ''not_found_or_not_authorized''"

fun Error :: "goerror \<Rightarrow> string" where
  "Error AppNil = []"
| "Error (AppErr c l m None) = m"
| "Error (AppErr c l m (Some e)) = m @ '': '' @ Error e"
| "Error (Plain m) = m"
| "Error (Wrapped m e) = m"
| "Error (Coded c m e) = m"
| "Error (Joined m es) = m"

definition app_New :: "string \<Rightarrow> string \<Rightarrow> string \<Rightarrow> goerror" where
  "app_New code layer message = AppErr code layer message None"

definition app_Wrap :: "string \<Rightarrow> string \<Rightarrow> string \<Rightarrow> goerror option \<Rightarrow> goerror" where
  "app_Wrap code layer message err = AppErr code layer message err"

text \<open>\<open>fmt.Errorf\<close> with one \<open>%w\<close> at the end of the text.\<close>

definition wrapf :: "string \<Rightarrow> goerror \<Rightarrow> goerror" where
  "wrapf text err = Wrapped (text @ Error err) err"

text \<open>\<open>Error.Unwrap\<close>, and the children \<open>errors.As\<close> visits for the other errors.\<close>

fun app_Unwrap :: "goerror \<Rightarrow> goerror option" where
  "app_Unwrap (AppErr c l m e) = e"
| "app_Unwrap _ = None"

text \<open>The errors \<open>errors.As\<close> and \<open>errors.Is\<close> visit, in their order: the error, then depth first.\<close>

fun error_tree :: "goerror \<Rightarrow> goerror list" where
  "error_tree AppNil = [AppNil]"
| "error_tree (AppErr c l m None) = [AppErr c l m None]"
| "error_tree (AppErr c l m (Some e)) = AppErr c l m (Some e) # error_tree e"
| "error_tree (Plain m) = [Plain m]"
| "error_tree (Wrapped m e) = Wrapped m e # error_tree e"
| "error_tree (Coded c m None) = [Coded c m None]"
| "error_tree (Coded c m (Some e)) = Coded c m (Some e) # error_tree e"
| "error_tree (Joined m es) = Joined m es # concat (map error_tree es)"

fun is_app :: "goerror \<Rightarrow> bool" where
  "is_app AppNil = True"
| "is_app (AppErr c l m e) = True"
| "is_app _ = False"

definition errors_As_app :: "goerror \<Rightarrow> goerror option" where
  "errors_As_app e = find is_app (error_tree e)"

definition errors_Is :: "goerror \<Rightarrow> goerror \<Rightarrow> bool" where
  "errors_Is e target \<longleftrightarrow> target \<in> set (error_tree e)"

text \<open>\<open>From\<close>; the result is a \<open>*Error\<close>, nil being \<open>None\<close>.\<close>

definition From :: "goerror option \<Rightarrow> goerror option" where
  "From err =
     (case err of
        None \<Rightarrow> None
      | Some e \<Rightarrow>
          (case errors_As_app e of
             Some AppNil \<Rightarrow> None
           | Some a \<Rightarrow> Some a
           | None \<Rightarrow> Some (app_Wrap CodeStorageUnavailable ''storage'' ''storage unavailable'' err)))"

section \<open>Facts\<close>

lemma error_tree_head: "\<exists>es. error_tree e = e # es"
  by (cases e rule: error_tree.cases) auto

lemma From_app: "is_app e \<Longrightarrow> e \<noteq> AppNil \<Longrightarrow> From (Some e) = Some e"
  using error_tree_head [of e]
  by (auto simp: From_def errors_As_app_def split: goerror.splits)

lemma From_is_app: "From err = Some a \<Longrightarrow> is_app a \<and> a \<noteq> AppNil"
  by (auto simp: From_def errors_As_app_def app_Wrap_def find_Some_iff
      split: option.splits goerror.splits)

lemma From_Wrapped:
  "errors_As_app e \<noteq> None \<Longrightarrow> From (Some (Wrapped m e)) = From (Some e)"
  by (auto simp: From_def errors_As_app_def split: option.splits)

end
