(* ===== verification/GoPlatform.thy ===== *)
theory GoPlatform
  imports GoJSON AppErrors
begin

text \<open>
  The primitives the program takes from Go's cryptographic library, the JSON reader and the
  Unicode case table, as one record that every definition using them takes as an argument. The
  theorems hold for every such record; those that need the documented behaviour of the primitives
  name it (\<open>sha256_sized\<close>, \<open>ed25519_correct\<close>). \<open>demo_platform\<close> is a concrete record that satisfies
  the laws, on which concrete runs are evaluated.
\<close>

section \<open>Definitions\<close>

record platform =
  sha256 :: "bytes \<Rightarrow> bytes"
  ed_public :: "bytes \<Rightarrow> bytes"
  ed_sign :: "bytes \<Rightarrow> bytes \<Rightarrow> bytes"
  ed_verify :: "bytes \<Rightarrow> bytes \<Rightarrow> bytes \<Rightarrow> bool"
  json_Unmarshal :: "bytes \<Rightarrow> json option"
  json_compact :: "bytes \<Rightarrow> bytes option"
  unicode_lower :: "nat \<Rightarrow> nat"

definition PublicKeySize :: nat where "PublicKeySize = 32"
definition PrivateKeySize :: nat where "PrivateKeySize = 64"
definition SignatureSize :: nat where "SignatureSize = 64"

lemmas key_sizes [simp] = PublicKeySize_def PrivateKeySize_def SignatureSize_def

text \<open>\<open>sha256.Sum256\<close> returns 32 bytes.\<close>

definition sha256_sized :: "platform \<Rightarrow> bool" where
  "sha256_sized p \<longleftrightarrow> (\<forall>b. length (sha256 p b) = 32)"

text \<open>
  \<open>ed25519\<close>: a private key of 64 bytes has a public key of 32 bytes, its signatures have 64 bytes
  and the public key accepts them.
\<close>

definition ed25519_correct :: "platform \<Rightarrow> bool" where
  "ed25519_correct p \<longleftrightarrow>
     (\<forall>sk m. length sk = PrivateKeySize \<longrightarrow>
        length (ed_public p sk) = PublicKeySize \<and>
        length (ed_sign p sk m) = SignatureSize \<and>
        ed_verify p (ed_public p sk) m (ed_sign p sk m))"

definition zero_pad :: "nat \<Rightarrow> bytes \<Rightarrow> bytes" where
  "zero_pad n b = take n (b @ replicate n CHR 0x00)"

lemma length_zero_pad [simp]: "length (zero_pad n b) = n"
  by (simp add: zero_pad_def)

definition demo_platform :: platform where
  "demo_platform =
     \<lparr>sha256 = zero_pad 32,
      ed_public = zero_pad 32,
      ed_sign = (\<lambda>sk m. zero_pad 64 (zero_pad 32 sk @ m)),
      ed_verify = (\<lambda>pk m s. s = zero_pad 64 (pk @ m)),
      json_Unmarshal = (\<lambda>b. if b = [] then None else Some (JSObj [])),
      json_compact = (\<lambda>b. if b = [] then None else Some b),
      unicode_lower = id\<rparr>"

section \<open>Facts\<close>

lemma sha256_sizedD [simp]: "sha256_sized p \<Longrightarrow> length (sha256 p b) = 32"
  by (simp add: sha256_sized_def)

lemma ed25519_correctD:
  assumes "ed25519_correct p" "length sk = PrivateKeySize"
  shows "length (ed_public p sk) = PublicKeySize" "length (ed_sign p sk m) = SignatureSize"
    "ed_verify p (ed_public p sk) m (ed_sign p sk m)"
  using assms unfolding ed25519_correct_def by blast+

lemma demo_sha256_sized [simp]: "sha256_sized demo_platform"
  by (simp add: sha256_sized_def demo_platform_def)

lemma demo_ed25519_correct [simp]: "ed25519_correct demo_platform"
  by (simp add: ed25519_correct_def demo_platform_def)

lemma hex_sha256_length: "sha256_sized p \<Longrightarrow> length (hexEncode (sha256 p b)) = 64"
  by simp

end
