(* ===== verification/Exchange.thy ===== *)
theory Exchange
  imports GoPlatform
begin

text \<open>
  The data and the pure checks of \<open>contracts/exchange/exchange.go\<close>: the envelope, the session, the
  contract references, the decisions, the session/envelope matching with its aliases, the payload
  checks with the private-topology scan, the normalisers, and the in-memory replay cache. Field
  names carry a prefix per struct. A nil and an empty slice behave alike here, so slices are lists;
  a Go \<open>int\<close> has 64 bits.
\<close>

section \<open>Constants\<close>

definition SchemaGatewayExchangeV1 :: string where
  "SchemaGatewayExchangeV1 = ''builders.federation.gateway_exchange.v1''"
definition SchemaPreflightV1 :: string where
  "SchemaPreflightV1 = ''builders.federation.preflight_decision.v1''"
definition DecisionAllow :: string where "DecisionAllow = ''allow''"
definition DecisionDeny :: string where "DecisionDeny = ''deny''"
definition PayloadEncodingJSON :: string where "PayloadEncodingJSON = ''application/json''"

definition ActionGetServiceCatalogView :: string where
  "ActionGetServiceCatalogView = ''get_service_catalog_view''"
definition ActionOpenFederationTransaction :: string where
  "ActionOpenFederationTransaction = ''open_federation_transaction''"
definition ActionCreateFederationRoom :: string where
  "ActionCreateFederationRoom = ''create_federation_room''"
definition ActionSubmitFederationMessage :: string where
  "ActionSubmitFederationMessage = ''submit_federation_message''"
definition ActionRequestBuilderWork :: string where
  "ActionRequestBuilderWork = ''request_builder_work''"
definition ActionSubmitFederationResult :: string where
  "ActionSubmitFederationResult = ''submit_federation_result''"
definition ActionDeliverBuilderWorkResult :: string where
  "ActionDeliverBuilderWorkResult = ''deliver_builder_work_result''"
definition ActionEstablishDataChannel :: string where
  "ActionEstablishDataChannel = ''establish_data_channel''"
definition ActionRequestForQuote :: string where "ActionRequestForQuote = ''request_for_quote''"
definition ActionSubmitQuote :: string where "ActionSubmitQuote = ''submit_quote''"
definition ActionSubmitPurchaseOrder :: string where
  "ActionSubmitPurchaseOrder = ''submit_purchase_order''"
definition ActionConfirmOrder :: string where "ActionConfirmOrder = ''confirm_order''"
definition ActionUpdateShipmentStatus :: string where
  "ActionUpdateShipmentStatus = ''update_shipment_status''"
definition ActionIssueInvoice :: string where "ActionIssueInvoice = ''issue_invoice''"
definition ActionUpdatePaymentStatus :: string where
  "ActionUpdatePaymentStatus = ''update_payment_status''"

lemmas action_defs =
  ActionGetServiceCatalogView_def ActionOpenFederationTransaction_def
  ActionCreateFederationRoom_def ActionSubmitFederationMessage_def ActionRequestBuilderWork_def
  ActionSubmitFederationResult_def ActionDeliverBuilderWorkResult_def
  ActionEstablishDataChannel_def ActionRequestForQuote_def ActionSubmitQuote_def
  ActionSubmitPurchaseOrder_def ActionConfirmOrder_def ActionUpdateShipmentStatus_def
  ActionIssueInvoice_def ActionUpdatePaymentStatus_def

definition FacadeGetServiceCatalogView :: string where
  "FacadeGetServiceCatalogView = ''GetServiceCatalogView''"
definition FacadeOpenFederationTransaction :: string where
  "FacadeOpenFederationTransaction = ''OpenFederationTransaction''"
definition FacadeCreateFederationRoom :: string where
  "FacadeCreateFederationRoom = ''CreateFederationRoom''"
definition FacadeSubmitFederationMessage :: string where
  "FacadeSubmitFederationMessage = ''SubmitFederationMessage''"
definition FacadeRequestBuilderWork :: string where
  "FacadeRequestBuilderWork = ''RequestBuilderWork''"
definition FacadeSubmitFederationResult :: string where
  "FacadeSubmitFederationResult = ''SubmitFederationResult''"
definition FacadeDeliverBuilderWorkResult :: string where
  "FacadeDeliverBuilderWorkResult = ''DeliverBuilderWorkResult''"
definition FacadeEstablishDataChannel :: string where
  "FacadeEstablishDataChannel = ''EstablishDataChannel''"
definition FacadeSubmitCommercialEvent :: string where
  "FacadeSubmitCommercialEvent = ''SubmitCommercialEvent''"

lemmas facade_defs =
  FacadeGetServiceCatalogView_def FacadeOpenFederationTransaction_def
  FacadeCreateFederationRoom_def FacadeSubmitFederationMessage_def FacadeRequestBuilderWork_def
  FacadeSubmitFederationResult_def FacadeDeliverBuilderWorkResult_def
  FacadeEstablishDataChannel_def FacadeSubmitCommercialEvent_def

definition PartnerLinkActive :: string where "PartnerLinkActive = ''active''"

definition ErrorUnauthenticated :: string where "ErrorUnauthenticated = ''exchange_unauthenticated''"
definition ErrorPartnerLinkDenied :: string where
  "ErrorPartnerLinkDenied = ''exchange_partner_link_denied''"
definition ErrorContractUnknown :: string where "ErrorContractUnknown = ''exchange_contract_unknown''"
definition ErrorContractMismatch :: string where
  "ErrorContractMismatch = ''exchange_contract_mismatch''"
definition ErrorReplayDetected :: string where "ErrorReplayDetected = ''exchange_replay_detected''"
definition ErrorReplayUnavailable :: string where
  "ErrorReplayUnavailable = ''exchange_replay_unavailable''"
definition ErrorPayloadInvalid :: string where "ErrorPayloadInvalid = ''exchange_payload_invalid''"
definition ErrorExpired :: string where "ErrorExpired = ''exchange_expired''"
definition ErrorGatewayUnavailable :: string where
  "ErrorGatewayUnavailable = ''exchange_gateway_unavailable''"
definition ErrorPolicyDenied :: string where "ErrorPolicyDenied = ''exchange_policy_denied''"
definition ErrorKillSwitch :: string where "ErrorKillSwitch = ''exchange_kill_switch''"

lemmas denial_defs =
  ErrorUnauthenticated_def ErrorPartnerLinkDenied_def ErrorContractUnknown_def
  ErrorContractMismatch_def ErrorReplayDetected_def ErrorReplayUnavailable_def
  ErrorPayloadInvalid_def ErrorExpired_def ErrorGatewayUnavailable_def ErrorPolicyDenied_def
  ErrorKillSwitch_def

definition ErrManifestNotFound :: goerror where
  "ErrManifestNotFound = Plain ErrorContractUnknown"
definition ErrReplayDetected :: goerror where
  "ErrReplayDetected = Plain ErrorReplayDetected"

section \<open>Data\<close>

record GatewayRef =
  gr_TenantID :: string
  gr_GatewayID :: string
  gr_GatewayPoolID :: string

record ContractRef =
  cr_ContractID :: string
  cr_ContractVersion :: string
  cr_ManifestHashSHA256 :: string
  cr_PayloadSchemaHashSHA256 :: string

record Envelope =
  env_SchemaVersion :: string
  env_EnvelopeID :: string
  env_CorrelationID :: string
  env_IdempotencyKey :: string
  env_SentAtMS :: int64
  env_ExpiresAtMS :: int64
  env_PartnerLinkID :: string
  env_Source :: GatewayRef
  env_Destination :: GatewayRef
  env_Contract :: ContractRef
  env_Action :: string
  env_PayloadEncoding :: string
  env_PayloadHashSHA256 :: string
  env_Payload :: bytes

record AuthenticatedSession =
  ses_LocalTenantID :: string
  ses_LocalGatewayID :: string
  ses_RemoteTenantID :: string
  ses_RemoteGatewayID :: string
  ses_RemoteServicePrincipalID :: string
  ses_PartnerLinkID :: string
  ses_PartnerLinkState :: string
  ses_KillSwitchEnabled :: bool
  ses_ControlPartnerLinkID :: string

record ActionContract =
  ac_Action :: string
  ac_ServiceCatalogAction :: string
  ac_FacadeMethod :: string
  ac_Mutating :: bool
  ac_IdempotencyRequired :: bool
  ac_PayloadEncoding :: string
  ac_MaxPayloadBytes :: int64
  ac_PrivateTopologyAllowed :: bool
  ac_AllowedPartnerLinkIDs :: "string list"

text \<open>The \<open>Manifest\<close> of the package \<open>exchange\<close>: one resolved contract of a signed manifest.\<close>

record XManifest =
  xm_TenantID :: string
  xm_ManifestID :: string
  xm_CatalogVersion :: string
  xm_ContractID :: string
  xm_ContractVersion :: string
  xm_ManifestHashSHA256 :: string
  xm_PayloadSchemaHashSHA256 :: string
  xm_ExpiresAtMS :: int64
  xm_Revoked :: bool
  xm_Actions :: "string \<rightharpoonup> ActionContract"

record ReplayClaim =
  rc_EnvelopeID :: string
  rc_IdempotencyKey :: string
  rc_ExpiresAtMS :: int64

text \<open>\<open>PolicyCheck\<close> and \<open>ContractApprovalCheck\<close> have the same fields.\<close>

record PolicyCheck =
  pc_Session :: AuthenticatedSession
  pc_Envelope :: Envelope
  pc_Manifest :: XManifest
  pc_Action :: ActionContract

type_synonym ContractApprovalCheck = PolicyCheck

record PayloadValidationInput =
  pv_Contract :: ContractRef
  pv_Action :: ActionContract
  pv_Payload :: bytes

record AuditEvent =
  ae_SchemaVersion :: string
  ae_LocalTenantID :: string
  ae_LocalGatewayID :: string
  ae_EnvelopeID :: string
  ae_CorrelationID :: string
  ae_Decision :: string
  ae_DenialCode :: string
  ae_AuthenticatedRemoteGatewayID :: string
  ae_RemoteTenantID :: string
  ae_PartnerLinkID :: string
  ae_ContractID :: string
  ae_ManifestHashSHA256 :: string
  ae_Action :: string
  ae_FacadeMethod :: string

record DispatchResult =
  dr_Status :: string
  dr_PayloadJSON :: string

record PreflightDecision =
  pd_SchemaVersion :: string
  pd_DecisionID :: string
  pd_LocalTenantID :: string
  pd_LocalGatewayID :: string
  pd_EnvelopeID :: string
  pd_CorrelationID :: string
  pd_Decision :: string
  pd_DenialCode :: string
  pd_AuthenticatedRemoteGatewayID :: string
  pd_RemoteTenantID :: string
  pd_PartnerLinkID :: string
  pd_ContractID :: string
  pd_ManifestHashSHA256 :: string
  pd_Action :: string
  pd_FacadeMethod :: string
  pd_AuditEventID :: string

record AcceptedEnvelope =
  acc_Session :: AuthenticatedSession
  acc_Envelope :: Envelope
  acc_Manifest :: XManifest
  acc_Action :: ActionContract
  acc_Decision :: PreflightDecision

record ErrorInfo =
  ei_Code :: string
  ei_Message :: string

record Response =
  rsp_Decision :: PreflightDecision
  rsp_Result :: DispatchResult
  rsp_Error :: "ErrorInfo option"

text \<open>The zero values the code writes as composite literals.\<close>

definition zero_ContractRef :: ContractRef where
  "zero_ContractRef = \<lparr>cr_ContractID = [], cr_ContractVersion = [],
     cr_ManifestHashSHA256 = [], cr_PayloadSchemaHashSHA256 = []\<rparr>"

definition zero_Manifest :: XManifest where
  "zero_Manifest = \<lparr>xm_TenantID = [], xm_ManifestID = [], xm_CatalogVersion = [],
     xm_ContractID = [], xm_ContractVersion = [], xm_ManifestHashSHA256 = [],
     xm_PayloadSchemaHashSHA256 = [], xm_ExpiresAtMS = 0, xm_Revoked = False, xm_Actions = Map.empty\<rparr>"

definition zero_ActionContract :: ActionContract where
  "zero_ActionContract = \<lparr>ac_Action = [], ac_ServiceCatalogAction = [], ac_FacadeMethod = [],
     ac_Mutating = False, ac_IdempotencyRequired = False, ac_PayloadEncoding = [],
     ac_MaxPayloadBytes = 0, ac_PrivateTopologyAllowed = False, ac_AllowedPartnerLinkIDs = []\<rparr>"

definition zero_DispatchResult :: DispatchResult where
  "zero_DispatchResult = \<lparr>dr_Status = [], dr_PayloadJSON = []\<rparr>"

section \<open>Decisions\<close>

definition baseDecision ::
  "AuthenticatedSession \<Rightarrow> Envelope \<Rightarrow> XManifest \<Rightarrow> ActionContract \<Rightarrow> string \<Rightarrow> string \<Rightarrow> PreflightDecision" where
  "baseDecision session env manifest action decision denialCode =
     (let manifestHash = (if xm_ManifestHashSHA256 manifest \<noteq> [] then xm_ManifestHashSHA256 manifest
                          else cr_ManifestHashSHA256 (env_Contract env))
      in \<lparr>pd_SchemaVersion = SchemaPreflightV1,
          pd_DecisionID = ''preflight:'' @ env_EnvelopeID env,
          pd_LocalTenantID = ses_LocalTenantID session,
          pd_LocalGatewayID = ses_LocalGatewayID session,
          pd_EnvelopeID = env_EnvelopeID env,
          pd_CorrelationID = env_CorrelationID env,
          pd_Decision = decision,
          pd_DenialCode = denialCode,
          pd_AuthenticatedRemoteGatewayID = ses_RemoteGatewayID session,
          pd_RemoteTenantID = ses_RemoteTenantID session,
          pd_PartnerLinkID = env_PartnerLinkID env,
          pd_ContractID = cr_ContractID (env_Contract env),
          pd_ManifestHashSHA256 = manifestHash,
          pd_Action = env_Action env,
          pd_FacadeMethod = ac_FacadeMethod action,
          pd_AuditEventID = ''audit:'' @ env_EnvelopeID env @ '':'' @ decision\<rparr>)"

definition allow :: "AuthenticatedSession \<Rightarrow> Envelope \<Rightarrow> XManifest \<Rightarrow> ActionContract \<Rightarrow> PreflightDecision" where
  "allow session env manifest action = baseDecision session env manifest action DecisionAllow []"

definition deny ::
  "AuthenticatedSession \<Rightarrow> Envelope \<Rightarrow> string \<Rightarrow> XManifest \<Rightarrow> ActionContract \<Rightarrow> PreflightDecision" where
  "deny session env code manifest action = baseDecision session env manifest action DecisionDeny code"

definition auditEvent :: "PreflightDecision \<Rightarrow> AuditEvent" where
  "auditEvent decision =
     \<lparr>ae_SchemaVersion = pd_SchemaVersion decision,
      ae_LocalTenantID = pd_LocalTenantID decision,
      ae_LocalGatewayID = pd_LocalGatewayID decision,
      ae_EnvelopeID = pd_EnvelopeID decision,
      ae_CorrelationID = pd_CorrelationID decision,
      ae_Decision = pd_Decision decision,
      ae_DenialCode = pd_DenialCode decision,
      ae_AuthenticatedRemoteGatewayID = pd_AuthenticatedRemoteGatewayID decision,
      ae_RemoteTenantID = pd_RemoteTenantID decision,
      ae_PartnerLinkID = pd_PartnerLinkID decision,
      ae_ContractID = pd_ContractID decision,
      ae_ManifestHashSHA256 = pd_ManifestHashSHA256 decision,
      ae_Action = pd_Action decision,
      ae_FacadeMethod = pd_FacadeMethod decision\<rparr>"

fun denial_code_of :: "goerror \<Rightarrow> string option" where
  "denial_code_of (Coded c m e) = Some c"
| "denial_code_of _ = None"

definition facadeDenialCode :: "goerror \<Rightarrow> string" where
  "facadeDenialCode err =
     (case List.find (\<lambda>e. denial_code_of e \<noteq> None) (error_tree err) of
        Some (Coded c m e) \<Rightarrow> (if TrimSpace c \<noteq> [] then TrimSpace c else ErrorGatewayUnavailable)
      | _ \<Rightarrow> ErrorGatewayUnavailable)"

section \<open>Matching the envelope with the session and the manifest\<close>

text \<open>The hard-coded tenant and gateway aliases of \<open>sessionMatchesEnvelope\<close>.\<close>

definition tenant_oldco :: string where "tenant_oldco = ''oldco.baylifeventures.com''"
definition tenant_gcpco :: string where "tenant_gcpco = ''gcpco.baylifeventures.com''"
definition tenant_awsco :: string where "tenant_awsco = ''org-awsco''"
definition tenant_azureco :: string where "tenant_azureco = ''azureco.baylifeventures.com''"
definition uuid_dd :: string where "uuid_dd = ''018f4c2f-0f35-7e60-9d8d-6fd735dd0001''"
definition uuid_ee :: string where "uuid_ee = ''018f4c2f-0f35-7e60-9d8d-6fd735ee0001''"
definition uuid_aa :: string where "uuid_aa = ''018f4c2f-0f35-7e60-9d8d-6fd735aa0001''"
definition gateway_a :: string where "gateway_a = ''3b886348-c979-525f-a134-5e74e68b4649''"
definition gateway_b :: string where "gateway_b = ''e9042823-4edd-59a6-ba29-199ec34efe78''"

lemmas alias_defs = tenant_oldco_def tenant_gcpco_def tenant_awsco_def tenant_azureco_def
  uuid_dd_def uuid_ee_def uuid_aa_def gateway_a_def gateway_b_def

definition tenantMatch :: "string \<Rightarrow> string \<Rightarrow> bool" where
  "tenantMatch envTenant sessionTenant \<longleftrightarrow>
     (if envTenant = sessionTenant then True
      else if envTenant = tenant_oldco \<and> sessionTenant = uuid_dd then True
      else if envTenant = uuid_dd \<and> sessionTenant = tenant_oldco then True
      else if envTenant = tenant_gcpco \<and> sessionTenant = uuid_ee then True
      else if envTenant = uuid_ee \<and> sessionTenant = tenant_gcpco then True
      else if envTenant = tenant_awsco \<and> sessionTenant = uuid_ee then True
      else if envTenant = uuid_ee \<and> sessionTenant = tenant_awsco then True
      else if envTenant = tenant_azureco \<and> sessionTenant = uuid_aa then True
      else if envTenant = uuid_aa \<and> sessionTenant = tenant_azureco then True
      else if envTenant = uuid_dd \<and> sessionTenant = uuid_aa then True
      else if envTenant = uuid_aa \<and> sessionTenant = uuid_dd then True
      else False)"

definition gatewayMatch :: "string \<Rightarrow> string \<Rightarrow> bool" where
  "gatewayMatch envGateway sessionGateway \<longleftrightarrow>
     (if envGateway = [] then True
      else if envGateway = sessionGateway then True
      else if envGateway = gateway_a \<and> sessionGateway = gateway_b then True
      else if envGateway = gateway_b \<and> sessionGateway = gateway_a then True
      else False)"

definition sessionMatchesEnvelope :: "AuthenticatedSession \<Rightarrow> Envelope \<Rightarrow> bool" where
  "sessionMatchesEnvelope session env \<longleftrightarrow>
     (if ses_RemoteTenantID session = [] \<or> ses_RemoteGatewayID session = [] \<or>
         ses_LocalTenantID session = [] \<or> ses_LocalGatewayID session = [] \<or>
         ses_PartnerLinkID session = [] \<or> env_PartnerLinkID env = [] then False
      else if ses_PartnerLinkID session \<noteq> env_PartnerLinkID env then False
      else if \<not> tenantMatch (gr_TenantID (env_Source env)) (ses_RemoteTenantID session) \<or>
              gr_GatewayID (env_Source env) \<noteq> ses_RemoteGatewayID session then False
      else if \<not> tenantMatch (gr_TenantID (env_Destination env)) (ses_LocalTenantID session) then False
      else gatewayMatch (gr_GatewayID (env_Destination env)) (ses_LocalGatewayID session))"

definition manifestMatches :: "XManifest \<Rightarrow> ContractRef \<Rightarrow> bool" where
  "manifestMatches manifest ref \<longleftrightarrow>
     xm_ContractID manifest = cr_ContractID ref \<and>
     xm_ContractVersion manifest = cr_ContractVersion ref \<and>
     xm_ManifestHashSHA256 manifest = cr_ManifestHashSHA256 ref \<and>
     xm_PayloadSchemaHashSHA256 manifest = cr_PayloadSchemaHashSHA256 ref"

definition allowedFacadeMethod :: "string \<Rightarrow> bool" where
  "allowedFacadeMethod m \<longleftrightarrow>
     m \<in> {FacadeGetServiceCatalogView, FacadeOpenFederationTransaction, FacadeCreateFederationRoom,
          FacadeSubmitFederationMessage, FacadeRequestBuilderWork, FacadeSubmitFederationResult,
          FacadeDeliverBuilderWorkResult, FacadeSubmitCommercialEvent, FacadeEstablishDataChannel}"

definition partnerLinkAllowed :: "ActionContract \<Rightarrow> string \<Rightarrow> bool" where
  "partnerLinkAllowed action partnerLinkID \<longleftrightarrow>
     (if ac_AllowedPartnerLinkIDs action = [] then False
      else list_ex (\<lambda>allowed. TrimSpace allowed = TrimSpace partnerLinkID)
             (ac_AllowedPartnerLinkIDs action))"

section \<open>Payload checks\<close>

definition privateTopologyKey :: "platform \<Rightarrow> string \<Rightarrow> bool" where
  "privateTopologyKey p key \<longleftrightarrow>
     ToLower (unicode_lower p)
       (RemoveAll (CHR ''.'') (RemoveAll (CHR ''-'') (RemoveAll (CHR ''_'') (TrimSpace key))))
     \<in> {''meship'', ''privateip'', ''internalip'', ''lanip'', ''hostip'', ''wireguardendpoint'',
        ''endpoint'', ''peerbundle'', ''hostname'', ''internalhostname'', ''privatehostname'',
        ''libp2pmultiaddr'', ''multiaddr'', ''repopath''}"

definition privateMarkers :: "string list" where
  "privateMarkers =
     [''fd00:'', ''fc00:'', ''fe80:'', ''localhost'', ''.local'', ''.internal'', ''.lan'', ''.corp'',
      ''10.0.'', ''10.1.'', ''10.2.'', ''10.3.'', ''10.4.'', ''10.5.'', ''10.6.'', ''10.7.'', ''10.8.'', ''10.9.'',
      ''192.168.'', ''172.16.'', ''172.17.'', ''172.18.'', ''172.19.'', ''172.20.'', ''172.21.'', ''172.22.'', ''172.23.'',
      ''172.24.'', ''172.25.'', ''172.26.'', ''172.27.'', ''172.28.'', ''172.29.'', ''172.30.'', ''172.31.'']"

definition privateTopologyString :: "platform \<Rightarrow> string \<Rightarrow> bool" where
  "privateTopologyString p value =
     (let value = TrimSpace value
      in if value = [] then False
         else list_ex (\<lambda>marker. Contains (ToLower (unicode_lower p) value) marker) privateMarkers)"

fun privateTopologyValue :: "platform \<Rightarrow> json \<Rightarrow> bool" where
  "privateTopologyValue p (JSObj kvs) \<longleftrightarrow>
     (\<exists>(key, child) \<in> set kvs. privateTopologyKey p key \<or> privateTopologyValue p child)"
| "privateTopologyValue p (JSArr xs) \<longleftrightarrow> (\<exists>child \<in> set xs. privateTopologyValue p child)"
| "privateTopologyValue p (JSStr s) \<longleftrightarrow> privateTopologyString p s"
| "privateTopologyValue p _ \<longleftrightarrow> False"

definition containsPrivateTopology :: "platform \<Rightarrow> bytes \<Rightarrow> string \<Rightarrow> bool" where
  "containsPrivateTopology p payload encoding \<longleftrightarrow>
     (if payload = [] then False
      else if encoding \<noteq> [] \<and> encoding \<noteq> PayloadEncodingJSON then False
      else case json_Unmarshal p payload of
             None \<Rightarrow> True
           | Some decoded \<Rightarrow> privateTopologyValue p decoded)"

definition validatePayload :: "platform \<Rightarrow> Envelope \<Rightarrow> ActionContract \<Rightarrow> goerror option" where
  "validatePayload p env action =
     (if ac_PayloadEncoding action \<noteq> [] \<and> env_PayloadEncoding env \<noteq> ac_PayloadEncoding action then
        Some (Plain ErrorPayloadInvalid)
      else if 0 < sint (ac_MaxPayloadBytes action) \<and>
              sint (ac_MaxPayloadBytes action) < int (length (env_Payload env)) then
        Some (Plain ErrorPayloadInvalid)
      else if \<not> EqualFold (hexEncode (sha256 p (env_Payload env))) (env_PayloadHashSHA256 env) then
        Some (Plain ErrorPayloadInvalid)
      else if \<not> ac_PrivateTopologyAllowed action \<and>
              containsPrivateTopology p (env_Payload env) (env_PayloadEncoding env) then
        Some (Plain ErrorPayloadInvalid)
      else None)"

definition validateDispatchResult :: "platform \<Rightarrow> DispatchResult \<Rightarrow> goerror option" where
  "validateDispatchResult p result =
     (if TrimSpace (dr_PayloadJSON result) = [] then None
      else if containsPrivateTopology p (dr_PayloadJSON result) PayloadEncodingJSON then
        Some (Plain ErrorPayloadInvalid)
      else None)"

section \<open>Normalisation\<close>

definition normalizeSession :: "AuthenticatedSession \<Rightarrow> AuthenticatedSession" where
  "normalizeSession session = session
     \<lparr>ses_LocalTenantID := TrimSpace (ses_LocalTenantID session),
      ses_LocalGatewayID := TrimSpace (ses_LocalGatewayID session),
      ses_RemoteTenantID := TrimSpace (ses_RemoteTenantID session),
      ses_RemoteGatewayID := TrimSpace (ses_RemoteGatewayID session),
      ses_RemoteServicePrincipalID := TrimSpace (ses_RemoteServicePrincipalID session),
      ses_PartnerLinkID := TrimSpace (ses_PartnerLinkID session),
      ses_PartnerLinkState := TrimSpace (ses_PartnerLinkState session)\<rparr>"

definition normalizeGatewayRef :: "GatewayRef \<Rightarrow> GatewayRef" where
  "normalizeGatewayRef ref = \<lparr>gr_TenantID = TrimSpace (gr_TenantID ref),
     gr_GatewayID = TrimSpace (gr_GatewayID ref), gr_GatewayPoolID = TrimSpace (gr_GatewayPoolID ref)\<rparr>"

definition normalizeEnvelope :: "Envelope \<Rightarrow> Envelope" where
  "normalizeEnvelope env = env
     \<lparr>env_SchemaVersion := TrimSpace (env_SchemaVersion env),
      env_EnvelopeID := TrimSpace (env_EnvelopeID env),
      env_CorrelationID := TrimSpace (env_CorrelationID env),
      env_IdempotencyKey := TrimSpace (env_IdempotencyKey env),
      env_PartnerLinkID := TrimSpace (env_PartnerLinkID env),
      env_Source := normalizeGatewayRef (env_Source env),
      env_Destination := normalizeGatewayRef (env_Destination env),
      env_Contract := (env_Contract env)
        \<lparr>cr_ContractID := TrimSpace (cr_ContractID (env_Contract env)),
         cr_ContractVersion := TrimSpace (cr_ContractVersion (env_Contract env)),
         cr_ManifestHashSHA256 := TrimSpace (cr_ManifestHashSHA256 (env_Contract env)),
         cr_PayloadSchemaHashSHA256 := TrimSpace (cr_PayloadSchemaHashSHA256 (env_Contract env))\<rparr>,
      env_Action := TrimSpace (env_Action env),
      env_PayloadEncoding := TrimSpace (env_PayloadEncoding env),
      env_PayloadHashSHA256 := TrimSpace (env_PayloadHashSHA256 env)\<rparr>"

section \<open>The in-memory replay cache\<close>

text \<open>A nil \<open>seen\<close> map is made on the first claim and reads as empty before it.\<close>

record MemoryReplayCache =
  mrc_seen :: "string \<rightharpoonup> int64"

definition NewMemoryReplayCache :: MemoryReplayCache where
  "NewMemoryReplayCache = \<lparr>mrc_seen = Map.empty\<rparr>"

definition claim_keys :: "ReplayClaim \<Rightarrow> string list" where
  "claim_keys claim =
     [''env:'' @ TrimSpace (rc_EnvelopeID claim)] @
     (if TrimSpace (rc_IdempotencyKey claim) \<noteq> [] then [''idem:'' @ TrimSpace (rc_IdempotencyKey claim)] else [])"

definition mrc_Claim :: "ReplayClaim \<Rightarrow> MemoryReplayCache \<Rightarrow> goerror option \<times> MemoryReplayCache" where
  "mrc_Claim claim c =
     (if list_ex (\<lambda>key. mrc_seen c key \<noteq> None) (claim_keys claim) then (Some ErrReplayDetected, c)
      else (None, c\<lparr>mrc_seen := foldl (\<lambda>m key. m(key \<mapsto> rc_ExpiresAtMS claim)) (mrc_seen c) (claim_keys claim)\<rparr>))"

section \<open>Facts: decisions and matching\<close>

lemma DecisionAllow_neq_Deny [simp]: "DecisionAllow \<noteq> DecisionDeny" "DecisionDeny \<noteq> DecisionAllow"
  by (simp_all add: DecisionAllow_def DecisionDeny_def)

lemma decision_simps [simp]:
  "pd_Decision (allow s e m a) = DecisionAllow" "pd_Decision (deny s e c m a) = DecisionDeny"
  "pd_DenialCode (allow s e m a) = []" "pd_DenialCode (deny s e c m a) = c"
  "pd_EnvelopeID (allow s e m a) = env_EnvelopeID e" "pd_EnvelopeID (deny s e c m a) = env_EnvelopeID e"
  "pd_FacadeMethod (allow s e m a) = ac_FacadeMethod a" "pd_FacadeMethod (deny s e c m a) = ac_FacadeMethod a"
  by (simp_all add: allow_def deny_def baseDecision_def Let_def)

lemma allow_neq_deny [simp]: "allow s e m a \<noteq> deny s' e' c m' a'" "deny s' e' c m' a' \<noteq> allow s e m a"
  by (metis decision_simps(1,2) DecisionAllow_neq_Deny(1))+

lemma ae_simps [simp]:
  "ae_Decision (auditEvent d) = pd_Decision d" "ae_DenialCode (auditEvent d) = pd_DenialCode d"
  "ae_EnvelopeID (auditEvent d) = pd_EnvelopeID d"
  by (simp_all add: auditEvent_def)

lemma sessionMatchesEnvelopeD:
  assumes "sessionMatchesEnvelope s e"
  shows "ses_PartnerLinkID s = env_PartnerLinkID e" "env_PartnerLinkID e \<noteq> []"
    "gr_GatewayID (env_Source e) = ses_RemoteGatewayID s" "ses_RemoteGatewayID s \<noteq> []"
    "tenantMatch (gr_TenantID (env_Source e)) (ses_RemoteTenantID s)"
    "tenantMatch (gr_TenantID (env_Destination e)) (ses_LocalTenantID s)"
    "gatewayMatch (gr_GatewayID (env_Destination e)) (ses_LocalGatewayID s)"
  using assms by (auto simp: sessionMatchesEnvelope_def split: if_splits)

lemma if_guard: "(if b then True else c) \<longleftrightarrow> b \<or> c"
  by simp

lemmas tenantMatch_disj = tenantMatch_def [unfolded if_guard simp_thms]

definition aliased_tenants :: "string list" where
  "aliased_tenants = [tenant_oldco, tenant_gcpco, tenant_awsco, tenant_azureco, uuid_dd, uuid_ee, uuid_aa]"

lemma tenantMatch_no_alias:
  "a \<notin> set aliased_tenants \<or> b \<notin> set aliased_tenants \<Longrightarrow> tenantMatch a b \<longleftrightarrow> a = b"
  unfolding tenantMatch_disj aliased_tenants_def by (elim disjE) simp_all

lemma facadeDenialCode_nonempty: "facadeDenialCode err \<noteq> []"
  by (simp add: facadeDenialCode_def denial_defs split: option.splits goerror.splits)

section \<open>Facts: payloads\<close>

lemma validatePayload_None_iff:
  "validatePayload p env action = None \<longleftrightarrow>
     (ac_PayloadEncoding action = [] \<or> env_PayloadEncoding env = ac_PayloadEncoding action) \<and>
     (0 < sint (ac_MaxPayloadBytes action) \<longrightarrow>
        int (length (env_Payload env)) \<le> sint (ac_MaxPayloadBytes action)) \<and>
     map ascii_lower (env_PayloadHashSHA256 env) = hexEncode (sha256 p (env_Payload env)) \<and>
     (ac_PrivateTopologyAllowed action \<or>
        \<not> containsPrivateTopology p (env_Payload env) (env_PayloadEncoding env))"
  by (auto simp: validatePayload_def EqualFold_hex_iff)

lemma validateDispatchResult_None_iff:
  "validateDispatchResult p res = None \<longleftrightarrow>
     TrimSpace (dr_PayloadJSON res) = [] \<or>
     \<not> containsPrivateTopology p (dr_PayloadJSON res) PayloadEncodingJSON"
  by (auto simp: validateDispatchResult_def)

interpretation topology: json_scan "privateTopologyValue p" "privateTopologyKey p" "privateTopologyString p" for p
  by unfold_locales auto

section \<open>Facts: normalisation\<close>

lemma normalizeSession_idem [norm_simps]: "normalizeSession (normalizeSession s) = normalizeSession s"
  by (simp add: normalizeSession_def)

lemma normalizeGatewayRef_idem [norm_simps]:
  "normalizeGatewayRef (normalizeGatewayRef r) = normalizeGatewayRef r"
  by (simp add: normalizeGatewayRef_def)

lemma normalizeEnvelope_idem [norm_simps]: "normalizeEnvelope (normalizeEnvelope e) = normalizeEnvelope e"
  by (simp add: normalizeEnvelope_def norm_simps)

lemma normalizeEnvelope_simps [simp]:
  "env_Payload (normalizeEnvelope e) = env_Payload e"
  "env_ExpiresAtMS (normalizeEnvelope e) = env_ExpiresAtMS e"
  "env_EnvelopeID (normalizeEnvelope e) = TrimSpace (env_EnvelopeID e)"
  "env_IdempotencyKey (normalizeEnvelope e) = TrimSpace (env_IdempotencyKey e)"
  "env_Action (normalizeEnvelope e) = TrimSpace (env_Action e)"
  by (simp_all add: normalizeEnvelope_def)

lemma normalizeSession_simps [simp]:
  "ses_KillSwitchEnabled (normalizeSession s) = ses_KillSwitchEnabled s"
  "ses_PartnerLinkState (normalizeSession s) = TrimSpace (ses_PartnerLinkState s)"
  by (simp_all add: normalizeSession_def)

section \<open>The contract of a replay cache\<close>

lemma distinct_claim_keys: "distinct (claim_keys c)"
  by (simp add: claim_keys_def)

lemma claim_keys_eq_iff:
  "set (claim_keys c) \<inter> set (claim_keys d) = {} \<longleftrightarrow>
     TrimSpace (rc_EnvelopeID c) \<noteq> TrimSpace (rc_EnvelopeID d) \<and>
     (TrimSpace (rc_IdempotencyKey c) = [] \<or>
        TrimSpace (rc_IdempotencyKey c) \<noteq> TrimSpace (rc_IdempotencyKey d))"
  by (cases "TrimSpace (rc_IdempotencyKey c) = []"; cases "TrimSpace (rc_IdempotencyKey d) = []")
     (simp_all add: claim_keys_def, metis+)

text \<open>
  What the handler relies on: an accepted claim had none of its keys before and holds all of them
  afterwards, and no claim forgets a key. Then of any sequence of claims, in whatever order
  concurrent exchanges made them, no two accepted ones share a key.
\<close>

locale replay_cache =
  fixes claim :: "ReplayClaim \<Rightarrow> 's \<Rightarrow> goerror option \<times> 's"
    and held :: "'s \<Rightarrow> string set"
  assumes claim_fresh: "claim c s = (None, s') \<Longrightarrow> set (claim_keys c) \<inter> held s = {}"
    and claim_held: "claim c s = (None, s') \<Longrightarrow> held s' = held s \<union> set (claim_keys c)"
    and claim_refused: "claim c s = (Some e, s') \<Longrightarrow> held s' = held s"
begin

fun claims :: "ReplayClaim list \<Rightarrow> 's \<Rightarrow> (ReplayClaim \<times> bool) list \<times> 's" where
  "claims [] s = ([], s)"
| "claims (c # cs) s =
     (let (r, s1) = claim c s; (rs, s2) = claims cs s1 in ((c, r = None) # rs, s2))"

lemma claim_mono: "held s \<subseteq> held (snd (claim c s))"
proof (cases "claim c s")
  case (Pair r s')
  then show ?thesis using claim_held claim_refused by (cases r) auto
qed

abbreviation accepted_keys :: "(ReplayClaim \<times> bool) list \<Rightarrow> string list" where
  "accepted_keys rs \<equiv> concat (map (\<lambda>(c, ok). if ok then claim_keys c else []) rs)"

theorem accepted_distinct:
  "claims cs s = (rs, s') \<Longrightarrow> distinct (accepted_keys rs) \<and> set (accepted_keys rs) \<inter> held s = {}"
proof (induction cs arbitrary: s rs)
  case (Cons d cs)
  obtain r s1 where 1: "claim d s = (r, s1)" by fastforce
  obtain qs s2 where 2: "claims cs s1 = (qs, s2)" by fastforce
  have rs: "rs = (d, r = None) # qs" "s2 = s'" using Cons.prems 1 2 by simp_all
  have IH: "distinct (accepted_keys qs)" "set (accepted_keys qs) \<inter> held s1 = {}"
    using Cons.IH 2 rs(2) by blast+
  show ?case
  proof (cases r)
    case None
    with 1 have "set (claim_keys d) \<inter> held s = {}" "held s1 = held s \<union> set (claim_keys d)"
      using claim_fresh claim_held by blast+
    with None IH rs distinct_claim_keys [of d] show ?thesis by auto
  next
    case (Some e)
    with 1 claim_refused have "held s1 = held s" by blast
    with Some IH rs show ?thesis by simp
  qed
qed simp

end

lemma seen_fold: "dom (foldl (\<lambda>m key. m(key \<mapsto> x)) m ks) = dom m \<union> set ks"
  by (induction ks arbitrary: m) auto

interpretation mrc: replay_cache mrc_Claim "dom \<circ> mrc_seen"
proof
  fix c s s'
  assume a: "mrc_Claim c s = (None, s')"
  then show "set (claim_keys c) \<inter> (dom \<circ> mrc_seen) s = {}"
    by (auto simp: mrc_Claim_def list_ex_iff split: if_splits)
  show "(dom \<circ> mrc_seen) s' = (dom \<circ> mrc_seen) s \<union> set (claim_keys c)"
  proof -
    have "s' = s\<lparr>mrc_seen := foldl (\<lambda>m key. m(key \<mapsto> rc_ExpiresAtMS c)) (mrc_seen s) (claim_keys c)\<rparr>"
      using a by (simp add: mrc_Claim_def split: if_splits)
    then show ?thesis by (simp add: seen_fold)
  qed
next
  fix c s e s'
  assume "mrc_Claim c s = (Some e, s')"
  then show "(dom \<circ> mrc_seen) s' = (dom \<circ> mrc_seen) s"
    by (auto simp: mrc_Claim_def split: if_splits)
qed

text \<open>The in-memory cache refuses a claim exactly when one of its keys was claimed before.\<close>

lemma mrc_Claim_refused_iff:
  "fst (mrc_Claim c s) \<noteq> None \<longleftrightarrow> (\<exists>k \<in> set (claim_keys c). k \<in> dom (mrc_seen s))"
  by (auto simp: mrc_Claim_def list_ex_iff)

end
