(* ===== verification/ExchangeHandler.thy ===== *)
theory ExchangeHandler
  imports Exchange "HOL-Library.State_Monad"
begin

text \<open>
  The \<open>Handler\<close> of \<open>contracts/exchange\<close>: the preflights, the dispatch to the facade and the
  manifest discovery of \<open>discovery.go\<close>. The interfaces the handler holds are functions on the
  state \<open>'x\<close> of their implementations, nil ones \<open>None\<close>; the handler is a program of the state monad
  over that state and a log of the interface calls with their answers. The log is an observation of
  the run and decides nothing, so "the facade is reached only after \<dots>" is a statement about it.
\<close>

section \<open>Definitions\<close>

record SignedManifestDocument =
  smd_ManifestID :: string
  smd_CatalogVersion :: string
  smd_SigningKeyID :: string
  smd_ManifestHashSHA256 :: string
  smd_Document :: "char slice"

datatype call =
    ResolveManifest ContractRef "goerror + XManifest"
  | AuthorizeContractApproval ContractApprovalCheck "goerror option"
  | ReadClock int64
  | ValidateGatewayExchangePayload PayloadValidationInput "goerror option"
  | AuthorizeGatewayExchange PolicyCheck "goerror option"
  | Claim ReplayClaim "goerror option"
  | DiscoverSignedManifests AuthenticatedSession "goerror + SignedManifestDocument slice"
  | RecordExchangeAudit AuditEvent "goerror option"
  | FacadeCall string AcceptedEnvelope "goerror + DispatchResult"

record 'x world =
  w_state :: 'x
  w_calls :: "call list"

type_synonym ('a, 'r, 'x) gomethod = "'a \<Rightarrow> 'x \<Rightarrow> 'r \<times> 'x"
type_synonym 'x facade_gomethod = "(AcceptedEnvelope, goerror + DispatchResult, 'x) gomethod"

text \<open>The facade; \<open>None\<close> for \<open>fc_EstablishDataChannel\<close> when it is no \<open>DataChannelFacade\<close>.\<close>

record 'x Facade =
  fc_GetServiceCatalogView :: "'x facade_gomethod"
  fc_OpenFederationTransaction :: "'x facade_gomethod"
  fc_CreateFederationRoom :: "'x facade_gomethod"
  fc_SubmitFederationMessage :: "'x facade_gomethod"
  fc_RequestBuilderWork :: "'x facade_gomethod"
  fc_SubmitFederationResult :: "'x facade_gomethod"
  fc_DeliverBuilderWorkResult :: "'x facade_gomethod"
  fc_SubmitCommercialEvent :: "'x facade_gomethod"
  fc_EstablishDataChannel :: "'x facade_gomethod option"

text \<open>The handler; \<open>h_timeNow\<close> stands for \<open>time.Now().UnixMilli\<close>, read when \<open>NowMS\<close> is nil.\<close>

record 'x Handler =
  h_Manifests :: "(ContractRef, goerror + XManifest, 'x) gomethod option"
  h_Replay :: "(ReplayClaim, goerror option, 'x) gomethod option"
  h_Policy :: "(PolicyCheck, goerror option, 'x) gomethod option"
  h_Payloads :: "(PayloadValidationInput, goerror option, 'x) gomethod option"
  h_Approvals :: "(ContractApprovalCheck, goerror option, 'x) gomethod option"
  h_Facade :: "'x Facade option"
  h_Discovery :: "(AuthenticatedSession, goerror + SignedManifestDocument slice, 'x) gomethod option"
  h_Audit :: "(AuditEvent, goerror option, 'x) gomethod option"
  h_NowMS :: "(unit, int64, 'x) gomethod option"
  h_timeNow :: "(unit, int64, 'x) gomethod"
  h_ClockSkewMS :: int64

definition invoke :: "('a, 'r, 'x) gomethod \<Rightarrow> ('a \<Rightarrow> 'r \<Rightarrow> call) \<Rightarrow> 'a \<Rightarrow> ('x world, 'r) state" where
  "invoke f tag a = State (\<lambda>w. let (r, x) = f a (w_state w)
     in (r, w\<lparr>w_state := x, w_calls := w_calls w @ [tag a r]\<rparr>))"

definition now :: "'x Handler \<Rightarrow> ('x world, int64) state" where
  "now h = invoke (case h_NowMS h of Some f \<Rightarrow> f | None \<Rightarrow> h_timeNow h) (\<lambda>_. ReadClock) ()"

definition resolveManifest :: "'x Handler \<Rightarrow> ContractRef \<Rightarrow> ('x world, goerror + XManifest) state" where
  "resolveManifest h ref =
     (case h_Manifests h of
        None \<Rightarrow> State_Monad.return (Inl ErrManifestNotFound)
      | Some f \<Rightarrow> invoke f ResolveManifest ref)"

definition validateContractPayload ::
  "'x Handler \<Rightarrow> Envelope \<Rightarrow> ActionContract \<Rightarrow> ('x world, goerror option) state" where
  "validateContractPayload h env action =
     (case h_Payloads h of
        None \<Rightarrow> State_Monad.return (Some (Plain ErrorPayloadInvalid))
      | Some f \<Rightarrow> invoke f ValidateGatewayExchangePayload
          \<lparr>pv_Contract = env_Contract env, pv_Action = action, pv_Payload = env_Payload env\<rparr>)"

definition authorizeContractApproval ::
  "'x Handler \<Rightarrow> AuthenticatedSession \<Rightarrow> Envelope \<Rightarrow> XManifest \<Rightarrow> ActionContract
     \<Rightarrow> ('x world, goerror option) state" where
  "authorizeContractApproval h session env manifest action =
     (case h_Approvals h of
        None \<Rightarrow> State_Monad.return None
      | Some f \<Rightarrow> invoke f AuthorizeContractApproval
          \<lparr>pc_Session = session, pc_Envelope = env, pc_Manifest = manifest, pc_Action = action\<rparr>)"

definition authorizePolicy ::
  "'x Handler \<Rightarrow> AuthenticatedSession \<Rightarrow> Envelope \<Rightarrow> XManifest \<Rightarrow> ActionContract
     \<Rightarrow> ('x world, goerror option) state" where
  "authorizePolicy h session env manifest action =
     (case h_Policy h of
        None \<Rightarrow> State_Monad.return (Some (Plain ErrorPolicyDenied))
      | Some f \<Rightarrow> invoke f AuthorizeGatewayExchange
          \<lparr>pc_Session = session, pc_Envelope = env, pc_Manifest = manifest, pc_Action = action\<rparr>)"

definition env_claim :: "Envelope \<Rightarrow> ReplayClaim" where
  "env_claim env = \<lparr>rc_EnvelopeID = env_EnvelopeID env, rc_IdempotencyKey = env_IdempotencyKey env,
     rc_ExpiresAtMS = env_ExpiresAtMS env\<rparr>"

text \<open>The comparison \<open>now > expires + skew\<close> on \<open>int64\<close>; the sum wraps.\<close>

definition past :: "int64 \<Rightarrow> int64 \<Rightarrow> int64 \<Rightarrow> bool" where
  "past t expires skew \<longleftrightarrow> sint (expires + skew) < sint t"

definition preflight ::
  "platform \<Rightarrow> 'x Handler \<Rightarrow> AuthenticatedSession \<Rightarrow> Envelope
     \<Rightarrow> ('x world, PreflightDecision \<times> XManifest \<times> ActionContract) state" where
  "preflight p h session env =
     (let refuse0 = (\<lambda>code. State_Monad.return
            (deny session env code zero_Manifest zero_ActionContract, zero_Manifest, zero_ActionContract))
      in if env_SchemaVersion env \<noteq> SchemaGatewayExchangeV1 then refuse0 ErrorPayloadInvalid
      else if \<not> sessionMatchesEnvelope session env then refuse0 ErrorUnauthenticated
      else if ses_KillSwitchEnabled session then refuse0 ErrorKillSwitch
      else if ses_PartnerLinkState session \<noteq> PartnerLinkActive then refuse0 ErrorPartnerLinkDenied
      else do {
        resolved \<leftarrow> resolveManifest h (env_Contract env);
        case resolved of
          Inl err \<Rightarrow> refuse0 ErrorContractUnknown
        | Inr manifest \<Rightarrow>
            (let found = xm_Actions manifest (env_Action env);
                 action = (case found of None \<Rightarrow> zero_ActionContract | Some a \<Rightarrow> a);
                 refuse = (\<lambda>code. State_Monad.return (deny session env code manifest action, manifest, action))
             in if \<not> manifestMatches manifest (env_Contract env) \<or> xm_Revoked manifest \<or> found = None \<or>
                   \<not> allowedFacadeMethod (ac_FacadeMethod action) \<or>
                   \<not> partnerLinkAllowed action (env_PartnerLinkID env) then refuse ErrorContractMismatch
             else do {
               approval \<leftarrow> authorizeContractApproval h session env manifest action;
               if approval \<noteq> None then refuse ErrorContractMismatch
               else do {
                 t \<leftarrow> now h;
                 if sint (env_ExpiresAtMS env) \<le> 0 \<or> past t (env_ExpiresAtMS env) (h_ClockSkewMS h) \<or>
                    (0 < sint (xm_ExpiresAtMS manifest) \<and>
                     past t (xm_ExpiresAtMS manifest) (h_ClockSkewMS h)) then refuse ErrorExpired
                 else if (ac_Mutating action \<or> ac_IdempotencyRequired action) \<and>
                         env_IdempotencyKey env = [] then refuse ErrorReplayDetected
                 else if validatePayload p env action \<noteq> None then refuse ErrorPayloadInvalid
                 else do {
                   payload \<leftarrow> validateContractPayload h env action;
                   if payload \<noteq> None then refuse ErrorPayloadInvalid
                   else do {
                     policy \<leftarrow> authorizePolicy h session env manifest action;
                     if policy \<noteq> None then refuse ErrorPolicyDenied
                     else case h_Replay h of
                       Some f \<Rightarrow> do {
                         replay \<leftarrow> invoke f Claim (env_claim env);
                         if replay \<noteq> None then refuse ErrorReplayDetected
                         else State_Monad.return (allow session env manifest action, manifest, action)
                       }
                     | None \<Rightarrow>
                         if ac_Mutating action \<or> ac_IdempotencyRequired action then
                           refuse ErrorReplayUnavailable
                         else State_Monad.return (allow session env manifest action, manifest, action)
                   }
                 }
               }
             })
      })"

definition preflightManifestIndependent ::
  "'x Handler \<Rightarrow> AuthenticatedSession \<Rightarrow> Envelope \<Rightarrow> ActionContract
     \<Rightarrow> ('x world, PreflightDecision \<times> XManifest \<times> ActionContract) state" where
  "preflightManifestIndependent h session env action =
     (let refuse = (\<lambda>code. State_Monad.return
            (deny session env code zero_Manifest action, zero_Manifest, action))
      in if env_SchemaVersion env \<noteq> SchemaGatewayExchangeV1 then refuse ErrorPayloadInvalid
      else if \<not> sessionMatchesEnvelope session env then refuse ErrorUnauthenticated
      else if ses_KillSwitchEnabled session then refuse ErrorKillSwitch
      else if ses_PartnerLinkState session \<noteq> PartnerLinkActive then refuse ErrorPartnerLinkDenied
      else do {
        t \<leftarrow> now h;
        if sint (env_ExpiresAtMS env) \<le> 0 \<or> past t (env_ExpiresAtMS env) (h_ClockSkewMS h) then
          refuse ErrorExpired
        else case h_Replay h of
          Some f \<Rightarrow> do {
            replay \<leftarrow> invoke f Claim (env_claim env);
            if replay \<noteq> None then refuse ErrorReplayDetected
            else State_Monad.return (allow session env zero_Manifest action, zero_Manifest, action)
          }
        | None \<Rightarrow> State_Monad.return (allow session env zero_Manifest action, zero_Manifest, action)
      })"

definition dispatch ::
  "'x Facade \<Rightarrow> AcceptedEnvelope \<Rightarrow> ('x world, goerror + DispatchResult) state" where
  "dispatch f accepted =
     (let m = ac_FacadeMethod (acc_Action accepted)
      in if m = FacadeGetServiceCatalogView then
           invoke (fc_GetServiceCatalogView f) (FacadeCall m) accepted
      else if m = FacadeOpenFederationTransaction then
           invoke (fc_OpenFederationTransaction f) (FacadeCall m) accepted
      else if m = FacadeCreateFederationRoom then
           invoke (fc_CreateFederationRoom f) (FacadeCall m) accepted
      else if m = FacadeSubmitFederationMessage then
           invoke (fc_SubmitFederationMessage f) (FacadeCall m) accepted
      else if m = FacadeRequestBuilderWork then
           invoke (fc_RequestBuilderWork f) (FacadeCall m) accepted
      else if m = FacadeSubmitFederationResult then
           invoke (fc_SubmitFederationResult f) (FacadeCall m) accepted
      else if m = FacadeDeliverBuilderWorkResult then
           invoke (fc_DeliverBuilderWorkResult f) (FacadeCall m) accepted
      else if m = FacadeSubmitCommercialEvent then
           invoke (fc_SubmitCommercialEvent f) (FacadeCall m) accepted
      else if m = FacadeEstablishDataChannel then
        (case fc_EstablishDataChannel f of
           None \<Rightarrow> State_Monad.return (Inl (app_New CodeNotFoundOrUnauthorized ''federation_exchange''
                     ''data channel facade not supported''))
         | Some g \<Rightarrow> invoke g (FacadeCall m) accepted)
      else State_Monad.return (Inl (app_New CodeNotFoundOrUnauthorized ''federation_exchange''
             ''facade method is not allowed'')))"

definition audit :: "'x Handler \<Rightarrow> PreflightDecision \<Rightarrow> ('x world, goerror option) state" where
  "audit h decision =
     (case h_Audit h of
        None \<Rightarrow> State_Monad.return (Some (app_New CodeStorageUnavailable ''federation_exchange''
                  ''exchange audit sink is required''))
      | Some f \<Rightarrow> invoke f RecordExchangeAudit (auditEvent decision))"

text \<open>The recurring \<open>if err := h.audit(ctx, decision); err != nil { return Response{}, err }; return r, nil\<close>.\<close>

definition audited ::
  "'x Handler \<Rightarrow> PreflightDecision \<Rightarrow> Response \<Rightarrow> ('x world, goerror + Response) state" where
  "audited h decision r = do {
     err \<leftarrow> audit h decision;
     case err of Some e \<Rightarrow> State_Monad.return (Inl e) | None \<Rightarrow> State_Monad.return (Inr r)
   }"

definition denial_response :: "PreflightDecision \<Rightarrow> Response" where
  "denial_response d = \<lparr>rsp_Decision = d, rsp_Result = zero_DispatchResult, rsp_Error = None\<rparr>"

definition error_response :: "PreflightDecision \<Rightarrow> string \<Rightarrow> goerror \<Rightarrow> Response" where
  "error_response d code err = \<lparr>rsp_Decision = d, rsp_Result = zero_DispatchResult,
     rsp_Error = Some \<lparr>ei_Code = code, ei_Message = Error err\<rparr>\<rparr>"

definition ActionDiscoverContractManifests :: string where
  "ActionDiscoverContractManifests = ''discover_contract_manifests''"
definition FacadeDiscoverContractManifests :: string where
  "FacadeDiscoverContractManifests = ''DiscoverContractManifests''"
definition SchemaManifestDiscoveryV1 :: string where
  "SchemaManifestDiscoveryV1 = ''builders.federation.manifest_discovery.v1''"

text \<open>A \<open>json.RawMessage\<close> is written compacted, a nil one as \<open>null\<close>; an invalid one fails the marshalling.\<close>

definition document_json :: "platform \<Rightarrow> SignedManifestDocument \<Rightarrow> jdoc option" where
  "document_json p d =
     (case json_compact p (case smd_Document d of None \<Rightarrow> ''null'' | Some b \<Rightarrow> b) of
        None \<Rightarrow> None
      | Some b \<Rightarrow> Some (JObj
          [(''manifest_id'', JStr (smd_ManifestID d)), (''catalog_version'', JStr (smd_CatalogVersion d)),
           (''signing_key_id'', JStr (smd_SigningKeyID d)),
           (''manifest_hash_sha256'', JStr (smd_ManifestHashSHA256 d)), (''document'', JRaw b)]))"

definition discovery_json :: "platform \<Rightarrow> SignedManifestDocument list \<Rightarrow> bytes option" where
  "discovery_json p docs =
     (case those (map (document_json p) docs) of
        None \<Rightarrow> None
      | Some js \<Rightarrow> Some (marshal (JObj [(''schema_version'', JStr SchemaManifestDiscoveryV1),
                                         (''manifests'', JArr js)])))"

definition discovery_action :: ActionContract where
  "discovery_action = zero_ActionContract\<lparr>ac_Action := ActionDiscoverContractManifests,
     ac_FacadeMethod := FacadeDiscoverContractManifests\<rparr>"

text \<open>The tail of \<open>handleManifestDiscovery\<close> from the call of \<open>DiscoverSignedManifests\<close>.\<close>

definition discover ::
  "platform \<Rightarrow> 'x Handler \<Rightarrow> AuthenticatedSession \<Rightarrow> Envelope \<Rightarrow> ('x world, goerror + Response) state" where
  "discover p h session env =
     (let refuse = (\<lambda>code. let d = deny session env code zero_Manifest discovery_action
                           in audited h d (denial_response d))
      in case h_Discovery h of
           None \<Rightarrow> refuse ErrorGatewayUnavailable
         | Some f \<Rightarrow> do {
             found \<leftarrow> invoke f DiscoverSignedManifests session;
             case found of
               Inl err \<Rightarrow>
                 (let code = facadeDenialCode err; d = deny session env code zero_Manifest discovery_action
                  in audited h d (error_response d code err))
             | Inr documents \<Rightarrow>
                 (case discovery_json p (elems documents) of
                    None \<Rightarrow> refuse ErrorGatewayUnavailable
                  | Some payload \<Rightarrow>
                      (let result = \<lparr>dr_Status = ''ok'', dr_PayloadJSON = payload\<rparr>
                       in if validateDispatchResult p result \<noteq> None then refuse ErrorPayloadInvalid
                          else (let d = allow session env zero_Manifest discovery_action
                                in audited h d \<lparr>rsp_Decision = d, rsp_Result = result, rsp_Error = None\<rparr>)))
           })"

definition handleManifestDiscovery ::
  "platform \<Rightarrow> 'x Handler \<Rightarrow> AuthenticatedSession \<Rightarrow> Envelope \<Rightarrow> ('x world, goerror + Response) state" where
  "handleManifestDiscovery p h session env =
     (let refuse = (\<lambda>code. let d = deny session env code zero_Manifest discovery_action
                           in audited h d (denial_response d))
      in if env_SchemaVersion env \<noteq> SchemaGatewayExchangeV1 then refuse ErrorPayloadInvalid
      else if \<not> sessionMatchesEnvelope session env then refuse ErrorUnauthenticated
      else if ses_KillSwitchEnabled session then refuse ErrorKillSwitch
      else if ses_PartnerLinkState session \<noteq> PartnerLinkActive then refuse ErrorPartnerLinkDenied
      else do {
        t \<leftarrow> now h;
        if sint (env_ExpiresAtMS env) \<le> 0 \<or> past t (env_ExpiresAtMS env) (h_ClockSkewMS h) then
          refuse ErrorExpired
        else if env_Payload env \<noteq> [] then refuse ErrorPayloadInvalid
        else case h_Replay h of
          Some f \<Rightarrow> do {
            replay \<leftarrow> invoke f Claim (env_claim env);
            if replay \<noteq> None then refuse ErrorReplayDetected else discover p h session env
          }
        | None \<Rightarrow> discover p h session env
      })"

definition independent_action :: "string \<Rightarrow> string \<Rightarrow> ActionContract" where
  "independent_action action method =
     zero_ActionContract\<lparr>ac_Action := action, ac_FacadeMethod := method\<rparr>"

text \<open>The \<open>switch\<close> of \<open>Handle\<close> that selects the preflight.\<close>

definition choose_preflight ::
  "platform \<Rightarrow> 'x Handler \<Rightarrow> AuthenticatedSession \<Rightarrow> Envelope
     \<Rightarrow> ('x world, PreflightDecision \<times> XManifest \<times> ActionContract) state" where
  "choose_preflight p h session env =
     (if env_Action env = ActionGetServiceCatalogView \<and> env_Contract env = zero_ContractRef then
        preflightManifestIndependent h session env
          (independent_action ActionGetServiceCatalogView FacadeGetServiceCatalogView)
      else if env_Action env = ActionEstablishDataChannel \<and> env_Contract env = zero_ContractRef then
        preflightManifestIndependent h session env
          (independent_action ActionEstablishDataChannel FacadeEstablishDataChannel)
      else preflight p h session env)"

text \<open>The part of \<open>Handle\<close> after an allow decision was recorded.\<close>

definition deliver ::
  "platform \<Rightarrow> 'x Handler \<Rightarrow> AuthenticatedSession \<Rightarrow> Envelope \<Rightarrow> PreflightDecision \<Rightarrow> XManifest
     \<Rightarrow> ActionContract \<Rightarrow> ('x world, goerror + Response) state" where
  "deliver p h session env decision manifest action =
     (case h_Facade h of
        None \<Rightarrow>
          (let d = deny session env ErrorGatewayUnavailable manifest action
           in audited h d (denial_response d))
      | Some f \<Rightarrow> do {
          dispatched \<leftarrow> dispatch f \<lparr>acc_Session = session, acc_Envelope = env, acc_Manifest = manifest,
                                   acc_Action = action, acc_Decision = decision\<rparr>;
          case dispatched of
            Inl err \<Rightarrow>
              (let code = facadeDenialCode err; d = deny session env code manifest action
               in audited h d (error_response d code err))
          | Inr result \<Rightarrow>
              (case validateDispatchResult p result of
                 Some err \<Rightarrow>
                   (let d = deny session env ErrorPayloadInvalid manifest action
                    in audited h d (error_response d ErrorPayloadInvalid err))
               | None \<Rightarrow> State_Monad.return
                   (Inr \<lparr>rsp_Decision = decision, rsp_Result = result, rsp_Error = None\<rparr>))
        })"

definition Handle ::
  "platform \<Rightarrow> 'x Handler \<Rightarrow> AuthenticatedSession \<Rightarrow> Envelope \<Rightarrow> ('x world, goerror + Response) state" where
  "Handle p h session0 env0 =
     (let session = normalizeSession session0; env = normalizeEnvelope env0
      in if env_Action env = ActionDiscoverContractManifests then
           handleManifestDiscovery p h session env
         else do {
           (decision, manifest, action) \<leftarrow> choose_preflight p h session env;
           err \<leftarrow> audit h decision;
           case err of
             Some e \<Rightarrow> State_Monad.return (Inl e)
           | None \<Rightarrow>
               if pd_Decision decision \<noteq> DecisionAllow then
                 State_Monad.return (Inr (denial_response decision))
               else deliver p h session env decision manifest action
         })"

text \<open>A sequence of exchanges handled one after the other.\<close>

fun serve ::
  "platform \<Rightarrow> 'x Handler \<Rightarrow> (AuthenticatedSession \<times> Envelope) list
     \<Rightarrow> ('x world, (goerror + Response) list) state" where
  "serve p h [] = State_Monad.return []"
| "serve p h ((session, env) # rest) = do {
     r \<leftarrow> Handle p h session env;
     rs \<leftarrow> serve p h rest;
     State_Monad.return (r # rs)
   }"

end
