(* ===== verification/ContractManifest.thy ===== *)
theory ContractManifest
  imports ExchangeHandler
begin

text \<open>
  The package \<open>contracts/contractmanifest\<close>: signed service-contract manifests, their canonical JSON
  and digest, \<open>Sign\<close> and \<open>Verify\<close>, and the verified in-memory cache that resolves a contract
  reference for the exchange handler. The clock reading a \<open>MemoryCache\<close> operation makes is an
  argument: what the configured \<open>nowMS\<close> returned (\<open>None\<close> when it is nil) and the system clock. The
  text of an error made with a \<open>%q\<close> operand leaves the operand out.
\<close>

section \<open>Data\<close>

definition mf_SchemaVersionV1 :: string where
  "mf_SchemaVersionV1 = ''builders.federation.service_contract_manifest.v1''"
definition SignatureAlgorithmEd25519 :: string where
  "SignatureAlgorithmEd25519 = ''ed25519''"

definition ErrUnsignedManifest :: goerror where
  "ErrUnsignedManifest = Plain ''service contract manifest is without_signature''"
definition ErrManifestExpired :: goerror where
  "ErrManifestExpired = Plain ''service contract manifest is expired''"
definition ErrManifestHashMismatch :: goerror where
  "ErrManifestHashMismatch = Plain ''service contract manifest hash mismatch''"
definition ErrManifestSignatureInvalid :: goerror where
  "ErrManifestSignatureInvalid = Plain ''service contract manifest signature invalid''"
definition ErrManifestInvalid :: goerror where
  "ErrManifestInvalid = Plain ''service contract manifest is invalid''"

type_synonym Keyring = "string \<rightharpoonup> bytes"

record Signature =
  sig_Algorithm :: string
  sig_SignatureB64 :: string

record Contract =
  ct_ContractID :: string
  ct_ContractVersion :: string
  ct_DisplayName :: string
  ct_Action :: string
  ct_ServiceCatalogAction :: string
  ct_PayloadSchemaRef :: string
  ct_PayloadSchemaHashSHA256 :: string
  ct_MaxPayloadBytes :: int64
  ct_RequiresIdempotency :: bool
  ct_ReplayWindowSeconds :: int64
  ct_AllowedPartnerLinkIDs :: "string slice"
  ct_AllowedGatewayMethodScopes :: "string slice"
  ct_PrivateTopologyAllowed :: bool
  ct_EgressPolicyRef :: string
  ct_AuditClass :: string
  ct_RetentionClass :: string
  ct_ResultContractIDs :: "string slice"

record Manifest =
  mf_SchemaVersion :: string
  mf_TenantID :: string
  mf_ManifestID :: string
  mf_IssuedAtMS :: int64
  mf_ExpiresAtMS :: int64
  mf_CatalogVersion :: string
  mf_SigningKeyID :: string
  mf_Contracts :: "Contract list"
  mf_ManifestHashSHA256 :: string
  mf_Signature :: Signature

section \<open>Normalisation\<close>

text \<open>The loop of \<open>normalizeStringSlice\<close>: trim, skip empty and repeated values, keep the first.\<close>

fun trim_unique :: "string list \<Rightarrow> string list \<Rightarrow> string list" where
  "trim_unique out [] = out"
| "trim_unique out (value # values) =
     (if TrimSpace value = [] \<or> TrimSpace value \<in> set out then trim_unique out values
      else trim_unique (out @ [TrimSpace value]) values)"

definition normalizeStringSlice :: "string slice \<Rightarrow> string slice" where
  "normalizeStringSlice values =
     (if elems values = [] then None else Some (sort (trim_unique [] (elems values))))"

definition normalizeContract :: "Contract \<Rightarrow> Contract" where
  "normalizeContract contract = contract
     \<lparr>ct_ContractID := TrimSpace (ct_ContractID contract),
      ct_ContractVersion := TrimSpace (ct_ContractVersion contract),
      ct_DisplayName := TrimSpace (ct_DisplayName contract),
      ct_Action := TrimSpace (ct_Action contract),
      ct_ServiceCatalogAction := TrimSpace (ct_ServiceCatalogAction contract),
      ct_PayloadSchemaRef := TrimSpace (ct_PayloadSchemaRef contract),
      ct_PayloadSchemaHashSHA256 := TrimSpace (ct_PayloadSchemaHashSHA256 contract),
      ct_EgressPolicyRef := TrimSpace (ct_EgressPolicyRef contract),
      ct_AuditClass := TrimSpace (ct_AuditClass contract),
      ct_RetentionClass := TrimSpace (ct_RetentionClass contract),
      ct_AllowedPartnerLinkIDs := normalizeStringSlice (ct_AllowedPartnerLinkIDs contract),
      ct_AllowedGatewayMethodScopes := normalizeStringSlice (ct_AllowedGatewayMethodScopes contract),
      ct_ResultContractIDs := normalizeStringSlice (ct_ResultContractIDs contract)\<rparr>"

definition contract_key :: "Contract \<Rightarrow> string" where
  "contract_key c = ct_ContractID c @ CHR 0x00 # ct_ContractVersion c @ CHR 0x00 # ct_Action c"

definition normalizeManifest :: "Manifest \<Rightarrow> Manifest" where
  "normalizeManifest manifest = manifest
     \<lparr>mf_SchemaVersion := TrimSpace (mf_SchemaVersion manifest),
      mf_TenantID := TrimSpace (mf_TenantID manifest),
      mf_ManifestID := TrimSpace (mf_ManifestID manifest),
      mf_CatalogVersion := TrimSpace (mf_CatalogVersion manifest),
      mf_SigningKeyID := TrimSpace (mf_SigningKeyID manifest),
      mf_ManifestHashSHA256 := TrimSpace (mf_ManifestHashSHA256 manifest),
      mf_Signature := \<lparr>sig_Algorithm = TrimSpace (sig_Algorithm (mf_Signature manifest)),
                       sig_SignatureB64 = TrimSpace (sig_SignatureB64 (mf_Signature manifest))\<rparr>,
      mf_Contracts := sort_key contract_key (map normalizeContract (mf_Contracts manifest))\<rparr>"

definition normalizeContractRef :: "ContractRef \<Rightarrow> ContractRef" where
  "normalizeContractRef ref = ref
     \<lparr>cr_ContractID := TrimSpace (cr_ContractID ref),
      cr_ContractVersion := TrimSpace (cr_ContractVersion ref),
      cr_ManifestHashSHA256 := TrimSpace (cr_ManifestHashSHA256 ref),
      cr_PayloadSchemaHashSHA256 := TrimSpace (cr_PayloadSchemaHashSHA256 ref)\<rparr>"

section \<open>Validation\<close>

definition commercial_actions :: "string list" where
  "commercial_actions = [ActionRequestForQuote, ActionSubmitQuote, ActionSubmitPurchaseOrder,
     ActionConfirmOrder, ActionUpdateShipmentStatus, ActionIssueInvoice, ActionUpdatePaymentStatus]"

definition facadeForAction :: "string \<Rightarrow> goerror + (string \<times> bool)" where
  "facadeForAction action0 =
     (let action = TrimSpace action0
      in if action = ActionGetServiceCatalogView then Inr (FacadeGetServiceCatalogView, False)
      else if action = ActionOpenFederationTransaction then Inr (FacadeOpenFederationTransaction, True)
      else if action = ActionCreateFederationRoom then Inr (FacadeCreateFederationRoom, True)
      else if action = ActionSubmitFederationMessage then Inr (FacadeSubmitFederationMessage, True)
      else if action = ActionRequestBuilderWork then Inr (FacadeRequestBuilderWork, True)
      else if action = ActionSubmitFederationResult then Inr (FacadeSubmitFederationResult, True)
      else if action = ActionDeliverBuilderWorkResult then Inr (FacadeDeliverBuilderWorkResult, True)
      else if action \<in> set commercial_actions then Inr (FacadeSubmitCommercialEvent, True)
      else Inl (Wrapped (Error ErrManifestInvalid @ '': unsupported action'') ErrManifestInvalid))"

definition expectedMethodScope :: "string \<Rightarrow> string" where
  "expectedMethodScope action0 =
     (let action = TrimSpace action0
      in if action = ActionGetServiceCatalogView then ''federation.get_service_catalog_view''
      else if action = ActionOpenFederationTransaction then ''federation.open_federation_transaction''
      else if action = ActionCreateFederationRoom then ''federation.create_federation_room''
      else if action = ActionSubmitFederationMessage then ''federation.submit_federation_message''
      else if action = ActionRequestBuilderWork then ''federation.request_builder_work''
      else if action = ActionSubmitFederationResult then ''federation.submit_federation_result''
      else if action = ActionDeliverBuilderWorkResult then ''federation.deliver_builder_work_result''
      else if action \<in> set commercial_actions then ''federation.'' @ TrimSpace action0
      else [])"

definition validateContract :: "Contract \<Rightarrow> goerror option" where
  "validateContract contract =
     (if ct_ContractID contract = [] \<or> ct_ContractVersion contract = [] \<or> ct_Action contract = [] \<or>
         ct_PayloadSchemaRef contract = [] \<or> ct_PayloadSchemaHashSHA256 contract = [] \<or>
         sint (ct_MaxPayloadBytes contract) \<le> 0 \<or> sint (ct_ReplayWindowSeconds contract) \<le> 0 \<or>
         elems (ct_AllowedPartnerLinkIDs contract) = [] \<or>
         elems (ct_AllowedGatewayMethodScopes contract) = [] \<or>
         ct_EgressPolicyRef contract = [] \<or> ct_AuditClass contract = [] \<or>
         ct_RetentionClass contract = [] then Some ErrManifestInvalid
      else case facadeForAction (ct_Action contract) of
             Inl err \<Rightarrow> Some err
           | Inr _ \<Rightarrow>
               (let scopes = elems (ct_AllowedGatewayMethodScopes contract)
                in if length scopes \<noteq> 1 \<or> scopes ! 0 \<noteq> expectedMethodScope (ct_Action contract) then
                     Some (Wrapped (Error ErrManifestInvalid @ '': gateway method scope'') ErrManifestInvalid)
                   else None))"

text \<open>The loop over the contracts; \<open>seen\<close> holds the keys met so far.\<close>

fun validateContracts :: "string list \<Rightarrow> Contract list \<Rightarrow> goerror option" where
  "validateContracts seen [] = None"
| "validateContracts seen (contract # contracts) =
     (case validateContract contract of
        Some err \<Rightarrow> Some err
      | None \<Rightarrow>
          if contract_key contract \<in> set seen then
            Some (Wrapped (Error ErrManifestInvalid @ '': duplicate contract action'') ErrManifestInvalid)
          else validateContracts (contract_key contract # seen) contracts)"

definition validateManifestShape :: "Manifest \<Rightarrow> goerror option" where
  "validateManifestShape manifest =
     (if mf_SchemaVersion manifest \<noteq> mf_SchemaVersionV1 \<or> mf_TenantID manifest = [] \<or>
         mf_ManifestID manifest = [] \<or> mf_CatalogVersion manifest = [] \<or>
         mf_SigningKeyID manifest = [] \<or> sint (mf_IssuedAtMS manifest) \<le> 0 \<or>
         sint (mf_ExpiresAtMS manifest) \<le> sint (mf_IssuedAtMS manifest) \<or>
         mf_Contracts manifest = [] then Some ErrManifestInvalid
      else validateContracts [] (mf_Contracts manifest))"

section \<open>Canonical bytes, digest, signing and verification\<close>

definition contract_fields :: "Contract \<Rightarrow> (string \<times> jdoc) list" where
  "contract_fields c =
     (jfield ''contract_id'' (JStr (ct_ContractID c)) @
      jfield ''contract_version'' (JStr (ct_ContractVersion c)) @
      jomit (ct_DisplayName c = []) ''display_name'' (JStr (ct_DisplayName c)) @
      jfield ''action'' (JStr (ct_Action c)) @
      jomit (ct_ServiceCatalogAction c = []) ''service_catalog_action'' (JStr (ct_ServiceCatalogAction c)) @
      jfield ''payload_schema_ref'' (JStr (ct_PayloadSchemaRef c)) @
      jfield ''payload_schema_hash_sha256'' (JStr (ct_PayloadSchemaHashSHA256 c)) @
      jfield ''max_payload_bytes'' (JInt (sint (ct_MaxPayloadBytes c))) @
      jfield ''requires_idempotency'' (JBool (ct_RequiresIdempotency c)) @
      jfield ''replay_window_seconds'' (JInt (sint (ct_ReplayWindowSeconds c))) @
      jfield ''allowed_partner_link_ids'' (JSlice JStr (ct_AllowedPartnerLinkIDs c)) @
      jfield ''allowed_gateway_method_scopes'' (JSlice JStr (ct_AllowedGatewayMethodScopes c)) @
      jfield ''private_topology_allowed'' (JBool (ct_PrivateTopologyAllowed c)) @
      jfield ''egress_policy_ref'' (JStr (ct_EgressPolicyRef c)) @
      jfield ''audit_class'' (JStr (ct_AuditClass c)) @
      jfield ''retention_class'' (JStr (ct_RetentionClass c)) @
      jomit (elems (ct_ResultContractIDs c) = []) ''result_contract_ids'' (JSlice JStr (ct_ResultContractIDs c)))"

definition contract_json :: "Contract \<Rightarrow> jdoc" where
  "contract_json c = JObj (contract_fields c)"

definition manifest_json :: "Manifest \<Rightarrow> jdoc" where
  "manifest_json m = JObj
     [(''schema_version'', JStr (mf_SchemaVersion m)), (''tenant_id'', JStr (mf_TenantID m)),
      (''manifest_id'', JStr (mf_ManifestID m)), (''issued_at_ms'', JInt (sint (mf_IssuedAtMS m))),
      (''expires_at_ms'', JInt (sint (mf_ExpiresAtMS m))),
      (''catalog_version'', JStr (mf_CatalogVersion m)), (''signing_key_id'', JStr (mf_SigningKeyID m)),
      (''contracts'', JSlice contract_json (copy_nil (mf_Contracts m))),
      (''manifest_hash_sha256'', JStr (mf_ManifestHashSHA256 m)),
      (''signature'', JObj [(''algorithm'', JStr (sig_Algorithm (mf_Signature m))),
                            (''signature_b64'', JStr (sig_SignatureB64 (mf_Signature m)))])]"

definition without_signature :: "Manifest \<Rightarrow> Manifest" where
  "without_signature m = m\<lparr>mf_ManifestHashSHA256 := [], mf_Signature := \<lparr>sig_Algorithm = [], sig_SignatureB64 = []\<rparr>\<rparr>"

definition ComputeManifestHash :: "platform \<Rightarrow> Manifest \<Rightarrow> string" where
  "ComputeManifestHash p manifest =
     hexEncode (sha256 p (marshal (manifest_json (without_signature (normalizeManifest manifest)))))"

definition effectiveNowMS :: "int64 \<Rightarrow> int64 \<Rightarrow> int64" where
  "effectiveNowMS sys nowMS = (if 0 < sint nowMS then nowMS else sys)"

definition cm_Sign :: "platform \<Rightarrow> Manifest \<Rightarrow> bytes \<Rightarrow> goerror + Manifest" where
  "cm_Sign p manifest0 privateKey =
     (if length privateKey \<noteq> PrivateKeySize then
        Inl (Wrapped (Error ErrManifestSignatureInvalid @ '': ed25519 private key is required'')
               ErrManifestSignatureInvalid)
      else let manifest = normalizeManifest manifest0
           in case validateManifestShape manifest of
                Some err \<Rightarrow> Inl err
              | None \<Rightarrow>
                  (let hash = ComputeManifestHash p manifest
                   in Inr (manifest\<lparr>mf_ManifestHashSHA256 := hash,
                        mf_Signature := \<lparr>sig_Algorithm = SignatureAlgorithmEd25519,
                          sig_SignatureB64 = StdEncode (ed_sign p privateKey hash)\<rparr>\<rparr>)))"

definition cm_Verify :: "platform \<Rightarrow> int64 \<Rightarrow> Manifest \<Rightarrow> Keyring \<Rightarrow> int64 \<Rightarrow> goerror option" where
  "cm_Verify p sys manifest0 keyring nowMS =
     (let manifest = normalizeManifest manifest0; signature = mf_Signature manifest
      in case validateManifestShape manifest of
           Some err \<Rightarrow> Some err
         | None \<Rightarrow>
             if sint (mf_ExpiresAtMS manifest) \<le> sint (effectiveNowMS sys nowMS) then Some ErrManifestExpired
             else if TrimSpace (mf_ManifestHashSHA256 manifest) = [] \<or>
                     TrimSpace (sig_Algorithm signature) = [] \<or>
                     TrimSpace (sig_SignatureB64 signature) = [] then Some ErrUnsignedManifest
             else if sig_Algorithm signature \<noteq> SignatureAlgorithmEd25519 then
               Some ErrManifestSignatureInvalid
             else if \<not> EqualFold (ComputeManifestHash p manifest) (mf_ManifestHashSHA256 manifest) then
               Some ErrManifestHashMismatch
             else case keyring (mf_SigningKeyID manifest) of
                    None \<Rightarrow> Some ErrManifestSignatureInvalid
                  | Some publicKey \<Rightarrow>
                      if length publicKey \<noteq> PublicKeySize then Some ErrManifestSignatureInvalid
                      else case StdDecode (sig_SignatureB64 signature) of
                             None \<Rightarrow> Some ErrManifestSignatureInvalid
                           | Some sg \<Rightarrow>
                               if length sg \<noteq> SignatureSize then Some ErrManifestSignatureInvalid
                               else if \<not> ed_verify p publicKey (mf_ManifestHashSHA256 manifest) sg then
                                 Some ErrManifestSignatureInvalid
                               else None)"

section \<open>The verified cache\<close>

record MemoryCache =
  mc_keyring :: Keyring
  mc_manifests :: "string \<rightharpoonup> Manifest"

type_synonym clock = "int64 option \<times> int64"

definition mc_now :: "clock \<Rightarrow> int64" where
  "mc_now clk = (case fst clk of Some t \<Rightarrow> t | None \<Rightarrow> snd clk)"

text \<open>
  \<open>cloneKeyring\<close> over the entries in the order the map iteration visits them: trimmed key ids, the last
  visited entry of a trimmed id stays.
\<close>

definition cloneKeyring :: "(string \<times> bytes) list \<Rightarrow> Keyring" where
  "cloneKeyring entries = foldl (\<lambda>out (keyID, publicKey). out(TrimSpace keyID \<mapsto> publicKey)) Map.empty entries"

definition NewMemoryCache :: "(string \<times> bytes) list \<Rightarrow> MemoryCache" where
  "NewMemoryCache keyring = \<lparr>mc_keyring = cloneKeyring keyring, mc_manifests = Map.empty\<rparr>"

text \<open>\<open>PutVerified\<close>; the receiver is \<open>None\<close> when the cache pointer is nil.\<close>

definition PutVerified ::
  "platform \<Rightarrow> clock \<Rightarrow> Manifest \<Rightarrow> MemoryCache option \<Rightarrow> goerror option \<times> MemoryCache option" where
  "PutVerified p clk manifest0 cache =
     (case cache of
        None \<Rightarrow> (Some ErrManifestInvalid, None)
      | Some c \<Rightarrow>
          (let manifest = normalizeManifest manifest0
           in case cm_Verify p (snd clk) manifest (mc_keyring c) (mc_now clk) of
                Some err \<Rightarrow> (Some err, Some c)
              | None \<Rightarrow> (None, Some (c\<lparr>mc_manifests := (mc_manifests c)(mf_ManifestHashSHA256 manifest \<mapsto> manifest)\<rparr>))))"

definition findContract :: "Manifest \<Rightarrow> ContractRef \<Rightarrow> Contract option" where
  "findContract manifest ref =
     List.find (\<lambda>c. ct_ContractID c = cr_ContractID ref \<and> ct_ContractVersion c = cr_ContractVersion ref)
       (mf_Contracts manifest)"

definition toExchangeAction :: "Contract \<Rightarrow> goerror + ActionContract" where
  "toExchangeAction contract =
     (case facadeForAction (ct_Action contract) of
        Inl err \<Rightarrow> Inl err
      | Inr (facadeMethod, mutating) \<Rightarrow> Inr
          \<lparr>ac_Action = ct_Action contract,
           ac_ServiceCatalogAction = ct_ServiceCatalogAction contract,
           ac_FacadeMethod = facadeMethod,
           ac_Mutating = mutating,
           ac_IdempotencyRequired = ct_RequiresIdempotency contract,
           ac_PayloadEncoding = PayloadEncodingJSON,
           ac_MaxPayloadBytes = ct_MaxPayloadBytes contract,
           ac_PrivateTopologyAllowed = ct_PrivateTopologyAllowed contract,
           ac_AllowedPartnerLinkIDs = elems (ct_AllowedPartnerLinkIDs contract)\<rparr>)"

definition mc_ResolveManifest ::
  "platform \<Rightarrow> clock \<Rightarrow> MemoryCache option \<Rightarrow> ContractRef \<Rightarrow> goerror + XManifest" where
  "mc_ResolveManifest p clk cache ref0 =
     (case cache of
        None \<Rightarrow> Inl ErrManifestNotFound
      | Some c \<Rightarrow>
          (let ref = normalizeContractRef ref0
           in case mc_manifests c (cr_ManifestHashSHA256 ref) of
                None \<Rightarrow> Inl ErrManifestNotFound
              | Some manifest \<Rightarrow>
                  (case cm_Verify p (snd clk) manifest (mc_keyring c) (mc_now clk) of
                     Some err \<Rightarrow> Inl err
                   | None \<Rightarrow>
                       (case findContract manifest ref of
                          None \<Rightarrow> Inl ErrManifestNotFound
                        | Some contract \<Rightarrow>
                            if ct_PayloadSchemaHashSHA256 contract \<noteq> cr_PayloadSchemaHashSHA256 ref then
                              Inl ErrManifestHashMismatch
                            else case toExchangeAction contract of
                                   Inl err \<Rightarrow> Inl err
                                 | Inr action \<Rightarrow> Inr
                                     \<lparr>xm_TenantID = mf_TenantID manifest,
                                      xm_ManifestID = mf_ManifestID manifest,
                                      xm_CatalogVersion = mf_CatalogVersion manifest,
                                      xm_ContractID = ct_ContractID contract,
                                      xm_ContractVersion = ct_ContractVersion contract,
                                      xm_ManifestHashSHA256 = mf_ManifestHashSHA256 manifest,
                                      xm_PayloadSchemaHashSHA256 = ct_PayloadSchemaHashSHA256 contract,
                                      xm_ExpiresAtMS = mf_ExpiresAtMS manifest,
                                      xm_Revoked = False,
                                      xm_Actions = [ct_Action contract \<mapsto> action]\<rparr>))))"

section \<open>Facts: normalisation and validation\<close>

lemma trim_unique_set: "set (trim_unique out vs) = set out \<union> (TrimSpace ` set vs - {[]})"
  by (induction out vs rule: trim_unique.induct) auto

lemma trim_unique_distinct: "distinct out \<Longrightarrow> distinct (trim_unique out vs)"
  by (induction out vs rule: trim_unique.induct) auto

lemma normalizeStringSlice_canonical:
  "elems v \<noteq> [] \<Longrightarrow> normalizeStringSlice v = Some (sorted_list_of_set (TrimSpace ` set (elems v) - {[]}))"
  using trim_unique_set [of "[]" "elems v"] trim_unique_distinct [of "[]" "elems v"]
    sorted_list_of_set_sort_remdups [of "trim_unique [] (elems v)"]
  by (simp add: normalizeStringSlice_def distinct_remdups_id)

lemma normalizeStringSlice_idem [norm_simps]:
  assumes "elems (normalizeStringSlice v) \<noteq> []"
  shows "normalizeStringSlice (normalizeStringSlice v) = normalizeStringSlice v"
proof -
  have v: "elems v \<noteq> []" using assms by (auto simp: normalizeStringSlice_def split: if_splits)
  define A where "A = TrimSpace ` set (elems v) - {[]}"
  have "TrimSpace ` A = (\<lambda>x. x) ` A" by (rule image_cong) (auto simp: A_def)
  then have "TrimSpace ` A - {[]} = A" by (auto simp: A_def)
  moreover have "normalizeStringSlice v = Some (sorted_list_of_set A)"
    using v by (simp add: normalizeStringSlice_canonical A_def)
  moreover have "finite A" by (simp add: A_def)
  ultimately show ?thesis
    using assms by (simp add: normalizeStringSlice_canonical)
qed

lemma elems_normalizeStringSlice_idem:
  "elems (normalizeStringSlice (normalizeStringSlice v)) = elems (normalizeStringSlice v)"
  by (cases "elems (normalizeStringSlice v) = []")
     (simp_all add: normalizeStringSlice_idem, simp add: normalizeStringSlice_def)

lemma normalizeContract_twice:
  assumes "validateContract (normalizeContract c) = None"
  shows "normalizeContract (normalizeContract c) =
    (normalizeContract c)\<lparr>ct_ResultContractIDs := normalizeStringSlice (ct_ResultContractIDs (normalizeContract c))\<rparr>"
proof -
  have "elems (normalizeStringSlice (ct_AllowedPartnerLinkIDs c)) \<noteq> []"
    "elems (normalizeStringSlice (ct_AllowedGatewayMethodScopes c)) \<noteq> []"
    using assms by (auto simp: validateContract_def normalizeContract_def split: if_splits)
  then show ?thesis by (simp add: normalizeContract_def normalizeStringSlice_idem)
qed

lemma contract_json_results:
  "contract_json (c\<lparr>ct_ResultContractIDs := v\<rparr>) = contract_json c"
  if "ct_ResultContractIDs c = normalizeStringSlice u" "v = normalizeStringSlice (ct_ResultContractIDs c)"
proof (cases "elems (normalizeStringSlice u) = []")
  case True
  then show ?thesis
    using that elems_normalizeStringSlice_idem [of u] by (simp add: contract_json_def contract_fields_def jomit_def)
next
  case False
  then have "v = ct_ResultContractIDs c" using that normalizeStringSlice_idem by simp
  then show ?thesis by simp
qed

lemma validateContract_results: "validateContract (c\<lparr>ct_ResultContractIDs := v\<rparr>) = validateContract c"
  by (simp add: validateContract_def Let_def split: sum.splits)

lemma contract_key_results [simp]: "contract_key (c\<lparr>ct_ResultContractIDs := v\<rparr>) = contract_key c"
  by (simp add: contract_key_def)

lemma normalizeContract_json_again:
  assumes "validateContract (normalizeContract c) = None"
  shows "contract_json (normalizeContract (normalizeContract c)) = contract_json (normalizeContract c)"
  unfolding normalizeContract_twice [OF assms]
  by (rule contract_json_results [OF _ refl], simp add: normalizeContract_def)

lemma contract_key_again [simp]: "contract_key (normalizeContract (normalizeContract c)) = contract_key (normalizeContract c)"
  by (simp add: contract_key_def normalizeContract_def)

lemma validateContract_again [simp]:
  "validateContract (normalizeContract (normalizeContract c)) = validateContract (normalizeContract c)"
  by (simp add: validateContract_def normalizeContract_def elems_normalizeStringSlice_idem Let_def split: sum.splits)

lemma validateContracts_iff:
  "validateContracts seen cs = None \<longleftrightarrow>
     (\<forall>c \<in> set cs. validateContract c = None) \<and> distinct (map contract_key cs) \<and>
     set (map contract_key cs) \<inter> set seen = {}"
  by (induction seen cs rule: validateContracts.induct) (auto split: option.splits)

lemma validateManifestShape_iff:
  "validateManifestShape m = None \<longleftrightarrow>
     mf_SchemaVersion m = mf_SchemaVersionV1 \<and> mf_TenantID m \<noteq> [] \<and> mf_ManifestID m \<noteq> [] \<and>
     mf_CatalogVersion m \<noteq> [] \<and> mf_SigningKeyID m \<noteq> [] \<and> 0 < sint (mf_IssuedAtMS m) \<and>
     sint (mf_IssuedAtMS m) < sint (mf_ExpiresAtMS m) \<and> mf_Contracts m \<noteq> [] \<and>
     (\<forall>c \<in> set (mf_Contracts m). validateContract c = None) \<and> distinct (map contract_key (mf_Contracts m))"
  by (auto simp: validateManifestShape_def validateContracts_iff)

lemma valid_normalized:
  "validateManifestShape (normalizeManifest m) = None \<Longrightarrow> c \<in> set (mf_Contracts m) \<Longrightarrow>
     validateContract (normalizeContract c) = None"
  by (simp add: validateManifestShape_iff normalizeManifest_def)

lemma valid_keys_distinct:
  assumes "validateManifestShape (normalizeManifest m) = None"
  shows "distinct (map (contract_key \<circ> normalizeContract) (mf_Contracts m))"
proof -
  let ?cs = "map normalizeContract (mf_Contracts m)"
  have "distinct (map contract_key (sort_key contract_key ?cs))"
    using assms by (simp add: validateManifestShape_iff normalizeManifest_def)
  moreover have "mset (map contract_key (sort_key contract_key ?cs)) = mset (map contract_key ?cs)"
    by (simp only: mset_map mset_sort)
  ultimately have "distinct (map contract_key ?cs)" by (metis mset_eq_imp_distinct_iff)
  then show ?thesis by (simp add: o_def)
qed

lemma normalizeManifest_again:
  "normalizeManifest (normalizeManifest m) =
     (normalizeManifest m)\<lparr>mf_Contracts := map normalizeContract (mf_Contracts (normalizeManifest m))\<rparr>"
proof -
  let ?cs = "mf_Contracts (normalizeManifest m)"
  have "map contract_key (map normalizeContract ?cs) = map contract_key ?cs"
    by (auto simp: normalizeManifest_def)
  moreover have "sorted (map contract_key ?cs)" by (simp add: normalizeManifest_def)
  ultimately have "sort_key contract_key (map normalizeContract ?cs) = map normalizeContract ?cs"
    by (metis sort_key_sorted)
  then show ?thesis by (simp add: normalizeManifest_def)
qed

text \<open>Normalising again changes nothing that the checks or, for a valid manifest, the canonical bytes see.\<close>

lemma validateManifestShape_again [simp]:
  "validateManifestShape (normalizeManifest (normalizeManifest m)) = validateManifestShape (normalizeManifest m)"
proof -
  have "validateContracts seen (map normalizeContract cs) = validateContracts seen cs"
    if "\<forall>c \<in> set cs. \<exists>c0. c = normalizeContract c0" for seen cs
    using that by (induction seen cs rule: validateContracts.induct) (auto split: option.splits)
  moreover have "\<forall>c \<in> set (mf_Contracts (normalizeManifest m)). \<exists>c0. c = normalizeContract c0"
    by (auto simp: normalizeManifest_def)
  ultimately show ?thesis
    unfolding normalizeManifest_again by (simp add: validateManifestShape_def)
qed

lemma manifest_json_again:
  assumes "validateManifestShape (normalizeManifest m) = None"
  shows "manifest_json (without_signature (normalizeManifest (normalizeManifest m))) =
    manifest_json (without_signature (normalizeManifest m))"
proof -
  let ?cs = "mf_Contracts (normalizeManifest m)"
  have "map contract_json (map normalizeContract ?cs) = map contract_json ?cs"
    using valid_normalized [OF assms] by (auto simp: normalizeManifest_def normalizeContract_json_again)
  then show ?thesis
    unfolding normalizeManifest_again
    by (simp add: manifest_json_def without_signature_def JSlice_def copy_nil_def)
qed

definition listed_results :: "Contract \<Rightarrow> Contract" where
  "listed_results c = c\<lparr>ct_ResultContractIDs := Some (elems (ct_ResultContractIDs c))\<rparr>"

lemma contract_json_listed: "contract_json (listed_results c) = contract_json c"
  by (cases "ct_ResultContractIDs c") (simp_all add: contract_json_def contract_fields_def listed_results_def jomit_def)

lemma contract_json_inject: "contract_json a = contract_json b \<longleftrightarrow> listed_results a = listed_results b"
proof
  assume "contract_json a = contract_json b"
  then have L: "map_of (contract_fields a) k = map_of (contract_fields b) k" for k
    by (simp add: contract_json_def)
  note L' = L [unfolded contract_fields_def]
  show "listed_results a = listed_results b"
  proof (rule Contract.equality)
    show "ct_ContractID (listed_results a) = ct_ContractID (listed_results b)"
      using L' [of "''contract_id''"] by (simp add: listed_results_def del: map_of_append)
    show "ct_ContractVersion (listed_results a) = ct_ContractVersion (listed_results b)"
      using L' [of "''contract_version''"] by (simp add: listed_results_def del: map_of_append)
    show "ct_DisplayName (listed_results a) = ct_DisplayName (listed_results b)"
      using L' [of "''display_name''"] by (simp add: listed_results_def del: map_of_append split: if_splits)
    show "ct_Action (listed_results a) = ct_Action (listed_results b)"
      using L' [of "''action''"] by (simp add: listed_results_def del: map_of_append)
    show "ct_ServiceCatalogAction (listed_results a) = ct_ServiceCatalogAction (listed_results b)"
      using L' [of "''service_catalog_action''"] by (simp add: listed_results_def del: map_of_append split: if_splits)
    show "ct_PayloadSchemaRef (listed_results a) = ct_PayloadSchemaRef (listed_results b)"
      using L' [of "''payload_schema_ref''"] by (simp add: listed_results_def del: map_of_append)
    show "ct_PayloadSchemaHashSHA256 (listed_results a) = ct_PayloadSchemaHashSHA256 (listed_results b)"
      using L' [of "''payload_schema_hash_sha256''"] by (simp add: listed_results_def del: map_of_append)
    show "ct_MaxPayloadBytes (listed_results a) = ct_MaxPayloadBytes (listed_results b)"
      using L' [of "''max_payload_bytes''"] by (simp add: listed_results_def del: map_of_append)
    show "ct_RequiresIdempotency (listed_results a) = ct_RequiresIdempotency (listed_results b)"
      using L' [of "''requires_idempotency''"] by (simp add: listed_results_def del: map_of_append)
    show "ct_ReplayWindowSeconds (listed_results a) = ct_ReplayWindowSeconds (listed_results b)"
      using L' [of "''replay_window_seconds''"] by (simp add: listed_results_def del: map_of_append)
    show "ct_AllowedPartnerLinkIDs (listed_results a) = ct_AllowedPartnerLinkIDs (listed_results b)"
      using L' [of "''allowed_partner_link_ids''"] by (simp add: listed_results_def del: map_of_append)
    show "ct_AllowedGatewayMethodScopes (listed_results a) = ct_AllowedGatewayMethodScopes (listed_results b)"
      using L' [of "''allowed_gateway_method_scopes''"] by (simp add: listed_results_def del: map_of_append)
    show "ct_PrivateTopologyAllowed (listed_results a) = ct_PrivateTopologyAllowed (listed_results b)"
      using L' [of "''private_topology_allowed''"] by (simp add: listed_results_def del: map_of_append)
    show "ct_EgressPolicyRef (listed_results a) = ct_EgressPolicyRef (listed_results b)"
      using L' [of "''egress_policy_ref''"] by (simp add: listed_results_def del: map_of_append)
    show "ct_AuditClass (listed_results a) = ct_AuditClass (listed_results b)"
      using L' [of "''audit_class''"] by (simp add: listed_results_def del: map_of_append)
    show "ct_RetentionClass (listed_results a) = ct_RetentionClass (listed_results b)"
      using L' [of "''retention_class''"] by (simp add: listed_results_def del: map_of_append)
    show "ct_ResultContractIDs (listed_results a) = ct_ResultContractIDs (listed_results b)"
      using L' [of "''result_contract_ids''"] by (auto simp: listed_results_def simp del: map_of_append split: if_splits)
  qed simp
qed (metis contract_json_listed)

text \<open>Everything a manifest says, up to spelling: what its digest is taken over.\<close>

definition content :: "Manifest \<Rightarrow> Manifest" where
  "content m = (let n = without_signature (normalizeManifest m) in n\<lparr>mf_Contracts := map listed_results (mf_Contracts n)\<rparr>)"

lemma manifest_json_inject:
  "manifest_json (without_signature (normalizeManifest m)) = manifest_json (without_signature (normalizeManifest m')) \<longleftrightarrow>
     content m = content m'"
proof -
  have cs: "map contract_json xs = map contract_json ys \<longleftrightarrow> map listed_results xs = map listed_results ys" for xs ys
    by (induction xs arbitrary: ys) (auto simp: Cons_eq_map_conv contract_json_inject)
  have sl: "JSlice contract_json (copy_nil xs) = JSlice contract_json (copy_nil ys) \<longleftrightarrow>
      map contract_json xs = map contract_json ys" for xs ys
    by (auto simp: JSlice_def copy_nil_def)
  show ?thesis
    unfolding content_def Let_def manifest_json_def
    by (cases "normalizeManifest m"; cases "normalizeManifest m'") (auto simp: without_signature_def sl cs)
qed

lemma cm_Verify_None_iff:
  "cm_Verify p sys m keyring nowMS = None \<longleftrightarrow>
     validateManifestShape (normalizeManifest m) = None \<and>
     sint (effectiveNowMS sys nowMS) < sint (mf_ExpiresAtMS m) \<and>
     TrimSpace (mf_ManifestHashSHA256 m) \<noteq> [] \<and>
     TrimSpace (sig_Algorithm (mf_Signature m)) = SignatureAlgorithmEd25519 \<and>
     map ascii_lower (TrimSpace (mf_ManifestHashSHA256 m)) = ComputeManifestHash p (normalizeManifest m) \<and>
     (\<exists>pk sg. keyring (TrimSpace (mf_SigningKeyID m)) = Some pk \<and> length pk = PublicKeySize \<and>
        StdDecode (TrimSpace (sig_SignatureB64 (mf_Signature m))) = Some sg \<and> length sg = SignatureSize \<and>
        ed_verify p pk (TrimSpace (mf_ManifestHashSHA256 m)) sg)"
  (is "?l \<longleftrightarrow> ?r")
proof -
  have n: "mf_ExpiresAtMS (normalizeManifest m) = mf_ExpiresAtMS m"
    "mf_ManifestHashSHA256 (normalizeManifest m) = TrimSpace (mf_ManifestHashSHA256 m)"
    "mf_SigningKeyID (normalizeManifest m) = TrimSpace (mf_SigningKeyID m)"
    "sig_Algorithm (mf_Signature (normalizeManifest m)) = TrimSpace (sig_Algorithm (mf_Signature m))"
    "sig_SignatureB64 (mf_Signature (normalizeManifest m)) = TrimSpace (sig_SignatureB64 (mf_Signature m))"
    by (simp_all add: normalizeManifest_def)
  have e: "EqualFold (ComputeManifestHash p (normalizeManifest m)) t \<longleftrightarrow>
      map ascii_lower t = ComputeManifestHash p (normalizeManifest m)" for t
    unfolding ComputeManifestHash_def EqualFold_hex_iff by auto
  have "StdDecode [] = Some []" by code_simp
  then have b: "StdDecode [] = Some sg \<Longrightarrow> length sg \<noteq> 64" for sg by simp
  have a: "SignatureAlgorithmEd25519 \<noteq> []" by (simp add: SignatureAlgorithmEd25519_def)
  show ?thesis
    unfolding cm_Verify_def Let_def n e TrimSpace_idem
    using a b by (auto split: option.splits if_splits)
qed

lemma cm_Sign_Inr_iff:
  "(\<exists>m'. cm_Sign p m sk = Inr m') \<longleftrightarrow>
     length sk = PrivateKeySize \<and> validateManifestShape (normalizeManifest m) = None"
  by (auto simp: cm_Sign_def Let_def split: option.splits)

lemma cm_Sign_signed:
  assumes "cm_Sign p m sk = Inr m'"
  shows "length sk = PrivateKeySize" "validateManifestShape (normalizeManifest m) = None"
    "m' = (normalizeManifest m)\<lparr>mf_ManifestHashSHA256 := ComputeManifestHash p (normalizeManifest m),
       mf_Signature := \<lparr>sig_Algorithm = SignatureAlgorithmEd25519,
         sig_SignatureB64 = StdEncode (ed_sign p sk (ComputeManifestHash p (normalizeManifest m)))\<rparr>\<rparr>"
  using assms by (auto simp: cm_Sign_def Let_def split: option.splits if_splits)

text \<open>The digest of a valid manifest does not change when it is normalised or signed.\<close>

lemma ComputeManifestHash_again:
  "validateManifestShape (normalizeManifest m) = None \<Longrightarrow>
     ComputeManifestHash p (normalizeManifest m) = ComputeManifestHash p m"
  by (simp add: ComputeManifestHash_def manifest_json_again)

lemma normalizeManifest_signed:
  "normalizeManifest (m\<lparr>mf_ManifestHashSHA256 := h, mf_Signature := s\<rparr>) =
     (normalizeManifest m)\<lparr>mf_ManifestHashSHA256 := TrimSpace h,
       mf_Signature := \<lparr>sig_Algorithm = TrimSpace (sig_Algorithm s), sig_SignatureB64 = TrimSpace (sig_SignatureB64 s)\<rparr>\<rparr>"
  by (simp add: normalizeManifest_def)

lemma without_signature_signed [simp]: "without_signature (m\<lparr>mf_ManifestHashSHA256 := h, mf_Signature := s\<rparr>) = without_signature m"
  by (simp add: without_signature_def)

lemma ComputeManifestHash_signed [simp]:
  "ComputeManifestHash p (m\<lparr>mf_ManifestHashSHA256 := h, mf_Signature := s\<rparr>) = ComputeManifestHash p m"
  by (simp add: ComputeManifestHash_def normalizeManifest_signed)

lemma validateManifestShape_signed [simp]:
  "validateManifestShape (m\<lparr>mf_ManifestHashSHA256 := h, mf_Signature := s\<rparr>) = validateManifestShape m"
  by (simp add: validateManifestShape_def)

lemma ComputeManifestHash_spelling [simp]:
  "TrimSpace (ComputeManifestHash p m) = ComputeManifestHash p m"
  "map ascii_lower (ComputeManifestHash p m) = ComputeManifestHash p m"
  by (simp_all add: ComputeManifestHash_def)

lemma TrimSpace_alg [simp]: "TrimSpace SignatureAlgorithmEd25519 = SignatureAlgorithmEd25519"
  by code_simp

lemma cm_Sign_Verify:
  assumes "ed25519_correct p" "sha256_sized p" "cm_Sign p m sk = Inr m'"
    and "keyring (mf_SigningKeyID m') = Some (ed_public p sk)"
    and "sint (effectiveNowMS sys nowMS) < sint (mf_ExpiresAtMS m')"
  shows "cm_Verify p sys m' keyring nowMS = None"
proof -
  note S = cm_Sign_signed [OF assms(3)]
  note E = ed25519_correctD [OF assms(1) S(1)]
  let ?n = "normalizeManifest m" let ?h = "ComputeManifestHash p ?n"
  have h: "?h \<noteq> []"
    using hex_sha256_length [OF assms(2)] by (auto simp: ComputeManifestHash_def simp flip: length_0_conv)
  have k: "TrimSpace (mf_SigningKeyID m') = mf_SigningKeyID m'"
    unfolding S(3) by (simp add: normalizeManifest_def)
  show ?thesis
    unfolding cm_Verify_None_iff k
  proof (intro conjI exI)
    show "validateManifestShape (normalizeManifest m') = None"
      unfolding S(3) normalizeManifest_signed by (simp add: S(2))
    show "map ascii_lower (TrimSpace (mf_ManifestHashSHA256 m')) = ComputeManifestHash p (normalizeManifest m')"
      unfolding S(3) normalizeManifest_signed
      by (simp add: h ComputeManifestHash_again S(2))
    show "StdDecode (TrimSpace (sig_SignatureB64 (mf_Signature m'))) = Some (ed_sign p sk ?h)"
      unfolding S(3) by simp
    show "ed_verify p (ed_public p sk) (TrimSpace (mf_ManifestHashSHA256 m')) (ed_sign p sk ?h)"
      unfolding S(3) using E by (simp add: h)
  qed (use assms E S(3) h in \<open>auto\<close>)
qed

lemma ComputeManifestHash_reorder:
  assumes "mset cs = mset (mf_Contracts m)" "distinct (map (contract_key \<circ> normalizeContract) (mf_Contracts m))"
  shows "ComputeManifestHash p (m\<lparr>mf_Contracts := cs\<rparr>) = ComputeManifestHash p m"
proof -
  have "mset (map normalizeContract cs) = mset (map normalizeContract (mf_Contracts m))"
    using assms(1) by simp
  then have "sort_key contract_key (map normalizeContract (mf_Contracts m)) = sort_key contract_key (map normalizeContract cs)"
    using assms(2) by (intro sort_key_cong_mset) simp_all
  then have "normalizeManifest (m\<lparr>mf_Contracts := cs\<rparr>) = normalizeManifest m"
    by (simp add: normalizeManifest_def)
  then show ?thesis by (simp add: ComputeManifestHash_def)
qed

section \<open>The cache\<close>

text \<open>A verified cache entry: filed under its own digest, valid, and signed by a key of the ring.\<close>

definition authentic :: "platform \<Rightarrow> Keyring \<Rightarrow> Manifest \<Rightarrow> bool" where
  "authentic p keyring m \<longleftrightarrow>
     validateManifestShape m = None \<and> map ascii_lower (mf_ManifestHashSHA256 m) = ComputeManifestHash p m \<and>
     (\<exists>pk sg. keyring (mf_SigningKeyID m) = Some pk \<and> length pk = PublicKeySize \<and>
        StdDecode (sig_SignatureB64 (mf_Signature m)) = Some sg \<and> ed_verify p pk (mf_ManifestHashSHA256 m) sg)"

definition cache_ok :: "platform \<Rightarrow> MemoryCache \<Rightarrow> bool" where
  "cache_ok p c \<longleftrightarrow> (\<forall>h m. mc_manifests c h = Some m \<longrightarrow>
     h = mf_ManifestHashSHA256 m \<and> (\<exists>m0. m = normalizeManifest m0) \<and> authentic p (mc_keyring c) m)"

lemma verified_authentic:
  assumes "cm_Verify p sys (normalizeManifest m0) keyring nowMS = None"
  shows "authentic p keyring (normalizeManifest m0)"
proof -
  have n: "TrimSpace (mf_ManifestHashSHA256 (normalizeManifest m0)) = mf_ManifestHashSHA256 (normalizeManifest m0)"
    "TrimSpace (mf_SigningKeyID (normalizeManifest m0)) = mf_SigningKeyID (normalizeManifest m0)"
    "TrimSpace (sig_SignatureB64 (mf_Signature (normalizeManifest m0))) = sig_SignatureB64 (mf_Signature (normalizeManifest m0))"
    by (simp_all add: normalizeManifest_def)
  have v: "validateManifestShape (normalizeManifest m0) = None"
    using assms unfolding cm_Verify_None_iff by simp
  show ?thesis
    using assms v ComputeManifestHash_again [of "normalizeManifest m0" p]
    unfolding cm_Verify_None_iff authentic_def n by auto
qed

lemma NewMemoryCache_ok [wf_intros]: "cache_ok p (NewMemoryCache entries)"
  by (simp add: cache_ok_def NewMemoryCache_def)

lemma PutVerified_ok [wf_intros]:
  assumes "cache_ok p c" "PutVerified p clk m (Some c) = (r, Some c')"
  shows "cache_ok p c'" "mc_keyring c' = mc_keyring c"
  using assms verified_authentic [of p _ m]
  by (auto simp: PutVerified_def cache_ok_def Let_def split: option.splits if_splits)

lemma PutVerified_stores:
  assumes "PutVerified p clk m (Some c) = (None, Some c')"
  shows "mc_manifests c' (TrimSpace (mf_ManifestHashSHA256 m)) = Some (normalizeManifest m)"
  using assms by (auto simp: PutVerified_def Let_def normalizeManifest_def split: option.splits)

lemma facadeForAction_allowed: "facadeForAction a = Inr (f, mut) \<Longrightarrow> allowedFacadeMethod f"
  by (auto simp: facadeForAction_def allowedFacadeMethod_def Let_def split: if_splits)

lemma mc_ResolveManifest_Inr:
  assumes "mc_ResolveManifest p clk (Some c) ref = Inr x" "cache_ok p c"
  obtains m ct act where
    "mc_manifests c (TrimSpace (cr_ManifestHashSHA256 ref)) = Some m" "authentic p (mc_keyring c) m"
    "sint (effectiveNowMS (snd clk) (mc_now clk)) < sint (mf_ExpiresAtMS m)"
    "ct \<in> set (mf_Contracts m)" "toExchangeAction ct = Inr act" "xm_Actions x = [ct_Action ct \<mapsto> act]"
    "xm_ExpiresAtMS x = mf_ExpiresAtMS m" "xm_TenantID x = mf_TenantID m" "xm_ManifestID x = mf_ManifestID m"
    "\<not> xm_Revoked x" "manifestMatches x (normalizeContractRef ref)"
proof -
  have f: "findContract m r = Some ct \<Longrightarrow> ct \<in> set (mf_Contracts m) \<and> ct_ContractID ct = cr_ContractID r \<and>
      ct_ContractVersion ct = cr_ContractVersion r" for m r ct
    by (auto simp: findContract_def find_Some_iff)
  obtain m where m: "mc_manifests c (TrimSpace (cr_ManifestHashSHA256 ref)) = Some m"
    "cm_Verify p (snd clk) m (mc_keyring c) (mc_now clk) = None"
    using assms(1) by (auto simp: mc_ResolveManifest_def normalizeContractRef_def Let_def split: option.splits)
  obtain ct where ct: "findContract m (normalizeContractRef ref) = Some ct"
    "ct_PayloadSchemaHashSHA256 ct = cr_PayloadSchemaHashSHA256 (normalizeContractRef ref)"
    using assms(1) m by (auto simp: mc_ResolveManifest_def normalizeContractRef_def Let_def split: option.splits if_splits)
  obtain act where act: "toExchangeAction ct = Inr act"
    using assms(1) m ct by (auto simp: mc_ResolveManifest_def normalizeContractRef_def Let_def split: option.splits sum.splits)
  have x: "x = \<lparr>xm_TenantID = mf_TenantID m, xm_ManifestID = mf_ManifestID m, xm_CatalogVersion = mf_CatalogVersion m,
      xm_ContractID = ct_ContractID ct, xm_ContractVersion = ct_ContractVersion ct,
      xm_ManifestHashSHA256 = mf_ManifestHashSHA256 m, xm_PayloadSchemaHashSHA256 = ct_PayloadSchemaHashSHA256 ct,
      xm_ExpiresAtMS = mf_ExpiresAtMS m, xm_Revoked = False, xm_Actions = [ct_Action ct \<mapsto> act]\<rparr>"
    using assms(1) m ct act by (simp add: mc_ResolveManifest_def normalizeContractRef_def Let_def)
  have c: "TrimSpace (cr_ManifestHashSHA256 ref) = mf_ManifestHashSHA256 m" "authentic p (mc_keyring c) m"
    using assms(2) m(1) unfolding cache_ok_def by blast+
  show ?thesis
    by (rule that [OF m(1) c(2)])
       (use m(2) f [OF ct(1)] ct(2) act x c(1) in
         \<open>auto simp: cm_Verify_None_iff manifestMatches_def normalizeContractRef_def\<close>)
qed

section \<open>The interface of a manifest cache\<close>

text \<open>
  What the exchange preflight relies on: an answer matches the reference it was asked for, is not
  revoked and offers only facade methods of the allow-set. Then the contract gate of the preflight
  can only fail on the action or on the partner link.
\<close>

locale manifest_cache =
  fixes resolve :: "'c \<Rightarrow> ContractRef \<Rightarrow> goerror + XManifest"
    and ok :: "'c \<Rightarrow> bool"
  assumes resolve_matches: "ok c \<Longrightarrow> resolve c ref = Inr x \<Longrightarrow> manifestMatches x (normalizeContractRef ref)"
    and resolve_active: "ok c \<Longrightarrow> resolve c ref = Inr x \<Longrightarrow> \<not> xm_Revoked x"
    and resolve_facade: "ok c \<Longrightarrow> resolve c ref = Inr x \<Longrightarrow> xm_Actions x a = Some act \<Longrightarrow>
      allowedFacadeMethod (ac_FacadeMethod act)"
begin

lemma contract_gate:
  assumes "ok c" "resolve c (env_Contract (normalizeEnvelope e)) = Inr x"
  shows "(\<not> manifestMatches x (env_Contract (normalizeEnvelope e)) \<or> xm_Revoked x \<or> xm_Actions x a = None \<or>
      \<not> allowedFacadeMethod (ac_FacadeMethod (the (xm_Actions x a))) \<or> \<not> partnerLinkAllowed (the (xm_Actions x a)) l) \<longleftrightarrow>
    (xm_Actions x a = None \<or> \<not> partnerLinkAllowed (the (xm_Actions x a)) l)"
proof -
  have "normalizeContractRef (env_Contract (normalizeEnvelope e)) = env_Contract (normalizeEnvelope e)"
    by (simp add: normalizeContractRef_def normalizeEnvelope_def)
  with resolve_matches [OF assms] resolve_active [OF assms] resolve_facade [OF assms]
  show ?thesis by auto
qed

end

interpretation mc: manifest_cache "\<lambda>c. mc_ResolveManifest p clk (Some c)" "cache_ok p" for p clk
proof
  fix c ref x a act
  assume c: "cache_ok p c" "mc_ResolveManifest p clk (Some c) ref = Inr x"
  show "manifestMatches x (normalizeContractRef ref)" "\<not> xm_Revoked x"
    by (rule mc_ResolveManifest_Inr [OF c(2,1)], simp)+
  show "allowedFacadeMethod (ac_FacadeMethod act)" if "xm_Actions x a = Some act"
    by (rule mc_ResolveManifest_Inr [OF c(2,1)])
       (use that facadeForAction_allowed in \<open>auto simp: toExchangeAction_def split: sum.splits if_splits prod.splits\<close>)
qed

end
