(* ===== verification/ContractApproval.thy ===== *)
theory ContractApproval
  imports ContractManifest
begin

text \<open>
  The package \<open>contracts/contractapproval\<close>: approval records, partner pins, their audit-binding
  digests, and the \<open>Registry\<close> the exchange preflight asks whether a contract is approved and pinned
  for a partner link. A registry operation is a function of the registry, its mutex making each one
  atomic; where the code checks for a nil registry the argument is an option. Values are copied:
  the model does not have the sharing of the \<open>Contracts\<close> slice with the caller.
\<close>

section \<open>Data\<close>

definition StatePendingApproval :: string where "StatePendingApproval = ''pending_approval''"
definition StateApproved :: string where "StateApproved = ''approved''"
definition StateRevoked :: string where "StateRevoked = ''revoked''"

lemmas state_defs = StatePendingApproval_def StateApproved_def StateRevoked_def

definition CodePolicyDenied :: string where "CodePolicyDenied = ''policy.denied''"

definition approvalErr :: "string \<Rightarrow> goerror" where
  "approvalErr message = app_New CodePolicyDenied ''contract_approval'' message"

record ContractPin =
  cp_ContractID :: string
  cp_ContractVersion :: string
  cp_PayloadSchemaHashSHA256 :: string
  cp_ServiceCatalogID :: string
  cp_Action :: string
  cp_ServiceCatalogAction :: string

record ApprovalRecord =
  ar_TenantID :: string
  ar_CatalogVersion :: string
  ar_PackVersion :: string
  ar_ManifestID :: string
  ar_ManifestHashSHA256 :: string
  ar_State :: string
  ar_AllowedPartnerLinkIDs :: "string list"
  ar_Contracts :: "ContractPin slice"
  ar_ApprovedBy :: string
  ar_ApprovedAtMS :: int64
  ar_CreatedBy :: string
  ar_CreatedAtMS :: int64
  ar_AuditBindingHashSHA256 :: string

record PartnerPin =
  pp_TenantID :: string
  pp_PartnerLinkID :: string
  pp_CatalogVersion :: string
  pp_PackVersion :: string
  pp_ManifestHashSHA256 :: string
  pp_PreviousPackVersion :: string
  pp_PreviousManifestHashSHA256 :: string
  pp_PinnedBy :: string
  pp_PinnedAtMS :: int64
  pp_Reason :: string
  pp_AuditBindingHashSHA256 :: string

record ApprovalInput =
  ai_Manifest :: Manifest
  ai_PackVersion :: string
  ai_State :: string
  ai_AllowedPartnerLinkIDs :: "string list"
  ai_ServiceCatalogIDByContractID :: "string \<rightharpoonup> string"
  ai_ServiceCatalogActionByContractID :: "string \<rightharpoonup> string"
  ai_ApprovedBy :: string
  ai_ApprovedAtMS :: int64
  ai_CreatedBy :: string
  ai_CreatedAtMS :: int64

record PinInput =
  pi_TenantID :: string
  pi_PartnerLinkID :: string
  pi_CatalogVersion :: string
  pi_PackVersion :: string
  pi_ManifestHashSHA256 :: string
  pi_PinnedBy :: string
  pi_PinnedAtMS :: int64
  pi_Reason :: string

record Registry =
  reg_records :: "string \<rightharpoonup> ApprovalRecord"
  reg_pins :: "string \<rightharpoonup> PartnerPin"

definition NewRegistry :: Registry where
  "NewRegistry = \<lparr>reg_records = Map.empty, reg_pins = Map.empty\<rparr>"

definition zero_PartnerPin :: PartnerPin where
  "zero_PartnerPin = \<lparr>pp_TenantID = [], pp_PartnerLinkID = [], pp_CatalogVersion = [], pp_PackVersion = [],
     pp_ManifestHashSHA256 = [], pp_PreviousPackVersion = [], pp_PreviousManifestHashSHA256 = [],
     pp_PinnedBy = [], pp_PinnedAtMS = 0, pp_Reason = [], pp_AuditBindingHashSHA256 = []\<rparr>"

section \<open>Normalisation\<close>

definition normalizeStrings :: "string list \<Rightarrow> string list" where
  "normalizeStrings values = sort (trim_unique [] values)"

definition containsString :: "string list \<Rightarrow> string \<Rightarrow> bool" where
  "containsString values needle \<longleftrightarrow> list_ex (\<lambda>value. TrimSpace value = TrimSpace needle) values"

definition pinKey :: "string \<Rightarrow> string \<Rightarrow> string \<Rightarrow> string" where
  "pinKey tenantID partnerLinkID catalogVersion =
     TrimSpace tenantID @ CHR 0x00 # TrimSpace partnerLinkID @ CHR 0x00 # TrimSpace catalogVersion"

definition trim_pin :: "ContractPin \<Rightarrow> ContractPin" where
  "trim_pin c = \<lparr>cp_ContractID = TrimSpace (cp_ContractID c),
     cp_ContractVersion = TrimSpace (cp_ContractVersion c),
     cp_PayloadSchemaHashSHA256 = TrimSpace (cp_PayloadSchemaHashSHA256 c),
     cp_ServiceCatalogID = TrimSpace (cp_ServiceCatalogID c),
     cp_Action = TrimSpace (cp_Action c),
     cp_ServiceCatalogAction = TrimSpace (cp_ServiceCatalogAction c)\<rparr>"

definition contract_pin_key :: "ContractPin \<Rightarrow> string" where
  "contract_pin_key c = cp_ContractID c @ CHR 0x00 # cp_ContractVersion c @ CHR 0x00 # cp_Action c"

definition normalizeApprovalRecord :: "ApprovalRecord \<Rightarrow> ApprovalRecord" where
  "normalizeApprovalRecord r = r
     \<lparr>ar_TenantID := TrimSpace (ar_TenantID r),
      ar_CatalogVersion := TrimSpace (ar_CatalogVersion r),
      ar_PackVersion := TrimSpace (ar_PackVersion r),
      ar_ManifestID := TrimSpace (ar_ManifestID r),
      ar_ManifestHashSHA256 := TrimSpace (ar_ManifestHashSHA256 r),
      ar_State := (if TrimSpace (ar_State r) = [] then StatePendingApproval else TrimSpace (ar_State r)),
      ar_AllowedPartnerLinkIDs := normalizeStrings (ar_AllowedPartnerLinkIDs r),
      ar_ApprovedBy := TrimSpace (ar_ApprovedBy r),
      ar_CreatedBy := TrimSpace (ar_CreatedBy r),
      ar_AuditBindingHashSHA256 := TrimSpace (ar_AuditBindingHashSHA256 r),
      ar_Contracts := map_option (\<lambda>cs. sort_key contract_pin_key (map trim_pin cs)) (ar_Contracts r)\<rparr>"

definition normalizePinInput :: "PinInput \<Rightarrow> PinInput" where
  "normalizePinInput i = i
     \<lparr>pi_TenantID := TrimSpace (pi_TenantID i), pi_PartnerLinkID := TrimSpace (pi_PartnerLinkID i),
      pi_CatalogVersion := TrimSpace (pi_CatalogVersion i), pi_PackVersion := TrimSpace (pi_PackVersion i),
      pi_ManifestHashSHA256 := TrimSpace (pi_ManifestHashSHA256 i), pi_PinnedBy := TrimSpace (pi_PinnedBy i),
      pi_Reason := TrimSpace (pi_Reason i)\<rparr>"

definition normalizePartnerPin :: "PartnerPin \<Rightarrow> PartnerPin" where
  "normalizePartnerPin pin = pin
     \<lparr>pp_TenantID := TrimSpace (pp_TenantID pin), pp_PartnerLinkID := TrimSpace (pp_PartnerLinkID pin),
      pp_CatalogVersion := TrimSpace (pp_CatalogVersion pin), pp_PackVersion := TrimSpace (pp_PackVersion pin),
      pp_ManifestHashSHA256 := TrimSpace (pp_ManifestHashSHA256 pin),
      pp_PreviousPackVersion := TrimSpace (pp_PreviousPackVersion pin),
      pp_PreviousManifestHashSHA256 := TrimSpace (pp_PreviousManifestHashSHA256 pin),
      pp_PinnedBy := TrimSpace (pp_PinnedBy pin), pp_Reason := TrimSpace (pp_Reason pin),
      pp_AuditBindingHashSHA256 := TrimSpace (pp_AuditBindingHashSHA256 pin)\<rparr>"

section \<open>Audit-binding digests\<close>

definition contract_pin_json :: "ContractPin \<Rightarrow> jdoc" where
  "contract_pin_json c = JObj
     (jfield ''contract_id'' (JStr (cp_ContractID c)) @
      jfield ''contract_version'' (JStr (cp_ContractVersion c)) @
      jfield ''payload_schema_hash_sha256'' (JStr (cp_PayloadSchemaHashSHA256 c)) @
      jfield ''service_catalog_id'' (JStr (cp_ServiceCatalogID c)) @
      jfield ''action'' (JStr (cp_Action c)) @
      jomit (cp_ServiceCatalogAction c = []) ''service_catalog_action'' (JStr (cp_ServiceCatalogAction c)))"

text \<open>The allow-list is written after \<open>normalizeStrings\<close>, which never returns nil.\<close>

definition approval_json :: "ApprovalRecord \<Rightarrow> jdoc" where
  "approval_json r = JObj
     [(''tenant_id'', JStr (ar_TenantID r)), (''catalog_version'', JStr (ar_CatalogVersion r)),
      (''pack_version'', JStr (ar_PackVersion r)), (''manifest_id'', JStr (ar_ManifestID r)),
      (''manifest_hash_sha256'', JStr (ar_ManifestHashSHA256 r)), (''state'', JStr (ar_State r)),
      (''allowed_partner_link_ids'', JArr (map JStr (ar_AllowedPartnerLinkIDs r))),
      (''contracts'', JSlice contract_pin_json (ar_Contracts r)),
      (''approved_by'', JStr (ar_ApprovedBy r)), (''approved_at_ms'', JInt (sint (ar_ApprovedAtMS r))),
      (''created_by'', JStr (ar_CreatedBy r)), (''created_at_ms'', JInt (sint (ar_CreatedAtMS r))),
      (''audit_binding_hash_sha256'', JStr (ar_AuditBindingHashSHA256 r))]"

definition pin_json :: "PartnerPin \<Rightarrow> jdoc" where
  "pin_json pin = JObj
     (jfield ''tenant_id'' (JStr (pp_TenantID pin)) @
      jfield ''partner_link_id'' (JStr (pp_PartnerLinkID pin)) @
      jfield ''catalog_version'' (JStr (pp_CatalogVersion pin)) @
      jfield ''pack_version'' (JStr (pp_PackVersion pin)) @
      jfield ''manifest_hash_sha256'' (JStr (pp_ManifestHashSHA256 pin)) @
      jomit (pp_PreviousPackVersion pin = []) ''previous_pack_version'' (JStr (pp_PreviousPackVersion pin)) @
      jomit (pp_PreviousManifestHashSHA256 pin = []) ''previous_manifest_hash_sha256''
        (JStr (pp_PreviousManifestHashSHA256 pin)) @
      jfield ''pinned_by'' (JStr (pp_PinnedBy pin)) @
      jfield ''pinned_at_ms'' (JInt (sint (pp_PinnedAtMS pin))) @
      jomit (pp_Reason pin = []) ''reason'' (JStr (pp_Reason pin)) @
      jfield ''audit_binding_hash_sha256'' (JStr (pp_AuditBindingHashSHA256 pin)))"

definition hashCanonical :: "platform \<Rightarrow> jdoc \<Rightarrow> string" where
  "hashCanonical p value = hexEncode (sha256 p (marshal value))"

definition ApprovalAuditHash :: "platform \<Rightarrow> ApprovalRecord \<Rightarrow> string" where
  "ApprovalAuditHash p r =
     hashCanonical p (approval_json ((normalizeApprovalRecord r)\<lparr>ar_AuditBindingHashSHA256 := []\<rparr>))"

definition PinAuditHash :: "platform \<Rightarrow> PartnerPin \<Rightarrow> string" where
  "PinAuditHash p pin = hashCanonical p (pin_json ((normalizePartnerPin pin)\<lparr>pp_AuditBindingHashSHA256 := []\<rparr>))"

section \<open>Validation\<close>

definition pin_incomplete :: "ContractPin \<Rightarrow> bool" where
  "pin_incomplete c \<longleftrightarrow> cp_ContractID c = [] \<or> cp_ContractVersion c = [] \<or>
     cp_PayloadSchemaHashSHA256 c = [] \<or> cp_Action c = [] \<or> cp_ServiceCatalogID c = []"

definition ValidateApprovalRecord :: "platform \<Rightarrow> ApprovalRecord \<Rightarrow> goerror option" where
  "ValidateApprovalRecord p r0 =
     (let r = normalizeApprovalRecord r0
      in if ar_TenantID r = [] \<or> ar_CatalogVersion r = [] \<or> ar_PackVersion r = [] \<or> ar_ManifestID r = [] \<or>
            ar_ManifestHashSHA256 r = [] \<or> ar_CreatedBy r = [] \<or> sint (ar_CreatedAtMS r) \<le> 0 \<or>
            elems (ar_Contracts r) = [] then Some (approvalErr ''contract approval record is incomplete'')
      else if ar_State r = StateApproved \<and> (ar_ApprovedBy r = [] \<or> sint (ar_ApprovedAtMS r) \<le> 0) then
        Some (approvalErr ''approved contract packs require approver evidence'')
      else if ar_State r \<notin> {StatePendingApproval, StateApproved, StateRevoked} then
        Some (approvalErr ''contract approval state is invalid'')
      else if ar_State r = StateApproved \<and> ar_AllowedPartnerLinkIDs r = [] then
        Some (approvalErr ''approved contract packs require explicit partner-link allowlists'')
      else if list_ex pin_incomplete (elems (ar_Contracts r)) then
        Some (approvalErr ''contract approval pin is incomplete'')
      else if ar_AuditBindingHashSHA256 r \<noteq> [] \<and> ar_AuditBindingHashSHA256 r \<noteq> ApprovalAuditHash p r then
        Some (approvalErr ''contract approval audit binding hash does not match'')
      else None)"

definition ValidatePartnerPin :: "platform \<Rightarrow> PartnerPin \<Rightarrow> goerror option" where
  "ValidatePartnerPin p pin0 =
     (let pin = normalizePartnerPin pin0
      in if pp_TenantID pin = [] \<or> pp_PartnerLinkID pin = [] \<or> pp_CatalogVersion pin = [] \<or>
            pp_PackVersion pin = [] \<or> pp_ManifestHashSHA256 pin = [] \<or> pp_PinnedBy pin = [] \<or>
            sint (pp_PinnedAtMS pin) \<le> 0 then Some (approvalErr ''contract pack pin is incomplete'')
      else if pp_AuditBindingHashSHA256 pin \<noteq> [] \<and> pp_AuditBindingHashSHA256 pin \<noteq> PinAuditHash p pin then
        Some (approvalErr ''contract pack pin audit binding hash does not match'')
      else None)"

section \<open>Operations\<close>

definition contractPinsFromManifest ::
  "Manifest \<Rightarrow> (string \<rightharpoonup> string) \<Rightarrow> (string \<rightharpoonup> string) \<Rightarrow> ContractPin list" where
  "contractPinsFromManifest manifest serviceCatalogIDs serviceCatalogActions =
     (let lookup = (\<lambda>m k. case m k of None \<Rightarrow> [] | Some v \<Rightarrow> v)
      in sort_key contract_pin_key (map (\<lambda>c.
           \<lparr>cp_ContractID = TrimSpace (ct_ContractID c),
            cp_ContractVersion = TrimSpace (ct_ContractVersion c),
            cp_PayloadSchemaHashSHA256 = TrimSpace (ct_PayloadSchemaHashSHA256 c),
            cp_ServiceCatalogID = TrimSpace (lookup serviceCatalogIDs (ct_ContractID c)),
            cp_Action = TrimSpace (ct_Action c),
            cp_ServiceCatalogAction = TrimSpace (lookup serviceCatalogActions (ct_ContractID c))\<rparr>)
         (mf_Contracts manifest)))"

text \<open>The \<open>ApprovalRecord\<close> literal of \<open>NewApprovalRecord\<close>, before its digest is set.\<close>

definition approval_draft :: "ApprovalInput \<Rightarrow> ApprovalRecord" where
  "approval_draft input =
     (let manifest = ai_Manifest input
      in \<lparr>ar_TenantID = TrimSpace (mf_TenantID manifest),
          ar_CatalogVersion = TrimSpace (mf_CatalogVersion manifest),
          ar_PackVersion = TrimSpace (ai_PackVersion input),
          ar_ManifestID = TrimSpace (mf_ManifestID manifest),
          ar_ManifestHashSHA256 = TrimSpace (mf_ManifestHashSHA256 manifest),
          ar_State = (if TrimSpace (ai_State input) = [] then StatePendingApproval else TrimSpace (ai_State input)),
          ar_AllowedPartnerLinkIDs = normalizeStrings (ai_AllowedPartnerLinkIDs input),
          ar_Contracts = Some (contractPinsFromManifest manifest (ai_ServiceCatalogIDByContractID input)
            (ai_ServiceCatalogActionByContractID input)),
          ar_ApprovedBy = TrimSpace (ai_ApprovedBy input),
          ar_ApprovedAtMS = ai_ApprovedAtMS input,
          ar_CreatedBy = TrimSpace (ai_CreatedBy input),
          ar_CreatedAtMS = ai_CreatedAtMS input,
          ar_AuditBindingHashSHA256 = []\<rparr>)"

definition NewApprovalRecord :: "platform \<Rightarrow> ApprovalInput \<Rightarrow> goerror + ApprovalRecord" where
  "NewApprovalRecord p input =
     (let rec0 = approval_draft input;
          rec = rec0\<lparr>ar_AuditBindingHashSHA256 := ApprovalAuditHash p rec0\<rparr>
      in case ValidateApprovalRecord p rec of Some err \<Rightarrow> Inl err | None \<Rightarrow> Inr rec)"

definition PutApproval :: "platform \<Rightarrow> ApprovalRecord \<Rightarrow> Registry \<Rightarrow> goerror option \<times> Registry" where
  "PutApproval p record0 r =
     (let rec = normalizeApprovalRecord record0
      in case ValidateApprovalRecord p rec of
           Some err \<Rightarrow> (Some err, r)
         | None \<Rightarrow> (None, r\<lparr>reg_records := (reg_records r)(ar_ManifestHashSHA256 rec \<mapsto> rec)\<rparr>))"

definition PutPin :: "platform \<Rightarrow> PartnerPin \<Rightarrow> Registry option \<Rightarrow> goerror option \<times> Registry option" where
  "PutPin p pin0 reg =
     (case reg of
        None \<Rightarrow> (Some (approvalErr ''contract approval registry is required''), None)
      | Some r \<Rightarrow>
          (let pin = normalizePartnerPin pin0
           in case ValidatePartnerPin p pin of
                Some err \<Rightarrow> (Some err, Some r)
              | None \<Rightarrow> (None, Some (r\<lparr>reg_pins := (reg_pins r)
                  (pinKey (pp_TenantID pin) (pp_PartnerLinkID pin) (pp_CatalogVersion pin) \<mapsto> pin)\<rparr>))))"

text \<open>The \<open>PartnerPin\<close> literal of \<open>Registry.Pin\<close>, before its digest is set.\<close>

definition pin_draft :: "PartnerPin \<Rightarrow> PinInput \<Rightarrow> PartnerPin" where
  "pin_draft previous input =
     \<lparr>pp_TenantID = pi_TenantID input, pp_PartnerLinkID = pi_PartnerLinkID input,
      pp_CatalogVersion = pi_CatalogVersion input, pp_PackVersion = pi_PackVersion input,
      pp_ManifestHashSHA256 = pi_ManifestHashSHA256 input,
      pp_PreviousPackVersion = pp_PackVersion previous,
      pp_PreviousManifestHashSHA256 = pp_ManifestHashSHA256 previous,
      pp_PinnedBy = pi_PinnedBy input, pp_PinnedAtMS = pi_PinnedAtMS input,
      pp_Reason = pi_Reason input, pp_AuditBindingHashSHA256 = []\<rparr>"

definition Pin :: "platform \<Rightarrow> PinInput \<Rightarrow> Registry option \<Rightarrow> (goerror + PartnerPin) \<times> Registry option" where
  "Pin p input0 reg =
     (case reg of
        None \<Rightarrow> (Inl (approvalErr ''contract approval registry is required''), None)
      | Some r \<Rightarrow>
          (let input = normalizePinInput input0; found = reg_records r (pi_ManifestHashSHA256 input)
           in case found of
                None \<Rightarrow> (Inl (approvalErr ''contract pack version is not approved''), Some r)
              | Some rec \<Rightarrow>
                  if ar_State rec \<noteq> StateApproved then
                    (Inl (approvalErr ''contract pack version is not approved''), Some r)
                  else if ar_TenantID rec \<noteq> pi_TenantID input \<or> ar_CatalogVersion rec \<noteq> pi_CatalogVersion input \<or>
                          ar_PackVersion rec \<noteq> pi_PackVersion input then
                    (Inl (approvalErr ''contract pack pin does not match the approved pack version''), Some r)
                  else if \<not> containsString (ar_AllowedPartnerLinkIDs rec) (pi_PartnerLinkID input) then
                    (Inl (approvalErr ''partner link is not approved for this contract pack''), Some r)
                  else if pi_PinnedBy input = [] \<or> sint (pi_PinnedAtMS input) \<le> 0 then
                    (Inl (approvalErr ''pin approver and timestamp are required''), Some r)
                  else
                    (let key = pinKey (pi_TenantID input) (pi_PartnerLinkID input) (pi_CatalogVersion input);
                         previous = (case reg_pins r key of None \<Rightarrow> zero_PartnerPin | Some x \<Rightarrow> x);
                         pin0 = pin_draft previous input;
                         pin = pin0\<lparr>pp_AuditBindingHashSHA256 := PinAuditHash p pin0\<rparr>
                     in case ValidatePartnerPin p pin of
                          Some err \<Rightarrow> (Inl err, Some r)
                        | None \<Rightarrow> (Inr pin, Some (r\<lparr>reg_pins := (reg_pins r)(key \<mapsto> pin)\<rparr>)))))"

definition contractPinned :: "ContractPin list \<Rightarrow> ContractRef \<Rightarrow> string \<Rightarrow> bool" where
  "contractPinned pins ref action \<longleftrightarrow>
     list_ex (\<lambda>pin. cp_ContractID pin = TrimSpace (cr_ContractID ref) \<and>
       cp_ContractVersion pin = TrimSpace (cr_ContractVersion ref) \<and>
       cp_PayloadSchemaHashSHA256 pin = TrimSpace (cr_PayloadSchemaHashSHA256 ref) \<and>
       cp_Action pin = TrimSpace action) pins"

definition reg_Authorize :: "Registry option \<Rightarrow> ContractApprovalCheck \<Rightarrow> goerror option" where
  "reg_Authorize reg input =
     (case reg of
        None \<Rightarrow> Some (approvalErr ''contract approval registry is required'')
      | Some r \<Rightarrow>
          (let tenantID = TrimSpace (ses_LocalTenantID (pc_Session input));
               partnerLinkID = TrimSpace (env_PartnerLinkID (pc_Envelope input));
               catalogVersion = TrimSpace (xm_CatalogVersion (pc_Manifest input));
               manifestHash = TrimSpace (xm_ManifestHashSHA256 (pc_Manifest input))
           in if tenantID = [] \<or> partnerLinkID = [] \<or> catalogVersion = [] \<or> manifestHash = [] then
                Some (approvalErr ''contract approval check is missing required identity'')
              else case reg_records r manifestHash of
                     None \<Rightarrow> Some (approvalErr ''contract pack version is not approved'')
                   | Some rec \<Rightarrow>
                       (let pin = (case reg_pins r (pinKey tenantID partnerLinkID catalogVersion) of
                              None \<Rightarrow> zero_PartnerPin | Some x \<Rightarrow> x)
                        in if ar_State rec \<noteq> StateApproved then
                             Some (approvalErr ''contract pack version is not approved'')
                           else if ar_TenantID rec \<noteq> tenantID \<or> ar_CatalogVersion rec \<noteq> catalogVersion then
                             Some (approvalErr ''contract pack approval does not match the exchange tenant or catalog'')
                           else if \<not> containsString (ar_AllowedPartnerLinkIDs rec) partnerLinkID then
                             Some (approvalErr ''partner link is not approved for this contract pack'')
                           else if pp_ManifestHashSHA256 pin \<noteq> manifestHash \<or> pp_PackVersion pin \<noteq> ar_PackVersion rec \<or>
                                   pp_PartnerLinkID pin \<noteq> partnerLinkID \<or> pp_CatalogVersion pin \<noteq> catalogVersion then
                             Some (approvalErr ''contract pack version is not pinned for this partner link'')
                           else if \<not> contractPinned (elems (ar_Contracts rec)) (env_Contract (pc_Envelope input))
                                     (env_Action (pc_Envelope input)) then
                             Some (approvalErr ''contract is not pinned in the approved pack version'')
                           else None)))"

section \<open>Facts: normalisation, validity and reachable registries\<close>

lemma normalizeStrings_canonical:
  "normalizeStrings vs = sorted_list_of_set (TrimSpace ` set vs - {[]})"
  using trim_unique_set [of "[]" vs] trim_unique_distinct [of "[]" vs]
    sorted_list_of_set_sort_remdups [of "trim_unique [] vs"]
  by (simp add: normalizeStrings_def distinct_remdups_id)

lemma set_normalizeStrings: "set (normalizeStrings vs) = TrimSpace ` set vs - {[]}"
  by (simp add: normalizeStrings_canonical)

lemma trimmed_image_again: "TrimSpace ` (TrimSpace ` A - {[]}) - {[]} = TrimSpace ` A - {[]}"
proof -
  have "TrimSpace ` (TrimSpace ` A - {[]}) = (\<lambda>x. x) ` (TrimSpace ` A - {[]})" by (rule image_cong) auto
  then show ?thesis by auto
qed

lemma normalizeStrings_idem [norm_simps]: "normalizeStrings (normalizeStrings vs) = normalizeStrings vs"
  by (simp add: normalizeStrings_canonical [of "normalizeStrings vs"] set_normalizeStrings trimmed_image_again)
     (simp add: normalizeStrings_canonical)

lemma trim_pin_idem [simp]: "trim_pin (trim_pin c) = trim_pin c"
  by (simp add: trim_pin_def)

lemma sort_trim_pins_idem [norm_simps]:
  "sort_key contract_pin_key (map trim_pin (sort_key contract_pin_key (map trim_pin cs))) =
   sort_key contract_pin_key (map trim_pin cs)"
proof -
  let ?ys = "sort_key contract_pin_key (map trim_pin cs)"
  have "map trim_pin ?ys = ?ys" by (rule map_idI) auto
  then show ?thesis by (simp add: sort_key_sorted)
qed

lemma normalizeApprovalRecord_idem [norm_simps]:
  "normalizeApprovalRecord (normalizeApprovalRecord r) = normalizeApprovalRecord r"
proof -
  have "TrimSpace StatePendingApproval = StatePendingApproval" "StatePendingApproval \<noteq> []"
    by code_simp+
  then show ?thesis
    by (cases "ar_Contracts r") (simp_all add: normalizeApprovalRecord_def norm_simps)
qed

lemma normalizePartnerPin_idem [norm_simps]: "normalizePartnerPin (normalizePartnerPin pin) = normalizePartnerPin pin"
  by (simp add: normalizePartnerPin_def)

lemma normalizePartnerPin_fields:
  "pp_PackVersion (normalizePartnerPin pin) = TrimSpace (pp_PackVersion pin)"
  "pp_ManifestHashSHA256 (normalizePartnerPin pin) = TrimSpace (pp_ManifestHashSHA256 pin)"
  by (simp_all add: normalizePartnerPin_def)

lemma ValidateApprovalRecord_normal [simp]:
  "ValidateApprovalRecord p (normalizeApprovalRecord r) = ValidateApprovalRecord p r"
  by (simp add: ValidateApprovalRecord_def norm_simps)

lemma ValidatePartnerPin_normal [simp]: "ValidatePartnerPin p (normalizePartnerPin pin) = ValidatePartnerPin p pin"
  by (simp add: ValidatePartnerPin_def norm_simps)

lemma ApprovalAuditHash_normal [simp]: "ApprovalAuditHash p (normalizeApprovalRecord r) = ApprovalAuditHash p r"
  by (simp add: ApprovalAuditHash_def norm_simps)

lemma ApprovalAuditHash_stamp [simp]: "ApprovalAuditHash p (r\<lparr>ar_AuditBindingHashSHA256 := h\<rparr>) = ApprovalAuditHash p r"
  by (simp add: ApprovalAuditHash_def normalizeApprovalRecord_def)

lemma PinAuditHash_stamp [simp]: "PinAuditHash p (pin\<lparr>pp_AuditBindingHashSHA256 := h\<rparr>) = PinAuditHash p pin"
  by (simp add: PinAuditHash_def normalizePartnerPin_def)

lemma pinKey_tenant: "pinKey t l c = pinKey t' l c \<longleftrightarrow> TrimSpace t = TrimSpace t'"
  by (simp add: pinKey_def)

definition record_ok :: "platform \<Rightarrow> string \<Rightarrow> ApprovalRecord \<Rightarrow> bool" where
  "record_ok p h rec \<longleftrightarrow> h = ar_ManifestHashSHA256 rec \<and> normalizeApprovalRecord rec = rec \<and>
     ValidateApprovalRecord p rec = None"

definition pin_ok :: "platform \<Rightarrow> string \<Rightarrow> PartnerPin \<Rightarrow> bool" where
  "pin_ok p k pin \<longleftrightarrow> k = pinKey (pp_TenantID pin) (pp_PartnerLinkID pin) (pp_CatalogVersion pin) \<and>
     normalizePartnerPin pin = pin \<and> ValidatePartnerPin p pin = None"

definition registry_ok :: "platform \<Rightarrow> Registry \<Rightarrow> bool" where
  "registry_ok p r \<longleftrightarrow> (\<forall>h rec. reg_records r h = Some rec \<longrightarrow> record_ok p h rec) \<and>
     (\<forall>k pin. reg_pins r k = Some pin \<longrightarrow> pin_ok p k pin)"

lemma NewRegistry_ok [wf_intros]: "registry_ok p NewRegistry"
  by (simp add: registry_ok_def NewRegistry_def)

lemma PutApproval_ok [wf_intros]:
  "registry_ok p r \<Longrightarrow> PutApproval p rec r = (e, r') \<Longrightarrow> registry_ok p r'"
  by (auto simp: PutApproval_def registry_ok_def record_ok_def Let_def norm_simps split: option.splits if_splits)

lemma PutPin_ok [wf_intros]:
  "registry_ok p r \<Longrightarrow> PutPin p pin (Some r) = (e, Some r') \<Longrightarrow> registry_ok p r'"
  by (auto simp: PutPin_def registry_ok_def pin_ok_def Let_def norm_simps split: option.splits if_splits)

text \<open>What a successful \<open>Pin\<close> did.\<close>

abbreviation pinned_at :: "Registry \<Rightarrow> string \<Rightarrow> PartnerPin" where
  "pinned_at r k \<equiv> (case reg_pins r k of None \<Rightarrow> zero_PartnerPin | Some x \<Rightarrow> x)"

abbreviation input_key :: "PinInput \<Rightarrow> string" where
  "input_key n \<equiv> pinKey (pi_TenantID n) (pi_PartnerLinkID n) (pi_CatalogVersion n)"

lemma Pin_Inr:
  assumes "Pin p i (Some r) = (Inr pin, Some r')"
  defines "n \<equiv> normalizePinInput i"
  obtains rec where "reg_records r (pi_ManifestHashSHA256 n) = Some rec" "ar_State rec = StateApproved"
    "ar_TenantID rec = pi_TenantID n" "ar_CatalogVersion rec = pi_CatalogVersion n" "ar_PackVersion rec = pi_PackVersion n"
    "containsString (ar_AllowedPartnerLinkIDs rec) (pi_PartnerLinkID n)"
    "ValidatePartnerPin p pin = None"
    "pin = (pin_draft (pinned_at r (input_key n)) n)\<lparr>pp_AuditBindingHashSHA256 := PinAuditHash p (pin_draft (pinned_at r (input_key n)) n)\<rparr>"
    "r' = r\<lparr>reg_pins := (reg_pins r)(input_key n \<mapsto> pin)\<rparr>"
  using assms(1) unfolding Pin_def n_def [symmetric] Let_def
  by (simp split: option.splits if_splits) auto

lemma Pin_refused: "Pin p i (Some r) = (Inl e, Some r') \<Longrightarrow> r' = r"
  unfolding Pin_def Let_def by (auto split: option.splits if_splits)

lemma Pin_ok [wf_intros]:
  assumes "registry_ok p r" "Pin p i (Some r) = (res, Some r')"
  shows "registry_ok p r'"
proof (cases res)
  case (Inl e)
  with assms Pin_refused show ?thesis by blast
next
  case (Inr pin)
  let ?n = "normalizePinInput i"
  have prev: "normalizePartnerPin (pinned_at r k) = pinned_at r k" for k
    using assms(1) by (auto simp: registry_ok_def pin_ok_def zero_PartnerPin_def normalizePartnerPin_def split: option.splits)
  then have prev': "TrimSpace (pp_PackVersion (pinned_at r k)) = pp_PackVersion (pinned_at r k)"
    "TrimSpace (pp_ManifestHashSHA256 (pinned_at r k)) = pp_ManifestHashSHA256 (pinned_at r k)" for k
    by (metis (no_types) prev normalizePartnerPin_fields)+
  have t: "TrimSpace (PinAuditHash p q) = PinAuditHash p q" for q
    by (simp add: PinAuditHash_def hashCanonical_def)
  show ?thesis
  proof (rule Pin_Inr [OF assms(2) [unfolded Inr]])
    fix rec
    assume v: "ValidatePartnerPin p pin = None"
      and pin: "pin = (pin_draft (pinned_at r (input_key ?n)) ?n)\<lparr>pp_AuditBindingHashSHA256 := PinAuditHash p (pin_draft (pinned_at r (input_key ?n)) ?n)\<rparr>"
      and r': "r' = r\<lparr>reg_pins := (reg_pins r)(input_key ?n \<mapsto> pin)\<rparr>"
    have "normalizePartnerPin pin = pin" "input_key ?n = pinKey (pp_TenantID pin) (pp_PartnerLinkID pin) (pp_CatalogVersion pin)"
      unfolding pin by (simp_all add: normalizePartnerPin_def pin_draft_def prev' t normalizePinInput_def)
    then have "pin_ok p (input_key ?n) pin" using v by (simp add: pin_ok_def)
    with assms(1) show ?thesis unfolding r' by (auto simp: registry_ok_def)
  qed
qed

text \<open>The registries that any sequence of operations can produce.\<close>

inductive registry_step :: "platform \<Rightarrow> Registry \<Rightarrow> Registry \<Rightarrow> bool" for p where
  put_approval: "PutApproval p rec r = (e, r') \<Longrightarrow> registry_step p r r'"
| put_pin: "PutPin p pin (Some r) = (e, Some r') \<Longrightarrow> registry_step p r r'"
| pin: "Pin p i (Some r) = (res, Some r') \<Longrightarrow> registry_step p r r'"

inductive_cases registry_stepE: "registry_step p r r'"

definition registry_reachable :: "platform \<Rightarrow> Registry \<Rightarrow> bool" where
  "registry_reachable p r \<longleftrightarrow> (registry_step p)\<^sup>*\<^sup>* NewRegistry r"

lemma registry_step_ok: "registry_step p r r' \<Longrightarrow> registry_ok p r \<Longrightarrow> registry_ok p r'"
  by (erule registry_stepE) (auto intro: wf_intros)

lemma registry_reachable_ok: "registry_reachable p r \<Longrightarrow> registry_ok p r"
  unfolding registry_reachable_def
  by (induction rule: rtranclp_induct) (auto intro: wf_intros registry_step_ok)
section \<open>Facts: what an authorisation rests on\<close>

lemma reg_Authorize_None_iff:
  fixes chk :: ContractApprovalCheck
  defines "t \<equiv> TrimSpace (ses_LocalTenantID (pc_Session chk))"
    and "l \<equiv> TrimSpace (env_PartnerLinkID (pc_Envelope chk))"
    and "cv \<equiv> TrimSpace (xm_CatalogVersion (pc_Manifest chk))"
    and "hash \<equiv> TrimSpace (xm_ManifestHashSHA256 (pc_Manifest chk))"
  shows "reg_Authorize (Some r) chk = None \<longleftrightarrow>
    t \<noteq> [] \<and> l \<noteq> [] \<and> cv \<noteq> [] \<and> hash \<noteq> [] \<and>
    (\<exists>rec pin. reg_records r hash = Some rec \<and> ar_State rec = StateApproved \<and>
       ar_TenantID rec = t \<and> ar_CatalogVersion rec = cv \<and> containsString (ar_AllowedPartnerLinkIDs rec) l \<and>
       reg_pins r (pinKey t l cv) = Some pin \<and> pp_ManifestHashSHA256 pin = hash \<and>
       pp_PackVersion pin = ar_PackVersion rec \<and> pp_PartnerLinkID pin = l \<and> pp_CatalogVersion pin = cv \<and>
       contractPinned (elems (ar_Contracts rec)) (env_Contract (pc_Envelope chk)) (env_Action (pc_Envelope chk)))"
  unfolding reg_Authorize_def t_def [symmetric] l_def [symmetric] cv_def [symmetric] hash_def [symmetric] Let_def
  by (auto simp: zero_PartnerPin_def split: option.splits)

lemma ValidateApprovalRecord_None_iff:
  assumes "normalizeApprovalRecord rec = rec"
  shows "ValidateApprovalRecord p rec = None \<longleftrightarrow>
    ar_TenantID rec \<noteq> [] \<and> ar_CatalogVersion rec \<noteq> [] \<and> ar_PackVersion rec \<noteq> [] \<and> ar_ManifestID rec \<noteq> [] \<and>
    ar_ManifestHashSHA256 rec \<noteq> [] \<and> ar_CreatedBy rec \<noteq> [] \<and> 0 < sint (ar_CreatedAtMS rec) \<and>
    elems (ar_Contracts rec) \<noteq> [] \<and> ar_State rec \<in> {StatePendingApproval, StateApproved, StateRevoked} \<and>
    (ar_State rec = StateApproved \<longrightarrow>
       ar_ApprovedBy rec \<noteq> [] \<and> 0 < sint (ar_ApprovedAtMS rec) \<and> ar_AllowedPartnerLinkIDs rec \<noteq> []) \<and>
    (\<forall>c \<in> set (elems (ar_Contracts rec)). \<not> pin_incomplete c) \<and>
    (ar_AuditBindingHashSHA256 rec = [] \<or> ar_AuditBindingHashSHA256 rec = ApprovalAuditHash p rec)"
  unfolding ValidateApprovalRecord_def assms Let_def by (auto simp: list_ex_iff)

lemma ValidatePartnerPin_None_iff:
  assumes "normalizePartnerPin pin = pin"
  shows "ValidatePartnerPin p pin = None \<longleftrightarrow>
    pp_TenantID pin \<noteq> [] \<and> pp_PartnerLinkID pin \<noteq> [] \<and> pp_CatalogVersion pin \<noteq> [] \<and> pp_PackVersion pin \<noteq> [] \<and>
    pp_ManifestHashSHA256 pin \<noteq> [] \<and> pp_PinnedBy pin \<noteq> [] \<and> 0 < sint (pp_PinnedAtMS pin) \<and>
    (pp_AuditBindingHashSHA256 pin = [] \<or> pp_AuditBindingHashSHA256 pin = PinAuditHash p pin)"
  unfolding ValidatePartnerPin_def assms Let_def by auto

lemma containsString_normal:
  assumes "normalizeStrings vs = vs" "TrimSpace l = l"
  shows "containsString vs l \<longleftrightarrow> l \<in> set vs"
proof -
  have "TrimSpace v = v" if "v \<in> set vs" for v
  proof -
    have "v \<in> TrimSpace ` set vs" using set_normalizeStrings [of vs] assms(1) that by (metis DiffD1)
    then show ?thesis by auto
  qed
  with assms(2) show ?thesis by (auto simp: containsString_def list_ex_iff)
qed

text \<open>What an authorisation of a well-formed registry rests on.\<close>

lemma reg_Authorize_sound:
  fixes chk :: ContractApprovalCheck
  defines "t \<equiv> TrimSpace (ses_LocalTenantID (pc_Session chk))"
    and "l \<equiv> TrimSpace (env_PartnerLinkID (pc_Envelope chk))"
    and "cv \<equiv> TrimSpace (xm_CatalogVersion (pc_Manifest chk))"
    and "hash \<equiv> TrimSpace (xm_ManifestHashSHA256 (pc_Manifest chk))"
  assumes "registry_ok p r" "reg_Authorize (Some r) chk = None"
  shows "\<exists>rec pin. reg_records r hash = Some rec \<and> ar_ManifestHashSHA256 rec = hash \<and>
       ar_State rec = StateApproved \<and> ar_ApprovedBy rec \<noteq> [] \<and> 0 < sint (ar_ApprovedAtMS rec) \<and>
       ar_TenantID rec = t \<and> ar_CatalogVersion rec = cv \<and> l \<in> set (ar_AllowedPartnerLinkIDs rec) \<and>
       reg_pins r (pinKey t l cv) = Some pin \<and> pp_TenantID pin = t \<and> pp_PartnerLinkID pin = l \<and>
       pp_ManifestHashSHA256 pin = hash \<and> pp_PackVersion pin = ar_PackVersion rec \<and>
       pp_PinnedBy pin \<noteq> [] \<and> 0 < sint (pp_PinnedAtMS pin) \<and>
       contractPinned (elems (ar_Contracts rec)) (env_Contract (pc_Envelope chk)) (env_Action (pc_Envelope chk))"
proof -
  obtain rec pin where *: "reg_records r hash = Some rec" "ar_State rec = StateApproved"
      "ar_TenantID rec = t" "ar_CatalogVersion rec = cv" "containsString (ar_AllowedPartnerLinkIDs rec) l"
      "reg_pins r (pinKey t l cv) = Some pin" "pp_ManifestHashSHA256 pin = hash"
      "pp_PackVersion pin = ar_PackVersion rec" "pp_PartnerLinkID pin = l" "pp_CatalogVersion pin = cv"
      "contractPinned (elems (ar_Contracts rec)) (env_Contract (pc_Envelope chk)) (env_Action (pc_Envelope chk))"
    using assms(6) unfolding reg_Authorize_None_iff t_def [symmetric] l_def [symmetric] cv_def [symmetric] hash_def [symmetric]
    by blast
  have rec: "record_ok p hash rec" and pin: "pin_ok p (pinKey t l cv) pin"
    using assms(5) * unfolding registry_ok_def by blast+
  have n: "normalizeApprovalRecord rec = rec" "normalizePartnerPin pin = pin"
    using rec pin by (simp_all add: record_ok_def pin_ok_def)
  have "normalizeStrings (ar_AllowedPartnerLinkIDs rec) = ar_AllowedPartnerLinkIDs rec"
    using arg_cong [OF n(1), of ar_AllowedPartnerLinkIDs] by (simp add: normalizeApprovalRecord_def)
  then have "l \<in> set (ar_AllowedPartnerLinkIDs rec)"
    using *(5) by (simp add: containsString_normal l_def)
  moreover have "pp_TenantID pin = t"
  proof -
    have "TrimSpace (pp_TenantID pin) = pp_TenantID pin"
      using arg_cong [OF n(2), of pp_TenantID] by (simp add: normalizePartnerPin_def)
    moreover have "pinKey t l cv = pinKey (pp_TenantID pin) l cv"
      using pin * by (simp add: pin_ok_def)
    ultimately show ?thesis by (simp add: pinKey_tenant t_def)
  qed
  moreover have "ar_ManifestHashSHA256 rec = hash" using rec by (simp add: record_ok_def)
  moreover have "ar_ApprovedBy rec \<noteq> []" "0 < sint (ar_ApprovedAtMS rec)"
    using rec *(2) by (simp_all add: record_ok_def ValidateApprovalRecord_None_iff [OF n(1)])
  moreover have "pp_PinnedBy pin \<noteq> []" "0 < sint (pp_PinnedAtMS pin)"
    using pin by (simp_all add: pin_ok_def ValidatePartnerPin_None_iff [OF n(2)])
  ultimately show ?thesis using * by blast
qed

lemma PutApproval_stores:
  assumes "PutApproval p rec r = (None, r')"
  shows "reg_records r' (TrimSpace (ar_ManifestHashSHA256 rec)) = Some (normalizeApprovalRecord rec)"
    "reg_pins r' = reg_pins r"
  using assms by (auto simp: PutApproval_def Let_def normalizeApprovalRecord_def split: option.splits)

lemma not_approved_denied:
  assumes "reg_records r (TrimSpace (xm_ManifestHashSHA256 (pc_Manifest chk))) = Some rec" "ar_State rec \<noteq> StateApproved"
  shows "reg_Authorize (Some r) chk \<noteq> None"
  using assms by (auto simp: reg_Authorize_None_iff)

lemma contractPinsFromManifest_normal:
  "sort_key contract_pin_key (map trim_pin (contractPinsFromManifest m a b)) = contractPinsFromManifest m a b"
proof -
  have "map trim_pin (contractPinsFromManifest m a b) = contractPinsFromManifest m a b"
    by (rule map_idI) (auto simp: contractPinsFromManifest_def Let_def trim_pin_def)
  moreover have "sorted (map contract_pin_key (contractPinsFromManifest m a b))"
    by (simp add: contractPinsFromManifest_def Let_def)
  ultimately show ?thesis by (simp add: sort_key_sorted)
qed

lemma approval_draft_normal: "normalizeApprovalRecord (approval_draft i) = approval_draft i"
proof -
  have "TrimSpace StatePendingApproval = StatePendingApproval" "StatePendingApproval \<noteq> []" by code_simp+
  then show ?thesis
    by (simp add: approval_draft_def Let_def normalizeApprovalRecord_def norm_simps contractPinsFromManifest_normal)
qed

definition stamped :: "platform \<Rightarrow> ApprovalRecord \<Rightarrow> ApprovalRecord" where
  "stamped p r = r\<lparr>ar_AuditBindingHashSHA256 := ApprovalAuditHash p r\<rparr>"

lemma stamped_normal:
  assumes "normalizeApprovalRecord r = r"
  shows "normalizeApprovalRecord (stamped p r) = stamped p r"
proof -
  have "normalizeApprovalRecord (r\<lparr>ar_AuditBindingHashSHA256 := h\<rparr>) =
      (normalizeApprovalRecord r)\<lparr>ar_AuditBindingHashSHA256 := TrimSpace h\<rparr>" for h
    by (simp add: normalizeApprovalRecord_def)
  moreover have "TrimSpace (ApprovalAuditHash p r) = ApprovalAuditHash p r"
    by (simp add: ApprovalAuditHash_def hashCanonical_def)
  ultimately show ?thesis using assms by (simp add: stamped_def)
qed

lemma stamped_valid:
  assumes "normalizeApprovalRecord r = r" "ValidateApprovalRecord p r = None"
  shows "ValidateApprovalRecord p (stamped p r) = None"
  using assms(2) unfolding ValidateApprovalRecord_None_iff [OF assms(1)]
    ValidateApprovalRecord_None_iff [OF stamped_normal [OF assms(1)]]
  by (simp add: stamped_def)

lemma NewApprovalRecord_Inr:
  "NewApprovalRecord p i = Inr rec \<longleftrightarrow>
     rec = stamped p (approval_draft i) \<and> ValidateApprovalRecord p (stamped p (approval_draft i)) = None"
  by (auto simp: NewApprovalRecord_def Let_def stamped_def split: option.splits)

lemma NewApprovalRecord_normal:
  assumes "NewApprovalRecord p i = Inr rec"
  shows "normalizeApprovalRecord rec = rec" "ValidateApprovalRecord p rec = None"
    "ar_AuditBindingHashSHA256 rec = ApprovalAuditHash p rec"
  using assms stamped_normal [OF approval_draft_normal]
  unfolding NewApprovalRecord_Inr by (simp_all, simp add: stamped_def)

lemma contract_pin_json_inject: "contract_pin_json a = contract_pin_json b \<longleftrightarrow> a = b"
  by (cases a; cases b; cases "cp_ServiceCatalogAction a = []"; cases "cp_ServiceCatalogAction b = []")
     (auto simp: contract_pin_json_def jfield_def jomit_def)

lemma approval_json_inject: "approval_json a = approval_json b \<longleftrightarrow> a = b"
proof -
  have m: "map JStr xs = map JStr ys \<longleftrightarrow> xs = ys" for xs ys by (auto intro: map_injective simp: inj_def)
  show ?thesis
    by (cases a; cases b) (auto simp: approval_json_def m JSlice_inject [OF contract_pin_json_inject])
qed


section \<open>The interface of an approval gate\<close>

text \<open>
  What the exchange preflight relies on: an authorisation rests on an approved pack of the local
  tenant that lists the envelope's contract and action and is pinned for the partner link.
\<close>

definition approved_for :: "Registry \<Rightarrow> ContractApprovalCheck \<Rightarrow> bool" where
  "approved_for r chk \<longleftrightarrow>
     (\<exists>rec pin. reg_records r (TrimSpace (xm_ManifestHashSHA256 (pc_Manifest chk))) = Some rec \<and>
        ar_State rec = StateApproved \<and> ar_ApprovedBy rec \<noteq> [] \<and> 0 < sint (ar_ApprovedAtMS rec) \<and>
        ar_TenantID rec = TrimSpace (ses_LocalTenantID (pc_Session chk)) \<and>
        ar_CatalogVersion rec = TrimSpace (xm_CatalogVersion (pc_Manifest chk)) \<and>
        TrimSpace (env_PartnerLinkID (pc_Envelope chk)) \<in> set (ar_AllowedPartnerLinkIDs rec) \<and>
        pin \<in> ran (reg_pins r) \<and> pp_TenantID pin = ar_TenantID rec \<and>
        pp_PartnerLinkID pin = TrimSpace (env_PartnerLinkID (pc_Envelope chk)) \<and>
        pp_ManifestHashSHA256 pin = ar_ManifestHashSHA256 rec \<and> pp_PackVersion pin = ar_PackVersion rec \<and>
        pp_PinnedBy pin \<noteq> [] \<and> 0 < sint (pp_PinnedAtMS pin) \<and>
        contractPinned (elems (ar_Contracts rec)) (env_Contract (pc_Envelope chk)) (env_Action (pc_Envelope chk)))"

locale approval_gate =
  fixes authorize :: "'g \<Rightarrow> ContractApprovalCheck \<Rightarrow> goerror option"
    and ok :: "'g \<Rightarrow> bool"
    and granted :: "'g \<Rightarrow> ContractApprovalCheck \<Rightarrow> bool"
  assumes authorize_sound: "ok g \<Longrightarrow> authorize g chk = None \<Longrightarrow> granted g chk"
begin

text \<open>A gate method on the handler's state that asks the gate held there.\<close>

definition gate_method :: "('x \<Rightarrow> 'g) \<Rightarrow> (ContractApprovalCheck, goerror option, 'x) gomethod" where
  "gate_method get chk x = (authorize (get x) chk, x)"

lemma gate_answer:
  "(\<And>x. ok (get x)) \<Longrightarrow> fst (gate_method get chk x) = None \<Longrightarrow> granted (get x) chk"
  by (simp add: gate_method_def authorize_sound)

end

interpretation registry: approval_gate "\<lambda>r. reg_Authorize (Some r)" "registry_ok p" approved_for for p
proof
  fix r chk
  assume "registry_ok p r" "reg_Authorize (Some r) chk = None"
  from reg_Authorize_sound [OF this] show "approved_for r chk"
    unfolding approved_for_def by (metis ranI)
qed

end
