(* ===== verification/ExchangeGuards.thy ===== *)
theory ExchangeGuards
  imports ExchangeHandler
begin

text \<open>
  What a run of the exchange \<open>Handler\<close> does, proved with a small trace logic: \<open>ensures m P\<close> says that
  every run of the program \<open>m\<close> extends the call log by a trace that satisfies \<open>P\<close> together with the
  result, and has one rule per program construct. \<open>admitted\<close> lists the checks of the strict
  preflight, \<open>cleared\<close> what must have happened before a dispatch, \<open>denial_reason\<close> what each denial
  code means, \<open>handled\<close> and \<open>discovered\<close> everything a run may be. The last section lifts the
  at-most-once contract of a replay cache to sequences of exchanges.
\<close>

section \<open>The trace logic\<close>

named_theorems trace_intros "rules of the trace logic"

definition ensures :: "('x world, 'r) state \<Rightarrow> (call list \<Rightarrow> 'r \<Rightarrow> bool) \<Rightarrow> bool" where
  "ensures m P \<longleftrightarrow> (\<forall>w. \<exists>tr. w_calls (snd (run_state m w)) = w_calls w @ tr \<and> P tr (fst (run_state m w)))"

lemma ensuresD:
  "ensures m P \<Longrightarrow> run_state m w = (r, w') \<Longrightarrow> \<exists>tr. w_calls w' = w_calls w @ tr \<and> P tr r"
  unfolding ensures_def by (metis fst_conv snd_conv)

lemma ensures_weaken: "ensures m P \<Longrightarrow> (\<And>tr r. P tr r \<Longrightarrow> Q tr r) \<Longrightarrow> ensures m Q"
  unfolding ensures_def by blast

lemma ensures_return [trace_intros]: "P [] a \<Longrightarrow> ensures (State_Monad.return a) P"
  by (simp add: ensures_def State_Monad.return_def)

lemma ensures_invoke [trace_intros]: "(\<And>r. P [tag a r] r) \<Longrightarrow> ensures (invoke f tag a) P"
  by (auto simp: ensures_def invoke_def Let_def split: prod.splits)

lemma ensures_bind [trace_intros]:
  assumes "ensures m (\<lambda>tr a. ensures (k a) (\<lambda>tr'. P (tr @ tr')))"
  shows "ensures (State_Monad.bind m k) P"
  unfolding ensures_def
proof
  fix w
  obtain a w1 where 1: "run_state m w = (a, w1)" by fastforce
  obtain tr where tr: "w_calls w1 = w_calls w @ tr" "ensures (k a) (\<lambda>tr'. P (tr @ tr'))"
    using ensuresD [OF assms 1] by blast
  obtain r w2 where 2: "run_state (k a) w1 = (r, w2)" by fastforce
  obtain tr' where "w_calls w2 = w_calls w1 @ tr'" "P (tr @ tr') r"
    using ensuresD [OF tr(2) 2] by blast
  with 1 2 tr show "\<exists>tr. w_calls (snd (run_state (State_Monad.bind m k) w)) = w_calls w @ tr \<and>
      P tr (fst (run_state (State_Monad.bind m k) w))"
    by (simp add: State_Monad.bind_def)
qed

lemma ensures_if [trace_intros]:
  "(b \<Longrightarrow> ensures m P) \<Longrightarrow> (\<not> b \<Longrightarrow> ensures m' P) \<Longrightarrow> ensures (if b then m else m') P"
  by simp

lemma ensures_option [trace_intros]:
  "(v = None \<Longrightarrow> ensures m P) \<Longrightarrow> (\<And>x. v = Some x \<Longrightarrow> ensures (k x) P) \<Longrightarrow>
     ensures (case v of None \<Rightarrow> m | Some x \<Rightarrow> k x) P"
  by (cases v) auto

lemma ensures_sum [trace_intros]:
  "(\<And>x. v = Inl x \<Longrightarrow> ensures (j x) P) \<Longrightarrow> (\<And>x. v = Inr x \<Longrightarrow> ensures (k x) P) \<Longrightarrow>
     ensures (case v of Inl x \<Rightarrow> j x | Inr x \<Rightarrow> k x) P"
  by (cases v) auto

lemma ensures_prod [trace_intros]:
  "(\<And>x y. v = (x, y) \<Longrightarrow> ensures (k x y) P) \<Longrightarrow> ensures (case v of (x, y) \<Rightarrow> k x y) P"
  by (cases v) auto

section \<open>What the preflights establish\<close>

text \<open>The checks of the strict preflight, for the manifest \<open>m\<close>, the action \<open>a\<close> and the clock \<open>t\<close>.\<close>

definition admitted ::
  "platform \<Rightarrow> 'x Handler \<Rightarrow> AuthenticatedSession \<Rightarrow> Envelope \<Rightarrow> XManifest \<Rightarrow> ActionContract \<Rightarrow> int64 \<Rightarrow> bool" where
  "admitted p h s e m a t \<longleftrightarrow>
     env_SchemaVersion e = SchemaGatewayExchangeV1 \<and> sessionMatchesEnvelope s e \<and>
     \<not> ses_KillSwitchEnabled s \<and> ses_PartnerLinkState s = PartnerLinkActive \<and>
     manifestMatches m (env_Contract e) \<and> \<not> xm_Revoked m \<and> xm_Actions m (env_Action e) = Some a \<and>
     allowedFacadeMethod (ac_FacadeMethod a) \<and> partnerLinkAllowed a (env_PartnerLinkID e) \<and>
     0 < sint (env_ExpiresAtMS e) \<and> \<not> past t (env_ExpiresAtMS e) (h_ClockSkewMS h) \<and>
     (0 < sint (xm_ExpiresAtMS m) \<longrightarrow> \<not> past t (xm_ExpiresAtMS m) (h_ClockSkewMS h)) \<and>
     (ac_Mutating a \<or> ac_IdempotencyRequired a \<longrightarrow> env_IdempotencyKey e \<noteq> [] \<and> h_Replay h \<noteq> None) \<and>
     validatePayload p e a = None"

definition check_of :: "AuthenticatedSession \<Rightarrow> Envelope \<Rightarrow> XManifest \<Rightarrow> ActionContract \<Rightarrow> PolicyCheck" where
  "check_of s e m a = \<lparr>pc_Session = s, pc_Envelope = e, pc_Manifest = m, pc_Action = a\<rparr>"

text \<open>The interface calls of a strict preflight that allows, in order and all answered positively.\<close>

definition admission_calls ::
  "'x Handler \<Rightarrow> AuthenticatedSession \<Rightarrow> Envelope \<Rightarrow> XManifest \<Rightarrow> ActionContract \<Rightarrow> int64 \<Rightarrow> call list" where
  "admission_calls h s e m a t =
     [ResolveManifest (env_Contract e) (Inr m)] @
     (if h_Approvals h = None then [] else [AuthorizeContractApproval (check_of s e m a) None]) @
     [ReadClock t,
      ValidateGatewayExchangePayload
        \<lparr>pv_Contract = env_Contract e, pv_Action = a, pv_Payload = env_Payload e\<rparr> None,
      AuthorizeGatewayExchange (check_of s e m a) None] @
     (if h_Replay h = None then [] else [Claim (env_claim e) None])"


text \<open>Why a preflight may deny with a code.\<close>

definition denial_reason ::
  "platform \<Rightarrow> 'x Handler \<Rightarrow> AuthenticatedSession \<Rightarrow> Envelope \<Rightarrow> XManifest \<Rightarrow> ActionContract \<Rightarrow> call list \<Rightarrow> string \<Rightarrow> bool" where
  "denial_reason p h s e m a tr code \<longleftrightarrow>
     code = ErrorPayloadInvalid \<and>
       (env_SchemaVersion e \<noteq> SchemaGatewayExchangeV1 \<or> validatePayload p e a \<noteq> None \<or> h_Payloads h = None \<or>
        (\<exists>err. ValidateGatewayExchangePayload
           \<lparr>pv_Contract = env_Contract e, pv_Action = a, pv_Payload = env_Payload e\<rparr> (Some err) \<in> set tr)) \<or>
     code = ErrorUnauthenticated \<and> \<not> sessionMatchesEnvelope s e \<or>
     code = ErrorKillSwitch \<and> ses_KillSwitchEnabled s \<or>
     code = ErrorPartnerLinkDenied \<and> ses_PartnerLinkState s \<noteq> PartnerLinkActive \<or>
     code = ErrorContractUnknown \<and>
       (h_Manifests h = None \<or> (\<exists>err. ResolveManifest (env_Contract e) (Inl err) \<in> set tr)) \<or>
     code = ErrorContractMismatch \<and>
       (\<not> manifestMatches m (env_Contract e) \<or> xm_Revoked m \<or> xm_Actions m (env_Action e) = None \<or>
        \<not> allowedFacadeMethod (ac_FacadeMethod a) \<or> \<not> partnerLinkAllowed a (env_PartnerLinkID e) \<or>
        (\<exists>err. AuthorizeContractApproval (check_of s e m a) (Some err) \<in> set tr)) \<or>
     code = ErrorExpired \<and>
       (sint (env_ExpiresAtMS e) \<le> 0 \<or> (\<exists>t. ReadClock t \<in> set tr \<and>
          (past t (env_ExpiresAtMS e) (h_ClockSkewMS h) \<or>
           0 < sint (xm_ExpiresAtMS m) \<and> past t (xm_ExpiresAtMS m) (h_ClockSkewMS h)))) \<or>
     code = ErrorReplayDetected \<and>
       ((ac_Mutating a \<or> ac_IdempotencyRequired a) \<and> env_IdempotencyKey e = [] \<or>
        (\<exists>err. Claim (env_claim e) (Some err) \<in> set tr)) \<or>
     code = ErrorReplayUnavailable \<and> h_Replay h = None \<and> (ac_Mutating a \<or> ac_IdempotencyRequired a) \<or>
     code = ErrorPolicyDenied \<and>
       (h_Policy h = None \<or> (\<exists>err. AuthorizeGatewayExchange (check_of s e m a) (Some err) \<in> set tr))"

fun is_facade :: "call \<Rightarrow> bool" where
  "is_facade (FacadeCall m acc r) = True"
| "is_facade _ = False"

definition quiet :: "call list \<Rightarrow> bool" where
  "quiet tr \<longleftrightarrow> list_all (\<lambda>c. \<not> is_facade c) tr"

lemma quiet_simps [simp]:
  "quiet []" "quiet (c # tr) \<longleftrightarrow> \<not> is_facade c \<and> quiet tr" "quiet (tr @ tr') \<longleftrightarrow> quiet tr \<and> quiet tr'"
  by (simp_all add: quiet_def)

lemma preflight_ensures:
  "ensures (preflight p h s e) (\<lambda>tr (d, m, a).
     d = deny s e (pd_DenialCode d) m a \<and> quiet tr \<and> denial_reason p h s e m a tr (pd_DenialCode d) \<or>
     d = allow s e m a \<and> (\<exists>t. admitted p h s e m a t \<and> tr = admission_calls h s e m a t))"
  unfolding preflight_def Let_def resolveManifest_def authorizeContractApproval_def now_def
    validateContractPayload_def authorizePolicy_def
  by (intro trace_intros)
     (simp_all add: admitted_def admission_calls_def check_of_def denial_reason_def split: option.splits, blast+)

definition independent_calls :: "'x Handler \<Rightarrow> Envelope \<Rightarrow> int64 \<Rightarrow> call list" where
  "independent_calls h e t = [ReadClock t] @ (if h_Replay h = None then [] else [Claim (env_claim e) None])"

definition link_gates :: "'x Handler \<Rightarrow> AuthenticatedSession \<Rightarrow> Envelope \<Rightarrow> int64 \<Rightarrow> bool" where
  "link_gates h s e t \<longleftrightarrow>
     env_SchemaVersion e = SchemaGatewayExchangeV1 \<and> sessionMatchesEnvelope s e \<and>
     \<not> ses_KillSwitchEnabled s \<and> ses_PartnerLinkState s = PartnerLinkActive \<and>
     0 < sint (env_ExpiresAtMS e) \<and> \<not> past t (env_ExpiresAtMS e) (h_ClockSkewMS h)"

lemma preflightManifestIndependent_ensures:
  "ensures (preflightManifestIndependent h s e act) (\<lambda>tr (d, m, a). m = zero_Manifest \<and> a = act \<and>
     (d = deny s e (pd_DenialCode d) m a \<and> quiet tr \<and> denial_reason p h s e m a tr (pd_DenialCode d) \<or>
      d = allow s e m a \<and> (\<exists>t. link_gates h s e t \<and> tr = independent_calls h e t)))"
  unfolding preflightManifestIndependent_def Let_def now_def
  by (intro trace_intros)
     (auto simp: link_gates_def independent_calls_def denial_reason_def)

lemma audit_ensures:
  "ensures (audit h d) (\<lambda>tr r. tr = [] \<and> r \<noteq> None \<or> tr = [RecordExchangeAudit (auditEvent d) r])"
  unfolding audit_def by (intro trace_intros) auto

lemma audited_ensures:
  "ensures (audited h d rsp) (\<lambda>tr r. (\<exists>e. r = Inl e) \<and> quiet tr \<or>
     r = Inr rsp \<and> tr = [RecordExchangeAudit (auditEvent d) None])"
  unfolding audited_def audit_def by (intro trace_intros) auto

lemma ensures_bindE:
  "ensures m Q \<Longrightarrow> (\<And>tr a. Q tr a \<Longrightarrow> ensures (k a) (\<lambda>tr'. P (tr @ tr'))) \<Longrightarrow>
     ensures (State_Monad.bind m k) P"
  by (intro ensures_bind) (erule ensures_weaken, blast)

definition cleared ::
  "platform \<Rightarrow> 'x Handler \<Rightarrow> AuthenticatedSession \<Rightarrow> Envelope \<Rightarrow> XManifest \<Rightarrow> ActionContract \<Rightarrow> call list \<Rightarrow> bool" where
  "cleared p h s e m a tr \<longleftrightarrow>
     (\<exists>t. admitted p h s e m a t \<and> tr = admission_calls h s e m a t) \<or>
     (\<exists>t. link_gates h s e t \<and> tr = independent_calls h e t \<and>
        env_Contract e = zero_ContractRef \<and> m = zero_Manifest \<and>
        (env_Action e, a) \<in>
          {(ActionGetServiceCatalogView,
            independent_action ActionGetServiceCatalogView FacadeGetServiceCatalogView),
           (ActionEstablishDataChannel,
            independent_action ActionEstablishDataChannel FacadeEstablishDataChannel)})"

lemma choose_preflight_ensures:
  "ensures (choose_preflight p h s e) (\<lambda>tr (d, m, a).
     d = deny s e (pd_DenialCode d) m a \<and> quiet tr \<and> denial_reason p h s e m a tr (pd_DenialCode d) \<or>
     d = allow s e m a \<and> cleared p h s e m a tr)"
  unfolding choose_preflight_def
  by (intro ensures_if; rule ensures_weaken [OF preflightManifestIndependent_ensures [of _ _ _ _ p]]
        ensures_weaken [OF preflight_ensures])
     (auto simp: cleared_def)

definition accepted_envelope ::
  "AuthenticatedSession \<Rightarrow> Envelope \<Rightarrow> XManifest \<Rightarrow> ActionContract \<Rightarrow> AcceptedEnvelope" where
  "accepted_envelope s e m a = \<lparr>acc_Session = s, acc_Envelope = e, acc_Manifest = m,
     acc_Action = a, acc_Decision = allow s e m a\<rparr>"

lemma dispatch_ensures:
  "ensures (dispatch f acc) (\<lambda>tr r.
     tr = [FacadeCall (ac_FacadeMethod (acc_Action acc)) acc r] \<or> tr = [] \<and> (\<exists>err. r = Inl err))"
  unfolding dispatch_def Let_def by (intro trace_intros) auto

section \<open>What Handle establishes\<close>

text \<open>The part of a run after the allow decision was recorded.\<close>

definition delivered :: "platform \<Rightarrow> 'x Handler \<Rightarrow> AuthenticatedSession \<Rightarrow> Envelope \<Rightarrow> XManifest \<Rightarrow> ActionContract
    \<Rightarrow> call list \<Rightarrow> goerror + Response \<Rightarrow> bool" where
  "delivered p h s e m a tr r \<longleftrightarrow>
     (\<exists>res. tr = [FacadeCall (ac_FacadeMethod a) (accepted_envelope s e m a) (Inr res)] \<and>
        validateDispatchResult p res = None \<and>
        r = Inr \<lparr>rsp_Decision = allow s e m a, rsp_Result = res, rsp_Error = None\<rparr>) \<or>
     (\<exists>pre post. tr = pre @ post \<and> quiet post \<and>
        (pre = [] \<or> (\<exists>res. pre = [FacadeCall (ac_FacadeMethod a) (accepted_envelope s e m a) res])) \<and>
        ((\<exists>err. r = Inl err) \<or>
         (\<exists>code rsp. r = Inr rsp \<and> rsp_Decision rsp = deny s e code m a \<and>
            rsp_Result rsp = zero_DispatchResult \<and>
            post = [RecordExchangeAudit (auditEvent (deny s e code m a)) None])))"

lemma delivered_deny:
  assumes "pre = [] \<or> (\<exists>res. pre = [FacadeCall (ac_FacadeMethod a) (accepted_envelope s e m a) res])"
    and "quiet post"
    and "(\<exists>err. r = Inl err) \<or> r = Inr rsp \<and> rsp_Decision rsp = deny s e code m a \<and>
      rsp_Result rsp = zero_DispatchResult \<and> post = [RecordExchangeAudit (auditEvent (deny s e code m a)) None]"
  shows "delivered p h s e m a (pre @ post) r"
  unfolding delivered_def using assms by blast

lemma audited_deny_ensures:
  assumes "rsp_Decision rsp = deny s e code m a" "rsp_Result rsp = zero_DispatchResult"
    and "pre = [] \<or> (\<exists>res. pre = [FacadeCall (ac_FacadeMethod a) (accepted_envelope s e m a) res])"
  shows "ensures (audited h (deny s e code m a) rsp) (\<lambda>tr. delivered p h s e m a (pre @ tr))"
  by (rule ensures_weaken [OF audited_ensures], rule delivered_deny [OF assms(3), of _ _ rsp code])
     (use assms in auto)

lemma response_simps [simp]:
  "rsp_Decision (denial_response d) = d" "rsp_Result (denial_response d) = zero_DispatchResult"
  "rsp_Decision (error_response d c err) = d" "rsp_Result (error_response d c err) = zero_DispatchResult"
  by (simp_all add: denial_response_def error_response_def)

lemma deliver_ensures: "ensures (deliver p h s e (allow s e m a) m a) (delivered p h s e m a)"
proof -
  have acc: "\<lparr>acc_Session = s, acc_Envelope = e, acc_Manifest = m, acc_Action = a, acc_Decision = allow s e m a\<rparr>
      = accepted_envelope s e m a" "acc_Action (accepted_envelope s e m a) = a"
    by (simp_all add: accepted_envelope_def)
  show ?thesis
    unfolding deliver_def Let_def acc
    apply (rule ensures_option)
     apply (rule audited_deny_ensures [where pre = "[]", unfolded append_Nil]; simp)
    apply (rule ensures_bindE [OF dispatch_ensures])
    apply (intro ensures_sum ensures_option)
      apply (rule audited_deny_ensures; auto simp: acc)
     apply (intro ensures_return)
     apply (auto simp: delivered_def acc) []
    apply (rule audited_deny_ensures; auto simp: acc)
    done
qed

text \<open>A run of the discovery action.\<close>

definition discovered ::
  "platform \<Rightarrow> 'x Handler \<Rightarrow> AuthenticatedSession \<Rightarrow> Envelope \<Rightarrow> call list \<Rightarrow> goerror + Response \<Rightarrow> bool" where
  "discovered p h s e tr r \<longleftrightarrow> quiet tr \<and>
     ((\<exists>err. r = Inl err) \<or>
      (\<exists>rsp code pre. r = Inr rsp \<and> rsp_Decision rsp = deny s e code zero_Manifest discovery_action \<and>
         rsp_Result rsp = zero_DispatchResult \<and>
         tr = pre @ [RecordExchangeAudit (auditEvent (rsp_Decision rsp)) None]) \<or>
      (\<exists>t docs payload. link_gates h s e t \<and> env_Payload e = [] \<and>
         discovery_json p (elems docs) = Some payload \<and>
         \<not> containsPrivateTopology p payload PayloadEncodingJSON \<and>
         r = Inr \<lparr>rsp_Decision = allow s e zero_Manifest discovery_action,
                  rsp_Result = \<lparr>dr_Status = ''ok'', dr_PayloadJSON = payload\<rparr>, rsp_Error = None\<rparr> \<and>
         tr = independent_calls h e t @ [DiscoverSignedManifests s (Inr docs),
           RecordExchangeAudit (auditEvent (allow s e zero_Manifest discovery_action)) None]))"

lemma discovery_refuse_ensures:
  assumes "quiet pre" "rsp_Decision rsp = deny s e code zero_Manifest discovery_action"
    "rsp_Result rsp = zero_DispatchResult"
  shows "ensures (audited h (deny s e code zero_Manifest discovery_action) rsp) (\<lambda>tr. discovered p h s e (pre @ tr))"
  by (rule ensures_weaken [OF audited_ensures], unfold discovered_def) (use assms in auto)

lemma discovery_json_payload:
  "discovery_json p docs = Some payload \<Longrightarrow> TrimSpace payload \<noteq> []"
  by (auto simp: discovery_json_def TrimSpace_marshal_obj split: option.splits simp del: marshal.simps)

lemma discover_ensures:
  assumes "pre = independent_calls h e t" "link_gates h s e t" "env_Payload e = []"
  shows "ensures (discover p h s e) (\<lambda>tr. discovered p h s e (pre @ tr))"
proof -
  have q: "quiet pre" using assms by (simp add: independent_calls_def)
  have ok: "ensures (audited h (allow s e zero_Manifest discovery_action)
        \<lparr>rsp_Decision = allow s e zero_Manifest discovery_action,
         rsp_Result = \<lparr>dr_Status = ''ok'', dr_PayloadJSON = payload\<rparr>, rsp_Error = None\<rparr>)
      (\<lambda>tr. discovered p h s e (pre @ [DiscoverSignedManifests s (Inr docs)] @ tr))"
    if "discovery_json p (elems docs) = Some payload"
      "validateDispatchResult p \<lparr>dr_Status = ''ok'', dr_PayloadJSON = payload\<rparr> = None" for docs payload
    by (rule ensures_weaken [OF audited_ensures], unfold discovered_def)
       (use assms q that discovery_json_payload [OF that(1)] in \<open>auto simp: validateDispatchResult_None_iff\<close>)
  show ?thesis
    unfolding discover_def Let_def
    apply (intro ensures_option ensures_bind ensures_invoke ensures_sum ensures_if)
        apply (rule discovery_refuse_ensures [OF q]; simp)
       apply (unfold append_assoc [symmetric])
       apply (rule discovery_refuse_ensures; simp add: q)
      apply (rule discovery_refuse_ensures; simp add: q)
     apply (rule discovery_refuse_ensures; simp add: q)
    using ok by simp
qed

lemma handleManifestDiscovery_ensures:
  "ensures (handleManifestDiscovery p h s e) (discovered p h s e)"
proof -
  have refuse: "ensures (audited h (deny s e code zero_Manifest discovery_action)
      (denial_response (deny s e code zero_Manifest discovery_action))) (\<lambda>tr. discovered p h s e (pre @ tr))"
    if "quiet pre" for code pre
    by (rule discovery_refuse_ensures [OF that]) simp_all
  note refuse0 = refuse [where pre = "[]", unfolded append_Nil, OF quiet_simps(1)]
  show ?thesis
    unfolding handleManifestDiscovery_def Let_def now_def
    apply (intro ensures_if ensures_bind ensures_invoke ensures_option refuse refuse0)
        apply (simp_all only: append_assoc [symmetric] quiet_simps is_facade.simps simp_thms)
    subgoal for t by (rule discover_ensures [of _ _ _ t]) (simp_all add: independent_calls_def link_gates_def)
    apply (rule refuse, simp)
    subgoal for t by (rule discover_ensures [of _ _ _ t]) (simp_all add: independent_calls_def link_gates_def)
    done
qed

text \<open>A run of any other action.\<close>

definition handled ::
  "platform \<Rightarrow> 'x Handler \<Rightarrow> AuthenticatedSession \<Rightarrow> Envelope \<Rightarrow> call list \<Rightarrow> goerror + Response \<Rightarrow> bool" where
  "handled p h s e tr r \<longleftrightarrow>
     quiet tr \<and> (\<exists>err. r = Inl err) \<or>
     (\<exists>m a pre d. tr = pre @ [RecordExchangeAudit (auditEvent d) None] \<and> quiet pre \<and>
        d = deny s e (pd_DenialCode d) m a \<and> denial_reason p h s e m a pre (pd_DenialCode d) \<and>
        r = Inr (denial_response d)) \<or>
     (\<exists>m a gates tail. cleared p h s e m a gates \<and>
        tr = gates @ [RecordExchangeAudit (auditEvent (allow s e m a)) None] @ tail \<and>
        delivered p h s e m a tail r)"

lemma cleared_quiet: "cleared p h s e m a tr \<Longrightarrow> quiet tr"
  by (auto simp: cleared_def admission_calls_def independent_calls_def)

abbreviation conclude where
  "conclude p h s e d m a \<equiv> do {
     err \<leftarrow> audit h d;
     case err of
       Some e' \<Rightarrow> State_Monad.return (Inl e')
     | None \<Rightarrow>
         if pd_Decision d \<noteq> DecisionAllow then State_Monad.return (Inr (denial_response d))
         else deliver p h s e d m a
   }"

lemma conclude_deny_ensures:
  assumes "d = deny s e (pd_DenialCode d) m a" "quiet pre" "denial_reason p h s e m a pre (pd_DenialCode d)"
  shows "ensures (conclude p h s e d m a) (\<lambda>tr. handled p h s e (pre @ tr))"
proof -
  have dd: "pd_Decision d = DecisionDeny" using assms(1) by (metis decision_simps(2))
  have "handled p h s e (pre @ [RecordExchangeAudit (auditEvent d) None]) (Inr (denial_response d))"
    unfolding handled_def using assms by blast
  moreover have inl: "handled p h s e (pre @ tr) (Inl err)" if "quiet tr" for tr err
    unfolding handled_def using assms that by simp
  moreover have "handled p h s e pre (Inl err)" for err using inl [of "[]"] by simp
  ultimately show ?thesis
    by (intro ensures_bindE [OF audit_ensures] ensures_option ensures_if ensures_return) (auto simp: dd)
qed

lemma conclude_allow_ensures:
  assumes "cleared p h s e m a pre"
  shows "ensures (conclude p h s e (allow s e m a) m a) (\<lambda>tr. handled p h s e (pre @ tr))"
proof -
  have q: "quiet pre" using cleared_quiet assms by blast
  have ok: "handled p h s e (pre @ RecordExchangeAudit (auditEvent (allow s e m a)) None # tr) r"
    if "delivered p h s e m a tr r" for tr r
    unfolding handled_def using assms that by (metis append_Cons append_Nil)
  have inl: "handled p h s e (pre @ tr) (Inl err)" if "quiet tr" for tr err
    unfolding handled_def using q that by simp
  moreover have "handled p h s e pre (Inl err)" for err using inl [of "[]"] by simp
  moreover have "ensures (deliver p h s e (allow s e m a) m a)
     (\<lambda>tr'. handled p h s e (pre @ RecordExchangeAudit (auditEvent (allow s e m a)) None # tr'))"
    by (rule ensures_weaken [OF deliver_ensures ok])
  ultimately show ?thesis
    by (intro ensures_bindE [OF audit_ensures] ensures_option ensures_if ensures_return) auto
qed

lemma Handle_ensures:
  "ensures (Handle p h s0 e0)
     (if TrimSpace (env_Action e0) = ActionDiscoverContractManifests
      then discovered p h (normalizeSession s0) (normalizeEnvelope e0)
      else handled p h (normalizeSession s0) (normalizeEnvelope e0))"
proof (cases "TrimSpace (env_Action e0) = ActionDiscoverContractManifests")
  case True
  then show ?thesis by (simp add: Handle_def Let_def handleManifestDiscovery_ensures)
next
  case False
  define s e where se: "s = normalizeSession s0" "e = normalizeEnvelope e0"
  have "ensures (do { (d, m, a) \<leftarrow> choose_preflight p h s e; conclude p h s e d m a }) (handled p h s e)"
    by (rule ensures_bindE [OF choose_preflight_ensures])
       (auto intro: conclude_deny_ensures conclude_allow_ensures)
  with False show ?thesis
    by (simp only: Handle_def Let_def normalizeEnvelope_simps if_False se)
qed

text \<open>The facts about a run of \<open>Handle\<close> that the properties rest on.\<close>

lemma delivered_shape:
  "delivered p h s e m a tr r \<Longrightarrow> quiet tr \<or> (\<exists>res post.
     tr = FacadeCall (ac_FacadeMethod a) (accepted_envelope s e m a) res # post \<and> quiet post)"
  by (auto simp: delivered_def)

lemma Handle_dispatch:
  assumes "run_state (Handle p h s0 e0) w = (r, w')"
  defines "s \<equiv> normalizeSession s0" and "e \<equiv> normalizeEnvelope e0"
  obtains tr where "w_calls w' = w_calls w @ tr" "quiet tr"
  | m a gates res post where "cleared p h s e m a gates" "quiet post"
      "w_calls w' = w_calls w @ gates @ [RecordExchangeAudit (auditEvent (allow s e m a)) None,
         FacadeCall (ac_FacadeMethod a) (accepted_envelope s e m a) res] @ post"
proof -
  obtain tr where tr: "w_calls w' = w_calls w @ tr"
    "(if TrimSpace (env_Action e0) = ActionDiscoverContractManifests
      then discovered p h s e else handled p h s e) tr r"
    using ensuresD [OF Handle_ensures assms(1)] unfolding assms(2,3) by blast
  then consider "discovered p h s e tr r" | "handled p h s e tr r" by (auto split: if_splits)
  then have "quiet tr \<or> (\<exists>m a gates res post. cleared p h s e m a gates \<and> quiet post \<and>
      tr = gates @ [RecordExchangeAudit (auditEvent (allow s e m a)) None,
         FacadeCall (ac_FacadeMethod a) (accepted_envelope s e m a) res] @ post)"
  proof cases
    case 1
    then show ?thesis by (simp add: discovered_def)
  next
    case 2
    then consider "quiet tr" | m a gates tail where "cleared p h s e m a gates"
        "tr = gates @ [RecordExchangeAudit (auditEvent (allow s e m a)) None] @ tail"
        "delivered p h s e m a tail r"
      by (auto simp: handled_def)
    then show ?thesis
    proof cases
      case (2 m a gates tail)
      from delivered_shape [OF 2(3)] show ?thesis
        using 2(1,2) cleared_quiet [OF 2(1)] 
        by (elim disjE exE conjE) (simp, rule disjI2, rule exI [of _ m], rule exI [of _ a], rule exI [of _ gates], simp)
    qed simp
  qed
  with tr(1) that show ?thesis by auto
qed

lemma Handle_audited:
  assumes "run_state (Handle p h s0 e0) w = (Inr rsp, w')"
  shows "\<exists>tr. w_calls w' = w_calls w @ tr \<and>
    RecordExchangeAudit (auditEvent (rsp_Decision rsp)) None \<in> set tr"
proof -
  obtain tr where tr: "w_calls w' = w_calls w @ tr"
    "(if TrimSpace (env_Action e0) = ActionDiscoverContractManifests
      then discovered p h (normalizeSession s0) (normalizeEnvelope e0)
      else handled p h (normalizeSession s0) (normalizeEnvelope e0)) tr (Inr rsp)"
    using ensuresD [OF Handle_ensures assms] by blast
  then have "RecordExchangeAudit (auditEvent (rsp_Decision rsp)) None \<in> set tr"
    by (auto simp: discovered_def handled_def delivered_def split: if_splits)
  with tr show ?thesis by blast
qed

section \<open>At most one dispatch per claim\<close>

definition over_rest :: "('a, 'r, 'y) gomethod \<Rightarrow> ('a, 'r, 'c \<times> 'y) gomethod" where
  "over_rest f a cy = (case f a (snd cy) of (r, y') \<Rightarrow> (r, (fst cy, y')))"

definition over_cache :: "('a, 'r, 'c) gomethod \<Rightarrow> ('a, 'r, 'c \<times> 'y) gomethod" where
  "over_cache f a cy = (case f a (fst cy) of (r, c') \<Rightarrow> (r, (c', snd cy)))"

definition facade_over_rest :: "'y Facade \<Rightarrow> ('c \<times> 'y) Facade" where
  "facade_over_rest f =
     \<lparr>fc_GetServiceCatalogView = over_rest (fc_GetServiceCatalogView f),
      fc_OpenFederationTransaction = over_rest (fc_OpenFederationTransaction f),
      fc_CreateFederationRoom = over_rest (fc_CreateFederationRoom f),
      fc_SubmitFederationMessage = over_rest (fc_SubmitFederationMessage f),
      fc_RequestBuilderWork = over_rest (fc_RequestBuilderWork f),
      fc_SubmitFederationResult = over_rest (fc_SubmitFederationResult f),
      fc_DeliverBuilderWorkResult = over_rest (fc_DeliverBuilderWorkResult f),
      fc_SubmitCommercialEvent = over_rest (fc_SubmitCommercialEvent f),
      fc_EstablishDataChannel = map_option over_rest (fc_EstablishDataChannel f)\<rparr>"

definition with_replay :: "(ReplayClaim, goerror option, 'c) gomethod \<Rightarrow> 'y Handler \<Rightarrow> ('c \<times> 'y) Handler" where
  "with_replay claim h =
     \<lparr>h_Manifests = map_option over_rest (h_Manifests h),
      h_Replay = Some (over_cache claim),
      h_Policy = map_option over_rest (h_Policy h),
      h_Payloads = map_option over_rest (h_Payloads h),
      h_Approvals = map_option over_rest (h_Approvals h),
      h_Facade = map_option facade_over_rest (h_Facade h),
      h_Discovery = map_option over_rest (h_Discovery h),
      h_Audit = map_option over_rest (h_Audit h),
      h_NowMS = map_option over_rest (h_NowMS h),
      h_timeNow = over_rest (h_timeNow h),
      h_ClockSkewMS = h_ClockSkewMS h\<rparr>"

fun claimed_keys :: "call \<Rightarrow> string list" where
  "claimed_keys (Claim c None) = claim_keys c"
| "claimed_keys _ = []"

fun dispatched_keys :: "call \<Rightarrow> string list" where
  "dispatched_keys (FacadeCall m acc r) = claim_keys (env_claim (acc_Envelope acc))"
| "dispatched_keys _ = []"

definition keeps :: "('s \<Rightarrow> bool) \<Rightarrow> ('s, 'r) state \<Rightarrow> bool" where
  "keeps I m \<longleftrightarrow> (\<forall>w. I w \<longrightarrow> I (snd (run_state m w)))"

named_theorems keeps_intros "programs that keep an invariant"

lemma keeps_return [keeps_intros]: "keeps I (State_Monad.return a)"
  by (simp add: keeps_def State_Monad.return_def)

lemma keeps_bind [keeps_intros]: "keeps I m \<Longrightarrow> (\<And>a. keeps I (k a)) \<Longrightarrow> keeps I (State_Monad.bind m k)"
  by (fastforce simp: keeps_def State_Monad.bind_def split: prod.splits)

lemma keeps_if [keeps_intros]: "keeps I m \<Longrightarrow> keeps I m' \<Longrightarrow> keeps I (if b then m else m')"
  by simp

lemma keeps_option [keeps_intros]:
  "keeps I m \<Longrightarrow> (\<And>x. v = Some x \<Longrightarrow> keeps I (k x)) \<Longrightarrow> keeps I (case v of None \<Rightarrow> m | Some x \<Rightarrow> k x)"
  by (cases v) auto

lemma keeps_sum [keeps_intros]:
  "(\<And>x. keeps I (j x)) \<Longrightarrow> (\<And>x. keeps I (k x)) \<Longrightarrow> keeps I (case v of Inl x \<Rightarrow> j x | Inr x \<Rightarrow> k x)"
  by (cases v) auto

lemma keeps_prod [keeps_intros]: "(\<And>x y. keeps I (k x y)) \<Longrightarrow> keeps I (case v of (x, y) \<Rightarrow> k x y)"
  by (cases v) auto

context replay_cache
begin

definition replay_inv :: "('s \<times> 'y) world \<Rightarrow> bool" where
  "replay_inv w \<longleftrightarrow> distinct (concat (map claimed_keys (w_calls w))) \<and>
     set (concat (map claimed_keys (w_calls w))) \<subseteq> held (fst (w_state w))"

lemma keeps_rest [keeps_intros]:
  "(\<And>r. claimed_keys (tag a r) = []) \<Longrightarrow> keeps replay_inv (invoke (over_rest f) tag a)"
  by (auto simp: keeps_def replay_inv_def invoke_def over_rest_def Let_def split: prod.splits)

lemma keeps_claim [keeps_intros]: "keeps replay_inv (invoke (over_cache claim) Claim c)"
  unfolding keeps_def
proof (intro allI impI)
  fix w :: "('s \<times> 'y) world"
  assume I: "replay_inv w"
  obtain r s' where r: "claim c (fst (w_state w)) = (r, s')" by fastforce
  show "replay_inv (snd (run_state (invoke (over_cache claim) Claim c) w))"
  proof (cases r)
    case None
    then show ?thesis
      using I r claim_fresh [of c "fst (w_state w)" s'] claim_held [of c "fst (w_state w)" s'] distinct_claim_keys [of c]
      by (auto simp: replay_inv_def invoke_def over_cache_def)
  next
    case (Some e)
    then show ?thesis
      using I r claim_refused [of c "fst (w_state w)" e s'] by (auto simp: replay_inv_def invoke_def over_cache_def)
  qed
qed

lemma with_replay_keeps: "keeps replay_inv (Handle p (with_replay claim h) s e)"
  unfolding Handle_def Let_def handleManifestDiscovery_def choose_preflight_def preflight_def
    preflightManifestIndependent_def resolveManifest_def authorizeContractApproval_def now_def
    validateContractPayload_def authorizePolicy_def discover_def audited_def audit_def deliver_def dispatch_def
  by (intro keeps_intros)
     (auto simp: with_replay_def facade_over_rest_def split: option.splits intro!: keeps_intros)

lemma serve_keeps: "keeps replay_inv (serve p (with_replay claim h) reqs)"
  by (induction reqs) (auto intro!: keeps_intros with_replay_keeps)

end

lemma cleared_claims:
  "cleared p h s e m a gates \<Longrightarrow> h_Replay h \<noteq> None \<Longrightarrow> concat (map claimed_keys gates) = claim_keys (env_claim e)"
  by (auto simp: cleared_def admission_calls_def independent_calls_def)

lemma quiet_dispatched: "quiet tr \<Longrightarrow> concat (map dispatched_keys tr) = []"
proof (induction tr)
  case (Cons c tr)
  then show ?case by (cases c) auto
qed simp

lemma Handle_claims_before_dispatch:
  assumes "run_state (Handle p h s0 e0) w = (r, w')" "h_Replay h \<noteq> None"
  shows "\<exists>tr. w_calls w' = w_calls w @ tr \<and>
    subseq (concat (map dispatched_keys tr)) (concat (map claimed_keys tr))"
proof (rule Handle_dispatch [OF assms(1)])
  fix tr assume "w_calls w' = w_calls w @ tr" "quiet tr"
  then show ?thesis by (auto simp: quiet_dispatched)
next
  fix m a gates res post
  assume c: "cleared p h (normalizeSession s0) (normalizeEnvelope e0) m a gates" "quiet post"
    and tr: "w_calls w' = w_calls w @ gates @
      [RecordExchangeAudit (auditEvent (allow (normalizeSession s0) (normalizeEnvelope e0) m a)) None,
       FacadeCall (ac_FacadeMethod a) (accepted_envelope (normalizeSession s0) (normalizeEnvelope e0) m a) res] @ post"
  have "subseq xs (xs @ ys)" for xs ys :: "string list" by (rule subseq_append_right)
  with c tr cleared_quiet [OF c(1)] cleared_claims [OF c(1) assms(2)] show ?thesis
    by (auto simp: quiet_dispatched accepted_envelope_def intro!: exI [of _ "gates @ _ # _ # post"])
qed

lemma serve_claims_before_dispatch:
  assumes "run_state (serve p h reqs) w = (rs, w')" "h_Replay h \<noteq> None"
  shows "\<exists>tr. w_calls w' = w_calls w @ tr \<and>
    subseq (concat (map dispatched_keys tr)) (concat (map claimed_keys tr))"
  using assms(1)
proof (induction reqs arbitrary: w rs)
  case (Cons q reqs)
  obtain s e where q: "q = (s, e)" by fastforce
  obtain r1 w1 where 1: "run_state (Handle p h s e) w = (r1, w1)" by fastforce
  obtain rs2 where 2: "run_state (serve p h reqs) w1 = (rs2, w')"
    using Cons.prems q 1 by (auto simp: State_Monad.bind_def State_Monad.return_def split: prod.splits)
  obtain tr1 where t1: "w_calls w1 = w_calls w @ tr1"
    "subseq (concat (map dispatched_keys tr1)) (concat (map claimed_keys tr1))"
    using Handle_claims_before_dispatch [OF 1 assms(2)] by blast
  obtain tr2 where t2: "w_calls w' = w_calls w1 @ tr2"
    "subseq (concat (map dispatched_keys tr2)) (concat (map claimed_keys tr2))"
    using Cons.IH [OF 2] by blast
  have "subseq (concat (map dispatched_keys (tr1 @ tr2))) (concat (map claimed_keys (tr1 @ tr2)))"
    using list_emb_append_mono [OF t1(2) t2(2)] by simp
  with t1(1) t2(1) show ?case by auto
qed (auto simp: State_Monad.return_def)

context replay_cache
begin

theorem serve_at_most_once:
  assumes "run_state (serve p (with_replay claim h) reqs) \<lparr>w_state = (c, y), w_calls = []\<rparr> = (rs, w')"
  shows "distinct (concat (map dispatched_keys (w_calls w')))"
proof -
  have "replay_inv \<lparr>w_state = (c, y), w_calls = []\<rparr>" by (simp add: replay_inv_def)
  then have "replay_inv w'" using serve_keeps assms unfolding keeps_def by (metis snd_conv)
  moreover have "h_Replay (with_replay claim h) \<noteq> None" by (simp add: with_replay_def)
  ultimately show ?thesis
    using serve_claims_before_dispatch [OF assms] subseq_distinct by (auto simp: replay_inv_def)
qed

end

end
