(* ===== verification/ExchangeProps.thy ===== *)
theory ExchangeProps
  imports ExchangeGuards
begin

text \<open>
  The properties of the gateway exchange, each with a concrete run. The runs use a small deployment:
  one link, one manifest with one mutating action, an in-memory replay cache, and a policy, a payload
  validator, an approval gate and an audit sink that accept.
\<close>

section \<open>A concrete deployment\<close>

definition demo_session :: AuthenticatedSession where
  "demo_session = \<lparr>ses_LocalTenantID = ''t-local'', ses_LocalGatewayID = ''g-local'',
     ses_RemoteTenantID = ''t-remote'', ses_RemoteGatewayID = ''g-remote'',
     ses_RemoteServicePrincipalID = ''sp'', ses_PartnerLinkID = ''link-1'',
     ses_PartnerLinkState = ''active'', ses_KillSwitchEnabled = False, ses_ControlPartnerLinkID = []\<rparr>"

definition demo_hash :: string where
  "demo_hash = ''7b22736368656d615f76657273696f6e223a226275696c646572732e66656465''"

lemma demo_hash_nonempty [simp]: "demo_hash \<noteq> []"
  by (simp add: demo_hash_def)

definition demo_ref :: ContractRef where
  "demo_ref = \<lparr>cr_ContractID = ''c1'', cr_ContractVersion = ''v1'', cr_ManifestHashSHA256 = demo_hash,
     cr_PayloadSchemaHashSHA256 = ''s1''\<rparr>"

definition demo_action :: ActionContract where
  "demo_action = \<lparr>ac_Action = ActionRequestBuilderWork, ac_ServiceCatalogAction = [],
     ac_FacadeMethod = FacadeRequestBuilderWork, ac_Mutating = True, ac_IdempotencyRequired = True,
     ac_PayloadEncoding = PayloadEncodingJSON, ac_MaxPayloadBytes = 1024,
     ac_PrivateTopologyAllowed = False, ac_AllowedPartnerLinkIDs = [''link-1'']\<rparr>"

definition demo_manifest :: XManifest where
  "demo_manifest = \<lparr>xm_TenantID = ''t-local'', xm_ManifestID = ''m1'', xm_CatalogVersion = ''1'',
     xm_ContractID = ''c1'', xm_ContractVersion = ''v1'', xm_ManifestHashSHA256 = demo_hash,
     xm_PayloadSchemaHashSHA256 = ''s1'', xm_ExpiresAtMS = 5000, xm_Revoked = False,
     xm_Actions = [ActionRequestBuilderWork \<mapsto> demo_action]\<rparr>"

definition demo_envelope :: Envelope where
  "demo_envelope = \<lparr>env_SchemaVersion = SchemaGatewayExchangeV1, env_EnvelopeID = ''e1'',
     env_CorrelationID = ''co'', env_IdempotencyKey = ''k1'', env_SentAtMS = 1000,
     env_ExpiresAtMS = 2000, env_PartnerLinkID = ''link-1'',
     env_Source = \<lparr>gr_TenantID = ''t-remote'', gr_GatewayID = ''g-remote'', gr_GatewayPoolID = []\<rparr>,
     env_Destination = \<lparr>gr_TenantID = ''t-local'', gr_GatewayID = [], gr_GatewayPoolID = []\<rparr>,
     env_Contract = demo_ref, env_Action = ActionRequestBuilderWork,
     env_PayloadEncoding = PayloadEncodingJSON,
     env_PayloadHashSHA256 = hexEncode (zero_pad 32 ''{}''), env_Payload = ''{}''\<rparr>"

definition demo_result :: DispatchResult where
  "demo_result = \<lparr>dr_Status = ''queued'', dr_PayloadJSON = []\<rparr>"

definition demo_facade :: "unit Facade" where
  "demo_facade = (let f = (\<lambda>_ x. (Inr demo_result, x)) in
     \<lparr>fc_GetServiceCatalogView = f, fc_OpenFederationTransaction = f, fc_CreateFederationRoom = f,
      fc_SubmitFederationMessage = f, fc_RequestBuilderWork = f, fc_SubmitFederationResult = f,
      fc_DeliverBuilderWorkResult = f, fc_SubmitCommercialEvent = f, fc_EstablishDataChannel = None\<rparr>)"

definition demo_handler :: "unit Handler" where
  "demo_handler =
     \<lparr>h_Manifests = Some (\<lambda>_ x. (Inr demo_manifest, x)),
      h_Replay = None,
      h_Policy = Some (\<lambda>_ x. (None, x)),
      h_Payloads = Some (\<lambda>_ x. (None, x)),
      h_Approvals = Some (\<lambda>_ x. (None, x)),
      h_Facade = Some demo_facade,
      h_Discovery = None,
      h_Audit = Some (\<lambda>_ x. (None, x)),
      h_NowMS = Some (\<lambda>_ x. (1500, x)),
      h_timeNow = (\<lambda>_ x. (0, x)),
      h_ClockSkewMS = 0\<rparr>"

text \<open>The gateway with any resolver and any approval gate, and with the ones of \<open>demo_handler\<close>.\<close>

definition gateway_with ::
  "(ContractRef, goerror + XManifest, unit) gomethod \<Rightarrow> (ContractApprovalCheck, goerror option, unit) gomethod
     \<Rightarrow> (MemoryReplayCache \<times> unit) Handler" where
  "gateway_with resolve approve =
     with_replay mrc_Claim (demo_handler\<lparr>h_Manifests := Some resolve, h_Approvals := Some approve\<rparr>)"

definition demo_gateway :: "(MemoryReplayCache \<times> unit) Handler" where
  "demo_gateway = with_replay mrc_Claim demo_handler"

lemma demo_gateway_with: "demo_gateway = gateway_with (\<lambda>_ x. (Inr demo_manifest, x)) (\<lambda>_ x. (None, x))"
  by (simp add: demo_gateway_def gateway_with_def demo_handler_def)

definition demo_world :: "(MemoryReplayCache \<times> unit) world" where
  "demo_world = \<lparr>w_state = (NewMemoryReplayCache, ()), w_calls = []\<rparr>"

definition demo_trace :: "call list" where
  "demo_trace = admission_calls demo_gateway demo_session demo_envelope demo_manifest demo_action 1500 @
     [RecordExchangeAudit (auditEvent (allow demo_session demo_envelope demo_manifest demo_action)) None,
      FacadeCall FacadeRequestBuilderWork
        (accepted_envelope demo_session demo_envelope demo_manifest demo_action) (Inr demo_result)]"

lemma demo_normal: "normalizeSession demo_session = demo_session" "normalizeEnvelope demo_envelope = demo_envelope"
  by code_simp+

lemma demo_gates:
  "sessionMatchesEnvelope demo_session demo_envelope"
  "validatePayload demo_platform demo_envelope demo_action = None"
  "partnerLinkAllowed demo_action (env_PartnerLinkID demo_envelope)"
  by code_simp+

lemma demo_keys: "claim_keys (env_claim demo_envelope) = [''env:e1'', ''idem:k1'']"
  by code_simp

lemma demo_claim:
  "mrc_Claim (env_claim demo_envelope) NewMemoryReplayCache =
     (None, \<lparr>mrc_seen = [''env:e1'' \<mapsto> 2000, ''idem:k1'' \<mapsto> 2000]\<rparr>)"
  unfolding mrc_Claim_def demo_keys
  by (simp add: NewMemoryReplayCache_def env_claim_def demo_envelope_def)

lemmas demo_interfaces = demo_gateway_def gateway_with_def with_replay_def demo_handler_def over_rest_def over_cache_def
  facade_over_rest_def demo_facade_def invoke_def State_Monad.bind_def State_Monad.return_def Let_def

lemma demo_fields:
  "env_SchemaVersion demo_envelope = SchemaGatewayExchangeV1"
  "env_Action demo_envelope = ActionRequestBuilderWork"
  "env_Contract demo_envelope = demo_ref"
  "env_ExpiresAtMS demo_envelope = 2000"
  "env_IdempotencyKey demo_envelope = ''k1''"
  "xm_Actions demo_manifest ActionRequestBuilderWork = Some demo_action"
  "xm_Revoked demo_manifest = False" "xm_ExpiresAtMS demo_manifest = 5000"
  "manifestMatches demo_manifest demo_ref"
  "ac_FacadeMethod demo_action = FacadeRequestBuilderWork"
  "allowedFacadeMethod FacadeRequestBuilderWork"
  "ses_KillSwitchEnabled demo_session = False" "ses_PartnerLinkState demo_session = PartnerLinkActive"
  by (simp_all add: demo_envelope_def demo_manifest_def demo_action_def demo_session_def demo_ref_def
      manifestMatches_def allowedFacadeMethod_def PartnerLinkActive_def)

lemma demo_choice:
  "choose_preflight demo_platform h demo_session demo_envelope = preflight demo_platform h demo_session demo_envelope"
  by (simp add: choose_preflight_def demo_fields action_defs)

lemma gateway_calls:
  "admission_calls (gateway_with resolve approve) = (admission_calls demo_gateway :: _ \<Rightarrow> _ \<Rightarrow> _ \<Rightarrow> _ \<Rightarrow> _ \<Rightarrow> call list)"
  by (intro ext) (simp add: admission_calls_def demo_gateway_with gateway_with_def with_replay_def)

lemma gateway_preflight:
  assumes "resolve demo_ref () = (Inr demo_manifest, ())"
    "approve (check_of demo_session demo_envelope demo_manifest demo_action) () = (None, ())"
  shows "run_state (preflight demo_platform (gateway_with resolve approve) demo_session demo_envelope) demo_world =
     ((allow demo_session demo_envelope demo_manifest demo_action, demo_manifest, demo_action),
      \<lparr>w_state = (\<lparr>mrc_seen = [''env:e1'' \<mapsto> 2000, ''idem:k1'' \<mapsto> 2000]\<rparr>, ()),
       w_calls = admission_calls (gateway_with resolve approve) demo_session demo_envelope demo_manifest demo_action 1500\<rparr>)"
  by (simp add: preflight_def resolveManifest_def authorizeContractApproval_def now_def
      validateContractPayload_def authorizePolicy_def demo_interfaces demo_fields demo_gates demo_claim
      demo_world_def past_def admission_calls_def assms [unfolded check_of_def] check_of_def)

lemma gateway_run:
  assumes "resolve demo_ref () = (Inr demo_manifest, ())"
    "approve (check_of demo_session demo_envelope demo_manifest demo_action) () = (None, ())"
  shows "run_state (Handle demo_platform (gateway_with resolve approve) demo_session demo_envelope) demo_world =
     (Inr \<lparr>rsp_Decision = allow demo_session demo_envelope demo_manifest demo_action,
           rsp_Result = demo_result, rsp_Error = None\<rparr>,
      \<lparr>w_state = (\<lparr>mrc_seen = [''env:e1'' \<mapsto> 2000, ''idem:k1'' \<mapsto> 2000]\<rparr>, ()), w_calls = demo_trace\<rparr>)"
proof -
  have ns: "ActionRequestBuilderWork \<noteq> ActionDiscoverContractManifests"
    by (simp add: action_defs ActionDiscoverContractManifests_def)
  have f: "dispatch (facade_over_rest demo_facade :: (MemoryReplayCache \<times> unit) Facade) acc =
      invoke (over_rest (\<lambda>_ x. (Inr demo_result, x))) (FacadeCall FacadeRequestBuilderWork) acc"
    if "acc_Action acc = demo_action" for acc
    by (simp add: dispatch_def that demo_fields facade_defs facade_over_rest_def demo_facade_def Let_def)
  have v: "validateDispatchResult demo_platform demo_result = None"
    by (simp add: validateDispatchResult_def demo_result_def)
  have g: "h_Facade (gateway_with resolve approve) = Some (facade_over_rest demo_facade)"
    "h_Audit (gateway_with resolve approve) = Some (over_rest (\<lambda>_ x. (None, x)))"
    by (simp_all add: gateway_with_def with_replay_def demo_handler_def)
  show ?thesis
    by (simp add: Handle_def demo_normal demo_fields ns demo_choice gateway_preflight [of resolve approve, OF assms] gateway_calls
        State_Monad.bind_def State_Monad.return_def audit_def deliver_def g f v invoke_def over_rest_def
        demo_trace_def accepted_envelope_def)
qed

lemma demo_run:
  "run_state (Handle demo_platform demo_gateway demo_session demo_envelope) demo_world =
     (Inr \<lparr>rsp_Decision = allow demo_session demo_envelope demo_manifest demo_action,
           rsp_Result = demo_result, rsp_Error = None\<rparr>,
      \<lparr>w_state = (\<lparr>mrc_seen = [''env:e1'' \<mapsto> 2000, ''idem:k1'' \<mapsto> 2000]\<rparr>, ()), w_calls = demo_trace\<rparr>)"
  unfolding demo_gateway_with by (rule gateway_run) simp_all

section \<open>Properties\<close>

lemma denial_reason_mono:
  "denial_reason p h s e m a tr code \<Longrightarrow> set tr \<subseteq> set tr' \<Longrightarrow> denial_reason p h s e m a tr' code"
  unfolding denial_reason_def by (elim disj_forward conj_forward ex_forward; blast)

lemma facade_split_unique:
  assumes "quiet gates" "quiet post" "FacadeCall meth acc res \<in> set (gates @ [RecordExchangeAudit ev x, FacadeCall m' a' r'] @ post)"
  shows "meth = m' \<and> acc = a' \<and> res = r'"
  using assms by (auto simp: quiet_def list_all_iff)

text \<open>
  C2. The facade is reached only behind every gate: when a run of \<open>Handle\<close> calls a facade method, the
  calls of that run are exactly the gate calls of the preflight that applies, all answered
  positively, then the recorded allow audit of this envelope, then this one facade call with the
  normalised envelope and session, the resolved manifest and the method its action names; the pure
  checks of the preflight hold (\<^const>\<open>cleared\<close>), and nothing after it calls the facade again.
\<close>

theorem Handle_dispatch_guarded:
  assumes "run_state (Handle p h s0 e0) w = (r, w')" "w_calls w' = w_calls w @ tr"
    and "FacadeCall meth acc res \<in> set tr"
  defines "s \<equiv> normalizeSession s0" and "e \<equiv> normalizeEnvelope e0"
  shows "\<exists>m a gates post. cleared p h s e m a gates \<and> quiet gates \<and> quiet post \<and>
    meth = ac_FacadeMethod a \<and> acc = accepted_envelope s e m a \<and>
    tr = gates @ [RecordExchangeAudit (auditEvent (allow s e m a)) None, FacadeCall meth acc res] @ post"
proof (rule Handle_dispatch [OF assms(1)])
  fix tr' assume "w_calls w' = w_calls w @ tr'" "quiet tr'"
  with assms(2,3) show ?thesis by (auto simp: quiet_def list_all_iff)
next
  fix m a gates res' post
  assume c: "cleared p h (normalizeSession s0) (normalizeEnvelope e0) m a gates" "quiet post"
    and w: "w_calls w' = w_calls w @ gates @
      [RecordExchangeAudit (auditEvent (allow (normalizeSession s0) (normalizeEnvelope e0) m a)) None,
       FacadeCall (ac_FacadeMethod a) (accepted_envelope (normalizeSession s0) (normalizeEnvelope e0) m a) res'] @ post"
  have tr: "tr = gates @ [RecordExchangeAudit (auditEvent (allow s e m a)) None,
       FacadeCall (ac_FacadeMethod a) (accepted_envelope s e m a) res'] @ post"
    using w assms(2) unfolding s_def e_def by simp
  have q: "quiet gates" using cleared_quiet c(1) by blast
  have "meth = ac_FacadeMethod a \<and> acc = accepted_envelope s e m a \<and> res = res'"
    using facade_split_unique [OF q c(2)] assms(3) tr by blast
  with c q tr show ?thesis unfolding s_def e_def by blast
qed

theorem Handle_dispatch_guarded_witness:
  "\<exists>m a gates post. cleared demo_platform demo_gateway demo_session demo_envelope m a gates \<and>
    quiet gates \<and> quiet post \<and> FacadeRequestBuilderWork = ac_FacadeMethod a \<and>
    accepted_envelope demo_session demo_envelope demo_manifest demo_action = accepted_envelope demo_session demo_envelope m a \<and>
    demo_trace = gates @ [RecordExchangeAudit (auditEvent (allow demo_session demo_envelope m a)) None,
      FacadeCall FacadeRequestBuilderWork (accepted_envelope demo_session demo_envelope demo_manifest demo_action)
        (Inr demo_result)] @ post"
  using Handle_dispatch_guarded [OF demo_run, of demo_trace FacadeRequestBuilderWork
      "accepted_envelope demo_session demo_envelope demo_manifest demo_action" "Inr demo_result"]
  unfolding demo_normal by (simp add: demo_world_def demo_trace_def)

text \<open>
  C3. No decision leaves the handler unrecorded: whenever \<open>Handle\<close> returns a response, on any path,
  the audit sink was given the event of exactly the returned decision and accepted it. A handler
  with no sink, or whose sink fails, returns an error instead.
\<close>

theorem Handle_response_audited:
  assumes "run_state (Handle p h s e) w = (Inr rsp, w')" "w_calls w' = w_calls w @ tr"
  shows "RecordExchangeAudit (auditEvent (rsp_Decision rsp)) None \<in> set tr"
  using Handle_audited [OF assms(1)] assms(2) by auto

theorem Handle_response_audited_witness:
  "RecordExchangeAudit (auditEvent (allow demo_session demo_envelope demo_manifest demo_action)) None \<in> set demo_trace"
  using Handle_response_audited [OF demo_run, of demo_trace] by (simp add: demo_world_def)

text \<open>
  C4. At most one dispatch: on a gateway with the in-memory replay cache, over any sequence of
  exchanges and whatever the other components do, no envelope id and no non-empty idempotency key
  is dispatched to the facade twice.
\<close>

theorem serve_dispatches_once:
  "distinct (concat (map dispatched_keys (w_calls (snd
     (run_state (serve p (with_replay mrc_Claim h) reqs) \<lparr>w_state = (c, y), w_calls = []\<rparr>)))))"
  by (rule mrc.serve_at_most_once [of p h reqs c y "fst (run_state (serve p (with_replay mrc_Claim h) reqs)
      \<lparr>w_state = (c, y), w_calls = []\<rparr>)"]) simp


definition killed_session :: AuthenticatedSession where
  "killed_session = demo_session\<lparr>ses_KillSwitchEnabled := True\<rparr>"

lemma killed_normal: "normalizeSession killed_session = killed_session"
  by code_simp

lemma killed_run:
  "run_state (Handle demo_platform demo_gateway killed_session demo_envelope) demo_world =
     (Inr (denial_response (deny killed_session demo_envelope ErrorKillSwitch zero_Manifest zero_ActionContract)),
      demo_world\<lparr>w_calls := [RecordExchangeAudit (auditEvent (deny killed_session demo_envelope ErrorKillSwitch
        zero_Manifest zero_ActionContract)) None]\<rparr>)"
proof -
  have m: "sessionMatchesEnvelope killed_session demo_envelope" by code_simp
  have k: "ses_KillSwitchEnabled killed_session" by (simp add: killed_session_def)
  have ns: "ActionRequestBuilderWork \<noteq> ActionDiscoverContractManifests"
    "ActionRequestBuilderWork \<noteq> ActionGetServiceCatalogView" "ActionRequestBuilderWork \<noteq> ActionEstablishDataChannel"
    by (simp_all add: action_defs ActionDiscoverContractManifests_def)
  show ?thesis
    by (simp add: Handle_def killed_normal demo_normal demo_fields ns choose_preflight_def preflight_def m k
        audit_def demo_interfaces demo_world_def)
qed


text \<open>
  An allow response of an action other than discovery is the facade's own answer: the run made
  the one facade call, it returned the response's result without an error, and the scan of that
  result found no private topology.
\<close>

theorem Handle_allow_delivers:
  assumes "run_state (Handle p h s0 e0) w = (Inr rsp, w')" "w_calls w' = w_calls w @ tr"
    and "pd_Decision (rsp_Decision rsp) = DecisionAllow"
    and "TrimSpace (env_Action e0) \<noteq> ActionDiscoverContractManifests"
  defines "s \<equiv> normalizeSession s0" and "e \<equiv> normalizeEnvelope e0"
  shows "\<exists>m a pre. cleared p h s e m a pre \<and> rsp_Decision rsp = allow s e m a \<and> rsp_Error rsp = None \<and>
    tr = pre @ [RecordExchangeAudit (auditEvent (allow s e m a)) None,
      FacadeCall (ac_FacadeMethod a) (accepted_envelope s e m a) (Inr (rsp_Result rsp))] \<and>
    (TrimSpace (dr_PayloadJSON (rsp_Result rsp)) = [] \<or>
     \<not> containsPrivateTopology p (dr_PayloadJSON (rsp_Result rsp)) PayloadEncodingJSON)"
proof -
  have "handled p h s e tr (Inr rsp)"
    using ensuresD [OF Handle_ensures assms(1)] assms(2,4) unfolding s_def e_def by auto
  then obtain m a gates tail where *: "cleared p h s e m a gates"
      "tr = gates @ [RecordExchangeAudit (auditEvent (allow s e m a)) None] @ tail"
      "delivered p h s e m a tail (Inr rsp)"
    unfolding handled_def using assms(3) by (force dest: arg_cong [where f = pd_Decision])
  from *(3) obtain res where "tail = [FacadeCall (ac_FacadeMethod a) (accepted_envelope s e m a) (Inr res)]"
      "validateDispatchResult p res = None"
      "rsp = \<lparr>rsp_Decision = allow s e m a, rsp_Result = res, rsp_Error = None\<rparr>"
    unfolding delivered_def using assms(3) by auto
  with *(1,2) show ?thesis by (auto simp: validateDispatchResult_None_iff)
qed

theorem Handle_allow_delivers_witness:
  "\<exists>m a pre. cleared demo_platform demo_gateway demo_session demo_envelope m a pre \<and>
    allow demo_session demo_envelope demo_manifest demo_action = allow demo_session demo_envelope m a \<and>
    demo_trace = pre @ [RecordExchangeAudit (auditEvent (allow demo_session demo_envelope m a)) None,
      FacadeCall (ac_FacadeMethod a) (accepted_envelope demo_session demo_envelope m a) (Inr demo_result)] \<and>
    (TrimSpace (dr_PayloadJSON demo_result) = [] \<or>
     \<not> containsPrivateTopology demo_platform (dr_PayloadJSON demo_result) PayloadEncodingJSON)"
proof -
  have "TrimSpace (env_Action demo_envelope) \<noteq> ActionDiscoverContractManifests" by code_simp
  then show ?thesis
    using Handle_allow_delivers [OF demo_run, of demo_trace] unfolding demo_normal
    by (simp add: demo_world_def)
qed

text \<open>
  C6. Discovery stays off the control plane: a run of the discovery action never calls the facade, and
  it answers with documents only behind the session, kill-switch, link-state and expiry checks and
  the replay claim, for an empty payload; the answer is the JSON of exactly the documents the
  discovery service returned and the scan found no private topology in it.
\<close>

theorem Handle_discovery_guarded:
  assumes "run_state (Handle p h s0 e0) w = (Inr rsp, w')" "w_calls w' = w_calls w @ tr"
    and "TrimSpace (env_Action e0) = ActionDiscoverContractManifests"
  defines "s \<equiv> normalizeSession s0" and "e \<equiv> normalizeEnvelope e0"
  shows "quiet tr \<and>
    (pd_Decision (rsp_Decision rsp) = DecisionDeny \<and> rsp_Result rsp = zero_DispatchResult \<or>
     (\<exists>t docs payload. link_gates h s e t \<and> env_Payload e0 = [] \<and>
        discovery_json p (elems docs) = Some payload \<and> dr_PayloadJSON (rsp_Result rsp) = payload \<and>
        \<not> containsPrivateTopology p payload PayloadEncodingJSON \<and>
        tr = independent_calls h e t @ [DiscoverSignedManifests s (Inr docs),
          RecordExchangeAudit (auditEvent (rsp_Decision rsp)) None]))"
proof -
  have "discovered p h s e tr (Inr rsp)"
    using ensuresD [OF Handle_ensures assms(1)] assms(2,3) unfolding s_def e_def by auto
  then show ?thesis unfolding discovered_def e_def by auto
qed

definition discovery_envelope :: Envelope where
  "discovery_envelope = demo_envelope\<lparr>env_Action := ActionDiscoverContractManifests, env_Payload := []\<rparr>"

definition discovery_gateway :: "(MemoryReplayCache \<times> unit) Handler" where
  "discovery_gateway = with_replay mrc_Claim (demo_handler\<lparr>h_Discovery := Some (\<lambda>_ x. (Inr None, x))\<rparr>)"

definition discovery_payload :: bytes where
  "discovery_payload = marshal (JObj [(''schema_version'', JStr SchemaManifestDiscoveryV1), (''manifests'', JArr [])])"

definition discovery_decision :: PreflightDecision where
  "discovery_decision = allow demo_session discovery_envelope zero_Manifest discovery_action"

definition discovery_trace :: "call list" where
  "discovery_trace = [ReadClock 1500, Claim (env_claim demo_envelope) None,
     DiscoverSignedManifests demo_session (Inr None), RecordExchangeAudit (auditEvent discovery_decision) None]"

lemma discovery_run:
  "\<exists>w'. run_state (Handle demo_platform discovery_gateway demo_session discovery_envelope) demo_world =
     (Inr \<lparr>rsp_Decision = discovery_decision,
           rsp_Result = \<lparr>dr_Status = ''ok'', dr_PayloadJSON = discovery_payload\<rparr>, rsp_Error = None\<rparr>, w') \<and>
     w_calls w' = discovery_trace"
proof -
  have n: "normalizeEnvelope discovery_envelope = discovery_envelope"
    "sessionMatchesEnvelope demo_session discovery_envelope" by code_simp+
  have f: "env_Action discovery_envelope = ActionDiscoverContractManifests"
    "env_SchemaVersion discovery_envelope = SchemaGatewayExchangeV1" "env_Payload discovery_envelope = []"
    "env_ExpiresAtMS discovery_envelope = 2000" "env_claim discovery_envelope = env_claim demo_envelope"
    by (simp_all add: discovery_envelope_def demo_fields env_claim_def)
  have j: "discovery_json demo_platform [] = Some discovery_payload"
    by (simp add: discovery_json_def discovery_payload_def del: marshal.simps)
  have v: "validateDispatchResult demo_platform \<lparr>dr_Status = ''ok'', dr_PayloadJSON = discovery_payload\<rparr> = None"
    by (simp add: validateDispatchResult_None_iff containsPrivateTopology_def demo_platform_def)
  show ?thesis
    by (simp add: Handle_def n f demo_normal demo_fields handleManifestDiscovery_def discover_def now_def
        audited_def audit_def discovery_gateway_def demo_interfaces demo_world_def demo_claim past_def j v
        discovery_decision_def discovery_trace_def)
qed

theorem Handle_discovery_guarded_witness:
  "\<exists>t docs payload. link_gates discovery_gateway demo_session discovery_envelope t \<and>
     discovery_json demo_platform (elems docs) = Some payload \<and> discovery_payload = payload \<and>
     discovery_trace = independent_calls discovery_gateway discovery_envelope t @
       [DiscoverSignedManifests demo_session (Inr docs), RecordExchangeAudit (auditEvent discovery_decision) None]"
proof -
  obtain w' where w': "run_state (Handle demo_platform discovery_gateway demo_session discovery_envelope) demo_world =
     (Inr \<lparr>rsp_Decision = discovery_decision,
           rsp_Result = \<lparr>dr_Status = ''ok'', dr_PayloadJSON = discovery_payload\<rparr>, rsp_Error = None\<rparr>, w')"
     "w_calls w' = discovery_trace" using discovery_run by blast
  have n: "normalizeEnvelope discovery_envelope = discovery_envelope"
    "TrimSpace (env_Action discovery_envelope) = ActionDiscoverContractManifests" by code_simp+
  have d: "pd_Decision discovery_decision \<noteq> DecisionDeny" by (simp add: discovery_decision_def)
  show ?thesis
    using Handle_discovery_guarded [OF w'(1), of discovery_trace] n w'(2) d unfolding demo_normal
    by (auto simp: demo_world_def)
qed

text \<open>
  C7. What an accepted payload is: where the action forbids private topology, a non-empty JSON payload
  that passes \<open>validatePayload\<close> has the declared digest, keeps the action's size bound, parses, and
  has no private-topology key and no private-topology string at any depth.
\<close>

theorem validatePayload_no_topology:
  assumes "validatePayload p env action = None" "\<not> ac_PrivateTopologyAllowed action"
    and "env_Payload env \<noteq> []" "env_PayloadEncoding env \<in> {[], PayloadEncodingJSON}"
  shows "map ascii_lower (env_PayloadHashSHA256 env) = hexEncode (sha256 p (env_Payload env)) \<and>
    (0 < sint (ac_MaxPayloadBytes action) \<longrightarrow> int (length (env_Payload env)) \<le> sint (ac_MaxPayloadBytes action)) \<and>
    (\<exists>v. json_Unmarshal p (env_Payload env) = Some v \<and> (\<forall>k \<in> json_keys v. \<not> privateTopologyKey p k) \<and>
       (\<forall>s \<in> json_strings v. \<not> privateTopologyString p s))"
  using assms
  by (auto simp: validatePayload_None_iff containsPrivateTopology_def topology.scan_iff
      split: if_splits option.splits)

theorem validatePayload_no_topology_witness:
  "map ascii_lower (env_PayloadHashSHA256 demo_envelope) = hexEncode (sha256 demo_platform ''{}'') \<and>
   (\<exists>v. json_Unmarshal demo_platform ''{}'' = Some v \<and> (\<forall>k \<in> json_keys v. \<not> privateTopologyKey demo_platform k))"
proof -
  have "env_Payload demo_envelope = ''{}''" "env_PayloadEncoding demo_envelope = PayloadEncodingJSON"
    "\<not> ac_PrivateTopologyAllowed demo_action" by (simp_all add: demo_envelope_def demo_action_def)
  then show ?thesis using validatePayload_no_topology [OF demo_gates(2)] by auto
qed

text \<open>
  C8. The envelope speaks for the authenticated peer: when neither tenant of the session is one of the
  hard-coded aliased tenants, an envelope that matches the session names exactly the session's remote
  tenant and gateway as its source, the session's local tenant as its destination, and its link.
\<close>

theorem sessionMatchesEnvelope_exact:
  assumes "sessionMatchesEnvelope s e"
    and "ses_RemoteTenantID s \<notin> set aliased_tenants" "ses_LocalTenantID s \<notin> set aliased_tenants"
  shows "gr_TenantID (env_Source e) = ses_RemoteTenantID s \<and> gr_GatewayID (env_Source e) = ses_RemoteGatewayID s \<and>
    gr_TenantID (env_Destination e) = ses_LocalTenantID s \<and> env_PartnerLinkID e = ses_PartnerLinkID s \<and>
    ses_RemoteTenantID s \<noteq> [] \<and> env_PartnerLinkID e \<noteq> []"
  using sessionMatchesEnvelopeD [OF assms(1)] assms tenantMatch_no_alias
  by (auto simp: sessionMatchesEnvelope_def split: if_splits)

theorem sessionMatchesEnvelope_exact_witness:
  "gr_TenantID (env_Source demo_envelope) = ''t-remote'' \<and> gr_GatewayID (env_Source demo_envelope) = ''g-remote''"
  using sessionMatchesEnvelope_exact [OF demo_gates(1)]
  by (simp add: demo_session_def aliased_tenants_def alias_defs)

text \<open>
  The aliases break that for the listed tenants: a session authenticated as the tenant ending in
  \<open>aa0001\<close> carries an envelope whose source is the different tenant ending in \<open>dd0001\<close>, and the match
  accepts it.
\<close>

theorem sessionMatchesEnvelope_alias_crosses_tenants:
  "sessionMatchesEnvelope (demo_session\<lparr>ses_RemoteTenantID := uuid_aa\<rparr>)
     (demo_envelope\<lparr>env_Source := \<lparr>gr_TenantID = uuid_dd, gr_GatewayID = ''g-remote'', gr_GatewayPoolID = []\<rparr>\<rparr>)
   \<and> uuid_dd \<noteq> uuid_aa \<and> \<not> tenantMatch tenant_oldco uuid_aa"
  by code_simp

text \<open>
  The marker list of the topology scan is not closed under the private ranges it lists: the
  addresses \<open>10.42.7.9\<close> of the range 10.0.0.0/8 and the loopback address \<open>127.0.0.1\<close> are not reported.
\<close>

theorem privateTopologyString_misses:
  "\<not> privateTopologyString p ''10.42.7.9'' \<and> \<not> privateTopologyString p ''127.0.0.1'' \<and>
   privateTopologyString p ''10.4.7.9''"
proof -
  have a: "list_all ascii ''10.42.7.9'' \<and> list_all ascii ''127.0.0.1'' \<and> list_all ascii ''10.4.7.9''"
    by code_simp
  have t: "TrimSpace ''10.42.7.9'' = ''10.42.7.9'' \<and> TrimSpace ''127.0.0.1'' = ''127.0.0.1'' \<and>
      TrimSpace ''10.4.7.9'' = ''10.4.7.9''" by code_simp
  have m: "\<not> list_ex (Contains (map ascii_lower ''10.42.7.9'')) privateMarkers \<and>
      \<not> list_ex (Contains (map ascii_lower ''127.0.0.1'')) privateMarkers \<and>
      list_ex (Contains (map ascii_lower ''10.4.7.9'')) privateMarkers" by code_simp
  show ?thesis
    unfolding privateTopologyString_def Let_def using a t m by (simp only: ToLower_ascii) simp
qed

end
