(* ===== verification/ManifestProps.thy ===== *)
theory ManifestProps
  imports ContractManifest
begin

text \<open>
  The properties of signed manifests and of the verified cache, with a concrete manifest that is
  signed, loaded and resolved.
\<close>

section \<open>A concrete manifest\<close>

definition sample_contract :: Contract where
  "sample_contract = \<lparr>ct_ContractID = ''c1'', ct_ContractVersion = ''v1'', ct_DisplayName = [],
     ct_Action = ActionRequestBuilderWork, ct_ServiceCatalogAction = [], ct_PayloadSchemaRef = ''ref'',
     ct_PayloadSchemaHashSHA256 = ''s1'', ct_MaxPayloadBytes = 1024, ct_RequiresIdempotency = True,
     ct_ReplayWindowSeconds = 60, ct_AllowedPartnerLinkIDs = Some ['' link-1 ''],
     ct_AllowedGatewayMethodScopes = Some [''federation.request_builder_work''],
     ct_PrivateTopologyAllowed = False, ct_EgressPolicyRef = ''eg'', ct_AuditClass = ''au'',
     ct_RetentionClass = ''re'', ct_ResultContractIDs = None\<rparr>"

definition sample_manifest :: Manifest where
  "sample_manifest = \<lparr>mf_SchemaVersion = mf_SchemaVersionV1, mf_TenantID = ''t-local'', mf_ManifestID = ''m1'',
     mf_IssuedAtMS = 1000, mf_ExpiresAtMS = 5000, mf_CatalogVersion = ''1'', mf_SigningKeyID = '' k1 '',
     mf_Contracts = [sample_contract\<lparr>ct_ContractVersion := ''v2''\<rparr>, sample_contract],
     mf_ManifestHashSHA256 = [], mf_Signature = \<lparr>sig_Algorithm = [], sig_SignatureB64 = []\<rparr>\<rparr>"

definition sample_key :: bytes where
  "sample_key = replicate 64 (CHR ''k'')"

definition sample_keyring :: Keyring where
  "sample_keyring = [''k1'' \<mapsto> ed_public demo_platform sample_key]"

lemma sample_shape: "validateManifestShape (normalizeManifest sample_manifest) = None"
  by code_simp

lemma sample_signed:
  obtains m' where "cm_Sign demo_platform sample_manifest sample_key = Inr m'" "mf_SigningKeyID m' = ''k1''"
    "mf_ExpiresAtMS m' = 5000"
proof -
  obtain m' where m': "cm_Sign demo_platform sample_manifest sample_key = Inr m'"
    using cm_Sign_Inr_iff [of demo_platform sample_manifest sample_key] sample_shape by (auto simp: sample_key_def)
  have "TrimSpace '' k1 '' = ''k1''" by code_simp
  then have "mf_SigningKeyID m' = ''k1''" "mf_ExpiresAtMS m' = 5000"
    using cm_Sign_signed(3) [OF m'] by (simp_all add: normalizeManifest_def sample_manifest_def)
  with m' that show ?thesis by blast
qed

section \<open>Properties\<close>

text \<open>
  What \<open>Sign\<close> signs, \<open>Verify\<close> accepts: signing succeeds exactly for a private key of 64 bytes and a
  manifest of valid shape, and the signed manifest verifies, until it expires, under every keyring
  that holds the signer's public key under its signing key id.
\<close>

theorem Sign_Verify_roundtrip:
  assumes "ed25519_correct p" "sha256_sized p" "length sk = PrivateKeySize"
    and "validateManifestShape (normalizeManifest m) = None"
  shows "\<exists>m'. cm_Sign p m sk = Inr m' \<and> (\<forall>keyring sys nowMS.
    keyring (mf_SigningKeyID m') = Some (ed_public p sk) \<longrightarrow>
    sint (effectiveNowMS sys nowMS) < sint (mf_ExpiresAtMS m) \<longrightarrow> cm_Verify p sys m' keyring nowMS = None)"
proof -
  obtain m' where m': "cm_Sign p m sk = Inr m'" using cm_Sign_Inr_iff assms(3,4) by blast
  then have "mf_ExpiresAtMS m' = mf_ExpiresAtMS m"
    using cm_Sign_signed(3) [OF m'] by (simp add: normalizeManifest_def)
  with m' cm_Sign_Verify [OF assms(1,2) m'] show ?thesis by auto
qed

theorem Sign_Verify_roundtrip_witness:
  "\<exists>m'. cm_Sign demo_platform sample_manifest sample_key = Inr m' \<and>
     cm_Verify demo_platform 0 m' sample_keyring 1500 = None"
proof -
  obtain m' where m': "cm_Sign demo_platform sample_manifest sample_key = Inr m'" "mf_SigningKeyID m' = ''k1''"
    by (rule sample_signed)
  have "length sample_key = PrivateKeySize" by (simp add: sample_key_def)
  then show ?thesis
    using Sign_Verify_roundtrip [of demo_platform sample_key sample_manifest] sample_shape m'
    by (auto simp: sample_keyring_def effectiveNowMS_def sample_manifest_def)
qed

text \<open>
  C9. What a verified manifest is: \<open>Verify\<close> accepts exactly the manifests of valid shape that are not
  expired, carry the ed25519 algorithm and the digest recomputed from their own normalised content,
  and whose decoded signature over that digest is accepted by the key the ring holds under their
  signing key id.
\<close>

theorem Verify_iff:
  "cm_Verify p sys m keyring nowMS = None \<longleftrightarrow>
     validateManifestShape (normalizeManifest m) = None \<and>
     sint (effectiveNowMS sys nowMS) < sint (mf_ExpiresAtMS m) \<and>
     TrimSpace (mf_ManifestHashSHA256 m) \<noteq> [] \<and>
     TrimSpace (sig_Algorithm (mf_Signature m)) = SignatureAlgorithmEd25519 \<and>
     map ascii_lower (TrimSpace (mf_ManifestHashSHA256 m)) = ComputeManifestHash p m \<and>
     (\<exists>pk sg. keyring (TrimSpace (mf_SigningKeyID m)) = Some pk \<and> length pk = PublicKeySize \<and>
        StdDecode (TrimSpace (sig_SignatureB64 (mf_Signature m))) = Some sg \<and> length sg = SignatureSize \<and>
        ed_verify p pk (TrimSpace (mf_ManifestHashSHA256 m)) sg)"
  using ComputeManifestHash_again unfolding cm_Verify_None_iff by auto

text \<open>
  C10. The digest covers everything a manifest says: for manifests whose strings are valid UTF-8 the
  canonical bytes are equal exactly when the normalised manifests agree in every field but the digest
  and the signature (an absent and an empty list of result contracts counting as one).
\<close>

theorem canonical_bytes_bind:
  assumes "jdoc_valid (manifest_json (without_signature (normalizeManifest m)))"
    "jdoc_valid (manifest_json (without_signature (normalizeManifest m')))"
  shows "marshal (manifest_json (without_signature (normalizeManifest m))) =
      marshal (manifest_json (without_signature (normalizeManifest m'))) \<longleftrightarrow> content m = content m'"
  using marshal_inj [OF assms] manifest_json_inject by simp

theorem canonical_bytes_bind_witness:
  "marshal (manifest_json (without_signature (normalizeManifest sample_manifest))) \<noteq>
   marshal (manifest_json (without_signature (normalizeManifest (sample_manifest\<lparr>mf_ExpiresAtMS := 6000\<rparr>))))"
proof -
  have v: "jdoc_valid (manifest_json (without_signature (normalizeManifest sample_manifest)))"
    "jdoc_valid (manifest_json (without_signature (normalizeManifest (sample_manifest\<lparr>mf_ExpiresAtMS := 6000\<rparr>))))"
    by code_simp+
  have "mf_ExpiresAtMS (content sample_manifest) \<noteq> mf_ExpiresAtMS (content (sample_manifest\<lparr>mf_ExpiresAtMS := 6000\<rparr>))"
    by (simp add: content_def without_signature_def normalizeManifest_def sample_manifest_def Let_def)
  then show ?thesis using canonical_bytes_bind [OF v] by metis
qed

text \<open>
  The digest does not depend on how the contracts are ordered: any permutation of contracts with
  distinct normalised keys has the same digest, and so verifies alike.
\<close>

theorem hash_order_independent:
  assumes "mset cs = mset (mf_Contracts m)" "distinct (map (contract_key \<circ> normalizeContract) (mf_Contracts m))"
  shows "ComputeManifestHash p (m\<lparr>mf_Contracts := cs\<rparr>) = ComputeManifestHash p m"
  by (rule ComputeManifestHash_reorder [OF assms])

theorem hash_order_independent_witness:
  "ComputeManifestHash demo_platform (sample_manifest\<lparr>mf_Contracts := rev (mf_Contracts sample_manifest)\<rparr>) =
   ComputeManifestHash demo_platform sample_manifest"
proof -
  have "distinct (map (contract_key \<circ> normalizeContract) (mf_Contracts sample_manifest))"
    using sample_shape by (rule valid_keys_distinct)
  then show ?thesis using hash_order_independent [of "rev (mf_Contracts sample_manifest)" sample_manifest demo_platform] by simp
qed

text \<open>Loading documents into a fresh cache, as a receiver does at start.\<close>

fun load :: "platform \<Rightarrow> clock \<Rightarrow> Manifest list \<Rightarrow> MemoryCache option \<Rightarrow> MemoryCache option" where
  "load p clk [] cache = cache"
| "load p clk (m # ms) cache = load p clk ms (snd (PutVerified p clk m cache))"

lemma load_ok:
  "cache_ok p c \<Longrightarrow> \<exists>c'. load p clk ms (Some c) = Some c' \<and> cache_ok p c' \<and> mc_keyring c' = mc_keyring c"
proof (induction ms arbitrary: c)
  case (Cons m ms)
  obtain r c1 where c1: "PutVerified p clk m (Some c) = (r, Some c1)"
    by (cases "PutVerified p clk m (Some c)") (auto simp: PutVerified_def Let_def split: option.splits)
  with Cons.IH [OF PutVerified_ok(1) [OF Cons.prems c1]] PutVerified_ok(2) [OF Cons.prems c1] show ?case by auto
qed simp

text \<open>
  C11. The cache answers only with authentic manifests: whatever documents were offered to a fresh
  cache, a successful \<open>ResolveManifest\<close> comes from a manifest filed under the asked digest that is of
  valid shape, has that digest, is signed by a key of the ring and is not expired; the answer matches
  the reference in all four fields, is not revoked, and offers the one action of a contract of that
  manifest with the facade method of the action and the contract's partner links.
\<close>

theorem Resolve_authentic:
  assumes "load p clk0 ms (Some (NewMemoryCache ring)) = Some c"
    and "mc_ResolveManifest p clk (Some c) ref = Inr x"
  shows "manifestMatches x (normalizeContractRef ref) \<and> \<not> xm_Revoked x \<and>
    (\<exists>m ct facade mutating. mc_manifests c (TrimSpace (cr_ManifestHashSHA256 ref)) = Some m \<and>
       authentic p (cloneKeyring ring) m \<and> sint (effectiveNowMS (snd clk) (mc_now clk)) < sint (xm_ExpiresAtMS x) \<and>
       ct \<in> set (mf_Contracts m) \<and> facadeForAction (ct_Action ct) = Inr (facade, mutating) \<and>
       dom (xm_Actions x) = {ct_Action ct} \<and>
       ac_FacadeMethod (the (xm_Actions x (ct_Action ct))) = facade \<and>
       ac_Mutating (the (xm_Actions x (ct_Action ct))) = mutating \<and>
       ac_AllowedPartnerLinkIDs (the (xm_Actions x (ct_Action ct))) = elems (ct_AllowedPartnerLinkIDs ct))"
proof -
  have c: "cache_ok p c" "mc_keyring c = cloneKeyring ring"
    using load_ok [OF NewMemoryCache_ok, of p clk0 ms ring] assms(1) by (auto simp: NewMemoryCache_def)
  show ?thesis
    by (rule mc_ResolveManifest_Inr [OF assms(2) c(1)])
       (use c(2) in \<open>auto simp: toExchangeAction_def split: sum.splits prod.splits\<close>)
qed

definition sample_clock :: clock where
  "sample_clock = (Some 1500, 0)"

definition sample_ring :: "(string \<times> bytes) list" where
  "sample_ring = [(''k1 '', ed_public demo_platform sample_key)]"

definition sample_hash :: string where
  "sample_hash = ComputeManifestHash demo_platform sample_manifest"

definition sample_ref :: ContractRef where
  "sample_ref = \<lparr>cr_ContractID = ''c1'', cr_ContractVersion = ''v1'', cr_ManifestHashSHA256 = sample_hash,
     cr_PayloadSchemaHashSHA256 = ''s1''\<rparr>"

lemma cm_Verify_again:
  "cm_Verify p sys m keyring nowMS = None \<Longrightarrow> cm_Verify p sys (normalizeManifest m) keyring nowMS = None"
  by (auto simp: cm_Verify_None_iff ComputeManifestHash_again) (auto simp: normalizeManifest_def)

lemma sample_ring_clone: "cloneKeyring sample_ring = sample_keyring"
proof -
  have "TrimSpace ''k1 '' = ''k1''" by code_simp
  then show ?thesis by (simp add: cloneKeyring_def sample_ring_def sample_keyring_def)
qed

definition sample_action :: ActionContract where
  "sample_action = \<lparr>ac_Action = ActionRequestBuilderWork, ac_ServiceCatalogAction = [],
     ac_FacadeMethod = FacadeRequestBuilderWork, ac_Mutating = True, ac_IdempotencyRequired = True,
     ac_PayloadEncoding = PayloadEncodingJSON, ac_MaxPayloadBytes = 1024,
     ac_PrivateTopologyAllowed = False, ac_AllowedPartnerLinkIDs = [''link-1'']\<rparr>"

definition sample_answer :: XManifest where
  "sample_answer = \<lparr>xm_TenantID = ''t-local'', xm_ManifestID = ''m1'', xm_CatalogVersion = ''1'',
     xm_ContractID = ''c1'', xm_ContractVersion = ''v1'', xm_ManifestHashSHA256 = sample_hash,
     xm_PayloadSchemaHashSHA256 = ''s1'', xm_ExpiresAtMS = 5000, xm_Revoked = False,
     xm_Actions = [ActionRequestBuilderWork \<mapsto> sample_action]\<rparr>"

lemma sample_found:
  "\<exists>ct. find (\<lambda>c. ct_ContractID c = ''c1'' \<and> ct_ContractVersion c = ''v1'')
       (mf_Contracts (normalizeManifest (normalizeManifest sample_manifest))) = Some ct \<and>
     ct_ContractID ct = ''c1'' \<and> ct_ContractVersion ct = ''v1'' \<and> ct_Action ct = ActionRequestBuilderWork \<and>
     ct_PayloadSchemaHashSHA256 ct = ''s1'' \<and> toExchangeAction ct = Inr sample_action"
proof -
  have "case find (\<lambda>c. ct_ContractID c = ''c1'' \<and> ct_ContractVersion c = ''v1'')
       (mf_Contracts (normalizeManifest (normalizeManifest sample_manifest))) of None \<Rightarrow> False | Some ct \<Rightarrow>
     ct_ContractID ct = ''c1'' \<and> ct_ContractVersion ct = ''v1'' \<and> ct_Action ct = ActionRequestBuilderWork \<and>
     ct_PayloadSchemaHashSHA256 ct = ''s1'' \<and> toExchangeAction ct = Inr sample_action"
    by code_simp
  then show ?thesis by (auto split: option.splits)
qed

lemma sample_resolves:
  obtains m' c where "load demo_platform sample_clock [m'] (Some (NewMemoryCache sample_ring)) = Some c"
    "mc_ResolveManifest demo_platform sample_clock (Some c) sample_ref = Inr sample_answer"
proof -
  obtain m' where m': "cm_Sign demo_platform sample_manifest sample_key = Inr m'" "mf_SigningKeyID m' = ''k1''"
    "mf_ExpiresAtMS m' = 5000" by (rule sample_signed)
  note S = cm_Sign_signed [OF m'(1)]
  have v: "cm_Verify demo_platform 0 m' sample_keyring 1500 = None"
    by (rule cm_Sign_Verify [OF _ _ m'(1)]) (use m' in \<open>simp_all add: sample_keyring_def effectiveNowMS_def\<close>)
  let ?n = "normalizeManifest m'"
  note v1 = cm_Verify_again [OF v]
  have h: "mf_ManifestHashSHA256 ?n = sample_hash"
    unfolding S(3) by (simp add: normalizeManifest_signed sample_hash_def ComputeManifestHash_again sample_shape)
  define c where "c = (NewMemoryCache sample_ring)\<lparr>mc_manifests := [sample_hash \<mapsto> ?n]\<rparr>"
  have l: "load demo_platform sample_clock [m'] (Some (NewMemoryCache sample_ring)) = Some c"
    using v1 h by (simp add: PutVerified_def NewMemoryCache_def sample_ring_clone mc_now_def sample_clock_def c_def)
  have t: "TrimSpace ''c1'' = ''c1''" "TrimSpace ''v1'' = ''v1''" "TrimSpace ''s1'' = ''s1''"
    "TrimSpace ''t-local'' = ''t-local''" "TrimSpace ''m1'' = ''m1''" "TrimSpace ''1'' = ''1''"
    by code_simp+
  have n: "mf_Contracts ?n = mf_Contracts (normalizeManifest (normalizeManifest sample_manifest))"
    "mf_TenantID ?n = ''t-local''" "mf_ManifestID ?n = ''m1''" "mf_CatalogVersion ?n = ''1''" "mf_ExpiresAtMS ?n = 5000"
    unfolding S(3) by (simp_all add: normalizeManifest_signed) (simp_all add: normalizeManifest_def sample_manifest_def t)
  have r: "normalizeContractRef sample_ref = sample_ref"
    by (simp add: normalizeContractRef_def sample_ref_def sample_hash_def t)
  obtain ct where ct: "findContract ?n sample_ref = Some ct" "ct_ContractID ct = ''c1''" "ct_ContractVersion ct = ''v1''"
      "ct_Action ct = ActionRequestBuilderWork" "ct_PayloadSchemaHashSHA256 ct = ''s1''" "toExchangeAction ct = Inr sample_action"
    using sample_found by (auto simp: findContract_def n sample_ref_def)
  have k: "mc_keyring c = sample_keyring" "mc_manifests c sample_hash = Some ?n"
      "cr_ManifestHashSHA256 sample_ref = sample_hash" "cr_PayloadSchemaHashSHA256 sample_ref = ''s1''"
    by (simp_all add: c_def NewMemoryCache_def sample_ring_clone sample_ref_def)
  have "mc_ResolveManifest demo_platform sample_clock (Some c) sample_ref = Inr sample_answer"
    using v1 ct n h by (simp add: mc_ResolveManifest_def r k mc_now_def sample_clock_def sample_answer_def)
  with l that show ?thesis by blast
qed

theorem Resolve_authentic_witness:
  "\<exists>c x m. mc_ResolveManifest demo_platform sample_clock (Some c) sample_ref = Inr x \<and>
     manifestMatches x (normalizeContractRef sample_ref) \<and>
     mc_manifests c (TrimSpace sample_hash) = Some m \<and> authentic demo_platform (cloneKeyring sample_ring) m"
proof -
  obtain m' c where "load demo_platform sample_clock [m'] (Some (NewMemoryCache sample_ring)) = Some c"
    and x: "mc_ResolveManifest demo_platform sample_clock (Some c) sample_ref = Inr sample_answer"
    by (rule sample_resolves)
  from Resolve_authentic [OF this] x show ?thesis by (auto simp: sample_ref_def)
qed

definition two_actions :: Manifest where
  "two_actions = sample_manifest\<lparr>mf_Contracts := [sample_contract,
     sample_contract\<lparr>ct_Action := ActionSubmitQuote, ct_AllowedGatewayMethodScopes := Some [''federation.submit_quote'']\<rparr>]\<rparr>"

text \<open>
  A contract id and version name one contract only: a manifest of valid shape may hold two
  contracts with the same id and version and different actions, but \<open>findContract\<close>, and with it
  \<open>ResolveManifest\<close>, never reaches the second one, whatever the reference.
\<close>

theorem findContract_shadows:
  "validateManifestShape (normalizeManifest two_actions) = None \<and>
   length (mf_Contracts (normalizeManifest two_actions)) = 2 \<and>
   findContract (normalizeManifest two_actions) ref \<noteq> Some (mf_Contracts (normalizeManifest two_actions) ! 1)"
proof -
  define n where "n = normalizeManifest two_actions"
  have v: "validateManifestShape n = None \<and> length (mf_Contracts n) = 2 \<and>
      ct_ContractID (mf_Contracts n ! 0) = ct_ContractID (mf_Contracts n ! 1) \<and>
      ct_ContractVersion (mf_Contracts n ! 0) = ct_ContractVersion (mf_Contracts n ! 1) \<and>
      ct_Action (mf_Contracts n ! 0) \<noteq> ct_Action (mf_Contracts n ! 1)"
    unfolding n_def by code_simp
  then obtain a b where ab: "mf_Contracts n = [a, b]"
    by (metis (no_types) One_nat_def Suc_1 length_0_conv length_Suc_conv)
  show ?thesis
    using v ab unfolding n_def [symmetric] by (auto simp: findContract_def)
qed
end
