(* ===== verification/ApprovalProps.thy ===== *)
theory ApprovalProps
  imports ContractApproval ExchangeProps ManifestProps
begin

text \<open>
  The properties of the approval registry, with a concrete registry in which one pack is approved and
  pinned for the link of the sample exchange.
\<close>

section \<open>A concrete registry\<close>

definition sample_pin_contract :: ContractPin where
  "sample_pin_contract = \<lparr>cp_ContractID = ''c1'', cp_ContractVersion = ''v1'', cp_PayloadSchemaHashSHA256 = ''s1'',
     cp_ServiceCatalogID = ''cat'', cp_Action = ActionRequestBuilderWork, cp_ServiceCatalogAction = []\<rparr>"

definition sample_record :: ApprovalRecord where
  "sample_record = \<lparr>ar_TenantID = ''t-local'', ar_CatalogVersion = ''1'', ar_PackVersion = ''p1'', ar_ManifestID = ''m1'',
     ar_ManifestHashSHA256 = demo_hash, ar_State = StateApproved, ar_AllowedPartnerLinkIDs = [''link-1''],
     ar_Contracts = Some [sample_pin_contract], ar_ApprovedBy = ''ann'', ar_ApprovedAtMS = 10,
     ar_CreatedBy = ''bob'', ar_CreatedAtMS = 5, ar_AuditBindingHashSHA256 = []\<rparr>"

definition sample_input :: PinInput where
  "sample_input = \<lparr>pi_TenantID = ''t-local'', pi_PartnerLinkID = ''link-1'', pi_CatalogVersion = ''1'',
     pi_PackVersion = ''p1'', pi_ManifestHashSHA256 = demo_hash, pi_PinnedBy = ''ann'', pi_PinnedAtMS = 20, pi_Reason = []\<rparr>"

definition sample_approved :: Registry where
  "sample_approved = snd (PutApproval demo_platform sample_record NewRegistry)"

definition sample_registry :: Registry where
  "sample_registry = the (snd (Pin demo_platform sample_input (Some sample_approved)))"

lemma sample_record_put:
  "PutApproval demo_platform sample_record NewRegistry = (None, sample_approved)"
  "reg_records sample_approved = [demo_hash \<mapsto> sample_record]" "reg_pins sample_approved = Map.empty"
proof -
  have n: "normalizeApprovalRecord sample_record = sample_record" by code_simp
  have v: "ValidateApprovalRecord demo_platform sample_record = None" by code_simp
  have h: "ar_ManifestHashSHA256 sample_record = demo_hash" by (simp add: sample_record_def)
  show "PutApproval demo_platform sample_record NewRegistry = (None, sample_approved)"
    by (simp add: sample_approved_def PutApproval_def n v)
  show "reg_records sample_approved = [demo_hash \<mapsto> sample_record]" "reg_pins sample_approved = Map.empty"
    by (simp_all add: sample_approved_def PutApproval_def n v h NewRegistry_def)
qed

definition sample_pin :: PartnerPin where
  "sample_pin = (pin_draft zero_PartnerPin sample_input)
     \<lparr>pp_AuditBindingHashSHA256 := PinAuditHash demo_platform (pin_draft zero_PartnerPin sample_input)\<rparr>"

lemma sample_pinned:
  "Pin demo_platform sample_input (Some sample_approved) = (Inr sample_pin, Some sample_registry)"
  "reg_records sample_registry = [demo_hash \<mapsto> sample_record]"
  "reg_pins sample_registry = [pinKey ''t-local'' ''link-1'' ''1'' \<mapsto> sample_pin]"
proof -
  have n: "normalizePinInput sample_input = sample_input" by code_simp
  have v: "ValidatePartnerPin demo_platform sample_pin = None" by code_simp
  have c: "containsString (ar_AllowedPartnerLinkIDs sample_record) (pi_PartnerLinkID sample_input)" by code_simp
  have f: "pi_ManifestHashSHA256 sample_input = demo_hash" "ar_State sample_record = StateApproved"
    "ar_TenantID sample_record = pi_TenantID sample_input" "ar_CatalogVersion sample_record = pi_CatalogVersion sample_input"
    "ar_PackVersion sample_record = pi_PackVersion sample_input" "pi_PinnedBy sample_input \<noteq> []"
    "0 < sint (pi_PinnedAtMS sample_input)"
    "input_key sample_input = pinKey ''t-local'' ''link-1'' ''1''"
    by (simp_all add: sample_input_def sample_record_def)
  have "Pin demo_platform sample_input (Some sample_approved) =
      (Inr sample_pin, Some (sample_approved\<lparr>reg_pins := [pinKey ''t-local'' ''link-1'' ''1'' \<mapsto> sample_pin]\<rparr>))"
    using v f c by (simp add: Pin_def n sample_record_put sample_pin_def Let_def)
  then show "Pin demo_platform sample_input (Some sample_approved) = (Inr sample_pin, Some sample_registry)"
    "reg_records sample_registry = [demo_hash \<mapsto> sample_record]"
    "reg_pins sample_registry = [pinKey ''t-local'' ''link-1'' ''1'' \<mapsto> sample_pin]"
    by (simp_all add: sample_registry_def sample_record_put)
qed

lemma sample_reachable: "registry_reachable demo_platform sample_registry"
  unfolding registry_reachable_def
  by (rule rtranclp_trans [OF r_into_rtranclp r_into_rtranclp])
     (use registry_step.put_approval [OF sample_record_put(1)] registry_step.pin [OF sample_pinned(1)] in blast)+
definition sample_check :: ContractApprovalCheck where
  "sample_check = check_of demo_session demo_envelope demo_manifest demo_action"

lemma sample_check_fields:
  "TrimSpace (ses_LocalTenantID (pc_Session sample_check)) = ''t-local''"
  "TrimSpace (env_PartnerLinkID (pc_Envelope sample_check)) = ''link-1''"
  "TrimSpace (xm_CatalogVersion (pc_Manifest sample_check)) = ''1''"
  "TrimSpace (xm_ManifestHashSHA256 (pc_Manifest sample_check)) = demo_hash"
  "contractPinned (elems (ar_Contracts sample_record)) (env_Contract (pc_Envelope sample_check)) (env_Action (pc_Envelope sample_check))"
  "containsString (ar_AllowedPartnerLinkIDs sample_record) ''link-1''"
  by code_simp+

lemma sample_authorized: "reg_Authorize (Some sample_registry) sample_check = None"
proof -
  have f: "ar_State sample_record = StateApproved" "ar_TenantID sample_record = ''t-local''"
    "ar_CatalogVersion sample_record = ''1''" "pp_ManifestHashSHA256 sample_pin = demo_hash"
    "pp_PackVersion sample_pin = ar_PackVersion sample_record" "pp_PartnerLinkID sample_pin = ''link-1''"
    "pp_CatalogVersion sample_pin = ''1''"
    by (simp_all add: sample_record_def sample_pin_def pin_draft_def sample_input_def)
  show ?thesis
    unfolding reg_Authorize_None_iff sample_check_fields sample_pinned(2,3)
    by (rule conjI, simp)+ (rule exI [of _ sample_record], rule exI [of _ sample_pin], simp add: f sample_check_fields)
qed

section \<open>Properties\<close>

text \<open>
  C12. Every approval the registry grants is backed by evidence: in any registry reached by any
  sequence of \<open>PutApproval\<close>, \<open>PutPin\<close> and \<open>Pin\<close>, an authorised check has an approved record of the
  local tenant and catalog version with a named approver and time, whose allow-list holds the
  partner link and whose contracts hold the envelope's contract and action, and a pin of that very
  tenant, link, manifest and pack version with a named approver and time.
\<close>

theorem Authorize_evidence:
  assumes "registry_reachable p r" "reg_Authorize (Some r) chk = None"
  shows "approved_for r chk"
  by (rule registry.authorize_sound [OF registry_reachable_ok [OF assms(1)] assms(2)])

theorem Authorize_evidence_witness: "approved_for sample_registry sample_check"
  by (rule Authorize_evidence [OF sample_reachable sample_authorized])

text \<open>
  The gate denies for no other reason: a check is authorised exactly when its four identities are
  present, the record of the manifest is approved for the tenant and catalog and lists the link, the
  pin of the link names this manifest and pack version, and the contract with its action is in the
  pack. A nil registry authorises nothing.
\<close>

theorem Authorize_iff:
  fixes chk :: ContractApprovalCheck
  defines "t \<equiv> TrimSpace (ses_LocalTenantID (pc_Session chk))"
    and "l \<equiv> TrimSpace (env_PartnerLinkID (pc_Envelope chk))"
    and "cv \<equiv> TrimSpace (xm_CatalogVersion (pc_Manifest chk))"
    and "hash \<equiv> TrimSpace (xm_ManifestHashSHA256 (pc_Manifest chk))"
  shows "reg_Authorize reg chk = None \<longleftrightarrow> (\<exists>r rec pin. reg = Some r \<and>
    t \<noteq> [] \<and> l \<noteq> [] \<and> cv \<noteq> [] \<and> hash \<noteq> [] \<and> reg_records r hash = Some rec \<and> ar_State rec = StateApproved \<and>
    ar_TenantID rec = t \<and> ar_CatalogVersion rec = cv \<and> containsString (ar_AllowedPartnerLinkIDs rec) l \<and>
    reg_pins r (pinKey t l cv) = Some pin \<and> pp_ManifestHashSHA256 pin = hash \<and>
    pp_PackVersion pin = ar_PackVersion rec \<and> pp_PartnerLinkID pin = l \<and> pp_CatalogVersion pin = cv \<and>
    contractPinned (elems (ar_Contracts rec)) (env_Contract (pc_Envelope chk)) (env_Action (pc_Envelope chk)))"
proof (cases reg)
  case None
  then show ?thesis by (simp add: reg_Authorize_def)
next
  case (Some r)
  then show ?thesis
    using reg_Authorize_None_iff [of r chk]
    unfolding t_def [symmetric] l_def [symmetric] cv_def [symmetric] hash_def [symmetric] by auto
qed

text \<open>
  Revocation takes effect at once: after a record of a manifest was put in any state but approved,
  no check of that manifest is authorised and no pin of it is made, whatever pins the registry holds.
\<close>

theorem revoked_denies:
  assumes "PutApproval p rec r = (None, r')" "ar_State (normalizeApprovalRecord rec) \<noteq> StateApproved"
    and "TrimSpace (xm_ManifestHashSHA256 (pc_Manifest chk)) = TrimSpace (ar_ManifestHashSHA256 rec)"
    and "TrimSpace (pi_ManifestHashSHA256 i) = TrimSpace (ar_ManifestHashSHA256 rec)"
  shows "reg_Authorize (Some r') chk \<noteq> None \<and> (\<exists>e. Pin p i (Some r') = (Inl e, Some r'))"
proof -
  note s = PutApproval_stores(1) [OF assms(1)]
  have "reg_Authorize (Some r') chk \<noteq> None"
    using not_approved_denied s assms(2,3) by metis
  moreover have "pi_ManifestHashSHA256 (normalizePinInput i) = TrimSpace (ar_ManifestHashSHA256 rec)"
    using assms(4) by (simp add: normalizePinInput_def)
  then have "Pin p i (Some r') = (Inl (approvalErr ''contract pack version is not approved''), Some r')"
    using s assms(2) by (simp add: Pin_def Let_def)
  ultimately show ?thesis by blast
qed

theorem revoked_denies_witness:
  "\<exists>r'. PutApproval demo_platform (sample_record\<lparr>ar_State := StateRevoked\<rparr>) sample_registry = (None, r') \<and>
     reg_Authorize (Some r') sample_check \<noteq> None"
proof -
  have v: "ValidateApprovalRecord demo_platform (sample_record\<lparr>ar_State := StateRevoked\<rparr>) = None" by code_simp
  then obtain r' where r': "PutApproval demo_platform (sample_record\<lparr>ar_State := StateRevoked\<rparr>) sample_registry = (None, r')"
    by (auto simp: PutApproval_def Let_def)
  have s: "ar_State (normalizeApprovalRecord (sample_record\<lparr>ar_State := StateRevoked\<rparr>)) \<noteq> StateApproved"
    "TrimSpace (ar_ManifestHashSHA256 (sample_record\<lparr>ar_State := StateRevoked\<rparr>)) = demo_hash"
    "TrimSpace (pi_ManifestHashSHA256 sample_input) = demo_hash" by code_simp+
  show ?thesis
    using revoked_denies [OF r' s(1), of sample_check sample_input] s(2,3) sample_check_fields(4) r' by auto
qed

text \<open>
  A pin replaces the one before it: a successful \<open>Pin\<close> records the manifest and pack version it
  replaces, carries the digest of its own content, and from then on a check for that tenant, link and
  catalog version is authorised only for the newly pinned manifest.
\<close>

theorem Pin_replaces:
  assumes "Pin p i (Some r) = (Inr pin, Some r')"
  defines "n \<equiv> normalizePinInput i"
  shows "pp_PreviousManifestHashSHA256 pin = pp_ManifestHashSHA256 (pinned_at r (input_key n)) \<and>
    pp_PreviousPackVersion pin = pp_PackVersion (pinned_at r (input_key n)) \<and>
    pp_AuditBindingHashSHA256 pin = PinAuditHash p pin \<and> reg_records r' = reg_records r \<and>
    (\<forall>chk. reg_Authorize (Some r') chk = None \<longrightarrow> pinKey (ses_LocalTenantID (pc_Session chk))
        (env_PartnerLinkID (pc_Envelope chk)) (xm_CatalogVersion (pc_Manifest chk)) = input_key n \<longrightarrow>
      TrimSpace (xm_ManifestHashSHA256 (pc_Manifest chk)) = pi_ManifestHashSHA256 n)"
proof (rule Pin_Inr [OF assms(1)], fold n_def)
  assume pin: "pin = (pin_draft (pinned_at r (input_key n)) n)
      \<lparr>pp_AuditBindingHashSHA256 := PinAuditHash p (pin_draft (pinned_at r (input_key n)) n)\<rparr>"
    and r': "r' = r\<lparr>reg_pins := (reg_pins r)(input_key n \<mapsto> pin)\<rparr>"
  have k: "pinKey (TrimSpace a) (TrimSpace b) (TrimSpace c) = pinKey a b c" for a b c by (simp add: pinKey_def)
  have h: "pp_ManifestHashSHA256 pin = pi_ManifestHashSHA256 n" unfolding pin by (simp add: pin_draft_def)
  have "TrimSpace (xm_ManifestHashSHA256 (pc_Manifest chk)) = pi_ManifestHashSHA256 n"
    if "reg_Authorize (Some r') chk = None" "pinKey (ses_LocalTenantID (pc_Session chk))
        (env_PartnerLinkID (pc_Envelope chk)) (xm_CatalogVersion (pc_Manifest chk)) = input_key n" for chk
    using that h unfolding reg_Authorize_None_iff k r' by auto
  moreover have "pp_AuditBindingHashSHA256 pin = PinAuditHash p pin" unfolding pin by simp
  moreover have "pp_PreviousManifestHashSHA256 pin = pp_ManifestHashSHA256 (pinned_at r (input_key n))"
    "pp_PreviousPackVersion pin = pp_PackVersion (pinned_at r (input_key n))"
    unfolding pin by (simp_all add: pin_draft_def)
  ultimately show ?thesis unfolding r' by simp
qed

theorem Pin_replaces_witness:
  "pp_PreviousManifestHashSHA256 sample_pin = [] \<and> pp_AuditBindingHashSHA256 sample_pin = PinAuditHash demo_platform sample_pin"
  using Pin_replaces [OF sample_pinned(1)] by (simp add: sample_record_put zero_PartnerPin_def)

text \<open>
  A record made by \<open>NewApprovalRecord\<close> is accepted and filed unchanged: it is in normal form, carries
  the digest of its own content, and \<open>PutApproval\<close> stores exactly it under its manifest digest.
\<close>

theorem NewApprovalRecord_filed:
  assumes "NewApprovalRecord p input = Inr rec"
  shows "ar_AuditBindingHashSHA256 rec = ApprovalAuditHash p rec \<and>
    PutApproval p rec r = (None, r\<lparr>reg_records := (reg_records r)(ar_ManifestHashSHA256 rec \<mapsto> rec)\<rparr>)"
  using NewApprovalRecord_normal [OF assms] by (simp add: PutApproval_def)

definition sample_approval_input :: ApprovalInput where
  "sample_approval_input = \<lparr>ai_Manifest = sample_manifest\<lparr>mf_ManifestHashSHA256 := demo_hash\<rparr>, ai_PackVersion = '' p1'',
     ai_State = StateApproved, ai_AllowedPartnerLinkIDs = [''link-1'', ''link-1 ''],
     ai_ServiceCatalogIDByContractID = [''c1'' \<mapsto> ''cat''], ai_ServiceCatalogActionByContractID = Map.empty,
     ai_ApprovedBy = ''ann'', ai_ApprovedAtMS = 10, ai_CreatedBy = ''bob'', ai_CreatedAtMS = 5\<rparr>"

theorem NewApprovalRecord_filed_witness:
  "\<exists>rec. NewApprovalRecord demo_platform sample_approval_input = Inr rec \<and>
     PutApproval demo_platform rec NewRegistry =
       (None, NewRegistry\<lparr>reg_records := (reg_records NewRegistry)(ar_ManifestHashSHA256 rec \<mapsto> rec)\<rparr>)"
proof -
  have "ValidateApprovalRecord demo_platform (approval_draft sample_approval_input) = None" by code_simp
  then have "\<exists>rec. NewApprovalRecord demo_platform sample_approval_input = Inr rec"
    by (simp add: NewApprovalRecord_Inr stamped_valid [OF approval_draft_normal])
  then obtain rec where "NewApprovalRecord demo_platform sample_approval_input = Inr rec" by blast
  with NewApprovalRecord_filed [OF this, of NewRegistry] show ?thesis by blast
qed

text \<open>
  The audit digests bind every field: for values whose strings are valid UTF-8, two approval records
  have the same canonical bytes exactly when they are equal after normalisation, leaving the digest
  field itself aside.
\<close>

theorem approval_bytes_bind:
  fixes a b :: ApprovalRecord
  defines "na \<equiv> (normalizeApprovalRecord a)\<lparr>ar_AuditBindingHashSHA256 := []\<rparr>"
    and "nb \<equiv> (normalizeApprovalRecord b)\<lparr>ar_AuditBindingHashSHA256 := []\<rparr>"
  assumes "jdoc_valid (approval_json na)" "jdoc_valid (approval_json nb)"
  shows "marshal (approval_json na) = marshal (approval_json nb) \<longleftrightarrow> na = nb"
  using marshal_inj [OF assms(3,4)] approval_json_inject by simp

theorem approval_bytes_bind_witness:
  "marshal (approval_json ((normalizeApprovalRecord sample_record)\<lparr>ar_AuditBindingHashSHA256 := []\<rparr>)) \<noteq>
   marshal (approval_json ((normalizeApprovalRecord (sample_record\<lparr>ar_State := StateRevoked\<rparr>))\<lparr>ar_AuditBindingHashSHA256 := []\<rparr>))"
proof -
  have v: "jdoc_valid (approval_json ((normalizeApprovalRecord sample_record)\<lparr>ar_AuditBindingHashSHA256 := []\<rparr>))"
    "jdoc_valid (approval_json ((normalizeApprovalRecord (sample_record\<lparr>ar_State := StateRevoked\<rparr>))\<lparr>ar_AuditBindingHashSHA256 := []\<rparr>))"
    by code_simp+
  have "(normalizeApprovalRecord sample_record)\<lparr>ar_AuditBindingHashSHA256 := []\<rparr> \<noteq>
    (normalizeApprovalRecord (sample_record\<lparr>ar_State := StateRevoked\<rparr>))\<lparr>ar_AuditBindingHashSHA256 := []\<rparr>"
    by code_simp
  then show ?thesis using approval_bytes_bind [OF v] by simp
qed

end
