(* ===== verification/Gateway.thy ===== *)
theory Gateway
  imports ApprovalProps
begin

text \<open>
  The gateway put together: an exchange handler whose manifests come from a verified \<open>MemoryCache\<close>
  and whose approvals come from a \<open>Registry\<close>. The interfaces of the handler are functions of any
  state; \<open>backed_by_cache\<close> and \<open>backed_by_registry\<close> say that their answers are those of the two
  components. The facts carry the answers through a run of \<open>Handle\<close>, so that what the components
  promise (\<open>cache_ok\<close>, \<open>approved_for\<close>) holds of the manifest and the check behind a dispatch.
\<close>

section \<open>Definitions\<close>

definition backed_by_cache ::
  "platform \<Rightarrow> MemoryCache \<Rightarrow> (ContractRef, goerror + XManifest, 'x) gomethod \<Rightarrow> bool" where
  "backed_by_cache p c f \<longleftrightarrow> (\<forall>ref x. \<exists>clk. fst (f ref x) = mc_ResolveManifest p clk (Some c) ref)"

definition backed_by_registry :: "Registry \<Rightarrow> (ContractApprovalCheck, goerror option, 'x) gomethod \<Rightarrow> bool" where
  "backed_by_registry r g \<longleftrightarrow> (\<forall>chk x. fst (g chk x) = reg_Authorize (Some r) chk)"

fun answered :: "platform \<Rightarrow> MemoryCache \<Rightarrow> Registry \<Rightarrow> call \<Rightarrow> bool" where
  "answered p c r (ResolveManifest ref res) = (\<exists>clk. res = mc_ResolveManifest p clk (Some c) ref)"
| "answered p c r (AuthorizeContractApproval chk res) = (res = reg_Authorize (Some r) chk)"
| "answered p c r _ = True"

section \<open>Answers through a run\<close>

text \<open>The log holds \<open>l\<close> and then only calls that satisfy \<open>A\<close>.\<close>

definition extends_by :: "call list \<Rightarrow> (call \<Rightarrow> bool) \<Rightarrow> 'x world \<Rightarrow> bool" where
  "extends_by l A w \<longleftrightarrow> (\<exists>tr. w_calls w = l @ tr \<and> list_all A tr)"

lemma keeps_answered: "(\<And>x. A (tag a (fst (f a x)))) \<Longrightarrow> keeps (extends_by l A) (invoke f tag a)"
  by (fastforce simp: keeps_def extends_by_def invoke_def case_prod_beta)

lemma Handle_answered:
  assumes "h_Manifests h = Some f" "backed_by_cache p c f" "h_Approvals h = Some g" "backed_by_registry r g"
  shows "keeps (extends_by l (answered p c r)) (Handle p h s e)"
proof -
  have "answered p c r (ResolveManifest ref (fst (f ref x)))" for ref x
    using assms(2) by (auto simp: backed_by_cache_def)
  moreover have "answered p c r (AuthorizeContractApproval chk (fst (g chk x)))" for chk x
    using assms(4) by (auto simp: backed_by_registry_def)
  ultimately show ?thesis
    unfolding Handle_def Let_def handleManifestDiscovery_def choose_preflight_def preflight_def
      preflightManifestIndependent_def resolveManifest_def authorizeContractApproval_def now_def
      validateContractPayload_def authorizePolicy_def discover_def audited_def audit_def deliver_def dispatch_def
      assms(1,3) option.case
    by (intro keeps_intros keeps_answered) (auto split: option.splits intro!: keeps_intros keeps_answered)
qed

lemma Handle_trace_answered:
  assumes "h_Manifests h = Some f" "backed_by_cache p c f" "h_Approvals h = Some g" "backed_by_registry r g"
    "run_state (Handle p h s e) w = (res, w')" "w_calls w' = w_calls w @ tr"
  shows "list_all (answered p c r) tr"
proof -
  have "extends_by (w_calls w) (answered p c r) w" by (simp add: extends_by_def)
  then have "extends_by (w_calls w) (answered p c r) w'"
    using Handle_answered [OF assms(1-4)] assms(5) unfolding keeps_def by (metis snd_conv)
  with assms(6) show ?thesis by (auto simp: extends_by_def)
qed

text \<open>A strict clearance asks both components and rests on their answers.\<close>

lemma cleared_answers:
  assumes "cleared p h s e m a gates" "env_Contract e \<noteq> zero_ContractRef" "h_Approvals h \<noteq> None"
    "list_all (answered p c r) gates"
  shows "(\<exists>clk. mc_ResolveManifest p clk (Some c) (env_Contract e) = Inr m) \<and>
    reg_Authorize (Some r) (check_of s e m a) = None \<and> xm_Actions m (env_Action e) = Some a"
proof -
  obtain t where t: "admitted p h s e m a t" "gates = admission_calls h s e m a t"
    using assms(1,2) unfolding cleared_def by blast
  have "ResolveManifest (env_Contract e) (Inr m) \<in> set gates" "AuthorizeContractApproval (check_of s e m a) None \<in> set gates"
    using assms(3) unfolding t(2) admission_calls_def by auto
  then have "answered p c r (ResolveManifest (env_Contract e) (Inr m))"
    "answered p c r (AuthorizeContractApproval (check_of s e m a) None)"
    using assms(4) unfolding list_all_iff by blast+
  moreover have "xm_Actions m (env_Action e) = Some a" using t(1) by (simp add: admitted_def)
  ultimately show ?thesis unfolding answered.simps by metis
qed

section \<open>A concrete gateway\<close>

text \<open>The hash of the demo platform keeps 32 bytes, all of them from the first field of the document.\<close>

lemma manifest_prefix:
  assumes "mf_SchemaVersion m = mf_SchemaVersionV1"
  shows "zero_pad 32 (marshal (manifest_json m)) =
    [CHR ''{'', CHR 0x22] @ ''schema_version'' @ [CHR 0x22, CHR '':'', CHR 0x22] @ ''builders.fede''"
  using assms
  by (simp add: zero_pad_def manifest_json_def jseq_def json_string_def mf_SchemaVersionV1_def esc_code ascii_code
      esc_ascii_code)

lemma sample_hash_demo: "sample_hash = demo_hash"
proof -
  have "TrimSpace mf_SchemaVersionV1 = mf_SchemaVersionV1" by code_simp
  then have "mf_SchemaVersion (without_signature (normalizeManifest sample_manifest)) = mf_SchemaVersionV1"
    by (simp add: without_signature_def normalizeManifest_def sample_manifest_def)
  then have "sample_hash = hexEncode ([CHR ''{'', CHR 0x22] @ ''schema_version'' @ [CHR 0x22, CHR '':'', CHR 0x22] @ ''builders.fede'')"
    unfolding sample_hash_def ComputeManifestHash_def using manifest_prefix by (simp add: demo_platform_def)
  also have "\<dots> = demo_hash" by code_simp
  finally show ?thesis .
qed

lemma sample_is_demo: "sample_answer = demo_manifest" "sample_ref = demo_ref"
  by (simp_all add: sample_answer_def demo_manifest_def sample_hash_demo sample_action_def demo_action_def
      sample_ref_def demo_ref_def)

definition cache_method :: "MemoryCache \<Rightarrow> (ContractRef, goerror + XManifest, unit) gomethod" where
  "cache_method c ref x = (mc_ResolveManifest demo_platform sample_clock (Some c) ref, x)"

definition registry_method :: "Registry \<Rightarrow> (ContractApprovalCheck, goerror option, unit) gomethod" where
  "registry_method r chk x = (reg_Authorize (Some r) chk, x)"

lemma gateway_backed:
  "\<exists>f g. h_Manifests (gateway_with (cache_method c) (registry_method r)) = Some f \<and>
     backed_by_cache demo_platform c f \<and>
     h_Approvals (gateway_with (cache_method c) (registry_method r)) = Some g \<and> backed_by_registry r g"
proof -
  have f: "h_Manifests (gateway_with (cache_method c) (registry_method r)) = Some (over_rest (cache_method c))"
    and g: "h_Approvals (gateway_with (cache_method c) (registry_method r)) = Some (over_rest (registry_method r))"
    by (simp_all add: gateway_with_def with_replay_def)
  have "backed_by_cache demo_platform c (over_rest (cache_method c) :: (_, _, MemoryReplayCache \<times> unit) gomethod)"
    unfolding backed_by_cache_def by (intro allI exI [of _ sample_clock]) (simp add: over_rest_def cache_method_def case_prod_beta)
  moreover have "backed_by_registry r (over_rest (registry_method r) :: (_, _, MemoryReplayCache \<times> unit) gomethod)"
    by (auto simp: backed_by_registry_def over_rest_def registry_method_def split: prod.splits)
  ultimately show ?thesis using f g by blast
qed

lemma backed_run:
  assumes "mc_ResolveManifest demo_platform sample_clock (Some c) sample_ref = Inr sample_answer"
  shows "\<exists>rsp w'. run_state (Handle demo_platform (gateway_with (cache_method c) (registry_method sample_registry))
      demo_session demo_envelope) demo_world = (rsp, w') \<and> w_calls w' = w_calls demo_world @ demo_trace"
proof -
  have "reg_Authorize (Some sample_registry) (check_of demo_session demo_envelope demo_manifest demo_action) = None"
    using sample_authorized unfolding sample_check_def .
  then have "registry_method sample_registry (check_of demo_session demo_envelope demo_manifest demo_action) () = (None, ())"
    by (simp add: registry_method_def)
  moreover have "cache_method c demo_ref () = (Inr demo_manifest, ())"
    using assms by (simp add: cache_method_def sample_is_demo)
  ultimately show ?thesis
    using gateway_run [of "cache_method c" "registry_method sample_registry"] by (simp add: demo_world_def)
qed

end
