(* ===== verification/SignedDocument.thy ===== *)
theory SignedDocument
  imports GoPlatform
begin

text \<open>
  What the signed documents of the program have in common. A capability, a revocation list, a peer
  roster, a service-access capability and a revocation tombstone are all records that a signer
  stamps with its key id and an ed25519 signature over canonical bytes, and that a verifier accepts
  under a ring of trusted keys. The locale \<open>signed_document\<close> is that contract; its lemmas (a signed
  document is accepted, an accepted document was signed, a changed one is not) are proved once and
  reach each document through an interpretation in the theory of the document.
\<close>

section \<open>Definitions\<close>

text \<open>
  Unforgeability in the ideal form: every message the public key accepts a signature for is one
  of \<open>M\<close>, the messages its owner signed.
\<close>

definition signs_only :: "platform \<Rightarrow> bytes \<Rightarrow> bytes set \<Rightarrow> bool" where
  "signs_only p pub M \<longleftrightarrow> (\<forall>m s. ed_verify p pub m s \<longrightarrow> m \<in> M)"

text \<open>The signer of concrete runs that signs nothing but the messages of a list.\<close>

definition strict_platform :: "bytes list \<Rightarrow> platform" where
  "strict_platform ms = demo_platform
     \<lparr>ed_verify := (\<lambda>pk m s. m \<in> set ms \<and> ed_verify demo_platform pk m s)\<rparr>"

lemma strict_signs_only: "signs_only (strict_platform ms) pub (set ms)"
  by (simp add: signs_only_def strict_platform_def)

section \<open>The contract of a signed document\<close>

locale signed_document =
  fixes sign :: "platform \<Rightarrow> string \<Rightarrow> bytes \<Rightarrow> 'd \<Rightarrow> goerror + 'd"
    and accepts :: "platform \<Rightarrow> 'ring \<Rightarrow> int64 \<Rightarrow> 'd \<Rightarrow> bool"
    and look :: "'ring \<Rightarrow> string \<Rightarrow> bytes option"
    and tbs :: "'d \<Rightarrow> bytes"
    and signer :: "'d \<Rightarrow> string"
    and sigbytes :: "'d \<Rightarrow> bytes"
    and stamp :: "string \<Rightarrow> bytes \<Rightarrow> 'd \<Rightarrow> 'd"
    and mintable :: "'d \<Rightarrow> bool"
    and ready :: "int64 \<Rightarrow> 'd \<Rightarrow> bool"
  assumes sign_iff: "sign p kid sk d = Inr d' \<longleftrightarrow>
      length sk = PrivateKeySize \<and> mintable d \<and> d' = stamp kid (ed_sign p sk (tbs (stamp kid [] d))) d"
    and accepts_iff: "accepts p ring now d \<longleftrightarrow>
      (\<exists>pub. look ring (signer d) = Some pub \<and> length pub = PublicKeySize \<and> ready now d \<and>
        length (sigbytes d) = SignatureSize \<and> ed_verify p pub (tbs d) (sigbytes d))"
    and signer_stamp: "signer (stamp k s d) = k"
    and sigbytes_stamp: "sigbytes (stamp k s d) = s"
    and ready_stamp: "ready now (stamp k s d) \<longleftrightarrow> ready now d"
    and tbs_stamp: "tbs (stamp k s d) = tbs (stamp k [] d)"
begin

lemma signed_accepted:
  assumes "sign p kid sk d = Inr d'" "ed25519_correct p" "look ring kid = Some (ed_public p sk)" "ready now d"
  shows "accepts p ring now d'"
proof -
  have s: "length sk = PrivateKeySize" "d' = stamp kid (ed_sign p sk (tbs (stamp kid [] d))) d"
    using assms(1) by (simp_all add: sign_iff)
  note k = ed25519_correctD [OF assms(2) s(1)]
  show ?thesis
    unfolding accepts_iff s(2) signer_stamp sigbytes_stamp ready_stamp tbs_stamp
      [of kid "ed_sign p sk (tbs (stamp kid [] d))"]
    using assms(3,4) k by blast
qed

lemma sign_then_accept:
  assumes "ed25519_correct p" "length sk = PrivateKeySize" "look ring kid = Some (ed_public p sk)"
    "mintable d" "ready now d"
  shows "\<exists>d'. sign p kid sk d = Inr d' \<and> accepts p ring now d'"
  using signed_accepted [OF _ assms(1,3,5)] assms(2,4) by (auto simp: sign_iff)

lemma accepted_signed:
  assumes "accepts p ring now d" "look ring (signer d) = Some pub" "signs_only p pub M"
  shows "tbs d \<in> M" "ready now d"
  using assms by (auto simp: accepts_iff signs_only_def)

lemma unknown_signer_rejected: "look ring (signer d) = None \<Longrightarrow> \<not> accepts p ring now d"
  by (simp add: accepts_iff)

lemma not_ready_rejected: "\<not> ready now d \<Longrightarrow> \<not> accepts p ring now d"
  by (simp add: accepts_iff)

text \<open>A signature is accepted on another document only if that document has the same bytes.\<close>

lemma transplant_rejected:
  assumes "look ring (signer d) = Some pub" "signs_only p pub {tbs d0}" "tbs d \<noteq> tbs d0"
  shows "\<not> accepts p ring now d"
  using assms accepted_signed(1) by blast

end

end
