(* ===== verification/MembershipCap.thy ===== *)
theory MembershipCap
  imports SignedDocument
begin

text \<open>
  Membership capabilities and revocation lists (\<open>src/membershipcap/capability.go\<close> and
  \<open>revocation.go\<close>): the two records, their canonical bytes, signing and verification, the proof of
  possession, the tenant handle, the storage encoding of a public key, and the fence a list puts
  on a capability. A \<open>[]byte\<close> whose nil value the JSON writer shows is a \<open>char slice\<close>. The map of
  trusted signers is a \<open>Keyring\<close>. Where \<open>fmt.Errorf\<close> quotes an operand with \<open>%q\<close>, the quoted text
  is left out of the modelled message.
\<close>

section \<open>Capabilities\<close>

record Capability =
  cap_LibP2PPublicKey :: "char slice"
  cap_TenantHandle :: string
  cap_FabricID :: string
  cap_CapabilityEpoch :: int64
  cap_RevocationGeneration :: int64
  cap_NotAfterMS :: int64
  cap_SignerKeyID :: string
  cap_Signature :: bytes

type_synonym trust = "string \<rightharpoonup> bytes"

definition ErrBadSignature :: goerror where
  "ErrBadSignature = Plain ''membership capability signature invalid''"
definition ErrExpired :: goerror where
  "ErrExpired = Plain ''membership capability expired''"
definition ErrUnknownSigner :: goerror where
  "ErrUnknownSigner = Plain ''membership capability signer not trusted''"
definition ErrBadKey :: goerror where
  "ErrBadKey = Plain ''membership capability public key invalid''"
definition ErrProofOfPossession :: goerror where
  "ErrProofOfPossession = Plain ''membership capability proof-of-possession invalid''"

text \<open>\<open>fmt.Errorf("%w: ...", err, ...)\<close> with the text that follows the colon.\<close>

definition errorf :: "goerror \<Rightarrow> string \<Rightarrow> goerror" where
  "errorf err msg = Wrapped (Error err @ '': '' @ msg) err"

definition capability_fields :: "Capability \<Rightarrow> (string \<times> jdoc) list" where
  "capability_fields c =
     (jfield ''libp2p_public_key'' (JBytes (cap_LibP2PPublicKey c)) @
      jfield ''tenant_handle'' (JStr (cap_TenantHandle c)) @
      jfield ''fabric_id'' (JStr (cap_FabricID c)) @
      jfield ''capability_epoch'' (JInt (sint (cap_CapabilityEpoch c))) @
      jfield ''revocation_generation'' (JInt (sint (cap_RevocationGeneration c))) @
      jfield ''not_after_ms'' (JInt (sint (cap_NotAfterMS c))) @
      jfield ''signer_key_id'' (JStr (cap_SignerKeyID c)) @
      jomit (cap_Signature c = []) ''signature'' (JBytes (Some (cap_Signature c))))"

definition canonicalBytes :: "Capability \<Rightarrow> bytes" where
  "canonicalBytes c = marshal (JObj (capability_fields (c\<lparr>cap_Signature := []\<rparr>)))"

definition cap_Sign :: "platform \<Rightarrow> string \<Rightarrow> bytes \<Rightarrow> Capability \<Rightarrow> goerror + Capability" where
  "cap_Sign p keyID priv c0 =
     (if length priv \<noteq> PrivateKeySize then Inl ErrBadKey
      else if length (elems (cap_LibP2PPublicKey c0)) \<noteq> PublicKeySize then Inl ErrBadKey
      else let c = c0\<lparr>cap_SignerKeyID := keyID, cap_Signature := []\<rparr>; b = canonicalBytes c
           in Inr (c\<lparr>cap_Signature := ed_sign p priv b\<rparr>))"

definition cap_Verify :: "platform \<Rightarrow> Capability \<Rightarrow> trust \<Rightarrow> int64 \<Rightarrow> goerror option" where
  "cap_Verify p c trusted nowMS =
     (case trusted (cap_SignerKeyID c) of
        None \<Rightarrow> Some (errorf ErrUnknownSigner [])
      | Some pub \<Rightarrow>
          if length pub \<noteq> PublicKeySize then Some (errorf ErrUnknownSigner [])
          else if length (elems (cap_LibP2PPublicKey c)) \<noteq> PublicKeySize then Some ErrBadKey
          else if cap_NotAfterMS c \<noteq> 0 \<and> sint (cap_NotAfterMS c) \<le> sint nowMS then Some ErrExpired
          else if length (cap_Signature c) \<noteq> SignatureSize then Some ErrBadSignature
          else if \<not> ed_verify p pub (canonicalBytes c) (cap_Signature c) then Some ErrBadSignature
          else None)"

definition VerifyProofOfPossession :: "platform \<Rightarrow> bytes \<Rightarrow> bytes \<Rightarrow> bytes \<Rightarrow> goerror option" where
  "VerifyProofOfPossession p libp2pPublicKey challenge popSignature =
     (if length libp2pPublicKey \<noteq> PublicKeySize then Some ErrBadKey
      else if length challenge = 0 \<or> length popSignature \<noteq> SignatureSize then Some ErrProofOfPossession
      else if \<not> ed_verify p libp2pPublicKey challenge popSignature then Some ErrProofOfPossession
      else None)"

definition tenant_handle_input :: "string \<Rightarrow> string \<Rightarrow> bytes" where
  "tenant_handle_input tenantID fabricID =
     ''membership-tenant-handle|'' @ fabricID @ ''|'' @ tenantID"

definition TenantHandle :: "platform \<Rightarrow> string \<Rightarrow> string \<Rightarrow> string" where
  "TenantHandle p tenantID fabricID = RawURLEncode (sha256 p (tenant_handle_input tenantID fabricID))"

definition EncodePublicKey :: "bytes \<Rightarrow> string" where
  "EncodePublicKey pub = RawURLEncode pub"

definition DecodePublicKey :: "string \<Rightarrow> goerror + bytes" where
  "DecodePublicKey s =
     (case RawURLDecode s of
        None \<Rightarrow> Inl ErrBadKey
      | Some b \<Rightarrow> if length b \<noteq> PublicKeySize then Inl ErrBadKey else Inr b)"

definition ConstantTimeEqualHandle :: "string \<Rightarrow> string \<Rightarrow> bool" where
  "ConstantTimeEqualHandle a b \<longleftrightarrow> a = b"

section \<open>Revocation lists\<close>

record RevocationEntry =
  re_LibP2PPublicKey :: "char slice"
  re_CapabilityEpoch :: int64
  re_RevocationGeneration :: int64
  re_Revoked :: bool

record RevocationList =
  rl_FabricID :: string
  rl_ListGeneration :: int64
  rl_IssuedAtMS :: int64
  rl_NotAfterMS :: int64
  rl_Entries :: "RevocationEntry list"
  rl_SignerKeyID :: string
  rl_Signature :: bytes

datatype FenceStatus = FenceUnknown | FenceValid | FenceRevoked

definition ErrRevocationSignature :: goerror where
  "ErrRevocationSignature = Plain ''revocation list signature invalid''"
definition ErrRevocationExpired :: goerror where
  "ErrRevocationExpired = Plain ''revocation list expired''"
definition ErrRevocationSigner :: goerror where
  "ErrRevocationSigner = Plain ''revocation list signer not trusted''"

definition sortedEntries :: "RevocationEntry list \<Rightarrow> RevocationEntry list" where
  "sortedEntries es = sort_key (\<lambda>e. elems (re_LibP2PPublicKey e)) es"

definition revocation_entry_json :: "RevocationEntry \<Rightarrow> jdoc" where
  "revocation_entry_json e = JObj
     [(''libp2p_public_key'', JBytes (re_LibP2PPublicKey e)),
      (''capability_epoch'', JInt (sint (re_CapabilityEpoch e))),
      (''revocation_generation'', JInt (sint (re_RevocationGeneration e))),
      (''revoked'', JBool (re_Revoked e))]"

definition revocation_fields :: "RevocationList \<Rightarrow> (string \<times> jdoc) list" where
  "revocation_fields rl =
     (jfield ''fabric_id'' (JStr (rl_FabricID rl)) @
      jfield ''list_generation'' (JInt (sint (rl_ListGeneration rl))) @
      jfield ''issued_at_ms'' (JInt (sint (rl_IssuedAtMS rl))) @
      jfield ''not_after_ms'' (JInt (sint (rl_NotAfterMS rl))) @
      jfield ''entries'' (JArr (map revocation_entry_json (rl_Entries rl))) @
      jfield ''signer_key_id'' (JStr (rl_SignerKeyID rl)) @
      jomit (rl_Signature rl = []) ''signature'' (JBytes (Some (rl_Signature rl))))"

definition revocationCanonicalBytes :: "RevocationList \<Rightarrow> bytes" where
  "revocationCanonicalBytes rl = marshal (JObj (revocation_fields
     (rl\<lparr>rl_Signature := [], rl_Entries := sortedEntries (rl_Entries rl)\<rparr>)))"

definition SignRevocationList :: "platform \<Rightarrow> string \<Rightarrow> bytes \<Rightarrow> RevocationList \<Rightarrow> goerror + RevocationList" where
  "SignRevocationList p keyID priv rl0 =
     (if length priv \<noteq> PrivateKeySize then Inl ErrBadKey
      else let rl = rl0\<lparr>rl_SignerKeyID := keyID, rl_Signature := []\<rparr>; b = revocationCanonicalBytes rl
           in Inr (rl\<lparr>rl_Signature := ed_sign p priv b\<rparr>))"

definition rl_Verify :: "platform \<Rightarrow> RevocationList \<Rightarrow> trust \<Rightarrow> int64 \<Rightarrow> goerror option" where
  "rl_Verify p rl trusted nowMS =
     (case trusted (rl_SignerKeyID rl) of
        None \<Rightarrow> Some (errorf ErrRevocationSigner [])
      | Some pub \<Rightarrow>
          if length pub \<noteq> PublicKeySize then Some (errorf ErrRevocationSigner [])
          else if rl_NotAfterMS rl \<noteq> 0 \<and> sint (rl_NotAfterMS rl) \<le> sint nowMS then Some ErrRevocationExpired
          else if length (rl_Signature rl) \<noteq> SignatureSize then Some ErrRevocationSignature
          else if \<not> ed_verify p pub (revocationCanonicalBytes rl) (rl_Signature rl) then
            Some ErrRevocationSignature
          else None)"

definition rl_Find :: "RevocationList \<Rightarrow> bytes \<Rightarrow> RevocationEntry option" where
  "rl_Find rl libp2pPublicKey = find (\<lambda>e. elems (re_LibP2PPublicKey e) = libp2pPublicKey) (rl_Entries rl)"

text \<open>The loop of \<open>Check\<close>, with its flag \<open>found\<close>.\<close>

fun check_entries :: "bool \<Rightarrow> RevocationEntry list \<Rightarrow> Capability \<Rightarrow> FenceStatus" where
  "check_entries found [] c = (if \<not> found then FenceUnknown else FenceValid)"
| "check_entries found (entry # es) c =
     (if elems (re_LibP2PPublicKey entry) \<noteq> elems (cap_LibP2PPublicKey c) then check_entries found es c
      else if re_Revoked entry \<or> sint (cap_CapabilityEpoch c) < sint (re_CapabilityEpoch entry) \<or>
              sint (cap_RevocationGeneration c) < sint (re_RevocationGeneration entry) then FenceRevoked
      else check_entries True es c)"

definition rl_Check :: "RevocationList \<Rightarrow> Capability \<Rightarrow> FenceStatus" where
  "rl_Check rl c = check_entries False (rl_Entries rl) c"

section \<open>Facts: canonical bytes\<close>

lemma ascii_StdEncode: "list_all ascii (StdEncode bs)"
proof -
  have "list_all ascii (CHR ''='' # b64_std)" by code_simp
  then show ?thesis
    using b64_enc_set [of b64_std True bs] b64_alphabets(1) by (auto simp: list_all_iff b64_alphabet_def)
qed

lemma jdoc_valid_JBytes [simp]: "jdoc_valid (JBytes b)"
  by (cases b) (simp_all add: JBytes_def valid_utf8_ascii ascii_StdEncode)

lemma JBytes_inject [simp]: "JBytes a = JBytes b \<longleftrightarrow> a = b"
  by (cases a; cases b) (simp_all add: JBytes_def b64_enc_inj)

lemma revocation_entry_json_inject [simp]: "revocation_entry_json a = revocation_entry_json b \<longleftrightarrow> a = b"
  by (cases a; cases b) (simp add: revocation_entry_json_def)

text \<open>The strings of a document are valid UTF-8: then the JSON writer replaces nothing.\<close>

definition cap_utf8 :: "Capability \<Rightarrow> bool" where
  "cap_utf8 c \<longleftrightarrow> valid_utf8 (cap_TenantHandle c) \<and> valid_utf8 (cap_FabricID c) \<and> valid_utf8 (cap_SignerKeyID c)"

definition rl_utf8 :: "RevocationList \<Rightarrow> bool" where
  "rl_utf8 rl \<longleftrightarrow> valid_utf8 (rl_FabricID rl) \<and> valid_utf8 (rl_SignerKeyID rl)"

lemma valid_utf8_Cons_ascii: "ascii c \<Longrightarrow> valid_utf8 (c # cs) \<longleftrightarrow> valid_utf8 cs"
  by (simp add: valid_utf8_code(2))

lemmas utf8_literal = valid_utf8_Cons_ascii ascii_code

lemma jdoc_valid_fields:
  "(\<forall>(k, v) \<in> set (jfield k' v' @ fs). valid_utf8 k \<and> jdoc_valid v) \<longleftrightarrow>
     valid_utf8 k' \<and> jdoc_valid v' \<and> (\<forall>(k, v) \<in> set fs. valid_utf8 k \<and> jdoc_valid v)"
  "(\<forall>(k, v) \<in> set (jomit skip k' v' @ fs). valid_utf8 k \<and> jdoc_valid v) \<longleftrightarrow>
     (skip \<or> valid_utf8 k' \<and> jdoc_valid v') \<and> (\<forall>(k, v) \<in> set fs. valid_utf8 k \<and> jdoc_valid v)"
  "(\<forall>(k, v) \<in> set (jfield k' v'). valid_utf8 k \<and> jdoc_valid v) \<longleftrightarrow> valid_utf8 k' \<and> jdoc_valid v'"
  "(\<forall>(k, v) \<in> set (jomit skip k' v'). valid_utf8 k \<and> jdoc_valid v) \<longleftrightarrow> skip \<or> valid_utf8 k' \<and> jdoc_valid v'"
  by (auto simp: jfield_def jomit_def)

lemma capability_valid: "cap_utf8 c \<Longrightarrow> jdoc_valid (JObj (capability_fields c))"
  unfolding jdoc_valid.simps capability_fields_def jdoc_valid_fields
  by (simp add: cap_utf8_def utf8_literal)

lemma revocation_entry_valid: "jdoc_valid (revocation_entry_json e)"
  by (simp add: revocation_entry_json_def utf8_literal)

lemma revocation_valid: "rl_utf8 rl \<Longrightarrow> jdoc_valid (JObj (revocation_fields rl))"
  unfolding jdoc_valid.simps revocation_fields_def jdoc_valid_fields
  by (simp add: rl_utf8_def utf8_literal revocation_entry_valid)

lemma capability_fields_inject:
  assumes "cap_Signature a = []" "cap_Signature b = []"
  shows "JObj (capability_fields a) = JObj (capability_fields b) \<longleftrightarrow> a = b"
  using assms by (cases a; cases b) (auto simp: capability_fields_def jfield_def jomit_def)

lemma revocation_fields_inject:
  assumes "rl_Signature a = []" "rl_Signature b = []"
  shows "JObj (revocation_fields a) = JObj (revocation_fields b) \<longleftrightarrow> a = b"
proof -
  have m: "map revocation_entry_json xs = map revocation_entry_json ys \<longleftrightarrow> xs = ys" for xs ys
    by (rule inj_map_eq_map) (simp add: inj_def)
  show ?thesis
    using assms by (cases a; cases b) (auto simp: revocation_fields_def jfield_def jomit_def m)
qed

text \<open>What the signature of a document is taken over: everything but the signature itself.\<close>

definition rl_content :: "RevocationList \<Rightarrow> RevocationList" where
  "rl_content rl = rl\<lparr>rl_Signature := [], rl_Entries := sortedEntries (rl_Entries rl)\<rparr>"

lemma canonicalBytes_inject:
  assumes "cap_utf8 a" "cap_utf8 b"
  shows "canonicalBytes a = canonicalBytes b \<longleftrightarrow> a\<lparr>cap_Signature := []\<rparr> = b\<lparr>cap_Signature := []\<rparr>"
proof -
  have "jdoc_valid (JObj (capability_fields (c\<lparr>cap_Signature := []\<rparr>)))" if "cap_utf8 c" for c
    by (rule capability_valid) (use that in \<open>simp add: cap_utf8_def\<close>)
  from marshal_inj [OF this this, OF assms] show ?thesis
    unfolding canonicalBytes_def using capability_fields_inject by simp
qed

lemma revocationCanonicalBytes_inject:
  assumes "rl_utf8 a" "rl_utf8 b"
  shows "revocationCanonicalBytes a = revocationCanonicalBytes b \<longleftrightarrow> rl_content a = rl_content b"
proof -
  have "jdoc_valid (JObj (revocation_fields (rl_content rl)))" if "rl_utf8 rl" for rl
    by (rule revocation_valid) (use that in \<open>simp add: rl_utf8_def rl_content_def\<close>)
  from marshal_inj [OF this this, OF assms] show ?thesis
    unfolding revocationCanonicalBytes_def rl_content_def [symmetric]
    using revocation_fields_inject [of "rl_content a" "rl_content b"] by (simp add: rl_content_def)
qed

text \<open>The first bytes of the two documents tell them apart, whatever they hold.\<close>

lemma canonicalBytes_head: "take 6 (canonicalBytes c) = [CHR ''{'', CHR 0x22] @ ''libp''"
  by (simp add: canonicalBytes_def capability_fields_def jfield_def jseq_def json_string_def esc_code ascii_code esc_ascii_code)

lemma revocationCanonicalBytes_head: "take 6 (revocationCanonicalBytes rl) = [CHR ''{'', CHR 0x22] @ ''fabr''"
  by (simp add: revocationCanonicalBytes_def revocation_fields_def jfield_def jseq_def json_string_def esc_code ascii_code esc_ascii_code)

lemma capability_not_revocation: "canonicalBytes c \<noteq> revocationCanonicalBytes rl"
  using canonicalBytes_head [of c] revocationCanonicalBytes_head [of rl] by auto

section \<open>Facts: signing and verification\<close>

text \<open>Not expired: a zero \<open>NotAfterMS\<close> never expires.\<close>

definition unexpired :: "int64 \<Rightarrow> int64 \<Rightarrow> bool" where
  "unexpired notAfterMS nowMS \<longleftrightarrow> notAfterMS = 0 \<or> sint nowMS < sint notAfterMS"

interpretation cap: signed_document
  cap_Sign "\<lambda>p ring now c. cap_Verify p c ring now = None" "\<lambda>ring k. ring k" canonicalBytes
  cap_SignerKeyID cap_Signature "\<lambda>k s c. c\<lparr>cap_SignerKeyID := k, cap_Signature := s\<rparr>"
  "\<lambda>c. length (elems (cap_LibP2PPublicKey c)) = PublicKeySize"
  "\<lambda>now c. length (elems (cap_LibP2PPublicKey c)) = PublicKeySize \<and> unexpired (cap_NotAfterMS c) now"
proof unfold_locales
  show "cap_Sign p kid sk d = Inr d' \<longleftrightarrow>
      length sk = PrivateKeySize \<and> length (elems (cap_LibP2PPublicKey d)) = PublicKeySize \<and>
      d' = d\<lparr>cap_SignerKeyID := kid,
             cap_Signature := ed_sign p sk (canonicalBytes (d\<lparr>cap_SignerKeyID := kid, cap_Signature := []\<rparr>))\<rparr>"
    for p kid sk d d'
    by (auto simp: cap_Sign_def Let_def)
qed (auto simp: cap_Verify_def unexpired_def canonicalBytes_def split: option.splits if_splits)

interpretation rlist: signed_document
  SignRevocationList "\<lambda>p ring now rl. rl_Verify p rl ring now = None" "\<lambda>ring k. ring k"
  revocationCanonicalBytes rl_SignerKeyID rl_Signature
  "\<lambda>k s rl. rl\<lparr>rl_SignerKeyID := k, rl_Signature := s\<rparr>" "\<lambda>_. True"
  "\<lambda>now rl. unexpired (rl_NotAfterMS rl) now"
proof unfold_locales
  show "SignRevocationList p kid sk d = Inr d' \<longleftrightarrow> length sk = PrivateKeySize \<and> True \<and>
      d' = d\<lparr>rl_SignerKeyID := kid,
             rl_Signature := ed_sign p sk (revocationCanonicalBytes (d\<lparr>rl_SignerKeyID := kid, rl_Signature := []\<rparr>))\<rparr>"
    for p kid sk d d'
    by (auto simp: SignRevocationList_def Let_def)
qed (auto simp: rl_Verify_def unexpired_def revocationCanonicalBytes_def split: option.splits if_splits)

lemma DecodePublicKey_Encode: "length pub = PublicKeySize \<Longrightarrow> DecodePublicKey (EncodePublicKey pub) = Inr pub"
  by (simp add: DecodePublicKey_def EncodePublicKey_def)

lemma DecodePublicKey_size: "DecodePublicKey s = Inr pub \<Longrightarrow> length pub = PublicKeySize"
  by (auto simp: DecodePublicKey_def split: option.splits if_splits)

section \<open>Facts: the fence\<close>

text \<open>What an entry says of a capability, and what a set of entries does: revocation wins.\<close>

definition entry_for :: "Capability \<Rightarrow> RevocationEntry \<Rightarrow> bool" where
  "entry_for c e \<longleftrightarrow> elems (re_LibP2PPublicKey e) = elems (cap_LibP2PPublicKey c)"

definition supersedes :: "RevocationEntry \<Rightarrow> Capability \<Rightarrow> bool" where
  "supersedes e c \<longleftrightarrow> re_Revoked e \<or> sint (cap_CapabilityEpoch c) < sint (re_CapabilityEpoch e) \<or>
     sint (cap_RevocationGeneration c) < sint (re_RevocationGeneration e)"

definition fence :: "RevocationEntry set \<Rightarrow> Capability \<Rightarrow> FenceStatus" where
  "fence E c =
     (if \<exists>e \<in> E. entry_for c e \<and> supersedes e c then FenceRevoked
      else if \<exists>e \<in> E. entry_for c e then FenceValid
      else FenceUnknown)"

lemma check_entries_fence:
  "check_entries found es c =
     (if found \<and> fence (set es) c = FenceUnknown then FenceValid else fence (set es) c)"
  by (induction found es c rule: check_entries.induct)
     (auto simp: fence_def entry_for_def supersedes_def)

lemma rl_Check_fence: "rl_Check rl c = fence (set (rl_Entries rl)) c"
  by (simp add: rl_Check_def check_entries_fence)

end
