(* ===== verification/GoNetip.thy ===== *)
theory GoNetip
  imports GoStrings
begin

text \<open>
  The parts of Go's \<open>net/netip\<close> the program relies on: \<open>ParseAddr\<close>, which decides whether a string
  is an IP address, and \<open>Addr.String\<close>, the canonical spelling of an address. An address is its four
  octets, or its eight 16-bit groups and its zone (empty for none).
\<close>

section \<open>Definitions\<close>

datatype Addr = Addr4 "nat list" | Addr6 "nat list" string

text \<open>\<open>strings.Split\<close> at one character.\<close>

fun split_char :: "char \<Rightarrow> string \<Rightarrow> string list" where
  "split_char d [] = [[]]"
| "split_char d (c # cs) =
     (if c = d then [] # split_char d cs
      else case split_char d cs of [] \<Rightarrow> [[c]] | w # ws \<Rightarrow> (c # w) # ws)"

definition dec_digit :: "char \<Rightarrow> nat option" where
  "dec_digit c = (if CHR ''0'' \<le> c \<and> c \<le> CHR ''9'' then Some (of_char c - 48) else None)"

definition hex_nibble :: "char \<Rightarrow> nat option" where
  "hex_nibble c =
     (if CHR ''0'' \<le> c \<and> c \<le> CHR ''9'' then Some (of_char c - 48)
      else if CHR ''a'' \<le> c \<and> c \<le> CHR ''f'' then Some (of_char c - 87)
      else if CHR ''A'' \<le> c \<and> c \<le> CHR ''F'' then Some (of_char c - 55)
      else None)"

text \<open>One octet: decimal digits, no leading zero, at most 255.\<close>

definition octet :: "string \<Rightarrow> nat option" where
  "octet s =
     (case those (map dec_digit s) of
        None \<Rightarrow> None
      | Some ds \<Rightarrow>
          let v = foldl (\<lambda>a d. 10 * a + d) 0 ds
          in if ds = [] \<or> (hd ds = 0 \<and> length ds \<noteq> 1) \<or> 255 < v then None else Some v)"

definition parseIPv4Fields :: "string \<Rightarrow> nat list option" where
  "parseIPv4Fields s =
     (let fs = split_char CHR ''.'' s in if length fs \<noteq> 4 then None else those (map octet fs))"

definition parseIPv4 :: "string \<Rightarrow> Addr option" where
  "parseIPv4 s = map_option Addr4 (parseIPv4Fields s)"

text \<open>The digits of a group and what follows them.\<close>

fun hex_run :: "string \<Rightarrow> nat list \<times> string" where
  "hex_run [] = ([], [])"
| "hex_run (c # cs) =
     (case hex_nibble c of
        None \<Rightarrow> ([], c # cs)
      | Some d \<Rightarrow> (let (ds, r) = hex_run cs in (d # ds, r)))"

text \<open>
  The loop of \<open>parseIPv6\<close> with \<open>room\<close> groups left to fill: the groups read so far, in reverse, and
  the number of groups before the ellipsis, if there was one. It returns both when the text is used up.
\<close>

fun parse_groups :: "nat \<Rightarrow> nat list \<Rightarrow> nat option \<Rightarrow> string \<Rightarrow> (nat list \<times> nat option) option" where
  "parse_groups 0 gs ell s = (if s = [] then Some (rev gs, ell) else None)"
| "parse_groups (Suc room) gs ell s =
     (case hex_run s of
        (ds, r) \<Rightarrow>
          if ds = [] \<or> 4 < length ds then None
          else if r \<noteq> [] \<and> hd r = CHR ''.'' then
            (if ell = None \<and> length gs \<noteq> 6 then None
             else if room = 0 then None
             else map_option (\<lambda>q. (rev gs @ [256 * q ! 0 + q ! 1, 256 * q ! 2 + q ! 3], ell)) (parseIPv4Fields s))
          else (let gs' = foldl (\<lambda>a d. 16 * a + d) 0 ds # gs
                in if r = [] then Some (rev gs', ell)
                   else if hd r \<noteq> CHR '':'' \<or> tl r = [] then None
                   else if hd (tl r) \<noteq> CHR '':'' then parse_groups room gs' ell (tl r)
                   else if ell \<noteq> None then None
                   else if tl (tl r) = [] then Some (rev gs', Some (length gs'))
                   else parse_groups room gs' (Some (length gs')) (tl (tl r))))"

definition fill_groups :: "nat list \<Rightarrow> nat option \<Rightarrow> nat list option" where
  "fill_groups gs ell =
     (case ell of
        None \<Rightarrow> if length gs < 8 then None else Some gs
      | Some e \<Rightarrow> if length gs < 8 then Some (take e gs @ replicate (8 - length gs) 0 @ drop e gs) else None)"

definition parse6 :: "string \<Rightarrow> string \<Rightarrow> Addr option" where
  "parse6 s zone =
     (case (if take 2 s = ''::'' then
              (if drop 2 s = [] then Some ([], Some 0) else parse_groups 8 [] (Some 0) (drop 2 s))
            else parse_groups 8 [] None s) of
        None \<Rightarrow> None
      | Some (gs, ell) \<Rightarrow> map_option (\<lambda>g. Addr6 g zone) (fill_groups gs ell))"

definition parseIPv6 :: "string \<Rightarrow> Addr option" where
  "parseIPv6 input =
     (case Cut CHR ''%'' input of
        None \<Rightarrow> parse6 input []
      | Some (s, zone) \<Rightarrow> if zone = [] then None else parse6 s zone)"

definition ParseAddr :: "string \<Rightarrow> Addr option" where
  "ParseAddr s =
     (case find (\<lambda>c. c = CHR ''.'' \<or> c = CHR '':'' \<or> c = CHR ''%'') s of
        None \<Rightarrow> None
      | Some c \<Rightarrow> if c = CHR ''.'' then parseIPv4 s else if c = CHR '':'' then parseIPv6 s else None)"

subsection \<open>The canonical spelling\<close>

fun hex_nat :: "nat \<Rightarrow> string" where
  "hex_nat n = (if n < 16 then [hex_digit n] else hex_nat (n div 16) @ [hex_digit (n mod 16)])"

declare hex_nat.simps [simp del]

fun join_char :: "string \<Rightarrow> string list \<Rightarrow> string" where
  "join_char sep [] = []"
| "join_char sep [w] = w"
| "join_char sep (w # ws) = w @ sep @ join_char sep ws"

definition octets_string :: "nat list \<Rightarrow> string" where
  "octets_string os = join_char ''.'' (map dec_nat os)"

definition zero_run :: "nat list \<Rightarrow> nat \<Rightarrow> nat" where
  "zero_run gs i = length (takeWhile (\<lambda>g. g = 0) (drop i gs))"

text \<open>The first of the longest runs of zero groups, if it has two groups or more.\<close>

definition zero_span :: "nat list \<Rightarrow> nat \<times> nat" where
  "zero_span gs =
     foldl (\<lambda>(st, len) i. if 2 \<le> zero_run gs i \<and> len < zero_run gs i then (i, zero_run gs i) else (st, len))
       (0, 0) [0..<length gs]"

definition groups_string :: "nat list \<Rightarrow> string" where
  "groups_string gs =
     (case zero_span gs of (st, len) \<Rightarrow>
        if len = 0 then join_char '':'' (map hex_nat gs)
        else join_char '':'' (map hex_nat (take st gs)) @ ''::'' @ join_char '':'' (map hex_nat (drop (st + len) gs)))"

definition zone_suffix :: "string \<Rightarrow> string" where
  "zone_suffix zone = (if zone = [] then [] else CHR ''%'' # zone)"

fun addr_String :: "Addr \<Rightarrow> string" where
  "addr_String (Addr4 os) = octets_string os"
| "addr_String (Addr6 gs zone) =
     (if take 6 gs = [0, 0, 0, 0, 0, 0xFFFF] then
        ''::ffff:'' @ octets_string [gs ! 6 div 256, gs ! 6 mod 256, gs ! 7 div 256, gs ! 7 mod 256] @ zone_suffix zone
      else groups_string gs @ zone_suffix zone)"

section \<open>Facts\<close>

lemma split_char_free: "d \<notin> set s \<Longrightarrow> split_char d s = [s]"
  by (induction s) auto

lemma split_char_append: "d \<notin> set s \<Longrightarrow> split_char d (s @ d # t) = s # split_char d t"
  by (induction s) auto

lemma ParseAddr_Nil [simp]: "ParseAddr [] = None"
  by (simp add: ParseAddr_def)

text \<open>Evaluation on concrete addresses: counters and groups stay binary numerals.\<close>

lemmas parse_groups_numeral = parse_groups.simps(2) [of "pred_numeral n" for n, folded numeral_eq_Suc]

lemma replicate_numeral_Cons: "replicate (numeral n) x = x # replicate (pred_numeral n) x"
  by (simp only: numeral_eq_Suc replicate.simps)

lemmas addr_eval = ParseAddr_def parseIPv6_def parse6_def Cut_def parse_groups_numeral hex_nibble_def
  less_eq_char_def fill_groups_def replicate_numeral_Cons Let_def groups_string_def zero_span_def zero_run_def
  hex_nat.simps zone_suffix_def hex_digit_def

end
