(* ===== verification/PeerRoster.thy ===== *)
theory PeerRoster
  imports MembershipCap GoNetip
begin

text \<open>
  The fabric peer roster (\<open>src/membershipcap/peerroster.go\<close>): the signed allow-list of relay cells,
  its canonical bytes behind a signing-domain prefix, signing, verification and structural
  validation. The facts show that the roster is a signed document, that its bytes bind its content
  and are disjoint from those of the other documents of the same signer, and exactly which rosters
  \<open>Validate\<close> accepts.
\<close>

section \<open>Definitions\<close>

definition wgPublicKeySize :: nat where "wgPublicKeySize = 32"

definition fabricPeerRosterDomain :: string where
  "fabricPeerRosterDomain = ''builders-net/membershipcap/fabric-peer-roster/v1'' @ [CHR 0x00]"

record PeerRosterEntry =
  pe_MeshPubKeyEd25519 :: "char slice"
  pe_PubKeyWG :: "char slice"
  pe_MeshIP :: string
  pe_FQName :: string
  pe_Role :: string
  pe_LibP2PPeerID :: string
  pe_Endpoints :: "string list"
  pe_BootstrapAddrs :: "string list"

record FabricPeerRoster =
  fr_FabricID :: string
  fr_Epoch :: int64
  fr_IssuedAtMS :: int64
  fr_NotAfterMS :: int64
  fr_Entries :: "PeerRosterEntry list"
  fr_Tombstones :: "char slice list"
  fr_SignerKeyID :: string
  fr_Signature :: bytes

definition ErrPeerRosterSignature :: goerror where
  "ErrPeerRosterSignature = Plain ''fabric peer roster signature invalid''"
definition ErrPeerRosterExpired :: goerror where
  "ErrPeerRosterExpired = Plain ''fabric peer roster expired''"
definition ErrPeerRosterSigner :: goerror where
  "ErrPeerRosterSigner = Plain ''fabric peer roster signer not trusted''"
definition ErrPeerRosterEntry :: goerror where
  "ErrPeerRosterEntry = Plain ''fabric peer roster entry missing required path material''"
definition ErrPeerRosterEpoch :: goerror where
  "ErrPeerRosterEpoch = Plain ''fabric peer roster epoch must be >= 1''"

abbreviation mesh_key :: "PeerRosterEntry \<Rightarrow> bytes" where
  "mesh_key e \<equiv> elems (pe_MeshPubKeyEd25519 e)"

definition sortedRosterEntries :: "PeerRosterEntry list \<Rightarrow> PeerRosterEntry list" where
  "sortedRosterEntries es = sort_key mesh_key es"

definition sortedTombstones :: "char slice list \<Rightarrow> char slice list" where
  "sortedTombstones ts = sort_key elems ts"

definition roster_entry_fields :: "PeerRosterEntry \<Rightarrow> (string \<times> jdoc) list" where
  "roster_entry_fields e =
     (jfield ''mesh_pubkey_ed25519'' (JBytes (pe_MeshPubKeyEd25519 e)) @
      jfield ''pubkey_wg'' (JBytes (pe_PubKeyWG e)) @
      jfield ''mesh_ip'' (JStr (pe_MeshIP e)) @
      jfield ''fqname'' (JStr (pe_FQName e)) @
      jfield ''role'' (JStr (pe_Role e)) @
      jomit (pe_LibP2PPeerID e = []) ''libp2p_peer_id'' (JStr (pe_LibP2PPeerID e)) @
      jomit (pe_Endpoints e = []) ''endpoints'' (JArr (map JStr (pe_Endpoints e))) @
      jomit (pe_BootstrapAddrs e = []) ''bootstrap_addrs'' (JArr (map JStr (pe_BootstrapAddrs e))))"

definition roster_entry_json :: "PeerRosterEntry \<Rightarrow> jdoc" where
  "roster_entry_json e = JObj (roster_entry_fields e)"

definition roster_fields :: "FabricPeerRoster \<Rightarrow> (string \<times> jdoc) list" where
  "roster_fields r =
     (jfield ''fabric_id'' (JStr (fr_FabricID r)) @
      jfield ''epoch'' (JInt (sint (fr_Epoch r))) @
      jfield ''issued_at_ms'' (JInt (sint (fr_IssuedAtMS r))) @
      jfield ''not_after_ms'' (JInt (sint (fr_NotAfterMS r))) @
      jfield ''entries'' (JArr (map roster_entry_json (fr_Entries r))) @
      jomit (fr_Tombstones r = []) ''tombstones'' (JArr (map JBytes (fr_Tombstones r))) @
      jfield ''signer_key_id'' (JStr (fr_SignerKeyID r)) @
      jomit (fr_Signature r = []) ''signature'' (JBytes (Some (fr_Signature r))))"

definition peerRosterCanonicalBytes :: "FabricPeerRoster \<Rightarrow> bytes" where
  "peerRosterCanonicalBytes r =
     fabricPeerRosterDomain @ marshal (JObj (roster_fields
       (r\<lparr>fr_Signature := [], fr_Entries := sortedRosterEntries (fr_Entries r),
          fr_Tombstones := sortedTombstones (fr_Tombstones r)\<rparr>)))"

definition SignFabricPeerRoster :: "platform \<Rightarrow> string \<Rightarrow> bytes \<Rightarrow> FabricPeerRoster \<Rightarrow> goerror + FabricPeerRoster" where
  "SignFabricPeerRoster p keyID priv r0 =
     (if length priv \<noteq> PrivateKeySize then Inl ErrBadKey
      else let r = r0\<lparr>fr_SignerKeyID := keyID, fr_Signature := []\<rparr>; b = peerRosterCanonicalBytes r
           in Inr (r\<lparr>fr_Signature := ed_sign p priv b\<rparr>))"

definition fr_Verify :: "platform \<Rightarrow> FabricPeerRoster \<Rightarrow> trust \<Rightarrow> int64 \<Rightarrow> goerror option" where
  "fr_Verify p r trusted nowMS =
     (case trusted (fr_SignerKeyID r) of
        None \<Rightarrow> Some (errorf ErrPeerRosterSigner [])
      | Some pub \<Rightarrow>
          if length pub \<noteq> PublicKeySize then Some (errorf ErrPeerRosterSigner [])
          else if fr_NotAfterMS r \<noteq> 0 \<and> sint (fr_NotAfterMS r) \<le> sint nowMS then Some ErrPeerRosterExpired
          else if length (fr_Signature r) \<noteq> SignatureSize then Some ErrPeerRosterSignature
          else if \<not> ed_verify p pub (peerRosterCanonicalBytes r) (fr_Signature r) then
            Some ErrPeerRosterSignature
          else None)"

text \<open>
  The loop of \<open>Validate\<close> over the entries: the index and the keys seen so far, and the keys seen at
  the end, which the loop over the tombstones reads.
\<close>

fun validate_entries :: "nat \<Rightarrow> bytes list \<Rightarrow> PeerRosterEntry list \<Rightarrow> goerror + bytes list" where
  "validate_entries i seen [] = Inr seen"
| "validate_entries i seen (e # es) =
     (let ent = ''entry '' @ dec_nat i; k = mesh_key e
      in if length k \<noteq> PublicKeySize then
           Inl (errorf ErrPeerRosterEntry (ent @ '' mesh_pubkey_ed25519 is '' @ dec_nat (length k) @
             '' bytes, want '' @ dec_nat PublicKeySize))
         else if length (elems (pe_PubKeyWG e)) \<noteq> wgPublicKeySize then
           Inl (errorf ErrPeerRosterEntry (ent @ '' pubkey_wg is '' @ dec_nat (length (elems (pe_PubKeyWG e))) @
             '' bytes, want '' @ dec_nat wgPublicKeySize @ '' (no WireGuard tunnel without it)''))
         else if ParseAddr (pe_MeshIP e) = None then
           Inl (errorf ErrPeerRosterEntry (ent @ '' ('' @ pe_FQName e @
             '') mesh_ip is not an IP (the flood target / AllowedIPs)''))
         else if k \<in> set seen then
           Inl (errorf ErrPeerRosterEntry (ent @ '' ('' @ pe_FQName e @
             '') duplicates the mesh_pubkey_ed25519 of an earlier entry''))
         else validate_entries (i + 1) (k # seen) es)"

fun validate_tombstones :: "nat \<Rightarrow> bytes list \<Rightarrow> char slice list \<Rightarrow> goerror option" where
  "validate_tombstones i seen [] = None"
| "validate_tombstones i seen (t # ts) =
     (if length (elems t) \<noteq> PublicKeySize then
        Some (errorf ErrPeerRosterEntry (''tombstone '' @ dec_nat i @ '' is '' @ dec_nat (length (elems t)) @
          '' bytes, want '' @ dec_nat PublicKeySize))
      else if elems t \<in> set seen then
        Some (errorf ErrPeerRosterEntry (''tombstone '' @ dec_nat i @
          '' also appears as an entry (authorize + de-peer in one epoch is contradictory)''))
      else validate_tombstones (i + 1) seen ts)"

definition fr_Validate :: "FabricPeerRoster \<Rightarrow> goerror option" where
  "fr_Validate r =
     (if sint (fr_Epoch r) < 1 then
        Some (errorf ErrPeerRosterEpoch (''got '' @ dec_int (sint (fr_Epoch r))))
      else case validate_entries 0 [] (fr_Entries r) of
             Inl err \<Rightarrow> Some err
           | Inr seen \<Rightarrow> validate_tombstones 0 seen (fr_Tombstones r))"

section \<open>Facts: validation\<close>

text \<open>An entry with the material to admit and to deliver a flood.\<close>

definition entry_complete :: "PeerRosterEntry \<Rightarrow> bool" where
  "entry_complete e \<longleftrightarrow> length (mesh_key e) = PublicKeySize \<and>
     length (elems (pe_PubKeyWG e)) = wgPublicKeySize \<and> ParseAddr (pe_MeshIP e) \<noteq> None"

lemma validate_entries_Inr:
  "validate_entries i seen es = Inr seen' \<longleftrightarrow>
     list_all entry_complete es \<and> distinct (map mesh_key es) \<and> set seen \<inter> mesh_key ` set es = {} \<and>
     seen' = rev (map mesh_key es) @ seen"
  by (induction i seen es rule: validate_entries.induct)
     (auto simp: Let_def entry_complete_def)

lemma validate_tombstones_None:
  "validate_tombstones i seen ts = None \<longleftrightarrow>
     list_all (\<lambda>t. length (elems t) = PublicKeySize \<and> elems t \<notin> set seen) ts"
  by (induction i seen ts rule: validate_tombstones.induct) auto

lemma fr_Validate_None:
  "fr_Validate r = None \<longleftrightarrow>
     1 \<le> sint (fr_Epoch r) \<and> list_all entry_complete (fr_Entries r) \<and>
     distinct (map mesh_key (fr_Entries r)) \<and>
     list_all (\<lambda>t. length (elems t) = PublicKeySize) (fr_Tombstones r) \<and>
     elems ` set (fr_Tombstones r) \<inter> mesh_key ` set (fr_Entries r) = {}"
proof (cases "validate_entries 0 [] (fr_Entries r)")
  case (Inl err)
  then have "\<not> (list_all entry_complete (fr_Entries r) \<and> distinct (map mesh_key (fr_Entries r)))"
    using validate_entries_Inr [of 0 "[]" "fr_Entries r" "rev (map mesh_key (fr_Entries r))"] by auto
  then show ?thesis unfolding fr_Validate_def Inl by auto
next
  case (Inr seen)
  note s = Inr [unfolded validate_entries_Inr]
  then have "set seen = mesh_key ` set (fr_Entries r)" by simp
  with s show ?thesis
    unfolding fr_Validate_def Inr by (auto simp: validate_tombstones_None list_all_iff)
qed

section \<open>Facts: canonical bytes\<close>

definition entry_utf8 :: "PeerRosterEntry \<Rightarrow> bool" where
  "entry_utf8 e \<longleftrightarrow> list_all valid_utf8 ([pe_MeshIP e, pe_FQName e, pe_Role e, pe_LibP2PPeerID e] @
     pe_Endpoints e @ pe_BootstrapAddrs e)"

definition fr_utf8 :: "FabricPeerRoster \<Rightarrow> bool" where
  "fr_utf8 r \<longleftrightarrow> valid_utf8 (fr_FabricID r) \<and> valid_utf8 (fr_SignerKeyID r) \<and> list_all entry_utf8 (fr_Entries r)"

definition fr_content :: "FabricPeerRoster \<Rightarrow> FabricPeerRoster" where
  "fr_content r = r\<lparr>fr_Signature := [], fr_Entries := sortedRosterEntries (fr_Entries r),
     fr_Tombstones := sortedTombstones (fr_Tombstones r)\<rparr>"

lemma roster_entry_valid: "entry_utf8 e \<Longrightarrow> jdoc_valid (roster_entry_json e)"
  unfolding roster_entry_json_def jdoc_valid.simps roster_entry_fields_def jdoc_valid_fields
  by (simp add: entry_utf8_def utf8_literal list_all_iff)

lemma roster_valid:
  assumes "fr_utf8 r"
  shows "jdoc_valid (JObj (roster_fields (fr_content r)))"
proof -
  have "list_all (\<lambda>e. jdoc_valid (roster_entry_json e)) (fr_Entries r)"
    using assms by (auto simp: fr_utf8_def list_all_iff intro: roster_entry_valid)
  with assms show ?thesis
    unfolding jdoc_valid.simps roster_fields_def jdoc_valid_fields
    by (simp add: fr_utf8_def fr_content_def sortedRosterEntries_def utf8_literal list_all_iff)
qed

lemma JArr_map_JStr [simp]: "map JStr xs = map JStr ys \<longleftrightarrow> xs = ys"
  by (rule inj_map_eq_map) (simp add: inj_def)

lemma roster_entry_json_inject [simp]: "roster_entry_json a = roster_entry_json b \<longleftrightarrow> a = b"
proof
  assume "roster_entry_json a = roster_entry_json b"
  then have L: "map_of (roster_entry_fields a) k = map_of (roster_entry_fields b) k" for k
    by (simp add: roster_entry_json_def)
  note f = L [unfolded roster_entry_fields_def]
  show "a = b"
  proof (rule PeerRosterEntry.equality)
    show "pe_MeshPubKeyEd25519 a = pe_MeshPubKeyEd25519 b"
      using f [of "''mesh_pubkey_ed25519''"] by (simp del: map_of_append)
    show "pe_PubKeyWG a = pe_PubKeyWG b" using f [of "''pubkey_wg''"] by (simp del: map_of_append)
    show "pe_MeshIP a = pe_MeshIP b" using f [of "''mesh_ip''"] by (simp del: map_of_append)
    show "pe_FQName a = pe_FQName b" using f [of "''fqname''"] by (simp del: map_of_append)
    show "pe_Role a = pe_Role b" using f [of "''role''"] by (simp del: map_of_append)
    show "pe_LibP2PPeerID a = pe_LibP2PPeerID b"
      using f [of "''libp2p_peer_id''"] by (simp del: map_of_append split: if_splits)
    show "pe_Endpoints a = pe_Endpoints b"
      using f [of "''endpoints''"] by (simp del: map_of_append split: if_splits)
    show "pe_BootstrapAddrs a = pe_BootstrapAddrs b"
      using f [of "''bootstrap_addrs''"] by (simp del: map_of_append split: if_splits)
  qed simp
qed simp

lemma roster_fields_inject:
  assumes "fr_Signature a = []" "fr_Signature b = []"
  shows "JObj (roster_fields a) = JObj (roster_fields b) \<longleftrightarrow> a = b"
proof -
  have m: "map roster_entry_json xs = map roster_entry_json ys \<longleftrightarrow> xs = ys" for xs ys
    by (rule inj_map_eq_map) (simp add: inj_def)
  have n: "map JBytes xs = map JBytes ys \<longleftrightarrow> xs = ys" for xs ys
    by (rule inj_map_eq_map) (simp add: inj_def)
  show ?thesis
    using assms by (cases a; cases b) (auto simp: roster_fields_def jfield_def jomit_def m n split: if_splits)
qed

lemma peerRosterCanonicalBytes_inject:
  assumes "fr_utf8 a" "fr_utf8 b"
  shows "peerRosterCanonicalBytes a = peerRosterCanonicalBytes b \<longleftrightarrow> fr_content a = fr_content b"
  using marshal_inj [OF roster_valid roster_valid, OF assms]
    roster_fields_inject [of "fr_content a" "fr_content b"]
  by (simp add: peerRosterCanonicalBytes_def fr_content_def)

text \<open>The domain prefix keeps the roster apart from everything else the membership key signs.\<close>

lemma peerRosterCanonicalBytes_head: "hd (peerRosterCanonicalBytes r) = CHR ''b''"
  by (simp add: peerRosterCanonicalBytes_def fabricPeerRosterDomain_def)

lemma roster_bytes_disjoint:
  "peerRosterCanonicalBytes r \<noteq> canonicalBytes c"
  "peerRosterCanonicalBytes r \<noteq> revocationCanonicalBytes rl"
  using peerRosterCanonicalBytes_head [of r]
  by (auto simp: canonicalBytes_def revocationCanonicalBytes_def)

interpretation roster: signed_document
  SignFabricPeerRoster "\<lambda>p ring now r. fr_Verify p r ring now = None" "\<lambda>ring k. ring k"
  peerRosterCanonicalBytes fr_SignerKeyID fr_Signature
  "\<lambda>k s r. r\<lparr>fr_SignerKeyID := k, fr_Signature := s\<rparr>" "\<lambda>_. True"
  "\<lambda>now r. unexpired (fr_NotAfterMS r) now"
proof unfold_locales
  show "SignFabricPeerRoster p kid sk d = Inr d' \<longleftrightarrow> length sk = PrivateKeySize \<and> True \<and>
      d' = d\<lparr>fr_SignerKeyID := kid,
             fr_Signature := ed_sign p sk (peerRosterCanonicalBytes (d\<lparr>fr_SignerKeyID := kid, fr_Signature := []\<rparr>))\<rparr>"
    for p kid sk d d'
    by (auto simp: SignFabricPeerRoster_def Let_def)
qed (auto simp: fr_Verify_def unexpired_def peerRosterCanonicalBytes_def split: option.splits if_splits)

end
