(* ===== verification/MeshRegistration.thy ===== *)
theory MeshRegistration
  imports PeerRoster "HOL-Library.AList"
begin

text \<open>
  Mesh registrations (\<open>src/membershipcap/meshregistration.go\<close>) and the assembly of a roster from
  them (\<open>src/membershipcap/assemble.go\<close>): the claim a relay daemon signs, the framed challenge its
  proof of possession is over, validation and verification, and the resolution of the verified
  claims and tombstones of an epoch into one sorted, validated and signed roster. Bytes written to
  the hash are concatenated. The order in which Go's \<open>range\<close> visits the map \<open>latest\<close> is an argument
  of the assembly, any function that permutes its argument.
\<close>

section \<open>Registration claims\<close>

definition meshRegistrationDomain :: string where
  "meshRegistrationDomain = ''builders-net/membershipcap/mesh-registration/v1''"

record MeshRegistrationClaim =
  mr_MeshPubKeyEd25519 :: "char slice"
  mr_PubKeyWG :: "char slice"
  mr_MeshIP :: string
  mr_FQName :: string
  mr_Role :: string
  mr_LibP2PPeerID :: string
  mr_Endpoints :: "string list"
  mr_BootstrapAddrs :: "string list"
  mr_IssuedAtMS :: int64
  mr_ProofOfPossession :: bytes

definition ErrMeshRegistration :: goerror where
  "ErrMeshRegistration = Plain ''mesh registration invalid''"

text \<open>\<open>binary.BigEndian.PutUint64\<close> and \<open>PutUint32\<close>: the low \<open>k\<close> bytes of a number, highest first.\<close>

fun be_bytes :: "nat \<Rightarrow> nat \<Rightarrow> bytes" where
  "be_bytes 0 n = []"
| "be_bytes (Suc k) n = be_bytes k (n div 256) @ [char_of n]"

definition writeLenField :: "bytes \<Rightarrow> bytes" where
  "writeLenField b = be_bytes 8 (length b) @ b"

definition writeStringSlice :: "string list \<Rightarrow> bytes" where
  "writeStringSlice ss = be_bytes 8 (length ss) @ concat (map writeLenField ss)"

definition canonical_mesh_ip :: "string \<Rightarrow> string" where
  "canonical_mesh_ip ip = (case ParseAddr ip of Some a \<Rightarrow> addr_String a | None \<Rightarrow> ip)"

definition challenge_input :: "string \<Rightarrow> string \<Rightarrow> string \<Rightarrow> MeshRegistrationClaim \<Rightarrow> bytes" where
  "challenge_input fabricID gatewayID bindingID c =
     writeLenField meshRegistrationDomain @ writeLenField fabricID @ writeLenField gatewayID @
     writeLenField bindingID @ writeLenField (elems (mr_MeshPubKeyEd25519 c)) @
     writeLenField (elems (mr_PubKeyWG c)) @ writeLenField (canonical_mesh_ip (mr_MeshIP c)) @
     writeLenField (mr_FQName c) @ writeLenField (mr_Role c) @ writeLenField (mr_LibP2PPeerID c) @
     writeStringSlice (mr_Endpoints c) @ writeStringSlice (mr_BootstrapAddrs c) @
     be_bytes 8 (unat (mr_IssuedAtMS c))"

definition meshRegistrationChallenge ::
  "platform \<Rightarrow> string \<Rightarrow> string \<Rightarrow> string \<Rightarrow> MeshRegistrationClaim \<Rightarrow> bytes" where
  "meshRegistrationChallenge p fabricID gatewayID bindingID c =
     sha256 p (challenge_input fabricID gatewayID bindingID c)"

definition mr_Validate :: "MeshRegistrationClaim \<Rightarrow> goerror option" where
  "mr_Validate c =
     (let key = elems (mr_MeshPubKeyEd25519 c); wg = elems (mr_PubKeyWG c)
      in if length key \<noteq> PublicKeySize then
           Some (errorf ErrMeshRegistration (''mesh_pubkey_ed25519 is '' @ dec_nat (length key) @
             '' bytes, want '' @ dec_nat PublicKeySize))
         else if length wg \<noteq> wgPublicKeySize then
           Some (errorf ErrMeshRegistration (''pubkey_wg is '' @ dec_nat (length wg) @
             '' bytes, want '' @ dec_nat wgPublicKeySize @ '' (no WireGuard tunnel without it)''))
         else if ParseAddr (mr_MeshIP c) = None then
           Some (errorf ErrMeshRegistration ''mesh_ip is not an IP'')
         else if sint (mr_IssuedAtMS c) \<le> 0 then
           Some (errorf ErrMeshRegistration (''issued_at_ms must be > 0, got '' @ dec_int (sint (mr_IssuedAtMS c))))
         else None)"

definition SignMeshRegistration ::
  "platform \<Rightarrow> bytes \<Rightarrow> string \<Rightarrow> string \<Rightarrow> string \<Rightarrow> MeshRegistrationClaim \<Rightarrow> goerror + MeshRegistrationClaim" where
  "SignMeshRegistration p meshPriv fabricID gatewayID bindingID c =
     (if length meshPriv \<noteq> PrivateKeySize then Inl ErrBadKey
      else if ed_public p meshPriv \<noteq> elems (mr_MeshPubKeyEd25519 c) then
        Inl (errorf ErrMeshRegistration ''signing key does not match mesh_pubkey_ed25519'')
      else case mr_Validate c of
             Some err \<Rightarrow> Inl err
           | None \<Rightarrow> Inr (c\<lparr>mr_ProofOfPossession :=
               ed_sign p meshPriv (meshRegistrationChallenge p fabricID gatewayID bindingID c)\<rparr>))"

definition mr_Verify :: "platform \<Rightarrow> MeshRegistrationClaim \<Rightarrow> string \<Rightarrow> string \<Rightarrow> string \<Rightarrow> goerror option" where
  "mr_Verify p c fabricID gatewayID bindingID =
     (case mr_Validate c of
        Some err \<Rightarrow> Some err
      | None \<Rightarrow> VerifyProofOfPossession p (elems (mr_MeshPubKeyEd25519 c))
          (meshRegistrationChallenge p fabricID gatewayID bindingID c) (mr_ProofOfPossession c))"

record VerifiedMeshRegistration =
  vm_claim :: MeshRegistrationClaim

definition AsVerified ::
  "platform \<Rightarrow> MeshRegistrationClaim \<Rightarrow> string \<Rightarrow> string \<Rightarrow> string \<Rightarrow> goerror + VerifiedMeshRegistration" where
  "AsVerified p c fabricID gatewayID bindingID =
     (case mr_Verify p c fabricID gatewayID bindingID of
        Some err \<Rightarrow> Inl err
      | None \<Rightarrow> Inr \<lparr>vm_claim = c\<rparr>)"

definition vm_Claim :: "VerifiedMeshRegistration \<Rightarrow> MeshRegistrationClaim" where
  "vm_Claim v = vm_claim v"

definition ToRosterEntry :: "MeshRegistrationClaim \<Rightarrow> PeerRosterEntry" where
  "ToRosterEntry c =
     \<lparr>pe_MeshPubKeyEd25519 = copy_nil (elems (mr_MeshPubKeyEd25519 c)),
      pe_PubKeyWG = copy_nil (elems (mr_PubKeyWG c)),
      pe_MeshIP = mr_MeshIP c, pe_FQName = mr_FQName c, pe_Role = mr_Role c,
      pe_LibP2PPeerID = mr_LibP2PPeerID c,
      pe_Endpoints = mr_Endpoints c, pe_BootstrapAddrs = mr_BootstrapAddrs c\<rparr>"

section \<open>Roster assembly\<close>

definition ErrRosterAssembly :: goerror where
  "ErrRosterAssembly = Plain ''fabric peer roster assembly invalid''"

record RosterAssembly =
  ra_FabricID :: string
  ra_Epoch :: int64
  ra_IssuedAtMS :: int64
  ra_TTLMS :: int64
  ra_Claims :: "VerifiedMeshRegistration list"
  ra_Tombstones :: "char slice list"

abbreviation claim_key :: "MeshRegistrationClaim \<Rightarrow> bytes" where
  "claim_key c \<equiv> elems (mr_MeshPubKeyEd25519 c)"

fun collect_tombstones :: "bytes list \<Rightarrow> char slice list \<Rightarrow> char slice list" where
  "collect_tombstones tomb [] = []"
| "collect_tombstones tomb (t # ts) =
     (if elems t \<in> set tomb then collect_tombstones tomb ts
      else copy_nil (elems t) # collect_tombstones (elems t # tomb) ts)"

text \<open>The two conditions under which the loop over the claims keeps the claim it has.\<close>

definition keeps_previous :: "MeshRegistrationClaim \<Rightarrow> MeshRegistrationClaim \<Rightarrow> bool" where
  "keeps_previous prev c \<longleftrightarrow>
     sint (mr_IssuedAtMS c) < sint (mr_IssuedAtMS prev) \<or>
     (mr_IssuedAtMS prev = mr_IssuedAtMS c \<and> mr_ProofOfPossession c \<le> mr_ProofOfPossession prev)"

fun latest_claims ::
  "bytes list \<Rightarrow> (bytes \<times> MeshRegistrationClaim) list \<Rightarrow> VerifiedMeshRegistration list \<Rightarrow>
   (bytes \<times> MeshRegistrationClaim) list" where
  "latest_claims tomb latest [] = latest"
| "latest_claims tomb latest (v # vs) =
     (let c = vm_claim v; k = claim_key c
      in if k \<in> set tomb then latest_claims tomb latest vs
         else case map_of latest k of
                Some prev \<Rightarrow>
                  if keeps_previous prev c then latest_claims tomb latest vs
                  else latest_claims tomb (AList.update k c latest) vs
              | None \<Rightarrow> latest_claims tomb (AList.update k c latest) vs)"

type_synonym range_order = "(bytes \<times> MeshRegistrationClaim) list \<Rightarrow> (bytes \<times> MeshRegistrationClaim) list"

definition BuildFabricPeerRoster :: "range_order \<Rightarrow> RosterAssembly \<Rightarrow> goerror + FabricPeerRoster" where
  "BuildFabricPeerRoster ord a =
     (if sint (ra_IssuedAtMS a) \<le> 0 \<or> sint (ra_TTLMS a) \<le> 0 then
        Inl (errorf ErrRosterAssembly ''issued_at_ms and ttl_ms must both be > 0 (a short TTL is mandatory)'')
      else if sint (MaxInt64 - ra_IssuedAtMS a) < sint (ra_TTLMS a) then
        Inl (errorf ErrRosterAssembly ''issued_at_ms + ttl_ms overflows'')
      else let tombstones = collect_tombstones [] (ra_Tombstones a);
               latest = latest_claims (map elems tombstones) [] (ra_Claims a);
               entries = map (ToRosterEntry \<circ> snd) (ord latest);
               roster = \<lparr>fr_FabricID = ra_FabricID a, fr_Epoch = ra_Epoch a,
                 fr_IssuedAtMS = ra_IssuedAtMS a, fr_NotAfterMS = ra_IssuedAtMS a + ra_TTLMS a,
                 fr_Entries = sort_key mesh_key entries, fr_Tombstones = sort_key elems tombstones,
                 fr_SignerKeyID = [], fr_Signature = []\<rparr>
           in case fr_Validate roster of Some err \<Rightarrow> Inl err | None \<Rightarrow> Inr roster)"

definition AssembleFabricPeerRoster ::
  "platform \<Rightarrow> range_order \<Rightarrow> string \<Rightarrow> bytes \<Rightarrow> RosterAssembly \<Rightarrow> goerror + FabricPeerRoster" where
  "AssembleFabricPeerRoster p ord keyID priv a =
     (case BuildFabricPeerRoster ord a of
        Inl err \<Rightarrow> Inl err
      | Inr roster \<Rightarrow> SignFabricPeerRoster p keyID priv roster)"

section \<open>Facts: framing\<close>

lemma length_be_bytes [simp]: "length (be_bytes k n) = k"
  by (induction k n rule: be_bytes.induct) auto

lemma be_bytes_inject: "be_bytes k m = be_bytes k n \<longleftrightarrow> m mod 256 ^ k = n mod 256 ^ k"
proof (induction k m arbitrary: n rule: be_bytes.induct)
  case (2 k m)
  have d: "x mod 256 ^ Suc k = 256 * (x div 256 mod 256 ^ k) + x mod 256" for x :: nat
    using mod_mult2_eq [of x 256 "256 ^ k"] by simp
  have "256 * i + j = 256 * i' + j' \<longleftrightarrow> i = i' \<and> j = j'" if "j < 256" "j' < 256" for i j i' j' :: nat
  proof -
    have "(256 * i + j) div 256 = i" "(256 * i' + j') div 256 = i'" using that by simp_all
    then show ?thesis by fastforce
  qed
  then have "m mod 256 ^ Suc k = n mod 256 ^ Suc k \<longleftrightarrow>
      m div 256 mod 256 ^ k = n div 256 mod 256 ^ k \<and> m mod 256 = n mod 256"
    unfolding d by simp
  with 2 show ?case by (simp add: char_of_eq_iff take_bit_eq_mod)
qed simp

lemma be_bytes_inject_less: "m < 256 ^ k \<Longrightarrow> n < 256 ^ k \<Longrightarrow> be_bytes k m = be_bytes k n \<longleftrightarrow> m = n"
  by (simp add: be_bytes_inject)

text \<open>A Go value has fewer than \<open>2\<^sup>6\<^sup>3\<close> elements.\<close>

definition go_sized :: "'a list \<Rightarrow> bool" where
  "go_sized xs \<longleftrightarrow> length xs < 2 ^ 63"

lemma writeLenField_framed:
  assumes "go_sized a" "go_sized b"
  shows "writeLenField a @ r = writeLenField b @ s \<longleftrightarrow> a = b \<and> r = s"
proof
  assume e: "writeLenField a @ r = writeLenField b @ s"
  then have "be_bytes 8 (length a) = be_bytes 8 (length b) \<and> a @ r = b @ s"
    by (simp add: writeLenField_def)
  moreover have "be_bytes 8 (length a) = be_bytes 8 (length b) \<longleftrightarrow> length a = length b"
    by (rule be_bytes_inject_less) (use assms in \<open>simp_all add: go_sized_def\<close>)
  ultimately show "a = b \<and> r = s" by (metis append_eq_append_conv)
qed simp

lemma concat_framed:
  assumes "length xs = length ys" "list_all go_sized xs" "list_all go_sized ys"
  shows "concat (map writeLenField xs) @ r = concat (map writeLenField ys) @ s \<longleftrightarrow> xs = ys \<and> r = s"
  using assms by (induction xs ys rule: list_induct2) (auto simp: writeLenField_framed)

lemma writeStringSlice_framed:
  assumes "go_sized xs" "go_sized ys" "list_all go_sized xs" "list_all go_sized ys"
  shows "writeStringSlice xs @ r = writeStringSlice ys @ s \<longleftrightarrow> xs = ys \<and> r = s"
proof -
  have "be_bytes 8 (length xs) = be_bytes 8 (length ys) \<longleftrightarrow> length xs = length ys"
    by (rule be_bytes_inject_less) (use assms in \<open>simp_all add: go_sized_def\<close>)
  then show ?thesis
    using concat_framed [OF _ assms(3,4)] by (auto simp: writeStringSlice_def)
qed

lemmas writeStringSlice_inject = writeStringSlice_framed [where r = "[]" and s = "[]", simplified]

definition claim_sized :: "MeshRegistrationClaim \<Rightarrow> bool" where
  "claim_sized c \<longleftrightarrow> list_all go_sized ([elems (mr_MeshPubKeyEd25519 c), elems (mr_PubKeyWG c),
       canonical_mesh_ip (mr_MeshIP c), mr_FQName c, mr_Role c, mr_LibP2PPeerID c] @
       mr_Endpoints c @ mr_BootstrapAddrs c) \<and>
     go_sized (mr_Endpoints c) \<and> go_sized (mr_BootstrapAddrs c)"

text \<open>What a challenge is about: the identity and every field of the claim but the proof itself.\<close>

definition claim_content :: "MeshRegistrationClaim \<Rightarrow> MeshRegistrationClaim" where
  "claim_content c = c\<lparr>mr_MeshPubKeyEd25519 := Some (elems (mr_MeshPubKeyEd25519 c)),
     mr_PubKeyWG := Some (elems (mr_PubKeyWG c)),
     mr_MeshIP := canonical_mesh_ip (mr_MeshIP c), mr_ProofOfPossession := []\<rparr>"

lemma unat_int64_less: "unat (x :: int64) < 256 ^ 8"
  using unsigned_less [of x] by simp

lemma be_bytes_unat: "be_bytes 8 (unat (x :: int64)) = be_bytes 8 (unat y) \<longleftrightarrow> x = y"
  using be_bytes_inject_less [OF unat_int64_less unat_int64_less] by (metis unsigned_word_eqI)

lemma challenge_input_inject:
  assumes "list_all go_sized [f, g, b, f', g', b']" "claim_sized c" "claim_sized c'"
  shows "challenge_input f g b c = challenge_input f' g' b' c' \<longleftrightarrow>
     f = f' \<and> g = g' \<and> b = b' \<and> claim_content c = claim_content c'"
proof -
  have s: "go_sized f" "go_sized g" "go_sized b" "go_sized f'" "go_sized g'" "go_sized b'"
    using assms(1) by simp_all
  have c: "claim_content c = claim_content c' \<longleftrightarrow>
      elems (mr_MeshPubKeyEd25519 c) = elems (mr_MeshPubKeyEd25519 c') \<and>
      elems (mr_PubKeyWG c) = elems (mr_PubKeyWG c') \<and>
      canonical_mesh_ip (mr_MeshIP c) = canonical_mesh_ip (mr_MeshIP c') \<and> mr_FQName c = mr_FQName c' \<and>
      mr_Role c = mr_Role c' \<and> mr_LibP2PPeerID c = mr_LibP2PPeerID c' \<and>
      mr_Endpoints c = mr_Endpoints c' \<and> mr_BootstrapAddrs c = mr_BootstrapAddrs c' \<and>
      mr_IssuedAtMS c = mr_IssuedAtMS c'"
    by (cases c; cases c') (simp add: claim_content_def)
  show ?thesis
    using assms(2,3) s unfolding c claim_sized_def challenge_input_def
    by (simp add: writeLenField_framed writeStringSlice_framed writeStringSlice_inject be_bytes_unat)
qed

section \<open>Facts: proof of possession\<close>

lemma mr_Validate_None:
  "mr_Validate c = None \<longleftrightarrow> length (claim_key c) = PublicKeySize \<and>
     length (elems (mr_PubKeyWG c)) = wgPublicKeySize \<and> ParseAddr (mr_MeshIP c) \<noteq> None \<and> 0 < sint (mr_IssuedAtMS c)"
  by (auto simp: mr_Validate_def Let_def)

lemma mr_Validate_pop [simp]: "mr_Validate (c\<lparr>mr_ProofOfPossession := s\<rparr>) = mr_Validate c"
  unfolding mr_Validate_def Let_def by (simp cong: if_cong)

lemma challenge_pop [simp]:
  "meshRegistrationChallenge p f g b (c\<lparr>mr_ProofOfPossession := s\<rparr>) = meshRegistrationChallenge p f g b c"
  by (simp add: meshRegistrationChallenge_def challenge_input_def)

lemma AsVerified_Inr:
  "AsVerified p c f g b = Inr v \<longleftrightarrow> v = \<lparr>vm_claim = c\<rparr> \<and> mr_Validate c = None \<and>
     meshRegistrationChallenge p f g b c \<noteq> [] \<and> length (mr_ProofOfPossession c) = SignatureSize \<and>
     ed_verify p (claim_key c) (meshRegistrationChallenge p f g b c) (mr_ProofOfPossession c)"
  by (cases "mr_Validate c")
     (use mr_Validate_None [of c] in \<open>auto simp: AsVerified_def mr_Verify_def VerifyProofOfPossession_def\<close>)

lemma verified_entry_complete: "AsVerified p c f g b = Inr v \<Longrightarrow> entry_complete (ToRosterEntry (vm_claim v))"
  by (auto simp: AsVerified_Inr mr_Validate_None entry_complete_def ToRosterEntry_def)

lemma Sign_AsVerified:
  fixes f g b :: string
  assumes "ed25519_correct p" "sha256_sized p" "length meshPriv = PrivateKeySize"
    "ed_public p meshPriv = claim_key c" "mr_Validate c = None"
  defines "c' \<equiv> c\<lparr>mr_ProofOfPossession := ed_sign p meshPriv (meshRegistrationChallenge p f g b c)\<rparr>"
  shows "SignMeshRegistration p meshPriv f g b c = Inr c'" "AsVerified p c' f g b = Inr \<lparr>vm_claim = c'\<rparr>"
proof -
  let ?m = "meshRegistrationChallenge p f g b c"
  have "length ?m = 32" using assms(2) by (simp add: meshRegistrationChallenge_def)
  then have m: "?m \<noteq> []" by auto
  note k = ed25519_correctD [OF assms(1,3)]
  show "AsVerified p c' f g b = Inr \<lparr>vm_claim = c'\<rparr>"
    using k(2,3) [of ?m] k(1) m assms(4,5) by (simp add: AsVerified_Inr c'_def)
  show "SignMeshRegistration p meshPriv f g b c = Inr c'"
    using assms(3-5) by (simp add: SignMeshRegistration_def c'_def)
qed

text \<open>
  A proof of possession accepted for two challenges of \<open>M\<close> under one key is over one input: the
  hash does not collide there, and a signature is of one message.
\<close>

definition pop_binds :: "platform \<Rightarrow> bytes set \<Rightarrow> bool" where
  "pop_binds p M \<longleftrightarrow> (\<forall>m \<in> M. \<forall>m' \<in> M. \<forall>pub s. length pub = PublicKeySize \<and>
     ed_verify p pub (sha256 p m) s \<and> ed_verify p pub (sha256 p m') s \<longrightarrow> m = m')"

text \<open>The address is spelled the way \<open>netip\<close> prints it.\<close>

definition canonical_ip :: "MeshRegistrationClaim \<Rightarrow> bool" where
  "canonical_ip c \<longleftrightarrow> canonical_mesh_ip (mr_MeshIP c) = mr_MeshIP c"

lemma same_content_same_entry:
  "claim_content c = claim_content c' \<Longrightarrow> canonical_ip c \<Longrightarrow> canonical_ip c' \<Longrightarrow> ToRosterEntry c = ToRosterEntry c'"
  by (cases c; cases c') (simp add: claim_content_def canonical_ip_def ToRosterEntry_def)

section \<open>Facts: assembly\<close>

lemma mesh_key_ToRosterEntry [simp]: "mesh_key (ToRosterEntry c) = claim_key c"
  by (simp add: ToRosterEntry_def)

lemma collect_tombstones_keys:
  "set (map elems (collect_tombstones tomb ts)) = elems ` set ts - set tomb"
  "distinct (map elems (collect_tombstones tomb ts))"
proof (induction tomb ts rule: collect_tombstones.induct)
  case (2 tomb t ts)
  {
    case 1
    show ?case using 2(1,3) by (cases "elems t \<in> set tomb") auto
  next
    case 2
    have "elems t \<notin> set (map elems (collect_tombstones (elems t # tomb) ts))"
      if "elems t \<notin> set tomb"
      using "2.IH"(3) [OF that] by auto
    with "2.IH" show ?case by (cases "elems t \<in> set tomb") auto
  }
qed simp_all

lemma collect_tombstones_copies: "t \<in> set (collect_tombstones tomb ts) \<Longrightarrow> t = copy_nil (elems t)"
  by (induction tomb ts rule: collect_tombstones.induct) (auto split: if_splits)

text \<open>
  The claim that stays for a key: the claims with that key, reduced by the condition of the loop.
\<close>

definition fresher :: "MeshRegistrationClaim option \<Rightarrow> MeshRegistrationClaim \<Rightarrow> MeshRegistrationClaim option" where
  "fresher prev c = (case prev of None \<Rightarrow> Some c | Some q \<Rightarrow> if keeps_previous q c then Some q else Some c)"

lemma fresher_simps [simp]:
  "fresher None c = Some c"
  "fresher (Some q) c = Some (if keeps_previous q c then q else c)"
  by (simp_all add: fresher_def)

definition freshest :: "bytes \<Rightarrow> VerifiedMeshRegistration list \<Rightarrow> MeshRegistrationClaim option" where
  "freshest k vs = foldl fresher None (filter (\<lambda>c. claim_key c = k) (map vm_claim vs))"

lemma latest_claims_lookup:
  "map_of (latest_claims tomb latest vs) k =
     (if k \<in> set tomb then map_of latest k
      else foldl fresher (map_of latest k) (filter (\<lambda>c. claim_key c = k) (map vm_claim vs)))"
proof (induction vs arbitrary: latest k)
  case (Cons v vs)
  show ?case
    by (cases "map_of latest (claim_key (vm_claim v))")
       (auto simp: Let_def update_conv' Cons.IH)
qed simp

lemma latest_claims_distinct:
  "distinct (map fst latest) \<Longrightarrow> distinct (map fst (latest_claims tomb latest vs))"
  by (induction tomb latest vs rule: latest_claims.induct)
     (auto simp: Let_def distinct_update split: option.splits)

lemma foldl_fresher_member:
  "foldl fresher acc cs = Some c \<Longrightarrow> acc = Some c \<or> c \<in> set cs"
  by (induction cs arbitrary: acc) (auto simp: fresher_def split: option.splits if_splits)

lemma foldl_fresher_None: "foldl fresher acc cs = None \<longleftrightarrow> acc = None \<and> cs = []"
  by (induction cs arbitrary: acc) (auto simp: fresher_def split: option.splits if_splits)

lemma keeps_previous_total: "keeps_previous a b \<or> keeps_previous b a"
  by (auto simp: keeps_previous_def)

lemma keeps_previous_trans: "keeps_previous a b \<Longrightarrow> keeps_previous b c \<Longrightarrow> keeps_previous a c"
  by (auto simp: keeps_previous_def)

lemma keeps_previous_antisym:
  "keeps_previous a b \<Longrightarrow> keeps_previous b a \<Longrightarrow>
     mr_IssuedAtMS a = mr_IssuedAtMS b \<and> mr_ProofOfPossession a = mr_ProofOfPossession b"
  by (auto simp: keeps_previous_def)

lemma foldl_fresher_best:
  "foldl fresher acc cs = Some c \<Longrightarrow> c' \<in> set cs \<or> acc = Some c' \<Longrightarrow> keeps_previous c c'"
proof (induction cs arbitrary: acc c')
  case Nil
  then show ?case using keeps_previous_total by auto
next
  case (Cons x xs)
  obtain y where y: "fresher acc x = Some y" by (cases acc) auto
  then have cy: "keeps_previous c y" using Cons by simp
  have yx: "keeps_previous y x" and ya: "acc = Some z \<Longrightarrow> keeps_previous y z" for z
    using y keeps_previous_total by (auto simp: fresher_def split: option.splits if_splits)
  from Cons.prems(2) consider "c' \<in> set xs" | "c' = x" | "acc = Some c'" by auto
  then show ?case
  proof cases
    case 1
    then show ?thesis using Cons.IH [of "Some y" c'] Cons.prems(1) y by simp
  next
    case 2
    then show ?thesis using keeps_previous_trans [OF cy yx] by simp
  next
    case 3
    show ?thesis by (rule keeps_previous_trans [OF cy ya [OF 3]])
  qed
qed

lemma freshest_spec:
  assumes "freshest k vs = Some c"
  shows "c \<in> vm_claim ` set vs" "claim_key c = k"
    "\<And>c'. c' \<in> vm_claim ` set vs \<Longrightarrow> claim_key c' = k \<Longrightarrow> keeps_previous c c'"
proof -
  show "c \<in> vm_claim ` set vs" "claim_key c = k"
    using foldl_fresher_member [OF assms [unfolded freshest_def]] by auto
  fix c' assume "c' \<in> vm_claim ` set vs" "claim_key c' = k"
  then show "keeps_previous c c'"
    using foldl_fresher_best [OF assms [unfolded freshest_def], of c'] by auto
qed

lemma freshest_None: "freshest k vs = None \<longleftrightarrow> k \<notin> claim_key ` vm_claim ` set vs"
  by (auto simp: freshest_def foldl_fresher_None filter_empty_conv)

end
