(* ===== verification/RosterBuild.thy ===== *)
theory RosterBuild
  imports MeshRegistration
begin

text \<open>
  What \<open>BuildFabricPeerRoster\<close> makes of an assembly, as facts on the definitions of
  \<open>MeshRegistration\<close>: the entries are those of the freshest claim of every key that is not
  tombstoned, in the order of the keys, whatever order \<open>range\<close> visits the map in; the call succeeds
  exactly on well-formed inputs; and verified claims with canonical addresses give the same roster
  in whatever order they arrive.
\<close>

section \<open>Definitions\<close>

definition permutes_range :: "range_order \<Rightarrow> bool" where
  "permutes_range ord \<longleftrightarrow> (\<forall>xs. mset (ord xs) = mset xs)"

definition dead_keys :: "RosterAssembly \<Rightarrow> bytes set" where
  "dead_keys a = elems ` set (ra_Tombstones a)"

text \<open>The specification of the entries: one per key, from the freshest claim, unless it is dead.\<close>

definition live_entries :: "RosterAssembly \<Rightarrow> PeerRosterEntry set" where
  "live_entries a =
     {ToRosterEntry c | c. claim_key c \<notin> dead_keys a \<and> freshest (claim_key c) (ra_Claims a) = Some c}"

text \<open>The epoch, the times and the tombstones are well formed.\<close>

definition assembly_ok :: "RosterAssembly \<Rightarrow> bool" where
  "assembly_ok a \<longleftrightarrow> 0 < sint (ra_IssuedAtMS a) \<and> 0 < sint (ra_TTLMS a) \<and>
     sint (ra_IssuedAtMS a) + sint (ra_TTLMS a) < 2 ^ 63 \<and> 1 \<le> sint (ra_Epoch a) \<and>
     list_all (\<lambda>t. length (elems t) = PublicKeySize) (ra_Tombstones a)"

text \<open>Claims that tie in key, time and proof give the same entry.\<close>

definition ties_agree :: "VerifiedMeshRegistration list \<Rightarrow> bool" where
  "ties_agree vs \<longleftrightarrow> (\<forall>c \<in> vm_claim ` set vs. \<forall>c' \<in> vm_claim ` set vs.
     claim_key c = claim_key c' \<and> mr_IssuedAtMS c = mr_IssuedAtMS c' \<and>
     mr_ProofOfPossession c = mr_ProofOfPossession c' \<longrightarrow> ToRosterEntry c = ToRosterEntry c')"

section \<open>Lists with distinct keys\<close>

lemma sort_key_cong_set:
  assumes "set xs = set ys" "distinct (map f xs)" "distinct (map f ys)"
  shows "sort_key f xs = sort_key f ys"
proof (rule sort_key_cong_mset)
  show "mset xs = mset ys"
    using assms by (metis distinct_map set_eq_iff_mset_eq_distinct)
qed (rule assms)

lemma distinct_map_sort_key: "distinct (map f (sort_key f xs)) \<longleftrightarrow> distinct (map f xs)"
  by (rule mset_eq_imp_distinct_iff) simp

section \<open>The entries and the tombstones of the built roster\<close>

abbreviation built_tombstones :: "RosterAssembly \<Rightarrow> char slice list" where
  "built_tombstones a \<equiv> collect_tombstones [] (ra_Tombstones a)"

abbreviation built_latest :: "RosterAssembly \<Rightarrow> (bytes \<times> MeshRegistrationClaim) list" where
  "built_latest a \<equiv> latest_claims (map elems (built_tombstones a)) [] (ra_Claims a)"

abbreviation built_entries :: "range_order \<Rightarrow> RosterAssembly \<Rightarrow> PeerRosterEntry list" where
  "built_entries ord a \<equiv> map (ToRosterEntry \<circ> snd) (ord (built_latest a))"

lemma built_tombstone_keys: "elems ` set (built_tombstones a) = dead_keys a"
  using collect_tombstones_keys(1) [of "[]" "ra_Tombstones a"] by (simp add: dead_keys_def)

lemma built_latest_iff:
  "(k, c) \<in> set (built_latest a) \<longleftrightarrow> k \<notin> dead_keys a \<and> freshest k (ra_Claims a) = Some c"
proof -
  have "(k, c) \<in> set (built_latest a) \<longleftrightarrow> map_of (built_latest a) k = Some c"
    by (rule map_of_eq_Some_iff [symmetric]) (simp add: latest_claims_distinct)
  then show ?thesis
    using built_tombstone_keys [of a] by (auto simp: latest_claims_lookup freshest_def)
qed

lemma built_latest_key: "(k, c) \<in> set (built_latest a) \<Longrightarrow> claim_key c = k"
  using built_latest_iff freshest_spec(2) by blast

lemma built_entries_set: "permutes_range ord \<Longrightarrow> set (built_entries ord a) = live_entries a"
proof -
  assume "permutes_range ord"
  then have "set (ord (built_latest a)) = set (built_latest a)"
    unfolding permutes_range_def by (metis set_mset_mset)
  then have "set (built_entries ord a) = (ToRosterEntry \<circ> snd) ` set (built_latest a)" by simp
  also have "\<dots> = live_entries a"
    unfolding live_entries_def
  proof (intro equalityI subsetI)
    fix e assume "e \<in> (ToRosterEntry \<circ> snd) ` set (built_latest a)"
    then obtain k c where "e = ToRosterEntry c" "(k, c) \<in> set (built_latest a)" by auto
    moreover from this have "claim_key c = k" by (simp add: built_latest_key)
    ultimately show "e \<in> {ToRosterEntry c |c. claim_key c \<notin> dead_keys a \<and> freshest (claim_key c) (ra_Claims a) = Some c}"
      by (auto simp: built_latest_iff)
  next
    fix e assume "e \<in> {ToRosterEntry c |c. claim_key c \<notin> dead_keys a \<and> freshest (claim_key c) (ra_Claims a) = Some c}"
    then obtain c where "e = ToRosterEntry c" "(claim_key c, c) \<in> set (built_latest a)"
      by (auto simp: built_latest_iff)
    then show "e \<in> (ToRosterEntry \<circ> snd) ` set (built_latest a)" by force
  qed
  finally show ?thesis .
qed

lemma built_entries_distinct: "permutes_range ord \<Longrightarrow> distinct (map mesh_key (built_entries ord a))"
proof -
  assume "permutes_range ord"
  then have m: "mset (ord (built_latest a)) = mset (built_latest a)" by (simp add: permutes_range_def)
  have "map mesh_key (built_entries ord a) = map fst (ord (built_latest a))"
    using mset_eq_setD [OF m] built_latest_key by (auto simp: map_eq_conv)
  moreover have "distinct (map fst (ord (built_latest a))) \<longleftrightarrow> distinct (map fst (built_latest a))"
    by (rule mset_eq_imp_distinct_iff) (simp add: m)
  moreover have "distinct (map fst (built_latest a))" by (rule latest_claims_distinct) simp
  ultimately show ?thesis by (simp only:)
qed

section \<open>When the assembly succeeds, and with which roster\<close>

definition built_roster :: "range_order \<Rightarrow> RosterAssembly \<Rightarrow> FabricPeerRoster" where
  "built_roster ord a =
     \<lparr>fr_FabricID = ra_FabricID a, fr_Epoch = ra_Epoch a, fr_IssuedAtMS = ra_IssuedAtMS a,
      fr_NotAfterMS = ra_IssuedAtMS a + ra_TTLMS a, fr_Entries = sort_key mesh_key (built_entries ord a),
      fr_Tombstones = sort_key elems (built_tombstones a), fr_SignerKeyID = [], fr_Signature = []\<rparr>"

lemma overflow_guard:
  assumes "0 < sint (x :: int64)"
  shows "sint (MaxInt64 - x) = 2 ^ 63 - 1 - sint x"
  using sint_minus_int64 [of MaxInt64 x] assms sint_int64_bounds [of x] by (simp add: sint_MaxInt64)

lemma Build_alt:
  "BuildFabricPeerRoster ord a =
     (if sint (ra_IssuedAtMS a) \<le> 0 \<or> sint (ra_TTLMS a) \<le> 0 then
        Inl (errorf ErrRosterAssembly ''issued_at_ms and ttl_ms must both be > 0 (a short TTL is mandatory)'')
      else if sint (MaxInt64 - ra_IssuedAtMS a) < sint (ra_TTLMS a) then
        Inl (errorf ErrRosterAssembly ''issued_at_ms + ttl_ms overflows'')
      else case fr_Validate (built_roster ord a) of Some err \<Rightarrow> Inl err | None \<Rightarrow> Inr (built_roster ord a))"
  unfolding BuildFabricPeerRoster_def Let_def built_roster_def [symmetric] by (rule refl)

lemma Build_Inr:
  "BuildFabricPeerRoster ord a = Inr r \<longleftrightarrow>
     0 < sint (ra_IssuedAtMS a) \<and> 0 < sint (ra_TTLMS a) \<and> sint (ra_IssuedAtMS a) + sint (ra_TTLMS a) < 2 ^ 63 \<and>
     r = built_roster ord a \<and> fr_Validate r = None"
  unfolding Build_alt
  using overflow_guard [of "ra_IssuedAtMS a"] by (auto split: option.splits)

lemma built_roster_valid_iff:
  assumes "permutes_range ord" "\<forall>v \<in> set (ra_Claims a). entry_complete (ToRosterEntry (vm_claim v))"
  shows "fr_Validate (built_roster ord a) = None \<longleftrightarrow> 1 \<le> sint (ra_Epoch a) \<and>
     list_all (\<lambda>t. length (elems t) = PublicKeySize) (ra_Tombstones a)"
proof -
  let ?es = "built_entries ord a"
  have "live_entries a \<subseteq> ToRosterEntry ` vm_claim ` set (ra_Claims a)"
    using freshest_spec(1) unfolding live_entries_def by fastforce
  with assms(2) have "\<forall>e \<in> set ?es. entry_complete e"
    unfolding built_entries_set [OF assms(1)] by blast
  moreover have "distinct (map mesh_key (sort_key mesh_key ?es))"
    using built_entries_distinct [OF assms(1)] by (simp only: distinct_map_sort_key)
  moreover have "dead_keys a \<inter> mesh_key ` live_entries a = {}"
    unfolding live_entries_def by auto
  moreover have "(\<forall>t \<in> set (built_tombstones a). length (elems t) = PublicKeySize) \<longleftrightarrow>
      (\<forall>t \<in> set (ra_Tombstones a). length (elems t) = PublicKeySize)"
    using built_tombstone_keys [of a] unfolding dead_keys_def by (metis (no_types, lifting) imageE imageI)
  ultimately show ?thesis
    unfolding fr_Validate_None
    by (auto simp: built_roster_def list_all_iff built_entries_set [OF assms(1), simplified] built_tombstone_keys)
qed

text \<open>An assembly of complete claims succeeds exactly when its inputs are well formed.\<close>

lemma Build_succeeds_iff:
  assumes "permutes_range ord" "\<forall>v \<in> set (ra_Claims a). entry_complete (ToRosterEntry (vm_claim v))"
  shows "BuildFabricPeerRoster ord a = Inr r \<longleftrightarrow> assembly_ok a \<and> r = built_roster ord a"
  using built_roster_valid_iff [OF assms] by (auto simp: Build_Inr assembly_ok_def)

lemma built_tombstones_set: "set (built_tombstones a) = copy_nil ` dead_keys a"
proof -
  have "t \<in> copy_nil ` dead_keys a" if "t \<in> set (built_tombstones a)" for t
    using collect_tombstones_copies [OF that] that built_tombstone_keys by blast
  moreover have "copy_nil k \<in> set (built_tombstones a)" if "k \<in> dead_keys a" for k
    using that built_tombstone_keys collect_tombstones_copies by (metis imageE)
  ultimately show ?thesis by auto
qed

lemma built_roster_shape:
  assumes "permutes_range ord"
  shows "sorted (map mesh_key (fr_Entries (built_roster ord a)))"
    "set (fr_Entries (built_roster ord a)) = live_entries a"
    "sorted (map elems (fr_Tombstones (built_roster ord a)))"
    "distinct (map elems (fr_Tombstones (built_roster ord a)))"
    "elems ` set (fr_Tombstones (built_roster ord a)) = dead_keys a"
proof -
  have e: "fr_Entries (built_roster ord a) = sort_key mesh_key (built_entries ord a)"
    and t: "fr_Tombstones (built_roster ord a) = sort_key elems (built_tombstones a)"
    by (simp_all only: built_roster_def FabricPeerRoster.simps)
  show "sorted (map mesh_key (fr_Entries (built_roster ord a)))"
    "sorted (map elems (fr_Tombstones (built_roster ord a)))"
    unfolding e t by (rule sorted_sort_key)+
  show "set (fr_Entries (built_roster ord a)) = live_entries a"
    unfolding e set_sort by (rule built_entries_set [OF assms])
  show "distinct (map elems (fr_Tombstones (built_roster ord a)))"
    unfolding t distinct_map_sort_key by (rule collect_tombstones_keys(2))
  show "elems ` set (fr_Tombstones (built_roster ord a)) = dead_keys a"
    unfolding t set_sort by (rule built_tombstone_keys)
qed

lemma live_entries_cong:
  assumes "set (ra_Claims a) = set (ra_Claims b)" "dead_keys a = dead_keys b" "ties_agree (ra_Claims a)"
  shows "live_entries a \<subseteq> live_entries b"
proof
  fix e assume "e \<in> live_entries a"
  then obtain c where c: "e = ToRosterEntry c" "claim_key c \<notin> dead_keys a"
    "freshest (claim_key c) (ra_Claims a) = Some c"
    by (auto simp: live_entries_def)
  note fc = freshest_spec [OF c(3)]
  have "freshest (claim_key c) (ra_Claims b) \<noteq> None"
    using fc(1) assms(1) by (auto simp: freshest_None)
  then obtain d where d: "freshest (claim_key c) (ra_Claims b) = Some d" by auto
  note fd = freshest_spec [OF d]
  have d': "d \<in> vm_claim ` set (ra_Claims a)" "keeps_previous c d" "keeps_previous d c"
    using fc fd assms(1) by auto
  have "ToRosterEntry c = ToRosterEntry d"
    using assms(3) [unfolded ties_agree_def, rule_format, OF fc(1) d'(1)]
      keeps_previous_antisym [OF d'(2,3)] fd(2) by simp
  with c d fd(2) assms(2) show "e \<in> live_entries b" by (auto simp: live_entries_def)
qed

text \<open>The same claims and tombstones in another order, or more than once, give the same result.\<close>

lemma Build_order_independent:
  assumes "permutes_range ord" "permutes_range ord'" "ties_agree (ra_Claims a)"
    "set cs = set (ra_Claims a)" "set ts = set (ra_Tombstones a)"
  shows "BuildFabricPeerRoster ord' (a\<lparr>ra_Claims := cs, ra_Tombstones := ts\<rparr>) = BuildFabricPeerRoster ord a"
proof -
  let ?b = "a\<lparr>ra_Claims := cs, ra_Tombstones := ts\<rparr>"
  have dead: "dead_keys ?b = dead_keys a" using assms(5) by (simp add: dead_keys_def)
  have "ties_agree cs" using assms(3) unfolding ties_agree_def assms(4) .
  then have live: "live_entries ?b = live_entries a"
    using live_entries_cong [of a ?b] live_entries_cong [of ?b a] assms(3,4) dead by simp
  have "sort_key mesh_key (built_entries ord' ?b) = sort_key mesh_key (built_entries ord a)"
    by (rule sort_key_cong_set)
       (simp_all only: built_entries_set [OF assms(1)] built_entries_set [OF assms(2)] live
         built_entries_distinct [OF assms(1)] built_entries_distinct [OF assms(2)])
  moreover have "sort_key elems (built_tombstones ?b) = sort_key elems (built_tombstones a)"
    by (rule sort_key_cong_set) (simp_all only: built_tombstones_set dead collect_tombstones_keys(2))
  ultimately have "built_roster ord' ?b = built_roster ord a" by (simp add: built_roster_def)
  moreover have "ra_IssuedAtMS ?b = ra_IssuedAtMS a" "ra_TTLMS ?b = ra_TTLMS a" by simp_all
  ultimately show ?thesis unfolding Build_alt by (simp only:)
qed

lemma verified_ties_agree:
  assumes "\<forall>v \<in> set vs. \<exists>f g b. (f, g, b, vm_claim v) \<in> R \<and> AsVerified p (vm_claim v) f g b = Inr v"
    "pop_binds p ((\<lambda>(f, g, b, c). challenge_input f g b c) ` R)"
    "\<forall>(f, g, b, c) \<in> R. list_all go_sized [f, g, b] \<and> claim_sized c \<and> canonical_ip c"
  shows "ties_agree vs"
  unfolding ties_agree_def
proof (intro ballI impI, elim conjE imageE)
  fix c c' v v'
  assume k: "claim_key c = claim_key c'" "mr_ProofOfPossession c = mr_ProofOfPossession c'"
    and v: "c = vm_claim v" "v \<in> set vs" "c' = vm_claim v'" "v' \<in> set vs"
  obtain f g b where i: "(f, g, b, c) \<in> R" "AsVerified p c f g b = Inr v" using assms(1) v by auto
  obtain f' g' b' where i': "(f', g', b', c') \<in> R" "AsVerified p c' f' g' b' = Inr v'" using assms(1) v by auto
  have "ed_verify p (claim_key c) (sha256 p (challenge_input f g b c)) (mr_ProofOfPossession c)"
    "ed_verify p (claim_key c) (sha256 p (challenge_input f' g' b' c')) (mr_ProofOfPossession c)"
    using i(2) i'(2) k unfolding AsVerified_Inr meshRegistrationChallenge_def by simp_all
  moreover have "length (claim_key c) = PublicKeySize"
    using i(2) unfolding AsVerified_Inr mr_Validate_None by simp
  ultimately have "challenge_input f g b c = challenge_input f' g' b' c'"
    using assms(2) i(1) i'(1) unfolding pop_binds_def by (metis (no_types, lifting) case_prod_conv image_eqI)
  moreover have s: "list_all go_sized [f, g, b, f', g', b']" "claim_sized c" "claim_sized c'"
    "canonical_ip c" "canonical_ip c'"
    using assms(3) i(1) i'(1) by fastforce+
  ultimately show "ToRosterEntry c = ToRosterEntry c'"
    using challenge_input_inject [OF s(1-3)] same_content_same_entry s(4,5) by blast
qed

end
