(* ===== verification/MembershipProps.thy ===== *)
theory MembershipProps
  imports RosterBuild
begin

text \<open>
  The properties of the package \<open>membershipcap\<close>: round trips and authenticity of its three signed
  documents, the fence of a revocation list, the framing of the registration challenge, and the
  assembly of a roster. Concrete runs use \<open>demo_platform\<close> and the sample values below.
\<close>

section \<open>Sample values\<close>

definition sample_priv :: bytes where "sample_priv = replicate 64 CHR ''k''"
definition sample_pub :: bytes where "sample_pub = replicate 32 CHR ''k''"

definition sample_cap :: Capability where
  "sample_cap = \<lparr>cap_LibP2PPublicKey = Some sample_pub, cap_TenantHandle = ''h'', cap_FabricID = ''fab'',
     cap_CapabilityEpoch = 3, cap_RevocationGeneration = 1, cap_NotAfterMS = 2000,
     cap_SignerKeyID = ''m1'', cap_Signature = []\<rparr>"

definition sample_entry :: RevocationEntry where
  "sample_entry = \<lparr>re_LibP2PPublicKey = Some sample_pub, re_CapabilityEpoch = 4, re_RevocationGeneration = 1,
     re_Revoked = False\<rparr>"

definition sample_list :: RevocationList where
  "sample_list = \<lparr>rl_FabricID = ''fab'', rl_ListGeneration = 7, rl_IssuedAtMS = 1000, rl_NotAfterMS = 2000,
     rl_Entries = [sample_entry], rl_SignerKeyID = ''m1'', rl_Signature = []\<rparr>"

definition sample_claim :: MeshRegistrationClaim where
  "sample_claim = \<lparr>mr_MeshPubKeyEd25519 = Some sample_pub, mr_PubKeyWG = Some (replicate 32 CHR ''w''),
     mr_MeshIP = ''fd00::1'', mr_FQName = ''relay-1'', mr_Role = ''host'', mr_LibP2PPeerID = [],
     mr_Endpoints = [''203.0.113.7:51820''], mr_BootstrapAddrs = [], mr_IssuedAtMS = 1000,
     mr_ProofOfPossession = []\<rparr>"

definition sample_roster :: FabricPeerRoster where
  "sample_roster = \<lparr>fr_FabricID = ''fab'', fr_Epoch = 1, fr_IssuedAtMS = 1000, fr_NotAfterMS = 2000,
     fr_Entries = [ToRosterEntry sample_claim], fr_Tombstones = [], fr_SignerKeyID = ''m1'', fr_Signature = []\<rparr>"

definition sample_trust :: trust where
  "sample_trust = [''m1'' \<mapsto> sample_pub]"

lemma sample_sizes [simp]:
  "length sample_priv = 64" "length sample_pub = 32" "ed_public demo_platform sample_priv = sample_pub"
  by (simp_all add: sample_priv_def sample_pub_def demo_platform_def zero_pad_def)

section \<open>The signed documents\<close>

text \<open>
  C13. Signing succeeds and verifies, for each of the three documents of the membership signer. With
  an ed25519 key of the right size, a capability bound to a 32-byte key, a revocation list and a
  peer roster are signed, and each signed document verifies under every set of trusted keys that
  holds the signer's public key, at every time before it expires.
\<close>

theorem membership_roundtrip:
  assumes "ed25519_correct p" "length priv = PrivateKeySize" "trusted keyID = Some (ed_public p priv)"
  shows "(length (elems (cap_LibP2PPublicKey c)) = PublicKeySize \<and> unexpired (cap_NotAfterMS c) now \<longrightarrow>
       (\<exists>c'. cap_Sign p keyID priv c = Inr c' \<and> cap_Verify p c' trusted now = None)) \<and>
     (unexpired (rl_NotAfterMS rl) now \<longrightarrow>
       (\<exists>rl'. SignRevocationList p keyID priv rl = Inr rl' \<and> rl_Verify p rl' trusted now = None)) \<and>
     (unexpired (fr_NotAfterMS r) now \<longrightarrow>
       (\<exists>r'. SignFabricPeerRoster p keyID priv r = Inr r' \<and> fr_Verify p r' trusted now = None))"
  using cap.sign_then_accept [where ring = trusted and kid = keyID, OF assms]
    rlist.sign_then_accept [where ring = trusted and kid = keyID, OF assms]
    roster.sign_then_accept [where ring = trusted and kid = keyID, OF assms]
  by blast

theorem membership_roundtrip_witness:
  "(\<exists>c'. cap_Sign demo_platform ''m1'' sample_priv sample_cap = Inr c' \<and> cap_Verify demo_platform c' sample_trust 1500 = None) \<and>
   (\<exists>rl'. SignRevocationList demo_platform ''m1'' sample_priv sample_list = Inr rl' \<and>
      rl_Verify demo_platform rl' sample_trust 1500 = None) \<and>
   (\<exists>r'. SignFabricPeerRoster demo_platform ''m1'' sample_priv sample_roster = Inr r' \<and>
      fr_Verify demo_platform r' sample_trust 1500 = None)"
  using membership_roundtrip [of demo_platform sample_priv sample_trust "''m1''" sample_cap 1500 sample_list sample_roster]
  by (simp add: sample_trust_def sample_cap_def sample_list_def sample_roster_def unexpired_def)


definition stamped_roster :: FabricPeerRoster where
  "stamped_roster = sample_roster
     \<lparr>fr_Signature := zero_pad 64 (sample_pub @ peerRosterCanonicalBytes sample_roster)\<rparr>"

lemma sample_utf8: "fr_utf8 sample_roster" "fr_utf8 stamped_roster"
  by (simp_all add: stamped_roster_def fr_utf8_def sample_roster_def entry_utf8_def ToRosterEntry_def
      sample_claim_def utf8_literal)


text \<open>
  C15. The check of a capability against a revocation list implements its set-based specification:
  the loop with its flag and early return computes \<open>fence\<close> of the set of entries, so the verdict
  depends neither on the order of the entries nor on repetitions.
\<close>

theorem Check_refines_fence: "rl_Check rl c = fence (set (rl_Entries rl)) c"
  by (rule rl_Check_fence)

text \<open>
  Revocation wins: once an entry of a list revokes or supersedes a capability, every list that
  contains at least those entries denies it too, whatever else it says of the same key.
\<close>

theorem Check_revocation_wins:
  assumes "rl_Check rl c = FenceRevoked" "set (rl_Entries rl) \<subseteq> set (rl_Entries rl')"
  shows "rl_Check rl' c = FenceRevoked"
  using assms unfolding rl_Check_fence fence_def by (auto split: if_splits)

theorem Check_revocation_wins_witness:
  "rl_Check (sample_list\<lparr>rl_Entries := [sample_entry\<lparr>re_CapabilityEpoch := 1\<rparr>, sample_entry]\<rparr>) sample_cap = FenceRevoked"
proof (rule Check_revocation_wins [of sample_list])
  show "rl_Check sample_list sample_cap = FenceRevoked"
    by (simp add: rl_Check_def sample_list_def sample_entry_def sample_cap_def)
qed (simp add: sample_list_def)

text \<open>
  A tenant handle names one tenant of one fabric. When no fabric identifier contains the
  separator and the hash does not collide on the two inputs, two handles are equal only if tenant
  and fabric are.
\<close>

theorem TenantHandle_separates:
  assumes "CHR ''|'' \<notin> set fabricID" "CHR ''|'' \<notin> set fabricID'"
    "inj_on (sha256 p) {tenant_handle_input tenantID fabricID, tenant_handle_input tenantID' fabricID'}"
  shows "TenantHandle p tenantID fabricID = TenantHandle p tenantID' fabricID' \<longleftrightarrow>
    tenantID = tenantID' \<and> fabricID = fabricID'"
proof -
  have "TenantHandle p tenantID fabricID = TenantHandle p tenantID' fabricID' \<longleftrightarrow>
      tenant_handle_input tenantID fabricID = tenant_handle_input tenantID' fabricID'"
    unfolding TenantHandle_def b64_enc_inj [OF b64_alphabets(2)] by (rule inj_on_eq_iff [OF assms(3)]) simp_all
  also have "\<dots> \<longleftrightarrow> fabricID @ CHR ''|'' # tenantID = fabricID' @ CHR ''|'' # tenantID'"
    by (simp add: tenant_handle_input_def)
  also have "\<dots> \<longleftrightarrow> tenantID = tenantID' \<and> fabricID = fabricID'"
    using assms(1,2) Cut_Some_iff by (metis option.inject prod.inject)
  finally show ?thesis .
qed

theorem TenantHandle_separates_witness:
  "TenantHandle demo_platform ''b'' ''f1'' \<noteq> TenantHandle demo_platform ''b'' ''f2''"
proof -
  have "inj_on (sha256 demo_platform) {tenant_handle_input ''b'' ''f1'', tenant_handle_input ''b'' ''f2''}"
    by (simp add: demo_platform_def tenant_handle_input_def zero_pad_def)
  from TenantHandle_separates [OF _ _ this] show ?thesis by simp
qed

text \<open>
  The separator does not frame the two identifiers: tenant \<open>b|c\<close> of fabric \<open>a\<close> and tenant \<open>c\<close>
  of fabric \<open>a|b\<close> have the same handle, whatever the hash.
\<close>

lemma TenantHandle_ambiguous: "TenantHandle p ''b|c'' ''a'' = TenantHandle p ''c'' ''a|b''"
  by (simp add: TenantHandle_def tenant_handle_input_def)

section \<open>Registration and assembly\<close>

text \<open>
  C16. The registration challenge frames its fields: the bytes hashed for two registrations are equal
  only if the enrolled identity (fabric, gateway, binding) and every field that reaches the roster
  are equal, addresses up to their spelling. No value of one field can be read as another.
\<close>

theorem challenge_binds:
  assumes "list_all go_sized [fabricID, gatewayID, bindingID, fabricID', gatewayID', bindingID']"
    "claim_sized c" "claim_sized c'"
  shows "challenge_input fabricID gatewayID bindingID c = challenge_input fabricID' gatewayID' bindingID' c' \<longleftrightarrow>
     fabricID = fabricID' \<and> gatewayID = gatewayID' \<and> bindingID = bindingID' \<and> claim_content c = claim_content c'"
  by (rule challenge_input_inject [OF assms])

lemma sample_addresses:
  "ParseAddr ''fd00::1'' = Some (Addr6 [0xFD00, 0, 0, 0, 0, 0, 0, 1] [])"
  "ParseAddr ''fd00:0::1'' = Some (Addr6 [0xFD00, 0, 0, 0, 0, 0, 0, 1] [])"
  "addr_String (Addr6 [0xFD00, 0, 0, 0, 0, 0, 0, 1] []) = ''fd00::1''"
  by (simp_all add: addr_eval)

lemma sample_canonical:
  "canonical_mesh_ip ''fd00::1'' = ''fd00::1''" "canonical_mesh_ip ''fd00:0::1'' = ''fd00::1''"
  unfolding canonical_mesh_ip_def sample_addresses option.case by (rule refl)+

lemma sample_claim_sized:
  "claim_sized sample_claim" "claim_sized (sample_claim\<lparr>mr_FQName := ''relay-1h'', mr_Role := ''ost''\<rparr>)"
  by (simp_all add: claim_sized_def sample_claim_def go_sized_def sample_canonical)

theorem challenge_binds_witness:
  "challenge_input ''fab'' ''gw'' ''b'' sample_claim \<noteq>
   challenge_input ''fab'' ''gw'' ''b'' (sample_claim\<lparr>mr_FQName := ''relay-1h'', mr_Role := ''ost''\<rparr>)"
proof -
  have "list_all go_sized [''fab'', ''gw'', ''b'', ''fab'', ''gw'', ''b'']" by (simp add: go_sized_def)
  from challenge_binds [OF this sample_claim_sized] show ?thesis
    by (simp add: claim_content_def sample_claim_def)
qed

text \<open>
  A claim signed with the mesh key it declares is verified under the identity it was signed
  for, and gives a complete roster entry for that key.
\<close>

theorem registration_roundtrip:
  assumes "ed25519_correct p" "sha256_sized p" "length meshPriv = PrivateKeySize"
    "ed_public p meshPriv = claim_key c" "mr_Validate c = None"
  shows "\<exists>c'. SignMeshRegistration p meshPriv f g b c = Inr c' \<and>
     AsVerified p c' f g b = Inr \<lparr>vm_claim = c'\<rparr> \<and> entry_complete (ToRosterEntry c') \<and>
     mesh_key (ToRosterEntry c') = ed_public p meshPriv"
  using Sign_AsVerified [OF assms] verified_entry_complete assms(4) by fastforce

theorem registration_roundtrip_witness:
  "\<exists>c'. SignMeshRegistration demo_platform sample_priv ''fab'' ''gw'' ''b'' sample_claim = Inr c' \<and>
     AsVerified demo_platform c' ''fab'' ''gw'' ''b'' = Inr \<lparr>vm_claim = c'\<rparr> \<and>
     entry_complete (ToRosterEntry c') \<and> mesh_key (ToRosterEntry c') = ed_public demo_platform sample_priv"
  by (rule registration_roundtrip)
     (simp_all add: sample_claim_def mr_Validate_None sample_addresses wgPublicKeySize_def)


definition proven :: "platform \<Rightarrow> MeshRegistrationClaim \<Rightarrow> VerifiedMeshRegistration" where
  "proven p c = \<lparr>vm_claim = c\<lparr>mr_ProofOfPossession :=
     ed_sign p sample_priv (meshRegistrationChallenge p ''fab'' ''gw'' ''b'' c)\<rparr>\<rparr>"

definition sample_assembly :: "VerifiedMeshRegistration list \<Rightarrow> RosterAssembly" where
  "sample_assembly vs = \<lparr>ra_FabricID = ''fab'', ra_Epoch = 1, ra_IssuedAtMS = 5000, ra_TTLMS = 600,
     ra_Claims = vs, ra_Tombstones = [Some (replicate 32 CHR ''t'')]\<rparr>"

lemma proven_verified:
  assumes "ed25519_correct p" "sha256_sized p" "ed_public p sample_priv = claim_key c" "mr_Validate c = None"
  shows "AsVerified p (vm_claim (proven p c)) ''fab'' ''gw'' ''b'' = Inr (proven p c)"
  using Sign_AsVerified(2) [OF assms(1,2) _ assms(3,4), of "''fab''" "''gw''" "''b''"] by (simp add: proven_def)

lemma sample_claims_valid:
  "mr_Validate sample_claim = None" "claim_key sample_claim = sample_pub"
  "mr_Validate (sample_claim\<lparr>mr_MeshIP := ''fd00:0::1''\<rparr>) = None"
  by (simp_all add: mr_Validate_None sample_claim_def sample_addresses wgPublicKeySize_def)

lemma sample_assembly_ok: "assembly_ok (sample_assembly vs)"
  by (simp add: assembly_ok_def sample_assembly_def)

lemma permutes_range_id [simp]: "permutes_range id"
  by (simp add: permutes_range_def)


text \<open>
  C18. The lifetime of a roster does not overflow: a built roster expires exactly \<open>TTLMS\<close> after it
  was issued, later than it was issued, and an assembly whose expiry is not an \<open>int64\<close> is refused.
\<close>

theorem Build_lifetime:
  "(\<forall>r. BuildFabricPeerRoster ord a = Inr r \<longrightarrow>
      sint (fr_NotAfterMS r) = sint (ra_IssuedAtMS a) + sint (ra_TTLMS a) \<and>
      0 < sint (fr_IssuedAtMS r) \<and> sint (fr_IssuedAtMS r) < sint (fr_NotAfterMS r)) \<and>
   (0 < sint (ra_IssuedAtMS a) \<and> 0 < sint (ra_TTLMS a) \<and> 2 ^ 63 \<le> sint (ra_IssuedAtMS a) + sint (ra_TTLMS a) \<longrightarrow>
      BuildFabricPeerRoster ord a = Inl (errorf ErrRosterAssembly ''issued_at_ms + ttl_ms overflows''))"
proof (intro conjI allI impI)
  fix r assume "BuildFabricPeerRoster ord a = Inr r"
  then have b: "0 < sint (ra_IssuedAtMS a)" "0 < sint (ra_TTLMS a)" "sint (ra_IssuedAtMS a) + sint (ra_TTLMS a) < 2 ^ 63"
    and r: "fr_NotAfterMS r = ra_IssuedAtMS a + ra_TTLMS a" "fr_IssuedAtMS r = ra_IssuedAtMS a"
    unfolding Build_Inr by (simp_all add: built_roster_def)
  have "sint (ra_IssuedAtMS a + ra_TTLMS a) = sint (ra_IssuedAtMS a) + sint (ra_TTLMS a)"
    by (rule sint_plus_int64) (use b in simp_all)
  with b r show "sint (fr_NotAfterMS r) = sint (ra_IssuedAtMS a) + sint (ra_TTLMS a)"
    "0 < sint (fr_IssuedAtMS r)" "sint (fr_IssuedAtMS r) < sint (fr_NotAfterMS r)" by simp_all
next
  assume "0 < sint (ra_IssuedAtMS a) \<and> 0 < sint (ra_TTLMS a) \<and> 2 ^ 63 \<le> sint (ra_IssuedAtMS a) + sint (ra_TTLMS a)"
  then show "BuildFabricPeerRoster ord a = Inl (errorf ErrRosterAssembly ''issued_at_ms + ttl_ms overflows'')"
    using overflow_guard [of "ra_IssuedAtMS a"] unfolding Build_alt by simp
qed

theorem Build_lifetime_witness:
  "BuildFabricPeerRoster id (sample_assembly []\<lparr>ra_TTLMS := MaxInt64\<rparr>) =
     Inl (errorf ErrRosterAssembly ''issued_at_ms + ttl_ms overflows'')"
  using Build_lifetime [of id "sample_assembly []\<lparr>ra_TTLMS := MaxInt64\<rparr>"]
  by (simp add: sample_assembly_def sint_MaxInt64)


text \<open>A platform whose hash keeps the end of its input, so that it tells claims of different times apart.\<close>

definition tail_platform :: platform where
  "tail_platform = demo_platform\<lparr>sha256 := (\<lambda>m. zero_pad 32 (rev m))\<rparr>"

lemma tail_platform_laws:
  "ed25519_correct tail_platform" "sha256_sized tail_platform" "ed_public tail_platform sample_priv = sample_pub"
  using demo_ed25519_correct sample_sizes(3)
  by (simp_all add: tail_platform_def ed25519_correct_def sha256_sized_def)

lemma tail_platform_binds:
  assumes "\<And>m m'. m \<in> M \<Longrightarrow> m' \<in> M \<Longrightarrow> m \<noteq> m' \<Longrightarrow> m \<noteq> [] \<and> m' \<noteq> [] \<and> last m \<noteq> last m'"
  shows "pop_binds tail_platform M"
  unfolding pop_binds_def
proof (intro ballI allI impI)
  fix m m' pub s
  assume m: "m \<in> M" "m' \<in> M"
    and e: "length pub = PublicKeySize \<and> ed_verify tail_platform pub (sha256 tail_platform m) s \<and>
      ed_verify tail_platform pub (sha256 tail_platform m') s"
  have z: "zero_pad 64 (pub @ zero_pad 32 x) = pub @ zero_pad 32 x" for x
    using e by (simp add: zero_pad_def)
  have "zero_pad 32 (rev m) = zero_pad 32 (rev m')"
    using e unfolding tail_platform_def demo_platform_def by (auto simp: z)
  moreover have "hd (zero_pad 32 (rev x)) = last x" if "x \<noteq> []" for x
    using that by (simp add: zero_pad_def hd_append hd_rev)
  ultimately show "m = m'" using assms [OF m] by metis
qed

lemma challenge_last:
  "challenge_input f g b c \<noteq> []" "last (challenge_input f g b c) = char_of (unat (mr_IssuedAtMS c))"
proof -
  have "be_bytes 8 n = be_bytes 7 (n div 256) @ [char_of n]" for n
    using be_bytes.simps(2) [of 7 n] by simp
  then show "challenge_input f g b c \<noteq> []" "last (challenge_input f g b c) = char_of (unat (mr_IssuedAtMS c))"
    by (simp_all add: challenge_input_def)
qed


text \<open>
  Without canonical spelling the order matters: two verified claims of one key, with the same
  time and the same proof of possession, that write one address in two ways (\<open>fd00::1\<close> and
  \<open>fd00:0::1\<close>) give different rosters in the two orders. The proof binds only the canonical
  address, and the roster carries the spelling of whichever claim came first.
\<close>

theorem Build_spelling_order:
  "\<exists>v w. AsVerified demo_platform (vm_claim v) ''fab'' ''gw'' ''b'' = Inr v \<and>
     AsVerified demo_platform (vm_claim w) ''fab'' ''gw'' ''b'' = Inr w \<and>
     mr_IssuedAtMS (vm_claim v) = mr_IssuedAtMS (vm_claim w) \<and>
     mr_ProofOfPossession (vm_claim v) = mr_ProofOfPossession (vm_claim w) \<and>
     (\<exists>r r'. BuildFabricPeerRoster id (sample_assembly [v, w]) = Inr r \<and>
        BuildFabricPeerRoster id (sample_assembly [w, v]) = Inr r' \<and> r \<noteq> r')"
proof -
  let ?v = "proven demo_platform sample_claim"
  let ?w = "proven demo_platform (sample_claim\<lparr>mr_MeshIP := ''fd00:0::1''\<rparr>)"
  have k: "claim_key (sample_claim\<lparr>mr_MeshIP := i\<rparr>) = sample_pub" for i by (simp add: sample_claim_def)
  have v: "AsVerified demo_platform (vm_claim ?v) ''fab'' ''gw'' ''b'' = Inr ?v"
    by (rule proven_verified) (simp_all only: demo_ed25519_correct demo_sha256_sized sample_sizes sample_claims_valid)
  have w: "AsVerified demo_platform (vm_claim ?w) ''fab'' ''gw'' ''b'' = Inr ?w"
    by (rule proven_verified) (simp_all only: demo_ed25519_correct demo_sha256_sized sample_sizes sample_claims_valid k)
  have "challenge_input ''fab'' ''gw'' ''b'' (sample_claim\<lparr>mr_MeshIP := ''fd00:0::1''\<rparr>) =
      challenge_input ''fab'' ''gw'' ''b'' sample_claim"
    by (simp add: challenge_input_def sample_claim_def sample_canonical)
  then have t: "mr_IssuedAtMS (vm_claim ?v) = mr_IssuedAtMS (vm_claim ?w)"
    "mr_ProofOfPossession (vm_claim ?v) = mr_ProofOfPossession (vm_claim ?w)"
    by (simp_all add: proven_def meshRegistrationChallenge_def)
  have q: "claim_key (vm_claim ?v) = sample_pub" "claim_key (vm_claim ?w) = sample_pub"
    by (simp_all add: proven_def sample_claim_def)
  have b: "BuildFabricPeerRoster id (sample_assembly [x, y]) = Inr (built_roster id (sample_assembly [x, y]))"
    if "x \<in> {?v, ?w}" "y \<in> {?v, ?w}" for x y
  proof -
    have "\<forall>u \<in> set (ra_Claims (sample_assembly [x, y])). entry_complete (ToRosterEntry (vm_claim u))"
      using that verified_entry_complete [OF v] verified_entry_complete [OF w] by (auto simp: sample_assembly_def)
    from Build_succeeds_iff [OF permutes_range_id this] sample_assembly_ok show ?thesis by blast
  qed
  have "sample_pub \<noteq> replicate 32 CHR ''t''" by (simp add: sample_pub_def)
  then have e: "fr_Entries (built_roster id (sample_assembly [x, y])) = [ToRosterEntry (vm_claim x)]"
    if "claim_key (vm_claim x) = sample_pub" "claim_key (vm_claim y) = sample_pub" "keeps_previous (vm_claim x) (vm_claim y)"
    for x y
    using that by (simp add: built_roster_def sample_assembly_def Let_def)
  have "pe_MeshIP (ToRosterEntry (vm_claim ?v)) \<noteq> pe_MeshIP (ToRosterEntry (vm_claim ?w))"
    by (simp add: proven_def ToRosterEntry_def sample_claim_def)
  then have "built_roster id (sample_assembly [?v, ?w]) \<noteq> built_roster id (sample_assembly [?w, ?v])"
    using e [of ?v ?w] e [of ?w ?v] q t by (metis keeps_previous_def order_refl list.inject)
  with v w t b show ?thesis by blast
qed

end
