(* ===== verification/ServiceAccessCap.thy ===== *)
theory ServiceAccessCap
  imports MeshRegistration
begin

text \<open>
  Service-access capabilities and their revocation tombstones (\<open>src/serviceaccesscap/\<close>): the grant
  that lets a consumer key reach one \<open>org/svc\<close> resource until a hard expiry, and the signed record
  that revokes one grant by its nonce. The ring of trusted issuers is an association list, so that
  an empty ring can be told from one without the issuer. The names carry the prefix \<open>sa_\<close> where the
  package \<open>membershipcap\<close> has a definition of the same name.
\<close>

section \<open>Capabilities\<close>

record AccessCapability =
  sa_SubjectPublicKey :: "char slice"
  sa_SubjectSPIFFE :: string
  sa_Resource :: string
  sa_Scope :: string
  sa_IssuedAtMS :: int64
  sa_ExpiresAtMS :: int64
  sa_Issuer :: string
  sa_Nonce :: string
  sa_Signature :: bytes

type_synonym issuers = "(string \<times> bytes) list"

definition sa_ErrBadSignature :: goerror where
  "sa_ErrBadSignature = Plain ''service access capability signature invalid''"
definition sa_ErrExpired :: goerror where
  "sa_ErrExpired = Plain ''service access capability expired''"
definition sa_ErrNoExpiry :: goerror where
  "sa_ErrNoExpiry = Plain ''service access capability has no expiry (rejected fail-closed)''"
definition sa_ErrUnknownSigner :: goerror where
  "sa_ErrUnknownSigner = Plain ''service access capability signer not trusted''"
definition sa_ErrEmptyKeyring :: goerror where
  "sa_ErrEmptyKeyring = Plain ''service access capability keyring is empty (deny-all)''"
definition sa_ErrBadKey :: goerror where
  "sa_ErrBadKey = Plain ''service access capability subject key invalid''"
definition sa_ErrBadResource :: goerror where
  "sa_ErrBadResource = Plain (''service access capability resource must be '' @ [CHR 0x22] @ ''<org>/<svc>'' @ [CHR 0x22])"
definition sa_ErrProofOfPossession :: goerror where
  "sa_ErrProofOfPossession = Plain ''service access capability proof-of-possession invalid''"

definition sa_fields :: "AccessCapability \<Rightarrow> (string \<times> jdoc) list" where
  "sa_fields c =
     (jfield ''subject_public_key'' (JBytes (sa_SubjectPublicKey c)) @
      jomit (sa_SubjectSPIFFE c = []) ''subject_spiffe'' (JStr (sa_SubjectSPIFFE c)) @
      jfield ''resource'' (JStr (sa_Resource c)) @
      jfield ''scope'' (JStr (sa_Scope c)) @
      jfield ''issued_at_ms'' (JInt (sint (sa_IssuedAtMS c))) @
      jfield ''expires_at_ms'' (JInt (sint (sa_ExpiresAtMS c))) @
      jfield ''issuer'' (JStr (sa_Issuer c)) @
      jfield ''nonce'' (JStr (sa_Nonce c)) @
      jomit (sa_Signature c = []) ''signature'' (JBytes (Some (sa_Signature c))))"

definition sa_canonicalBytes :: "AccessCapability \<Rightarrow> bytes" where
  "sa_canonicalBytes c = marshal (JObj (sa_fields (c\<lparr>sa_Signature := []\<rparr>)))"

definition ParseResource :: "string \<Rightarrow> goerror + (string \<times> string)" where
  "ParseResource resource =
     (if resource = [] then Inl sa_ErrBadResource
      else case Cut CHR ''/'' resource of
             None \<Rightarrow> Inl sa_ErrBadResource
           | Some (org, svc) \<Rightarrow>
               if org = [] \<or> svc = [] \<or> Contains svc ''/'' then Inl sa_ErrBadResource
               else Inr (org, svc))"

definition sa_Sign :: "platform \<Rightarrow> string \<Rightarrow> bytes \<Rightarrow> AccessCapability \<Rightarrow> goerror + AccessCapability" where
  "sa_Sign p issuerKeyID priv c0 =
     (if length priv \<noteq> PrivateKeySize then Inl sa_ErrBadKey
      else if length (elems (sa_SubjectPublicKey c0)) \<noteq> PublicKeySize then Inl sa_ErrBadKey
      else case ParseResource (sa_Resource c0) of
             Inl err \<Rightarrow> Inl err
           | Inr _ \<Rightarrow>
               if sint (sa_ExpiresAtMS c0) \<le> 0 then Inl sa_ErrNoExpiry
               else if sint (sa_ExpiresAtMS c0) \<le> sint (sa_IssuedAtMS c0) then Inl sa_ErrExpired
               else let c = c0\<lparr>sa_Issuer := issuerKeyID, sa_Signature := []\<rparr>; b = sa_canonicalBytes c
                    in Inr (c\<lparr>sa_Signature := ed_sign p priv b\<rparr>))"

definition sa_Verify :: "platform \<Rightarrow> AccessCapability \<Rightarrow> issuers \<Rightarrow> int64 \<Rightarrow> goerror option" where
  "sa_Verify p c trusted nowMS =
     (if trusted = [] then Some sa_ErrEmptyKeyring
      else case map_of trusted (sa_Issuer c) of
             None \<Rightarrow> Some (errorf sa_ErrUnknownSigner [])
           | Some pub \<Rightarrow>
               if length pub \<noteq> PublicKeySize then Some (errorf sa_ErrUnknownSigner [])
               else if length (elems (sa_SubjectPublicKey c)) \<noteq> PublicKeySize then Some sa_ErrBadKey
               else (case ParseResource (sa_Resource c) of
                       Inl err \<Rightarrow> Some err
                     | Inr _ \<Rightarrow>
                         if sint (sa_ExpiresAtMS c) \<le> 0 then Some sa_ErrNoExpiry
                         else if sint (sa_ExpiresAtMS c) \<le> sint nowMS then Some sa_ErrExpired
                         else if length (sa_Signature c) \<noteq> SignatureSize then Some sa_ErrBadSignature
                         else if \<not> ed_verify p pub (sa_canonicalBytes c) (sa_Signature c) then
                           Some sa_ErrBadSignature
                         else None))"

definition BindsPublicKey :: "AccessCapability \<Rightarrow> bytes \<Rightarrow> bool" where
  "BindsPublicKey c pub =
     (if length pub \<noteq> PublicKeySize \<or> length (elems (sa_SubjectPublicKey c)) \<noteq> PublicKeySize then False
      else elems (sa_SubjectPublicKey c) = pub)"

definition AuthorizesResource :: "AccessCapability \<Rightarrow> string \<Rightarrow> bool" where
  "AuthorizesResource c servedNamespace =
     (if sa_Resource c = [] \<or> servedNamespace = [] then False else sa_Resource c = servedNamespace)"

text \<open>The length prefix is the length as a \<open>uint32\<close>: its low 32 bits.\<close>

definition writeLenPrefixed :: "bytes \<Rightarrow> bytes" where
  "writeLenPrefixed b = be_bytes 4 (length b) @ b"

definition sa_challenge_input :: "string \<Rightarrow> bytes \<Rightarrow> string \<Rightarrow> bytes" where
  "sa_challenge_input resource subjectPublicKey requestNonce =
     writeLenPrefixed ''fed-svc-pop/v1'' @ writeLenPrefixed resource @ writeLenPrefixed subjectPublicKey @
     writeLenPrefixed requestNonce"

definition sa_Challenge :: "platform \<Rightarrow> string \<Rightarrow> bytes \<Rightarrow> string \<Rightarrow> bytes" where
  "sa_Challenge p resource subjectPublicKey requestNonce =
     sha256 p (sa_challenge_input resource subjectPublicKey requestNonce)"

definition sa_VerifyProofOfPossession :: "platform \<Rightarrow> bytes \<Rightarrow> bytes \<Rightarrow> bytes \<Rightarrow> goerror option" where
  "sa_VerifyProofOfPossession p subjectPublicKey challenge popSignature =
     (if length subjectPublicKey \<noteq> PublicKeySize then Some sa_ErrBadKey
      else if length challenge = 0 \<or> length popSignature \<noteq> SignatureSize then Some sa_ErrProofOfPossession
      else if \<not> ed_verify p subjectPublicKey challenge popSignature then Some sa_ErrProofOfPossession
      else None)"

definition sa_EncodePublicKey :: "bytes \<Rightarrow> string" where
  "sa_EncodePublicKey pub = RawURLEncode pub"

definition sa_DecodePublicKey :: "string \<Rightarrow> goerror + bytes" where
  "sa_DecodePublicKey s =
     (case RawURLDecode s of
        None \<Rightarrow> Inl sa_ErrBadKey
      | Some b \<Rightarrow> if length b \<noteq> PublicKeySize then Inl sa_ErrBadKey else Inr b)"

section \<open>Tombstones\<close>

record RevocationTombstone =
  tb_Resource :: string
  tb_Nonce :: string
  tb_NotAfterMS :: int64
  tb_Issuer :: string
  tb_Signature :: bytes

definition ErrTombstoneBadSignature :: goerror where
  "ErrTombstoneBadSignature = Plain ''revocation tombstone signature invalid''"
definition ErrTombstoneMalformed :: goerror where
  "ErrTombstoneMalformed = Plain ''revocation tombstone malformed''"

definition tombstone_fields :: "RevocationTombstone \<Rightarrow> (string \<times> jdoc) list" where
  "tombstone_fields t =
     (jfield ''resource'' (JStr (tb_Resource t)) @
      jfield ''nonce'' (JStr (tb_Nonce t)) @
      jfield ''not_after_ms'' (JInt (sint (tb_NotAfterMS t))) @
      jfield ''issuer'' (JStr (tb_Issuer t)) @
      jomit (tb_Signature t = []) ''signature'' (JBytes (Some (tb_Signature t))))"

definition canonicalTombstoneBytes :: "RevocationTombstone \<Rightarrow> bytes" where
  "canonicalTombstoneBytes t = marshal (JObj (tombstone_fields (t\<lparr>tb_Signature := []\<rparr>)))"

definition SignTombstone :: "platform \<Rightarrow> string \<Rightarrow> bytes \<Rightarrow> RevocationTombstone \<Rightarrow> goerror + RevocationTombstone" where
  "SignTombstone p issuerKeyID priv t0 =
     (if length priv \<noteq> PrivateKeySize then Inl sa_ErrBadKey
      else case ParseResource (tb_Resource t0) of
             Inl err \<Rightarrow> Inl err
           | Inr _ \<Rightarrow>
               if tb_Nonce t0 = [] \<or> sint (tb_NotAfterMS t0) \<le> 0 then Inl ErrTombstoneMalformed
               else let t = t0\<lparr>tb_Issuer := issuerKeyID, tb_Signature := []\<rparr>; b = canonicalTombstoneBytes t
                    in Inr (t\<lparr>tb_Signature := ed_sign p priv b\<rparr>))"

definition tb_Verify :: "platform \<Rightarrow> RevocationTombstone \<Rightarrow> issuers \<Rightarrow> goerror option" where
  "tb_Verify p t trusted =
     (if trusted = [] then Some sa_ErrEmptyKeyring
      else case map_of trusted (tb_Issuer t) of
             None \<Rightarrow> Some (errorf sa_ErrUnknownSigner [])
           | Some pub \<Rightarrow>
               if length pub \<noteq> PublicKeySize then Some (errorf sa_ErrUnknownSigner [])
               else (case ParseResource (tb_Resource t) of
                       Inl err \<Rightarrow> Some err
                     | Inr _ \<Rightarrow>
                         if tb_Nonce t = [] \<or> sint (tb_NotAfterMS t) \<le> 0 then Some ErrTombstoneMalformed
                         else if length (tb_Signature t) \<noteq> SignatureSize then Some ErrTombstoneBadSignature
                         else if \<not> ed_verify p pub (canonicalTombstoneBytes t) (tb_Signature t) then
                           Some ErrTombstoneBadSignature
                         else None))"

section \<open>Facts\<close>

text \<open>A resource of the form \<open>org/svc\<close>.\<close>

definition resource_ok :: "string \<Rightarrow> bool" where
  "resource_ok r \<longleftrightarrow> (\<exists>org svc. r = org @ CHR ''/'' # svc \<and> org \<noteq> [] \<and> svc \<noteq> [] \<and>
     CHR ''/'' \<notin> set org \<and> CHR ''/'' \<notin> set svc)"

lemma ParseResource_Inr:
  "ParseResource r = Inr (org, svc) \<longleftrightarrow> r = org @ CHR ''/'' # svc \<and> org \<noteq> [] \<and> svc \<noteq> [] \<and>
     CHR ''/'' \<notin> set org \<and> CHR ''/'' \<notin> set svc"
proof -
  have "Contains svc ''/'' \<longleftrightarrow> CHR ''/'' \<in> set svc"
    by (auto simp: Contains_def sublist_def in_set_conv_decomp)
  moreover have "ParseResource r = Inr (org, svc) \<longleftrightarrow>
      Cut CHR ''/'' r = Some (org, svc) \<and> org \<noteq> [] \<and> svc \<noteq> [] \<and> \<not> Contains svc ''/''"
    by (cases "r = []") (auto simp: ParseResource_def Cut_def split: option.splits if_splits)
  ultimately show ?thesis unfolding Cut_Some_iff by auto
qed

lemma ParseResource_ok: "(\<exists>v. ParseResource r = Inr v) \<longleftrightarrow> resource_ok r"
  by (auto simp: resource_ok_def ParseResource_Inr)

lemma ParseResource_cases: "(case ParseResource r of Inl err \<Rightarrow> f err | Inr _ \<Rightarrow> x) = y \<longleftrightarrow>
    (if resource_ok r then x = y else \<exists>err. ParseResource r = Inl err \<and> f err = y)"
  using ParseResource_ok [of r] by (cases "ParseResource r") auto

definition sa_mintable :: "AccessCapability \<Rightarrow> bool" where
  "sa_mintable c \<longleftrightarrow> length (elems (sa_SubjectPublicKey c)) = PublicKeySize \<and> resource_ok (sa_Resource c) \<and>
     0 < sint (sa_ExpiresAtMS c) \<and> sint (sa_IssuedAtMS c) < sint (sa_ExpiresAtMS c)"

definition sa_ready :: "int64 \<Rightarrow> AccessCapability \<Rightarrow> bool" where
  "sa_ready now c \<longleftrightarrow> length (elems (sa_SubjectPublicKey c)) = PublicKeySize \<and> resource_ok (sa_Resource c) \<and>
     0 < sint (sa_ExpiresAtMS c) \<and> sint now < sint (sa_ExpiresAtMS c)"

definition tb_wf :: "RevocationTombstone \<Rightarrow> bool" where
  "tb_wf t \<longleftrightarrow> resource_ok (tb_Resource t) \<and> tb_Nonce t \<noteq> [] \<and> 0 < sint (tb_NotAfterMS t)"

lemma sa_Verify_None:
  "sa_Verify p c ring now = None \<longleftrightarrow>
     (\<exists>pub. map_of ring (sa_Issuer c) = Some pub \<and> length pub = PublicKeySize \<and> sa_ready now c \<and>
        length (sa_Signature c) = SignatureSize \<and> ed_verify p pub (sa_canonicalBytes c) (sa_Signature c))"
  by (cases "map_of ring (sa_Issuer c)")
     (auto simp: sa_Verify_def sa_ready_def ParseResource_cases split: if_splits)

lemma tb_Verify_None:
  "tb_Verify p t ring = None \<longleftrightarrow>
     (\<exists>pub. map_of ring (tb_Issuer t) = Some pub \<and> length pub = PublicKeySize \<and> tb_wf t \<and>
        length (tb_Signature t) = SignatureSize \<and> ed_verify p pub (canonicalTombstoneBytes t) (tb_Signature t))"
  by (cases "map_of ring (tb_Issuer t)")
     (auto simp: tb_Verify_def tb_wf_def ParseResource_cases split: if_splits)

interpretation access: signed_document
  sa_Sign "\<lambda>p ring now c. sa_Verify p c ring now = None" map_of sa_canonicalBytes sa_Issuer sa_Signature
  "\<lambda>k s c. c\<lparr>sa_Issuer := k, sa_Signature := s\<rparr>" sa_mintable sa_ready
proof unfold_locales
  show "sa_Sign p kid sk d = Inr d' \<longleftrightarrow> length sk = PrivateKeySize \<and> sa_mintable d \<and>
      d' = d\<lparr>sa_Issuer := kid,
             sa_Signature := ed_sign p sk (sa_canonicalBytes (d\<lparr>sa_Issuer := kid, sa_Signature := []\<rparr>))\<rparr>"
    for p kid sk d d'
    by (auto simp: sa_Sign_def sa_mintable_def ParseResource_cases Let_def)
  show "sa_Verify p d ring now = None \<longleftrightarrow> (\<exists>pub. map_of ring (sa_Issuer d) = Some pub \<and>
      length pub = PublicKeySize \<and> sa_ready now d \<and> length (sa_Signature d) = SignatureSize \<and>
      ed_verify p pub (sa_canonicalBytes d) (sa_Signature d))" for p d ring now
    by (rule sa_Verify_None)
qed (simp_all add: sa_ready_def sa_canonicalBytes_def)

interpretation tombstone: signed_document
  SignTombstone "\<lambda>p ring now t. tb_Verify p t ring = None" map_of canonicalTombstoneBytes tb_Issuer tb_Signature
  "\<lambda>k s t. t\<lparr>tb_Issuer := k, tb_Signature := s\<rparr>" tb_wf "\<lambda>now. tb_wf"
proof unfold_locales
  show "SignTombstone p kid sk d = Inr d' \<longleftrightarrow> length sk = PrivateKeySize \<and> tb_wf d \<and>
      d' = d\<lparr>tb_Issuer := kid,
             tb_Signature := ed_sign p sk (canonicalTombstoneBytes (d\<lparr>tb_Issuer := kid, tb_Signature := []\<rparr>))\<rparr>"
    for p kid sk d d'
    by (auto simp: SignTombstone_def tb_wf_def ParseResource_cases Let_def)
  show "tb_Verify p d ring = None \<longleftrightarrow> (\<exists>pub. map_of ring (tb_Issuer d) = Some pub \<and>
      length pub = PublicKeySize \<and> tb_wf d \<and> length (tb_Signature d) = SignatureSize \<and>
      ed_verify p pub (canonicalTombstoneBytes d) (tb_Signature d))" for p d ring
    by (rule tb_Verify_None)
qed (simp_all add: tb_wf_def canonicalTombstoneBytes_def)

text \<open>Canonical bytes bind every field, and those of the two documents are disjoint.\<close>

definition sa_utf8 :: "AccessCapability \<Rightarrow> bool" where
  "sa_utf8 c \<longleftrightarrow> list_all valid_utf8 [sa_SubjectSPIFFE c, sa_Resource c, sa_Scope c, sa_Issuer c, sa_Nonce c]"

lemma sa_fields_valid: "sa_utf8 c \<Longrightarrow> jdoc_valid (JObj (sa_fields c))"
  unfolding jdoc_valid.simps sa_fields_def jdoc_valid_fields by (simp add: sa_utf8_def utf8_literal)

lemma sa_fields_inject:
  assumes "sa_Signature a = []" "sa_Signature b = []"
  shows "JObj (sa_fields a) = JObj (sa_fields b) \<longleftrightarrow> a = b"
  using assms by (cases a; cases b) (auto simp: sa_fields_def jfield_def jomit_def split: if_splits)

lemma sa_canonicalBytes_inject:
  assumes "sa_utf8 a" "sa_utf8 b"
  shows "sa_canonicalBytes a = sa_canonicalBytes b \<longleftrightarrow> a\<lparr>sa_Signature := []\<rparr> = b\<lparr>sa_Signature := []\<rparr>"
proof -
  have "jdoc_valid (JObj (sa_fields (c\<lparr>sa_Signature := []\<rparr>)))" if "sa_utf8 c" for c
    by (rule sa_fields_valid) (use that in \<open>simp add: sa_utf8_def\<close>)
  from marshal_inj [OF this this, OF assms] show ?thesis
    unfolding sa_canonicalBytes_def using sa_fields_inject by simp
qed

lemma access_not_tombstone: "sa_canonicalBytes c \<noteq> canonicalTombstoneBytes t"
proof -
  have "take 3 (sa_canonicalBytes c) = [CHR ''{'', CHR 0x22, CHR ''s'']"
    by (simp add: sa_canonicalBytes_def sa_fields_def jfield_def jseq_def json_string_def esc_code ascii_code esc_ascii_code)
  moreover have "take 3 (canonicalTombstoneBytes t) = [CHR ''{'', CHR 0x22, CHR ''r'']"
    by (simp add: canonicalTombstoneBytes_def tombstone_fields_def jfield_def jseq_def json_string_def esc_code ascii_code
        esc_ascii_code)
  ultimately show ?thesis by auto
qed

text \<open>The challenge frames its three fields as long as each is shorter than \<open>2\<^sup>3\<^sup>2\<close> bytes.\<close>

lemma writeLenPrefixed_framed:
  assumes "length a < 2 ^ 32" "length b < 2 ^ 32"
  shows "writeLenPrefixed a @ r = writeLenPrefixed b @ s \<longleftrightarrow> a = b \<and> r = s"
proof
  assume "writeLenPrefixed a @ r = writeLenPrefixed b @ s"
  then have "be_bytes 4 (length a) = be_bytes 4 (length b) \<and> a @ r = b @ s"
    by (simp add: writeLenPrefixed_def)
  moreover have "be_bytes 4 (length a) = be_bytes 4 (length b) \<longleftrightarrow> length a = length b"
    by (rule be_bytes_inject_less) (use assms in simp_all)
  ultimately show "a = b \<and> r = s" by (metis append_eq_append_conv)
qed simp

text \<open>
  A longer field loses the high part of its length, and then two requests share a challenge: what
  one calls the subject key starts inside what the other calls the resource.
\<close>

lemma Challenge_truncates:
  assumes "length y = 2 ^ 32 - 4" "length k < 2 ^ 32"
  shows "sa_Challenge p [] (y @ writeLenPrefixed k) n = sa_Challenge p (be_bytes 4 (length k) @ y) k n"
proof -
  have "be_bytes 4 (length (y @ writeLenPrefixed k)) = be_bytes 4 (length k)"
    unfolding be_bytes_inject using assms by (simp add: writeLenPrefixed_def)
  moreover have "be_bytes 4 (length (be_bytes 4 (length k) @ y)) = be_bytes 4 0"
    unfolding be_bytes_inject using assms by simp
  ultimately have "writeLenPrefixed [] @ writeLenPrefixed (y @ writeLenPrefixed k) =
      writeLenPrefixed (be_bytes 4 (length k) @ y) @ writeLenPrefixed k"
    by (simp add: writeLenPrefixed_def)
  then show ?thesis unfolding sa_Challenge_def sa_challenge_input_def by (metis append.assoc)
qed

end
