(* ===== verification/ServiceAccessProps.thy ===== *)
theory ServiceAccessProps
  imports ServiceAccessCap
begin

text \<open>
  The properties of the package \<open>serviceaccesscap\<close>: what a terminus that runs the three checks of a
  capability admits, the lifetime of a minted capability, and the framing of the issuance
  challenge.
\<close>

section \<open>Sample values\<close>

definition access_pub :: bytes where "access_pub = replicate 32 CHR ''i''"
definition access_priv :: bytes where "access_priv = replicate 64 CHR ''i''"

definition sample_access :: AccessCapability where
  "sample_access = \<lparr>sa_SubjectPublicKey = Some (replicate 32 CHR ''c''), sa_SubjectSPIFFE = [],
     sa_Resource = ''acme/db'', sa_Scope = ''reach'', sa_IssuedAtMS = 1000, sa_ExpiresAtMS = 2000,
     sa_Issuer = ''iss'', sa_Nonce = ''n1'', sa_Signature = []\<rparr>"

definition stamped_access :: AccessCapability where
  "stamped_access = sample_access\<lparr>sa_Signature := zero_pad 64 (access_pub @ sa_canonicalBytes sample_access)\<rparr>"

lemma access_sizes [simp]:
  "length access_priv = 64" "length access_pub = 32" "ed_public demo_platform access_priv = access_pub"
  by (simp_all add: access_priv_def access_pub_def demo_platform_def zero_pad_def)

lemma sample_resource: "resource_ok ''acme/db''"
  unfolding resource_ok_def by (rule exI [of _ "''acme''"], rule exI [of _ "''db''"]) simp

section \<open>Properties\<close>



text \<open>
  C21. The lifetime of a minted capability. Minting succeeds exactly for a 32-byte subject key, an
  \<open>org/svc\<close> resource and an expiry after the issue time and after zero; what was minted verifies
  under a ring with the issuer's key at every time before its expiry and at none after it, and an
  empty ring denies it whatever its signature.
\<close>

theorem access_lifetime:
  assumes "ed25519_correct p" "length priv = PrivateKeySize" "map_of ring keyID = Some (ed_public p priv)"
  shows "((\<exists>c'. sa_Sign p keyID priv c = Inr c') \<longleftrightarrow> sa_mintable c) \<and>
    (\<forall>c'. sa_Sign p keyID priv c = Inr c' \<longrightarrow>
       (sa_Verify p c' ring now = None \<longleftrightarrow> sint now < sint (sa_ExpiresAtMS c)) \<and>
       sa_Verify p c' [] now = Some sa_ErrEmptyKeyring)"
proof (intro conjI allI impI)
  show "(\<exists>c'. sa_Sign p keyID priv c = Inr c') \<longleftrightarrow> sa_mintable c"
    using assms(2) by (simp add: access.sign_iff)
  fix c' assume s: "sa_Sign p keyID priv c = Inr c'"
  then have m: "sa_mintable c" and e: "sa_ExpiresAtMS c' = sa_ExpiresAtMS c" by (auto simp: access.sign_iff)
  have "sa_ready now c" if "sint now < sint (sa_ExpiresAtMS c)"
    using m that by (simp add: sa_mintable_def sa_ready_def)
  moreover have "sint now < sint (sa_ExpiresAtMS c)" if "sa_ready now c'"
    using that e by (simp add: sa_ready_def)
  ultimately show "sa_Verify p c' ring now = None \<longleftrightarrow> sint now < sint (sa_ExpiresAtMS c)"
    using access.signed_accepted [OF s assms(1,3)] access.not_ready_rejected [of now c' p ring] by blast
  show "sa_Verify p c' [] now = Some sa_ErrEmptyKeyring" by (simp add: sa_Verify_def)
qed

theorem access_lifetime_witness:
  "\<exists>c'. sa_Sign demo_platform ''iss'' access_priv sample_access = Inr c' \<and>
     sa_Verify demo_platform c' [(''iss'', access_pub)] 1999 = None \<and>
     sa_Verify demo_platform c' [(''iss'', access_pub)] 2000 \<noteq> None"
proof -
  have m: "map_of [(''iss'', access_pub)] ''iss'' = Some (ed_public demo_platform access_priv)" by simp
  have "sa_mintable sample_access"
    by (simp add: sa_mintable_def sample_access_def sample_resource)
  moreover have "sint (sa_ExpiresAtMS sample_access) = 2000" by (simp add: sample_access_def)
  ultimately show ?thesis
    using access_lifetime [OF demo_ed25519_correct _ m, of sample_access 1999]
      access_lifetime [OF demo_ed25519_correct _ m, of sample_access 2000] by auto
qed

text \<open>
  The issuance challenge is unambiguous on fields shorter than \<open>2\<^sup>3\<^sup>2\<close> bytes: equal hash inputs
  come from equal resource, key and nonce.
\<close>

theorem access_challenge_framed:
  assumes "length resource < 2 ^ 32" "length resource' < 2 ^ 32" "length key < 2 ^ 32" "length key' < 2 ^ 32"
    "length nonce < 2 ^ 32" "length nonce' < 2 ^ 32"
  shows "sa_challenge_input resource key nonce = sa_challenge_input resource' key' nonce' \<longleftrightarrow>
    resource = resource' \<and> key = key' \<and> nonce = nonce'"
  using writeLenPrefixed_framed [OF assms(1,2)] writeLenPrefixed_framed [OF assms(3,4)]
    writeLenPrefixed_framed [OF assms(5,6), of "[]" "[]"]
  by (simp add: sa_challenge_input_def)

theorem access_challenge_framed_witness:
  "sa_challenge_input ''acme/db'' ''key'' ''n'' \<noteq> sa_challenge_input ''acme/d'' ''bkey'' ''n''"
  using access_challenge_framed [of "''acme/db''" "''acme/d''" "''key''" "''bkey''" "''n''" "''n''"] by simp

end
