(* ===== verification/GoURL.thy ===== *)
theory GoURL
  imports GoNetip
begin

text \<open>
  The parts of Go's \<open>net/url\<close> the program relies on: percent escaping with its modes, the path of a
  URL and its escaped form, and \<open>URL.String\<close>. A \<open>URL\<close> is the struct, with \<open>url_User\<close> the text of its
  user information. The main facts are that escaping is undone by unescaping, and that the escaped
  path of a URL always decodes to its path and is the text the path was set from.
\<close>

section \<open>Definitions\<close>

datatype encoding = encodePath | encodePathSegment | encodeHost | encodeFragment

definition alphanum :: "char \<Rightarrow> bool" where
  "alphanum c \<longleftrightarrow>
     list_ex (\<lambda>(lo, hi). lo \<le> c \<and> c \<le> hi) [(CHR ''a'', CHR ''z''), (CHR ''A'', CHR ''Z''), (CHR ''0'', CHR ''9'')]"

definition shouldEscape :: "encoding \<Rightarrow> char \<Rightarrow> bool" where
  "shouldEscape mode c =
     (if alphanum c then False
      else if mode = encodeHost \<and> c \<in> set [CHR ''!'', CHR ''$'', CHR ''&'', CHR 0x27, CHR ''('', CHR '')'', CHR ''*'',
                CHR ''+'', CHR '','', CHR '';'', CHR ''='', CHR '':'', CHR ''['', CHR '']'', CHR ''<'', CHR ''>'', CHR 0x22] then False
      else if c \<in> set [CHR ''-'', CHR ''_'', CHR ''.'', CHR ''~''] then False
      else if c \<in> set [CHR ''$'', CHR ''&'', CHR ''+'', CHR '','', CHR ''/'', CHR '':'', CHR '';'', CHR ''='', CHR ''?'', CHR ''@''] \<and>
              mode \<noteq> encodeHost then
        (case mode of
           encodePath \<Rightarrow> c = CHR ''?''
         | encodePathSegment \<Rightarrow> c \<in> set [CHR ''/'', CHR '';'', CHR '','', CHR ''?'']
         | _ \<Rightarrow> False)
      else \<not> (mode = encodeFragment \<and> c \<in> set [CHR ''!'', CHR ''('', CHR '')'', CHR ''*'']))"

definition upperhex :: "nat \<Rightarrow> char" where
  "upperhex n = ''0123456789ABCDEF'' ! n"

definition escape_char :: "encoding \<Rightarrow> char \<Rightarrow> string" where
  "escape_char mode c =
     (if shouldEscape mode c then [CHR ''%'', upperhex (of_char c div 16), upperhex (of_char c mod 16)] else [c])"

definition escape :: "encoding \<Rightarrow> string \<Rightarrow> string" where
  "escape mode s = concat (map (escape_char mode) s)"

text \<open>\<open>unescape\<close> in the modes of a path, a path segment and a fragment.\<close>

fun unescape :: "string \<Rightarrow> string option" where
  "unescape [] = Some []"
| "unescape (c # cs) =
     (if c = CHR ''%'' then
        (case cs of
           a # b # rest \<Rightarrow>
             (case (hex_nibble a, hex_nibble b) of
                (Some h, Some l) \<Rightarrow> map_option ((#) (char_of (16 * h + l))) (unescape rest)
              | _ \<Rightarrow> None)
         | _ \<Rightarrow> None)
      else map_option ((#) c) (unescape cs))"

definition PathEscape :: "string \<Rightarrow> string" where "PathEscape = escape encodePathSegment"
definition PathUnescape :: "string \<Rightarrow> string option" where "PathUnescape = unescape"

definition validEncoded :: "encoding \<Rightarrow> string \<Rightarrow> bool" where
  "validEncoded mode s \<longleftrightarrow> list_all (\<lambda>c.
     c \<in> set [CHR ''!'', CHR ''$'', CHR ''&'', CHR 0x27, CHR ''('', CHR '')'', CHR ''*'', CHR ''+'', CHR '','', CHR '';'',
        CHR ''='', CHR '':'', CHR ''@'', CHR ''['', CHR '']'', CHR ''%''] \<or> \<not> shouldEscape mode c) s"

record URL =
  url_Scheme :: string
  url_Opaque :: string
  url_User :: "string option"
  url_Host :: string
  url_Path :: string
  url_RawPath :: string
  url_OmitHost :: bool
  url_ForceQuery :: bool
  url_RawQuery :: string
  url_Fragment :: string
  url_RawFragment :: string

definition zero_URL :: URL where
  "zero_URL = \<lparr>url_Scheme = [], url_Opaque = [], url_User = None, url_Host = [], url_Path = [], url_RawPath = [],
     url_OmitHost = False, url_ForceQuery = False, url_RawQuery = [], url_Fragment = [], url_RawFragment = []\<rparr>"

definition EscapedPath :: "URL \<Rightarrow> string" where
  "EscapedPath u =
     (if url_RawPath u \<noteq> [] \<and> validEncoded encodePath (url_RawPath u) \<and>
         unescape (url_RawPath u) = Some (url_Path u) then url_RawPath u
      else if url_Path u = ''*'' then ''*''
      else escape encodePath (url_Path u))"

definition EscapedFragment :: "URL \<Rightarrow> string" where
  "EscapedFragment u =
     (if url_RawFragment u \<noteq> [] \<and> validEncoded encodeFragment (url_RawFragment u) \<and>
         unescape (url_RawFragment u) = Some (url_Fragment u) then url_RawFragment u
      else escape encodeFragment (url_Fragment u))"

text \<open>\<open>URL.setPath\<close>, by which \<open>url.Parse\<close> stores the path it found.\<close>

definition setPath :: "string \<Rightarrow> URL \<Rightarrow> URL option" where
  "setPath s u =
     (case unescape s of
        None \<Rightarrow> None
      | Some path \<Rightarrow>
          Some (u\<lparr>url_Path := path, url_RawPath := (if s = escape encodePath path then [] else s)\<rparr>))"

definition url_String :: "URL \<Rightarrow> string" where
  "url_String u =
     (let scheme = (if url_Scheme u \<noteq> [] then url_Scheme u @ '':'' else []);
          has_user = (url_User u \<noteq> None);
          host = (if (url_Scheme u \<noteq> [] \<or> url_Host u \<noteq> [] \<or> has_user) \<and>
                     \<not> (url_OmitHost u \<and> url_Host u = [] \<and> \<not> has_user) then
                    (if url_Host u \<noteq> [] \<or> url_Path u \<noteq> [] \<or> has_user then ''//'' else []) @
                    (case url_User u of None \<Rightarrow> [] | Some ui \<Rightarrow> ui @ ''@'') @ escape encodeHost (url_Host u)
                  else []);
          path = EscapedPath u;
          slash = (if path \<noteq> [] \<and> hd path \<noteq> CHR ''/'' \<and> url_Host u \<noteq> [] then ''/'' else []);
          dot = (if scheme @ host @ slash = [] \<and> CHR '':'' \<in> set (takeWhile (\<lambda>c. c \<noteq> CHR ''/'') path) then ''./'' else []);
          body = (if url_Opaque u \<noteq> [] then url_Opaque u else host @ slash @ dot @ path);
          query = (if url_ForceQuery u \<or> url_RawQuery u \<noteq> [] then ''?'' @ url_RawQuery u else []);
          fragment = (if url_Fragment u \<noteq> [] then ''#'' @ EscapedFragment u else [])
      in scheme @ body @ query @ fragment)"

section \<open>Facts\<close>

lemma escape_simps [simp]:
  "escape m [] = []" "escape m (c # cs) = escape_char m c @ escape m cs" "escape m (s @ t) = escape m s @ escape m t"
  by (simp_all add: escape_def)

lemma upperhex_less16:
  "n < 16 \<Longrightarrow> hex_nibble (upperhex n) = Some n" "n < 16 \<Longrightarrow> alphanum (upperhex n)"
proof -
  have "list_all (\<lambda>n. hex_nibble (upperhex n) = Some n \<and> alphanum (upperhex n)) [0..<16]" by code_simp
  then show "n < 16 \<Longrightarrow> hex_nibble (upperhex n) = Some n" "n < 16 \<Longrightarrow> alphanum (upperhex n)"
    unfolding list_all_iff by auto
qed

lemma unescape_plain: "CHR ''%'' \<notin> set s \<Longrightarrow> unescape (s @ t) = map_option ((@) s) (unescape t)"
  by (induction s) (auto simp: option.map_comp comp_def map_option_case split: option.splits)

lemma percent_escaped: "shouldEscape m (CHR ''%'')"
  by (simp add: shouldEscape_def alphanum_def less_eq_char_def)

lemma of_char_parts [simp]: "(of_char c :: nat) div 16 < 16" "char_of (16 * (of_char c div 16) + of_char c mod 16 :: nat) = c"
proof -
  show "(of_char c :: nat) div 16 < 16" using of_char_less [of c] by linarith
  have "16 * (of_char c div 16) + of_char c mod 16 = (of_char c :: nat)" by presburger
  then show "char_of (16 * (of_char c div 16) + of_char c mod 16 :: nat) = c" by simp
qed

lemma unescape_escape_append: "unescape (escape m s @ t) = map_option ((@) s) (unescape t)"
proof (induction s)
  case Nil
  then show ?case by (cases "unescape t") simp_all
next
  case (Cons c s)
  have "c \<noteq> CHR ''%''" if "\<not> shouldEscape m c" using that percent_escaped by blast
  with Cons show ?case
    by (simp add: escape_char_def upperhex_less16 option.map_comp comp_def)
qed

lemma unescape_escape [simp]: "unescape (escape m s) = Some s"
  using unescape_escape_append [of m s "[]"] by simp

lemma PathUnescape_PathEscape [simp]: "PathUnescape (PathEscape s) = Some s"
  by (simp add: PathUnescape_def PathEscape_def)

text \<open>The escaped path decodes to the path, whatever the raw path is.\<close>

lemma unescape_EscapedPath: "unescape (EscapedPath u) = Some (url_Path u)"
  by (simp add: EscapedPath_def)

text \<open>A validly encoded path is given back as it was set.\<close>

lemma EscapedPath_setPath:
  assumes "setPath (CHR ''/'' # s) u = Some u'" "validEncoded encodePath (CHR ''/'' # s)"
  shows "EscapedPath u' = CHR ''/'' # s"
proof -
  obtain path where p: "unescape (CHR ''/'' # s) = Some (CHR ''/'' # path)"
    and u': "u' = u\<lparr>url_Path := CHR ''/'' # path,
      url_RawPath := (if CHR ''/'' # s = escape encodePath (CHR ''/'' # path) then [] else CHR ''/'' # s)\<rparr>"
    using assms(1) by (auto simp: setPath_def split: option.splits)
  then show ?thesis using assms(2) by (simp add: EscapedPath_def)
qed

end
