(* ===== verification/Identity.thy ===== *)
theory Identity
  imports GoURL GoPlatform
begin

text \<open>
  Certificate identities (\<open>src/identity/identity.go\<close>): the SPIFFE URIs of runtimes, agents and
  gateways, the parsers that read an identity from a URI, and the functions that find the identity
  of a peer in its certificate or in the context of a call. A certificate is what the code reads of
  an \<open>x509.Certificate\<close>; a context is the \<open>AuthInfo\<close> of its gRPC peer, \<open>None\<close> without a peer.
\<close>

section \<open>Definitions\<close>

definition trustDomain :: string where "trustDomain = ''builders-net''"

definition CodeAuthUnauthorized :: string where "CodeAuthUnauthorized = ''auth.unauthorized''"

record RuntimeIdentity =
  ri_TenantID :: string
  ri_ProjectID :: string
  ri_SessionID :: string
  ri_WorkloadID :: string

record AgentIdentity =
  ai_TenantID :: string
  ai_ProjectID :: string
  ai_NodeID :: string

record GatewayIdentity =
  gi_TenantID :: string
  gi_GatewayID :: string
  gi_ServicePrincipalID :: string
  gi_SPIFFEID :: string
  gi_Subject :: string
  gi_FingerprintSHA256 :: string

text \<open>What the code reads of a certificate: the parsed URIs, the text of the subject, the DER bytes.\<close>

record Certificate =
  crt_URIs :: "URL option list"
  crt_Subject :: string
  crt_Raw :: bytes

datatype AuthInfo = TLSInfo "Certificate list" | OtherAuthInfo

type_synonym peer_context = "AuthInfo option"

definition identityParts :: "URL option \<Rightarrow> string \<Rightarrow> nat \<Rightarrow> string list option" where
  "identityParts uri component wantParts =
     (case uri of
        None \<Rightarrow> None
      | Some u \<Rightarrow>
          if url_Scheme u \<noteq> ''spiffe'' \<or> url_Host u \<noteq> trustDomain then None
          else let parts = split_char CHR ''/'' (Trim ''/'' (url_Path u))
               in if length parts \<noteq> wantParts \<or> parts ! 0 \<noteq> component then None
                  else if list_ex (\<lambda>part. TrimSpace part \<noteq> part) parts then None
                  else Some parts)"

definition parseRuntimeURI :: "URL option \<Rightarrow> RuntimeIdentity option" where
  "parseRuntimeURI uri =
     (case identityParts uri ''runtime'' 9 of
        None \<Rightarrow> None
      | Some parts \<Rightarrow>
          if parts ! 1 \<noteq> ''tenant'' \<or> parts ! 3 \<noteq> ''project'' \<or> parts ! 5 \<noteq> ''session'' \<or> parts ! 7 \<noteq> ''workload''
          then None
          else let identity = \<lparr>ri_TenantID = parts ! 2, ri_ProjectID = parts ! 4, ri_SessionID = parts ! 6,
                     ri_WorkloadID = parts ! 8\<rparr>
               in if ri_TenantID identity = [] \<or> ri_ProjectID identity = [] \<or> ri_SessionID identity = [] \<or>
                     ri_WorkloadID identity = [] then None
                  else Some identity)"

definition parseAgentURI :: "URL option \<Rightarrow> AgentIdentity option" where
  "parseAgentURI uri =
     (case identityParts uri ''agent'' 7 of
        None \<Rightarrow> None
      | Some parts \<Rightarrow>
          if parts ! 1 \<noteq> ''tenant'' \<or> parts ! 3 \<noteq> ''project'' \<or> parts ! 5 \<noteq> ''node'' then None
          else let identity = \<lparr>ai_TenantID = parts ! 2, ai_ProjectID = parts ! 4, ai_NodeID = parts ! 6\<rparr>
               in if ai_TenantID identity = [] \<or> ai_ProjectID identity = [] \<or> ai_NodeID identity = [] then None
                  else Some identity)"

definition unescapeIdentityPart :: "string \<Rightarrow> string" where
  "unescapeIdentityPart part = (case PathUnescape part of None \<Rightarrow> part | Some out \<Rightarrow> out)"

definition gateway_identity :: "string \<Rightarrow> string \<Rightarrow> string \<Rightarrow> GatewayIdentity" where
  "gateway_identity tenant gateway spn =
     \<lparr>gi_TenantID = tenant, gi_GatewayID = gateway, gi_ServicePrincipalID = spn,
      gi_SPIFFEID = [], gi_Subject = [], gi_FingerprintSHA256 = []\<rparr>"

text \<open>The branch for the host of the relay, then the one for the trust domain.\<close>

definition relay_parts :: "URL \<Rightarrow> string list \<Rightarrow> bool" where
  "relay_parts u parts \<longleftrightarrow> url_Host u = ''relay.b2bautopilot.com'' \<and> length parts = 8 \<and> parts ! 0 = ''fabric'' \<and>
     parts ! 1 = ''b2bautopilot-fed'' \<and> parts ! 2 = ''org'' \<and> parts ! 4 = ''gateway'' \<and> parts ! 6 = ''role''"

definition parseGatewayURI :: "URL option \<Rightarrow> GatewayIdentity option" where
  "parseGatewayURI uri =
     (case uri of
        None \<Rightarrow> None
      | Some u \<Rightarrow>
          if url_Scheme u \<noteq> ''spiffe'' then None
          else let parts = split_char CHR ''/'' (Trim ''/'' (EscapedPath u))
          in if relay_parts u parts then
               Some (gateway_identity (unescapeIdentityPart (parts ! 3)) (unescapeIdentityPart (parts ! 5))
                 (''spn-'' @ unescapeIdentityPart (parts ! 3) @ ''-gateway''))
             else if url_Host u \<noteq> trustDomain then None
             else if length parts \<noteq> 5 \<and> length parts \<noteq> 7 then None
             else if parts ! 0 \<noteq> ''federation-gateway'' then None
             else if list_ex (\<lambda>part. TrimSpace part \<noteq> part) parts then None
             else if parts ! 1 \<noteq> ''tenant'' \<or> parts ! 3 \<noteq> ''gateway'' then None
             else if length parts = 7 \<and> parts ! 5 \<noteq> ''service-principal'' then None
             else let tenant = unescapeIdentityPart (parts ! 2); gateway = unescapeIdentityPart (parts ! 4);
                      spn = (if length parts = 7 then unescapeIdentityPart (parts ! 6) else [])
             in if tenant = [] \<or> gateway = [] then None
                else if TrimSpace tenant \<noteq> tenant \<or> TrimSpace gateway \<noteq> gateway \<or> TrimSpace spn \<noteq> spn then None
                else if length parts = 7 \<and> spn = [] then None
                else Some (gateway_identity tenant gateway spn))"

definition RuntimeURI :: "RuntimeIdentity \<Rightarrow> string" where
  "RuntimeURI identity = ''spiffe://'' @ trustDomain @ ''/runtime/tenant/'' @ ri_TenantID identity @
     ''/project/'' @ ri_ProjectID identity @ ''/session/'' @ ri_SessionID identity @
     ''/workload/'' @ ri_WorkloadID identity"

definition AgentURI :: "AgentIdentity \<Rightarrow> string" where
  "AgentURI identity = ''spiffe://'' @ trustDomain @ ''/agent/tenant/'' @ ai_TenantID identity @
     ''/project/'' @ ai_ProjectID identity @ ''/node/'' @ ai_NodeID identity"

definition GatewayURI :: "GatewayIdentity \<Rightarrow> string" where
  "GatewayURI identity =
     (if TrimSpace (gi_ServicePrincipalID identity) \<noteq> [] then
        ''spiffe://'' @ trustDomain @ ''/federation-gateway/tenant/'' @ PathEscape (gi_TenantID identity) @
        ''/gateway/'' @ PathEscape (gi_GatewayID identity) @
        ''/service-principal/'' @ PathEscape (gi_ServicePrincipalID identity)
      else
        ''spiffe://'' @ trustDomain @ ''/federation-gateway/tenant/'' @ PathEscape (gi_TenantID identity) @
        ''/gateway/'' @ PathEscape (gi_GatewayID identity))"

definition CertificateFingerprintSHA256 :: "platform \<Rightarrow> Certificate option \<Rightarrow> string" where
  "CertificateFingerprintSHA256 p cert = (case cert of None \<Rightarrow> [] | Some c \<Rightarrow> hexEncode (sha256 p (crt_Raw c)))"

text \<open>
  \<open>GatewayIdentityFromCertificateIfPresent\<close>: the identity and \<open>true\<close> are \<open>Some\<close>, the zero
  identity and \<open>false\<close> are \<open>None\<close>; the error it returns is always nil.
\<close>

fun first_gateway :: "platform \<Rightarrow> Certificate \<Rightarrow> URL option list \<Rightarrow> GatewayIdentity option" where
  "first_gateway p cert [] = None"
| "first_gateway p cert (uri # uris) =
     (case (uri, parseGatewayURI uri) of
        (Some u, Some identity) \<Rightarrow>
          Some (identity\<lparr>gi_SPIFFEID := url_String u, gi_Subject := crt_Subject cert,
                  gi_FingerprintSHA256 := CertificateFingerprintSHA256 p (Some cert)\<rparr>)
      | _ \<Rightarrow> first_gateway p cert uris)"

definition GatewayIdentityFromCertificateIfPresent :: "platform \<Rightarrow> Certificate option \<Rightarrow> GatewayIdentity option" where
  "GatewayIdentityFromCertificateIfPresent p cert =
     (case cert of None \<Rightarrow> None | Some c \<Rightarrow> first_gateway p c (crt_URIs c))"

definition errNoGateway :: goerror where
  "errNoGateway = app_New CodeAuthUnauthorized ''federation''
     ''gateway certificate is missing builders-net gateway identity''"

definition GatewayIdentityFromCertificate :: "platform \<Rightarrow> Certificate option \<Rightarrow> goerror + GatewayIdentity" where
  "GatewayIdentityFromCertificate p cert =
     (case GatewayIdentityFromCertificateIfPresent p cert of None \<Rightarrow> Inl errNoGateway | Some identity \<Rightarrow> Inr identity)"

definition peerCertificate :: "peer_context \<Rightarrow> goerror + Certificate" where
  "peerCertificate ctx =
     (case ctx of
        None \<Rightarrow> Inl (app_New CodeAuthUnauthorized ''mtls'' ''mTLS peer information is required'')
      | Some OtherAuthInfo \<Rightarrow> Inl (app_New CodeAuthUnauthorized ''mtls'' ''mTLS transport is required'')
      | Some (TLSInfo []) \<Rightarrow> Inl (app_New CodeAuthUnauthorized ''mtls'' ''mTLS peer certificate is required'')
      | Some (TLSInfo (c # cs)) \<Rightarrow> Inr c)"

definition PeerCertificateFromContext :: "peer_context \<Rightarrow> Certificate option" where
  "PeerCertificateFromContext ctx = (case peerCertificate ctx of Inl err \<Rightarrow> None | Inr cert \<Rightarrow> Some cert)"

definition GatewayIdentityFromContextIfPresent :: "platform \<Rightarrow> peer_context \<Rightarrow> GatewayIdentity option" where
  "GatewayIdentityFromContextIfPresent p ctx =
     (case peerCertificate ctx of
        Inl err \<Rightarrow> None
      | Inr cert \<Rightarrow> GatewayIdentityFromCertificateIfPresent p (Some cert))"

definition GatewayIdentityFromContext :: "platform \<Rightarrow> peer_context \<Rightarrow> goerror + GatewayIdentity" where
  "GatewayIdentityFromContext p ctx =
     (case GatewayIdentityFromContextIfPresent p ctx of None \<Rightarrow> Inl errNoGateway | Some identity \<Rightarrow> Inr identity)"

text \<open>The first URI the parser accepts.\<close>

fun first_parsed :: "(URL option \<Rightarrow> 'i option) \<Rightarrow> URL option list \<Rightarrow> 'i option" where
  "first_parsed parse [] = None"
| "first_parsed parse (uri # uris) =
     (case parse uri of Some identity \<Rightarrow> Some identity | None \<Rightarrow> first_parsed parse uris)"

definition RuntimeIdentityFromContext :: "peer_context \<Rightarrow> goerror + RuntimeIdentity" where
  "RuntimeIdentityFromContext ctx =
     (case peerCertificate ctx of
        Inl err \<Rightarrow> Inl err
      | Inr cert \<Rightarrow>
          (case first_parsed parseRuntimeURI (crt_URIs cert) of
             Some identity \<Rightarrow> Inr identity
           | None \<Rightarrow> Inl (app_New CodeAuthUnauthorized ''runtime''
               ''runtime certificate is missing builders-net workload identity'')))"

definition AgentIdentityFromContext :: "peer_context \<Rightarrow> goerror + AgentIdentity" where
  "AgentIdentityFromContext ctx =
     (case peerCertificate ctx of
        Inl err \<Rightarrow> Inl err
      | Inr cert \<Rightarrow>
          (case first_parsed parseAgentURI (crt_URIs cert) of
             Some identity \<Rightarrow> Inr identity
           | None \<Rightarrow> Inl (app_New CodeAuthUnauthorized ''agent''
               ''agent certificate is missing builders-net node identity'')))"

end
