(* ===== verification/IdentityProps.thy ===== *)
theory IdentityProps
  imports Identity
begin

text \<open>
  The properties of the certificate identities: the URI of a gateway, a runtime or an agent, put into
  a certificate, is read back as the same identity; no URI is an identity of two kinds; and where the
  code departs from this.
\<close>

section \<open>Paths and their parts\<close>

definition slashes :: "string list \<Rightarrow> string" where
  "slashes parts = concat (map ((#) CHR ''/'') parts)"

text \<open>What \<open>url.Parse\<close> returns for \<open>spiffe://builders-net\<close> followed by a path.\<close>

definition spiffe_base :: URL where
  "spiffe_base = zero_URL\<lparr>url_Scheme := ''spiffe'', url_Host := trustDomain\<rparr>"

lemma split_char_slashes:
  "CHR ''/'' \<notin> set s \<Longrightarrow> list_all (\<lambda>p. CHR ''/'' \<notin> set p) ps \<Longrightarrow> split_char CHR ''/'' (s @ slashes ps) = s # ps"
  by (induction ps arbitrary: s) (auto simp: slashes_def split_char_free split_char_append)

lemma Trim_core: "s \<noteq> [] \<Longrightarrow> hd s \<notin> set cs \<Longrightarrow> last s \<notin> set cs \<Longrightarrow> Trim cs (replicate n CHR ''/'' @ s) = s"
  if "CHR ''/'' \<in> set cs"
proof -
  assume s: "s \<noteq> []" "hd s \<notin> set cs" "last s \<notin> set cs"
  have a: "dropWhile (\<lambda>c. c \<in> set cs) (replicate n CHR ''/'' @ s) = s"
    using s that by (induction n) (auto simp: dropWhile_eq_self_iff)
  have b: "dropWhile (\<lambda>c. c \<in> set cs) (rev s) = rev s"
    using s by (simp add: dropWhile_eq_self_iff hd_rev)
  show ?thesis by (simp add: Trim_def a b)
qed

lemma split_Trim_slashes:
  assumes "list_all (\<lambda>p. CHR ''/'' \<notin> set p) (p # ps)" "p \<noteq> []" "last (p # ps) \<noteq> []"
  shows "split_char CHR ''/'' (Trim ''/'' (slashes (p # ps))) = p # ps"
proof -
  have "last (p @ slashes ps) \<in> set (last (p # ps))"
  proof (cases ps rule: rev_cases)
    case Nil
    with assms show ?thesis by (simp add: slashes_def)
  next
    case (snoc qs q)
    with assms show ?thesis by (auto simp: slashes_def)
  qed
  then have "last (p @ slashes ps) \<noteq> CHR ''/''"
    using assms(1) by (metis last_in_set list.distinct(1) list_all_iff)
  moreover have "hd (p @ slashes ps) \<noteq> CHR ''/''" using assms(1,2) by (metis hd_append2 hd_in_set list.pred_inject(2))
  ultimately have "Trim ''/'' (replicate 1 CHR ''/'' @ p @ slashes ps) = p @ slashes ps"
    using assms(2) by (intro Trim_core) auto
  then show ?thesis using assms(1) by (simp add: slashes_def) (simp add: split_char_slashes flip: slashes_def)
qed

text \<open>No byte of an escaped segment is a slash or belongs to white space.\<close>

lemma ws_not_alphanum: "list_all (\<lambda>c. \<not> alphanum c) (concat ws_runes)"
  by (simp add: ws_runes_def alphanum_def less_eq_char_def)

lemma upperhex_plain: "n < 16 \<Longrightarrow> \<not> shouldEscape m (upperhex n)"
  by (simp add: shouldEscape_def upperhex_less16)

lemma segment_plain:
  assumes "\<not> shouldEscape encodePathSegment c"
  shows "c \<noteq> CHR ''/'' \<and> c \<notin> set (concat ws_runes) \<and> \<not> shouldEscape encodePath c"
proof (cases "alphanum c")
  case True
  then have "c \<noteq> CHR ''/''" by (auto simp: alphanum_def less_eq_char_def)
  moreover have "c \<notin> set (concat ws_runes)" using True ws_not_alphanum by (auto simp: list_all_iff)
  ultimately show ?thesis using True by (simp add: shouldEscape_def)
next
  case False
  then have "c \<in> set [CHR ''-'', CHR ''_'', CHR ''.'', CHR ''~'', CHR ''$'', CHR ''&'', CHR ''+'', CHR '':'', CHR ''='', CHR ''@'']"
    using assms by (auto simp: shouldEscape_def split: if_splits)
  then show ?thesis by (auto simp: ws_runes_def shouldEscape_def)
qed

lemma percent_not_ws: "CHR ''%'' \<notin> set (concat ws_runes)" "CHR ''%'' \<noteq> CHR ''/''"
  by (simp_all add: ws_runes_def)

lemma PathEscape_chars:
  assumes "c \<in> set (PathEscape s)"
  shows "c \<noteq> CHR ''/''" "c \<notin> set (concat ws_runes)" "c = CHR ''%'' \<or> \<not> shouldEscape encodePath c"
proof -
  obtain d where "c \<in> set (escape_char encodePathSegment d)" using assms by (auto simp: PathEscape_def escape_def)
  then have "c = CHR ''%'' \<or> \<not> shouldEscape encodePathSegment c"
    by (auto simp: escape_char_def upperhex_plain split: if_splits)
  then show "c \<noteq> CHR ''/''" "c \<notin> set (concat ws_runes)" "c = CHR ''%'' \<or> \<not> shouldEscape encodePath c"
    using segment_plain [of c] percent_not_ws by blast+
qed

lemma PathEscape_facts [simp]:
  "CHR ''/'' \<notin> set (PathEscape s)" "TrimSpace (PathEscape s) = PathEscape s" "validEncoded encodePath (PathEscape s)"
  using PathEscape_chars [of _ s] by (auto intro: trimmed_no_ws simp: validEncoded_def list_all_iff)

lemma PathEscape_Nil_iff [simp]: "PathEscape s = [] \<longleftrightarrow> s = []"
  by (cases s) (auto simp: PathEscape_def escape_char_def)

lemma unescapeIdentityPart_PathEscape [simp]: "unescapeIdentityPart (PathEscape s) = s"
  by (simp add: unescapeIdentityPart_def)

section \<open>The URI of a gateway\<close>

text \<open>The parts of the path of a gateway URI, with the service principal where there is one.\<close>

definition gateway_parts :: "GatewayIdentity \<Rightarrow> string list" where
  "gateway_parts i = [''federation-gateway'', ''tenant'', PathEscape (gi_TenantID i), ''gateway'', PathEscape (gi_GatewayID i)] @
     (if gi_ServicePrincipalID i = [] then [] else [''service-principal'', PathEscape (gi_ServicePrincipalID i)])"

definition gateway_ok :: "GatewayIdentity \<Rightarrow> bool" where
  "gateway_ok i \<longleftrightarrow> gi_TenantID i \<noteq> [] \<and> gi_GatewayID i \<noteq> [] \<and>
     trimmed (gi_TenantID i) \<and> trimmed (gi_GatewayID i) \<and> trimmed (gi_ServicePrincipalID i)"

lemma GatewayURI_slashes:
  "gateway_ok i \<Longrightarrow> GatewayURI i = ''spiffe://'' @ trustDomain @ slashes (gateway_parts i)"
  by (auto simp: GatewayURI_def gateway_parts_def slashes_def gateway_ok_def trimmed_iff)

lemma validEncoded_append [simp]:
  "validEncoded m (s @ t) \<longleftrightarrow> validEncoded m s \<and> validEncoded m t"
  by (simp add: validEncoded_def)

lemma validEncoded_slashes:
  "list_all (validEncoded encodePath) ps \<Longrightarrow> validEncoded encodePath (slashes ps)"
  by (induction ps) (auto simp: slashes_def validEncoded_def shouldEscape_def)

lemma gateway_parts_facts:
  assumes "gateway_ok i"
  shows "list_all (\<lambda>p. CHR ''/'' \<notin> set p) (gateway_parts i)" "list_all (validEncoded encodePath) (gateway_parts i)"
    "list_all (\<lambda>p. TrimSpace p = p) (gateway_parts i)" "last (gateway_parts i) \<noteq> []"
proof -
  have w: "TrimSpace w = w \<and> validEncoded encodePath w \<and> CHR ''/'' \<notin> set w"
    if "w \<in> {''federation-gateway'', ''tenant'', ''gateway'', ''service-principal''}" for w
    using that by (auto intro!: trimmed_no_ws simp: ws_runes_def validEncoded_def shouldEscape_def alphanum_def less_eq_char_def)
  show "list_all (\<lambda>p. CHR ''/'' \<notin> set p) (gateway_parts i)" "list_all (validEncoded encodePath) (gateway_parts i)"
    "list_all (\<lambda>p. TrimSpace p = p) (gateway_parts i)"
    using w by (auto simp: gateway_parts_def)
  show "last (gateway_parts i) \<noteq> []" using assms by (simp add: gateway_parts_def gateway_ok_def)
qed

lemma gateway_path_decodes: "unescape (slashes (gateway_parts i)) \<noteq> None"
  by (simp add: gateway_parts_def slashes_def PathEscape_def unescape_escape_append)

lemma parse_gateway_path:
  assumes "gateway_ok i" "setPath (slashes (gateway_parts i)) spiffe_base = Some u"
  shows "EscapedPath u = slashes (gateway_parts i)"
    "parseGatewayURI (Some u) = Some (gateway_identity (gi_TenantID i) (gi_GatewayID i) (gi_ServicePrincipalID i))"
    "url_String u = GatewayURI i"
proof -
  note facts = gateway_parts_facts [OF assms(1)]
  obtain s where s: "slashes (gateway_parts i) = CHR ''/'' # s" by (simp add: gateway_parts_def slashes_def)
  show e: "EscapedPath u = slashes (gateway_parts i)"
    using EscapedPath_setPath [of s spiffe_base u] assms(2) validEncoded_slashes [OF facts(2)] by (simp add: s)
  have u: "url_Scheme u = ''spiffe''" "url_Host u = trustDomain" "url_Opaque u = []" "url_User u = None"
    "\<not> url_OmitHost u" "\<not> url_ForceQuery u" "url_RawQuery u = []" "url_Fragment u = []"
    using assms(2) by (auto simp: setPath_def spiffe_base_def zero_URL_def split: option.splits)
  have parts: "split_char CHR ''/'' (Trim ''/'' (EscapedPath u)) = gateway_parts i"
    unfolding e using split_Trim_slashes [of "''federation-gateway''" "tl (gateway_parts i)"] facts(1,4)
    by (simp add: gateway_parts_def)
  have tr: "\<not> list_ex (\<lambda>p. TrimSpace p \<noteq> p) (gateway_parts i)"
    using facts(3) by (auto simp: list_all_iff list_ex_iff)
  have "\<not> relay_parts u (gateway_parts i)" by (simp add: relay_parts_def u trustDomain_def)
  then show "parseGatewayURI (Some u) = Some (gateway_identity (gi_TenantID i) (gi_GatewayID i) (gi_ServicePrincipalID i))"
    using tr assms(1) unfolding parseGatewayURI_def option.simps parts
    by (simp add: u) (auto simp: gateway_parts_def gateway_ok_def trimmed_iff)
  have "escape encodeHost trustDomain = trustDomain"
    by (simp add: trustDomain_def escape_char_def shouldEscape_def alphanum_def less_eq_char_def)
  then show "url_String u = GatewayURI i"
    unfolding GatewayURI_slashes [OF assms(1)] url_String_def e by (simp add: u s) (simp add: trustDomain_def)
qed

text \<open>
  A gateway certificate authenticates the identity it was made for. For an identity with
  trimmed, non-empty tenant and gateway and a trimmed service principal, the path of \<open>GatewayURI\<close>
  can be parsed, and a certificate that carries the parsed URI is read back, whatever its other
  URIs before it that are not gateway URIs, as exactly that tenant, gateway and service principal,
  with the URI itself as the SPIFFE id.
\<close>

theorem GatewayURI_roundtrip:
  assumes "gateway_ok i" "list_all (\<lambda>uri. parseGatewayURI uri = None) before"
  shows "\<exists>path u. GatewayURI i = ''spiffe://'' @ trustDomain @ path \<and> setPath path spiffe_base = Some u \<and>
    GatewayIdentityFromCertificate p (Some \<lparr>crt_URIs = before @ Some u # after, crt_Subject = subj, crt_Raw = raw\<rparr>) =
      Inr (i\<lparr>gi_SPIFFEID := GatewayURI i, gi_Subject := subj, gi_FingerprintSHA256 := hexEncode (sha256 p raw)\<rparr>)"
proof -
  obtain u where u: "setPath (slashes (gateway_parts i)) spiffe_base = Some u"
    using gateway_path_decodes [of i] by (auto simp: setPath_def split: option.splits)
  note pg = parse_gateway_path [OF assms(1) u]
  have "first_gateway p c (before @ Some u # after) = Some (i\<lparr>gi_SPIFFEID := GatewayURI i, gi_Subject := crt_Subject c,
      gi_FingerprintSHA256 := hexEncode (sha256 p (crt_Raw c))\<rparr>)" for c
    using assms(2) by (induction before)
      (auto simp: pg gateway_identity_def CertificateFingerprintSHA256_def split: option.splits)
  then show ?thesis using u GatewayURI_slashes [OF assms(1)]
    by (auto simp: GatewayIdentityFromCertificate_def GatewayIdentityFromCertificateIfPresent_def)
qed

theorem GatewayURI_roundtrip_witness:
  "\<exists>path u. ''spiffe://builders-net/federation-gateway/tenant/tenant-1/gateway/gateway-1/service-principal/spn:%2F%2Fcompany-a%2Fgateway-primary'' =
      ''spiffe://'' @ trustDomain @ path \<and> setPath path spiffe_base = Some u \<and>
    GatewayIdentityFromCertificate demo_platform (Some \<lparr>crt_URIs = [None, Some u], crt_Subject = ''CN=gw'', crt_Raw = ''der''\<rparr>) =
      Inr \<lparr>gi_TenantID = ''tenant-1'', gi_GatewayID = ''gateway-1'', gi_ServicePrincipalID = ''spn://company-a/gateway-primary'',
        gi_SPIFFEID = ''spiffe://builders-net/federation-gateway/tenant/tenant-1/gateway/gateway-1/service-principal/spn:%2F%2Fcompany-a%2Fgateway-primary'',
        gi_Subject = ''CN=gw'', gi_FingerprintSHA256 = hexEncode (sha256 demo_platform ''der'')\<rparr>"
proof -
  let ?i = "gateway_identity ''tenant-1'' ''gateway-1'' ''spn://company-a/gateway-primary''"
  have ok: "gateway_ok ?i"
    by (auto simp: gateway_ok_def gateway_identity_def trimmed_iff ws_runes_def intro!: trimmed_no_ws)
  have uri: "GatewayURI ?i = ''spiffe://builders-net/federation-gateway/tenant/tenant-1/gateway/gateway-1/service-principal/spn:%2F%2Fcompany-a%2Fgateway-primary''"
    unfolding GatewayURI_slashes [OF ok] by code_simp
  show ?thesis using GatewayURI_roundtrip [OF ok, of "[None]" demo_platform "[]" "''CN=gw''" "''der''"]
    unfolding uri by (simp add: parseGatewayURI_def gateway_identity_def)
qed

section \<open>Kinds of identities\<close>

text \<open>The first segment of a path.\<close>

definition first_segment :: "string \<Rightarrow> string" where
  "first_segment s = takeWhile (\<lambda>c. c \<noteq> CHR ''/'') (dropWhile (\<lambda>c. c = CHR ''/'') s)"

lemma split_char_first: "split_char d s ! 0 = takeWhile (\<lambda>c. c \<noteq> d) s"
proof -
  have "split_char d s \<noteq> []" for s by (cases s) (auto split: list.splits)
  then show ?thesis by (induction s) (auto split: list.splits)
qed

lemma takeWhile_slashes:
  "set zs \<subseteq> {CHR ''/''} \<Longrightarrow> takeWhile (\<lambda>c. c \<noteq> CHR ''/'') (y @ zs) = takeWhile (\<lambda>c. c \<noteq> CHR ''/'') y"
  by (induction y) (cases zs; simp)+

lemma first_part: "split_char CHR ''/'' (Trim ''/'' s) ! 0 = first_segment s"
proof -
  let ?x = "dropWhile (\<lambda>c. c = CHR ''/'') s"
  define y where "y = rev (dropWhile (\<lambda>c. c = CHR ''/'') (rev ?x))"
  have "?x = y @ rev (takeWhile (\<lambda>c. c = CHR ''/'') (rev ?x))"
    unfolding y_def by (metis rev_append rev_rev_ident takeWhile_dropWhile_id)
  moreover have "set (rev (takeWhile (\<lambda>c. c = CHR ''/'') (rev ?x))) \<subseteq> {CHR ''/''}"
    by (auto dest: set_takeWhileD)
  ultimately have "takeWhile (\<lambda>c. c \<noteq> CHR ''/'') ?x = takeWhile (\<lambda>c. c \<noteq> CHR ''/'') y"
    using takeWhile_slashes by metis
  then show ?thesis by (simp add: split_char_first first_segment_def Trim_def y_def)
qed

lemma first_segment_unescape:
  assumes "unescape e = Some q" "first_segment e = w" "w \<noteq> []" "CHR ''%'' \<notin> set w"
  shows "first_segment q = w"
proof -
  define sl where "sl = takeWhile (\<lambda>c. c = CHR ''/'') e"
  define z0 where "z0 = dropWhile (\<lambda>c. c \<noteq> CHR ''/'') (dropWhile (\<lambda>c. c = CHR ''/'') e)"
  have e: "e = sl @ w @ z0" using assms(2) by (auto simp: first_segment_def sl_def z0_def)
  have sl: "set sl \<subseteq> {CHR ''/''}" and w: "CHR ''/'' \<notin> set w"
    using assms(2) by (auto dest: set_takeWhileD simp: first_segment_def sl_def)
  then have "CHR ''%'' \<notin> set sl" by auto
  then obtain z where z: "unescape z0 = Some z" and q: "q = sl @ w @ z"
    using assms(1,4) by (auto simp: e unescape_plain)
  have "z = [] \<or> (\<exists>z'. z = CHR ''/'' # z')"
  proof (cases z0)
    case (Cons c cs)
    then have "c = CHR ''/''"
      using hd_dropWhile [of "\<lambda>c. c \<noteq> CHR ''/''" "dropWhile (\<lambda>c. c = CHR ''/'') e"] by (simp add: z0_def)
    with z Cons show ?thesis by auto
  qed (use z in simp)
  moreover have "dropWhile (\<lambda>c. c = CHR ''/'') (sl @ w @ z) = w @ z"
    using sl w assms(3) by (cases w) (auto simp: dropWhile_append)
  moreover have "takeWhile (\<lambda>c. c \<noteq> CHR ''/'') (w @ z) = w @ takeWhile (\<lambda>c. c \<noteq> CHR ''/'') z"
    using w by (induction w) auto
  ultimately show ?thesis unfolding first_segment_def q by auto
qed

lemma parsed_segment:
  "parseRuntimeURI (Some u) = Some r \<Longrightarrow> url_Host u = trustDomain \<and> first_segment (url_Path u) = ''runtime''"
  "parseAgentURI (Some u) = Some a \<Longrightarrow> url_Host u = trustDomain \<and> first_segment (url_Path u) = ''agent''"
  by (auto simp: parseRuntimeURI_def parseAgentURI_def identityParts_def Let_def first_part split: if_splits)

lemma gateway_segment:
  assumes "parseGatewayURI (Some u) = Some g" "url_Host u = trustDomain"
  shows "first_segment (url_Path u) = ''federation-gateway''"
proof (rule first_segment_unescape [OF unescape_EscapedPath])
  show "first_segment (EscapedPath u) = ''federation-gateway''"
    using assms by (auto simp: parseGatewayURI_def Let_def relay_parts_def trustDomain_def first_part split: if_splits)
qed simp_all

text \<open>
  C22. A URI is an identity of at most one kind: no URI is read as both a runtime and an agent, and a
  gateway URI is read as neither, although the gateway parser looks at the escaped path and the other
  two at the decoded one.
\<close>

theorem identity_kinds_disjoint:
  "(parseRuntimeURI uri = None \<or> parseAgentURI uri = None) \<and>
   (parseGatewayURI uri = None \<or> parseRuntimeURI uri = None \<and> parseAgentURI uri = None)"
proof (cases uri)
  case None
  then show ?thesis by (simp add: parseGatewayURI_def parseRuntimeURI_def identityParts_def)
next
  case (Some u)
  show ?thesis unfolding Some using parsed_segment [of u] gateway_segment [of u]
    by (cases "parseRuntimeURI (Some u)"; cases "parseAgentURI (Some u)"; cases "parseGatewayURI (Some u)") auto
qed

section \<open>Runtimes and agents\<close>

text \<open>
  A part that stands for itself in a URI: non-empty and trimmed, without the delimiters of a URI and
  without control characters.
\<close>

definition plain_part :: "string \<Rightarrow> bool" where
  "plain_part s \<longleftrightarrow> s \<noteq> [] \<and> trimmed s \<and>
     list_all (\<lambda>c. c \<notin> set ''/%?#'' \<and> (of_char c :: nat) \<ge> 0x20 \<and> c \<noteq> CHR 0x7F) s"

lemma plain_partD: "plain_part s \<Longrightarrow> s \<noteq> [] \<and> TrimSpace s = s \<and> CHR ''/'' \<notin> set s \<and> CHR ''%'' \<notin> set s"
  by (auto simp: plain_part_def trimmed_iff list_all_iff)

lemma word_parts:
  "list_all plain_part [''runtime'', ''agent'', ''tenant'', ''project'', ''session'', ''workload'', ''node'']"
  by (auto simp: plain_part_def trimmed_iff ws_runes_def intro!: trimmed_no_ws)

lemma slashes_no_percent: "list_all plain_part ps \<Longrightarrow> CHR ''%'' \<notin> set (slashes ps)"
  by (induction ps) (auto simp: slashes_def dest!: plain_partD)

lemma identityParts_plain:
  assumes "list_all plain_part (c # ps)" "n = Suc (length ps)"
    and "url_Scheme u = ''spiffe''" "url_Host u = trustDomain" "url_Path u = slashes (c # ps)"
  shows "identityParts (Some u) c n = Some (c # ps)"
proof -
  have "plain_part (last (c # ps))" using assms(1) by (simp add: list_all_iff)
  then have "split_char CHR ''/'' (Trim ''/'' (slashes (c # ps))) = c # ps"
    using assms(1) by (intro split_Trim_slashes) (auto simp: list_all_iff dest!: plain_partD simp del: last.simps)
  moreover have "\<not> list_ex (\<lambda>p. TrimSpace p \<noteq> p) (c # ps)"
    using assms(1) by (auto simp: list_all_iff list_ex_iff dest!: plain_partD)
  ultimately show ?thesis by (simp add: identityParts_def assms)
qed

definition runtime_parts :: "RuntimeIdentity \<Rightarrow> string list" where
  "runtime_parts i = [''runtime'', ''tenant'', ri_TenantID i, ''project'', ri_ProjectID i, ''session'', ri_SessionID i,
     ''workload'', ri_WorkloadID i]"

definition agent_parts :: "AgentIdentity \<Rightarrow> string list" where
  "agent_parts i = [''agent'', ''tenant'', ai_TenantID i, ''project'', ai_ProjectID i, ''node'', ai_NodeID i]"

definition cert_for :: "URL \<Rightarrow> peer_context" where
  "cert_for u = Some (TLSInfo [\<lparr>crt_URIs = [Some u], crt_Subject = [], crt_Raw = []\<rparr>])"

lemma setPath_plain:
  assumes "list_all plain_part ps"
  obtains u where "setPath (slashes ps) spiffe_base = Some u" "url_Scheme u = ''spiffe''" "url_Host u = trustDomain"
    "url_Path u = slashes ps"
  using unescape_plain [OF slashes_no_percent [OF assms], of "[]"] by (simp add: setPath_def spiffe_base_def)

lemma runtime_path:
  assumes "list_all plain_part (runtime_parts r)" "url_Scheme u = ''spiffe''" "url_Host u = trustDomain"
    "url_Path u = slashes (runtime_parts r)"
  shows "RuntimeIdentityFromContext (cert_for u) = Inr r"
proof -
  have "identityParts (Some u) ''runtime'' 9 = Some (runtime_parts r)"
    using identityParts_plain [of "''runtime''" "tl (runtime_parts r)" 9 u] assms by (simp add: runtime_parts_def)
  then have "parseRuntimeURI (Some u) = Some r"
    using assms(1) by (auto simp: parseRuntimeURI_def runtime_parts_def dest!: plain_partD)
  then show ?thesis by (simp add: RuntimeIdentityFromContext_def cert_for_def peerCertificate_def)
qed

lemma agent_path:
  assumes "list_all plain_part (agent_parts a)" "url_Scheme u = ''spiffe''" "url_Host u = trustDomain"
    "url_Path u = slashes (agent_parts a)"
  shows "AgentIdentityFromContext (cert_for u) = Inr a"
proof -
  have "identityParts (Some u) ''agent'' 7 = Some (agent_parts a)"
    using identityParts_plain [of "''agent''" "tl (agent_parts a)" 7 u] assms by (simp add: agent_parts_def)
  then have "parseAgentURI (Some u) = Some a"
    using assms(1) by (auto simp: parseAgentURI_def agent_parts_def dest!: plain_partD)
  then show ?thesis by (simp add: AgentIdentityFromContext_def cert_for_def peerCertificate_def)
qed

lemma workload_uris:
  "RuntimeURI r = ''spiffe://'' @ trustDomain @ slashes (runtime_parts r)"
  "AgentURI a = ''spiffe://'' @ trustDomain @ slashes (agent_parts a)"
  by (simp_all add: RuntimeURI_def AgentURI_def runtime_parts_def agent_parts_def slashes_def)

text \<open>
  The URI of a runtime or an agent whose ids are plain, put into the certificate of the peer, is
  read back as the same identity.
\<close>

theorem workload_roundtrip:
  assumes "list_all plain_part [ri_TenantID r, ri_ProjectID r, ri_SessionID r, ri_WorkloadID r]"
    and "list_all plain_part [ai_TenantID a, ai_ProjectID a, ai_NodeID a]"
  shows "\<exists>rpath ru apath au. RuntimeURI r = ''spiffe://'' @ trustDomain @ rpath \<and> setPath rpath spiffe_base = Some ru \<and>
    RuntimeIdentityFromContext (cert_for ru) = Inr r \<and>
    AgentURI a = ''spiffe://'' @ trustDomain @ apath \<and> setPath apath spiffe_base = Some au \<and>
    AgentIdentityFromContext (cert_for au) = Inr a"
proof -
  have p: "list_all plain_part (runtime_parts r)" "list_all plain_part (agent_parts a)"
    using assms word_parts by (simp_all add: runtime_parts_def agent_parts_def)
  obtain ru where "setPath (slashes (runtime_parts r)) spiffe_base = Some ru" "RuntimeIdentityFromContext (cert_for ru) = Inr r"
    using setPath_plain [OF p(1)] runtime_path [OF p(1)] by metis
  moreover obtain au where "setPath (slashes (agent_parts a)) spiffe_base = Some au" "AgentIdentityFromContext (cert_for au) = Inr a"
    using setPath_plain [OF p(2)] agent_path [OF p(2)] by metis
  ultimately show ?thesis using workload_uris by blast
qed

theorem workload_roundtrip_witness:
  "\<exists>rpath ru apath au.
    RuntimeURI \<lparr>ri_TenantID = ''t1'', ri_ProjectID = ''p1'', ri_SessionID = ''s 1'', ri_WorkloadID = ''w1''\<rparr> = ''spiffe://'' @ trustDomain @ rpath \<and>
    setPath rpath spiffe_base = Some ru \<and>
    RuntimeIdentityFromContext (cert_for ru) = Inr \<lparr>ri_TenantID = ''t1'', ri_ProjectID = ''p1'', ri_SessionID = ''s 1'', ri_WorkloadID = ''w1''\<rparr> \<and>
    AgentURI \<lparr>ai_TenantID = ''t1'', ai_ProjectID = ''p1'', ai_NodeID = ''n1''\<rparr> = ''spiffe://'' @ trustDomain @ apath \<and>
    setPath apath spiffe_base = Some au \<and>
    AgentIdentityFromContext (cert_for au) = Inr \<lparr>ai_TenantID = ''t1'', ai_ProjectID = ''p1'', ai_NodeID = ''n1''\<rparr>"
proof -
  have "list_all plain_part [''t1'', ''p1'', ''s 1'', ''w1'', ''n1'']"
    by (simp add: plain_part_def trimmed_def ws_runes_def starts_with_one_def)
  then show ?thesis
    using workload_roundtrip [of "\<lparr>ri_TenantID = ''t1'', ri_ProjectID = ''p1'', ri_SessionID = ''s 1'', ri_WorkloadID = ''w1''\<rparr>"
      "\<lparr>ai_TenantID = ''t1'', ai_ProjectID = ''p1'', ai_NodeID = ''n1''\<rparr>"] by simp
qed

section \<open>Where the identities are not exact\<close>

text \<open>
  \<open>RuntimeURI\<close> and \<open>AgentURI\<close> do not escape their parts, as \<open>GatewayURI\<close> does: the certificate of
  the runtime of tenant \<open>t%31\<close> authenticates the runtime of tenant \<open>t1\<close>.
\<close>

lemma RuntimeURI_unescaped:
  "\<exists>i j path u. RuntimeURI i = ''spiffe://'' @ trustDomain @ path \<and> setPath path spiffe_base = Some u \<and>
     RuntimeIdentityFromContext (cert_for u) = Inr j \<and> ri_TenantID i = ''t%31'' \<and> ri_TenantID j = ''t1''"
proof -
  let ?i = "\<lambda>t. \<lparr>ri_TenantID = t, ri_ProjectID = ''p'', ri_SessionID = ''s'', ri_WorkloadID = ''w''\<rparr>"
  have "list_all plain_part (runtime_parts (?i ''t1''))"
    using word_parts by (simp add: runtime_parts_def) (simp add: plain_part_def trimmed_def ws_runes_def starts_with_one_def)
  moreover obtain u where "setPath (slashes (runtime_parts (?i ''t%31''))) spiffe_base = Some u" "url_Scheme u = ''spiffe''"
    "url_Host u = trustDomain" "url_Path u = slashes (runtime_parts (?i ''t1''))"
    by (simp add: setPath_def spiffe_base_def runtime_parts_def slashes_def hex_nibble_def less_eq_char_def char_of_def bit_0)
  ultimately show ?thesis using workload_uris(1) [of "?i ''t%31''"] runtime_path [of "?i ''t1''" u] by force
qed

text \<open>
  The branch of \<open>parseGatewayURI\<close> for the relay host checks neither that the ids are non-empty nor
  that they are trimmed.
\<close>

lemma relay_accepts_empty_ids:
  "parseGatewayURI (Some (zero_URL\<lparr>url_Scheme := ''spiffe'', url_Host := ''relay.b2bautopilot.com'',
     url_Path := ''/fabric/b2bautopilot-fed/org//gateway//role/x''\<rparr>)) = Some (gateway_identity [] [] ''spn--gateway'')"
  by code_simp

end
