(* ===== verification/GoNet.thy ===== *)
theory GoNet
  imports GoURL
begin

text \<open>
  The parts of Go's \<open>net\<close>, and the one regular expression, with which the packages
  \<open>servicecatalog\<close> and \<open>ordertocash\<close> look for private hosts in text: \<open>SplitHostPort\<close>, \<open>ParseIP\<close> and
  the classes of addresses, \<open>URL.Hostname\<close>, the search for dotted quads, and \<open>candidateHost\<close>, which
  the two packages share but for the last step. \<open>url.Parse\<close> is an argument.
\<close>

section \<open>Definitions\<close>

definition HasSuffix :: "string \<Rightarrow> string \<Rightarrow> bool" where "HasSuffix s t \<longleftrightarrow> suffix t s"
definition HasPrefix :: "string \<Rightarrow> string \<Rightarrow> bool" where "HasPrefix s t \<longleftrightarrow> prefix t s"

text \<open>The text before and after the last occurrence of a byte.\<close>

definition CutLast :: "char \<Rightarrow> string \<Rightarrow> (string \<times> string) option" where
  "CutLast c s = map_option (\<lambda>(a, b). (rev b, rev a)) (Cut c (rev s))"

text \<open>\<open>net.SplitHostPort\<close>: host and port, \<open>None\<close> for an error.\<close>

definition SplitHostPort :: "string \<Rightarrow> (string \<times> string) option" where
  "SplitHostPort hostport =
     (case CutLast CHR '':'' hostport of
        None \<Rightarrow> None
      | Some (before, port) \<Rightarrow>
          if hd hostport = CHR ''['' then
            (case Cut CHR '']'' hostport of
               None \<Rightarrow> None
             | Some (inside, behind) \<Rightarrow>
                 if inside @ '']'' \<noteq> before then None
                 else if CHR ''['' \<in> set (tl hostport) \<or> CHR '']'' \<in> set behind then None
                 else Some (tl inside, port))
          else if CHR '':'' \<in> set before \<or> CHR ''['' \<in> set hostport \<or> CHR '']'' \<in> set hostport then None
          else Some (before, port))"

definition Hostname :: "string \<Rightarrow> string" where
  "Hostname hostport =
     (let host = (case CutLast CHR '':'' hostport of
                    None \<Rightarrow> hostport
                  | Some (before, port) \<Rightarrow> if list_all is_digit port then before else hostport)
      in if HasPrefix host ''['' \<and> HasSuffix host '']'' then butlast (tl host) else host)"

text \<open>\<open>net.ParseIP\<close>: the four octets of an IPv4 or IPv4-mapped address, else the eight groups.\<close>

datatype IP = IP4 "nat list" | IP16 "nat list"

fun to_IP :: "Addr \<Rightarrow> IP option" where
  "to_IP (Addr4 os) = Some (IP4 os)"
| "to_IP (Addr6 gs zone) =
     (if zone \<noteq> [] then None
      else if take 6 gs = [0, 0, 0, 0, 0, 0xFFFF] then
        Some (IP4 [gs ! 6 div 256, gs ! 6 mod 256, gs ! 7 div 256, gs ! 7 mod 256])
      else Some (IP16 gs))"

definition ParseIP :: "string \<Rightarrow> IP option" where
  "ParseIP s = Option.bind (ParseAddr s) to_IP"

fun IsPrivate :: "IP \<Rightarrow> bool" where
  "IsPrivate (IP4 os) \<longleftrightarrow> os ! 0 = 10 \<or> os ! 0 = 172 \<and> os ! 1 div 16 = 1 \<or> os ! 0 = 192 \<and> os ! 1 = 168"
| "IsPrivate (IP16 gs) \<longleftrightarrow> gs ! 0 div 512 = 0x7E"

fun IsLoopback :: "IP \<Rightarrow> bool" where
  "IsLoopback (IP4 os) \<longleftrightarrow> os ! 0 = 127"
| "IsLoopback (IP16 gs) \<longleftrightarrow> gs = [0, 0, 0, 0, 0, 0, 0, 1]"

fun IsLinkLocalUnicast :: "IP \<Rightarrow> bool" where
  "IsLinkLocalUnicast (IP4 os) \<longleftrightarrow> os ! 0 = 169 \<and> os ! 1 = 254"
| "IsLinkLocalUnicast (IP16 gs) \<longleftrightarrow> gs ! 0 div 64 = 0x3FA"

definition internal_ip :: "IP \<Rightarrow> bool" where
  "internal_ip ip \<longleftrightarrow> IsPrivate ip \<or> IsLoopback ip \<or> IsLinkLocalUnicast ip"

text \<open>\<open>strings.EqualFold(s, "localhost")\<close>: of its letters only s has a fold outside ASCII, U+017F.\<close>

definition fold_localhost :: "string \<Rightarrow> bool" where
  "fold_localhost s \<longleftrightarrow> map ascii_lower s \<in> {''localhost'', ''localho'' @ [CHR 0xC5, CHR 0xBF, CHR ''t'']}"

text \<open>The host names both packages take for internal ones.\<close>

definition internal_name :: "string \<Rightarrow> bool" where
  "internal_name host \<longleftrightarrow> fold_localhost host \<or> HasSuffix host ''.local'' \<or> HasSuffix host ''.internal'' \<or>
     HasSuffix host ''.lan'' \<or> HasSuffix host ''.corp''"

definition internal_host :: "string \<Rightarrow> bool" where
  "internal_host host \<longleftrightarrow>
     internal_name host \<or> (case ParseIP host of None \<Rightarrow> False | Some ip \<Rightarrow> internal_ip ip)"

text \<open>Both \<open>candidateHost\<close>, up to the trimming of the last result in one of them.\<close>

definition candidateHost_with :: "(string \<Rightarrow> string) \<Rightarrow> (string \<Rightarrow> URL option) \<Rightarrow> string \<Rightarrow> string" where
  "candidateHost_with finish url_Parse value =
     (let plain =
        (case (if HasPrefix value ''['' then Cut CHR '']'' value else None) of
           Some (inside, behind) \<Rightarrow>
             if 1 < length inside then Some (tl inside) else None
         | None \<Rightarrow> None);
          host = takeWhile (\<lambda>c. c \<noteq> CHR ''/'') value;
          rest = (case plain of
             Some h \<Rightarrow> h
           | None \<Rightarrow>
               (case SplitHostPort host of
                  Some (h, port) \<Rightarrow> h
                | None \<Rightarrow>
                    finish (case CutLast CHR '':'' host of
                       Some (before, port) \<Rightarrow>
                         if before \<noteq> [] \<and> CHR '':'' \<notin> set before then before else host
                     | None \<Rightarrow> host)))
      in case url_Parse value of
           None \<Rightarrow> rest
         | Some parsed \<Rightarrow>
             if url_Host parsed = [] then rest
             else (case SplitHostPort (url_Host parsed) of
                     Some (h, port) \<Rightarrow> h
                   | None \<Rightarrow> Hostname (url_Host parsed)))"

text \<open>The matches of \<open>\b(?:\d{1,3}\.){3}\d{1,3}\b\<close>, given whether a word character stands before the text.\<close>

definition word_char :: "char \<Rightarrow> bool" where
  "word_char c \<longleftrightarrow> alphanum c \<or> c = CHR ''_''"

definition digits_ok :: "string \<Rightarrow> bool" where
  "digits_ok ds \<longleftrightarrow> ds \<noteq> [] \<and> length ds \<le> 3"

fun quad_at :: "nat \<Rightarrow> string \<Rightarrow> (string \<times> string) option" where
  "quad_at 0 s =
     (let ds = takeWhile is_digit s; r = dropWhile is_digit s
      in if \<not> digits_ok ds \<or> r \<noteq> [] \<and> word_char (hd r) then None else Some (ds, r))"
| "quad_at (Suc n) s =
     (let ds = takeWhile is_digit s; r = dropWhile is_digit s
      in if \<not> digits_ok ds \<or> r = [] \<or> hd r \<noteq> CHR ''.'' then None
         else map_option (\<lambda>(q, t). (ds @ CHR ''.'' # q, t)) (quad_at n (tl r)))"

lemma quad_at_Some: "quad_at n s = Some (m, r) \<Longrightarrow> s = m @ r \<and> m \<noteq> []"
proof (induction n arbitrary: s m r)
  case 0
  then show ?case by (auto simp: Let_def digits_ok_def split: if_splits)
next
  case (Suc n)
  let ?ds = "takeWhile is_digit s" and ?r = "dropWhile is_digit s"
  from Suc.prems obtain q where q: "?r = CHR ''.'' # tl ?r" "quad_at n (tl ?r) = Some (q, r)" "m = ?ds @ CHR ''.'' # q"
    by (cases ?r) (auto simp: Let_def split: if_splits)
  have "s = ?ds @ CHR ''.'' # tl ?r" using q(1) by (metis takeWhile_dropWhile_id)
  then show ?case using Suc.IH [OF q(2)] q(3) by simp
qed

function find_quads :: "bool \<Rightarrow> string \<Rightarrow> string list" where
  "find_quads wordBefore [] = []"
| "find_quads wordBefore (c # cs) =
     (case (if wordBefore then None else quad_at 3 (c # cs)) of
        Some (m, r) \<Rightarrow> m # find_quads True r
      | None \<Rightarrow> find_quads (word_char c) cs)"
  by pat_completeness auto
termination
  by (relation "measure (\<lambda>(b, s). length s)")
     (auto split: if_splits dest!: quad_at_Some simp: Cons_eq_append_conv)

end
