(* ===== verification/ServiceCatalog.thy ===== *)
theory ServiceCatalog
  imports GoNet GoPlatform
begin

text \<open>
  The package \<open>contracts/servicecatalog\<close>: validation of the entries a gateway publishes and the
  search for private topology and secrets in their text and schemas. Names that another package also
  uses carry the prefix \<open>sc_\<close>. \<open>url.Parse\<close> and the JSON reader are arguments; the text of an error
  of the JSON reader is left out of the modelled errors.
\<close>

section \<open>Definitions\<close>

definition sc_StateActive :: string where "sc_StateActive = ''active''"
definition sc_StateDeprecated :: string where "sc_StateDeprecated = ''deprecated''"
definition sc_StateRetired :: string where "sc_StateRetired = ''retired''"

lemmas sc_states = sc_StateActive_def sc_StateDeprecated_def sc_StateRetired_def

definition maxPublicSchemaBytes :: nat where "maxPublicSchemaBytes = 64 * 1024"

definition CodeControlInvalidArgument :: string where "CodeControlInvalidArgument = ''control.invalid_argument''"
definition CodeCoordPayloadTooLarge :: string where "CodeCoordPayloadTooLarge = ''coord.payload_too_large''"

record EntryInput =
  ei_TenantID :: string
  ei_ServiceCatalogID :: string
  ei_DisplayName :: string
  ei_Description :: string
  ei_ServiceKind :: string
  ei_SchemaJSON :: string
  ei_SchemaVersion :: string
  ei_AllowedActionsJSON :: string
  ei_State :: string
  ei_ReplacementCatalogEntryID :: string

definition DefaultState :: "string \<Rightarrow> string" where
  "DefaultState state =
     (let s = TrimSpace state
      in if s = [] \<or> s = sc_StateActive then sc_StateActive
         else if s = sc_StateDeprecated then sc_StateDeprecated
         else if s = sc_StateRetired then sc_StateRetired
         else s)"

definition VisibleState :: "string \<Rightarrow> bool" where
  "VisibleState state \<longleftrightarrow> DefaultState state \<in> {sc_StateActive, sc_StateDeprecated}"

definition sc_err :: "string \<Rightarrow> goerror" where
  "sc_err message = app_New CodeControlInvalidArgument ''service_catalog'' message"

definition json_err :: goerror where "json_err = Plain []"

definition sc_wrap :: "string \<Rightarrow> goerror" where
  "sc_wrap message = app_Wrap CodeControlInvalidArgument ''service_catalog'' message (Some json_err)"

definition secretLikeValue :: "platform \<Rightarrow> string \<Rightarrow> bool" where
  "secretLikeValue p value =
     (let lower = ToLower (unicode_lower p) value
      in HasPrefix lower ''bearer '' \<or> HasPrefix lower ''basic '' \<or> HasPrefix lower ''token:'' \<or>
         HasPrefix lower ''secret:'' \<or> HasPrefix value ''sk-'' \<or> HasPrefix value ''xoxb-'' \<or>
         HasPrefix value ''xoxp-'' \<or> HasPrefix value ''ghp_'' \<or> HasPrefix value ''github_pat_'' \<or>
         HasPrefix value ''AKIA'' \<or> Contains value ''-----BEGIN '')"

definition sc_candidateHost :: "(string \<Rightarrow> URL option) \<Rightarrow> string \<Rightarrow> string" where
  "sc_candidateHost = candidateHost_with id"

definition privateKey :: "platform \<Rightarrow> string \<Rightarrow> bool" where
  "privateKey p key \<longleftrightarrow>
     ToLower (unicode_lower p) (RemoveAll (CHR ''.'') (RemoveAll (CHR ''-'') (RemoveAll (CHR ''_'') key))) \<in>
       {''meship'', ''privateip'', ''wireguardendpoint'', ''endpoint'', ''peerbundle'', ''libp2pmultiaddr'', ''multiaddr'',
        ''hostname'', ''internalhostname'', ''privatehostname'', ''repopath'', ''token'', ''secret'', ''credential'', ''password'',
        ''apikey'', ''accesskey'', ''servicetoken'', ''bearer''}"

definition privateString :: "platform \<Rightarrow> (string \<Rightarrow> URL option) \<Rightarrow> string \<Rightarrow> bool" where
  "privateString p url_Parse value0 =
     (let value = TrimSpace value0
      in if value = [] then False
         else if secretLikeValue p value then True
         else if Contains value ''/.git'' \<or> HasPrefix value ''/Users/'' \<or> HasPrefix value ''/var/'' then True
         else let host = sc_candidateHost url_Parse value
              in if host = [] then False
                 else internal_host (ToLower (unicode_lower p) (Trim ''[]'' host)))"

fun containsPrivateMaterial :: "platform \<Rightarrow> (string \<Rightarrow> URL option) \<Rightarrow> json \<Rightarrow> bool" where
  "containsPrivateMaterial p url_Parse (JSObj kvs) \<longleftrightarrow>
     (\<exists>(key, child) \<in> set kvs. privateKey p key \<or> containsPrivateMaterial p url_Parse child)"
| "containsPrivateMaterial p url_Parse (JSArr xs) \<longleftrightarrow> (\<exists>child \<in> set xs. containsPrivateMaterial p url_Parse child)"
| "containsPrivateMaterial p url_Parse (JSStr s) \<longleftrightarrow> privateString p url_Parse s"
| "containsPrivateMaterial p url_Parse _ \<longleftrightarrow> False"

definition PublicText :: "platform \<Rightarrow> (string \<Rightarrow> URL option) \<Rightarrow> string \<Rightarrow> string" where
  "PublicText p url_Parse value0 =
     (let value = TrimSpace value0 in if containsPrivateMaterial p url_Parse (JSStr value) then [] else value)"

definition ValidatePublicSchemaJSON :: "platform \<Rightarrow> (string \<Rightarrow> URL option) \<Rightarrow> string \<Rightarrow> goerror option" where
  "ValidatePublicSchemaJSON p url_Parse raw0 =
     (let raw = TrimSpace raw0
      in if raw = [] then Some (sc_err ''schema_json is required'')
         else if maxPublicSchemaBytes < length raw then
           Some (app_New CodeCoordPayloadTooLarge ''service_catalog'' ''schema_json is too large'')
         else case json_Unmarshal p raw of
                None \<Rightarrow> Some (sc_wrap ''schema_json must be valid JSON'')
              | Some decoded \<Rightarrow>
                  if containsPrivateMaterial p url_Parse decoded then
                    Some (sc_err ''schema_json contains private topology or secret material'')
                  else None)"

text \<open>\<open>json.Unmarshal\<close> into a \<open>[]string\<close>: \<open>null\<close> leaves a nil slice or an empty string.\<close>

fun decode_string :: "json \<Rightarrow> string option" where
  "decode_string (JSStr s) = Some s"
| "decode_string JSNull = Some []"
| "decode_string _ = None"

fun decode_strings :: "json \<Rightarrow> string list option" where
  "decode_strings (JSArr xs) = those (map decode_string xs)"
| "decode_strings JSNull = Some []"
| "decode_strings _ = None"

fun collect_actions :: "string list \<Rightarrow> string list \<Rightarrow> goerror + string list" where
  "collect_actions acc [] = Inr acc"
| "collect_actions acc (a # as) =
     (let action = TrimSpace a
      in if action = [] then Inl (sc_err ''allowed_actions_json cannot include empty actions'')
         else collect_actions (if action \<in> set acc then acc else acc @ [action]) as)"

definition AllowedActions :: "platform \<Rightarrow> string \<Rightarrow> goerror + string list" where
  "AllowedActions p raw0 =
     (let raw = TrimSpace raw0
      in if raw = [] then Inl (sc_err ''allowed_actions_json is required'')
         else case Option.bind (json_Unmarshal p raw) decode_strings of
                None \<Rightarrow> Inl (sc_wrap ''allowed_actions_json must be a JSON array of action strings'')
              | Some decoded \<Rightarrow>
                  (case collect_actions [] decoded of
                     Inl err \<Rightarrow> Inl err
                   | Inr actions \<Rightarrow>
                       if actions = [] then Inl (sc_err ''allowed_actions_json must include at least one action'')
                       else Inr actions))"

definition ValidateAllowedActionsJSON :: "platform \<Rightarrow> string \<Rightarrow> goerror option" where
  "ValidateAllowedActionsJSON p raw = (case AllowedActions p raw of Inl err \<Rightarrow> Some err | Inr actions \<Rightarrow> None)"

definition ValidateEntry :: "platform \<Rightarrow> (string \<Rightarrow> URL option) \<Rightarrow> EntryInput \<Rightarrow> goerror option" where
  "ValidateEntry p url_Parse input =
     (if TrimSpace (ei_TenantID input) = [] then Some (sc_err ''tenant_id is required'')
      else if TrimSpace (ei_DisplayName input) = [] then Some (sc_err ''display_name is required'')
      else if containsPrivateMaterial p url_Parse (JSStr (TrimSpace (ei_DisplayName input))) then
        Some (sc_err ''display_name contains private topology or secret material'')
      else if containsPrivateMaterial p url_Parse (JSStr (TrimSpace (ei_Description input))) then
        Some (sc_err ''description contains private topology or secret material'')
      else if TrimSpace (ei_ServiceKind input) = [] then Some (sc_err ''service_kind is required'')
      else if TrimSpace (ei_SchemaVersion input) = [] then Some (sc_err ''schema_version is required'')
      else case ValidatePublicSchemaJSON p url_Parse (ei_SchemaJSON input) of
             Some err \<Rightarrow> Some err
           | None \<Rightarrow>
               (case ValidateAllowedActionsJSON p (ei_AllowedActionsJSON input) of
                  Some err \<Rightarrow> Some err
                | None \<Rightarrow>
                    let state = DefaultState (ei_State input)
                    in if state \<noteq> sc_StateActive \<and> state \<noteq> sc_StateDeprecated \<and> state \<noteq> sc_StateRetired then
                         Some (sc_err ''state is invalid'')
                       else if state = sc_StateDeprecated \<and>
                               TrimSpace (ei_ReplacementCatalogEntryID input) = TrimSpace (ei_ServiceCatalogID input) then
                         Some (sc_err ''replacement service_catalog_id must differ from the deprecated entry'')
                       else None))"

section \<open>Facts\<close>

interpretation material: json_scan "containsPrivateMaterial p url_Parse" "privateKey p" "privateString p url_Parse" for p url_Parse
  by unfold_locales auto

text \<open>The collected actions are the trimmed ones, each once, in the order of their first occurrence.\<close>

lemma collect_actions_Inr:
  "collect_actions acc as = Inr r \<longleftrightarrow>
     [] \<notin> TrimSpace ` set as \<and> r = foldl (\<lambda>acc a. if a \<in> set acc then acc else acc @ [a]) acc (map TrimSpace as)"
  by (induction as arbitrary: acc) (auto simp: Let_def)

lemma foldl_once:
  defines "once \<equiv> foldl (\<lambda>acc a. if a \<in> set acc then acc else acc @ [a])"
  shows "distinct acc \<Longrightarrow> distinct (once acc as)" "set (once acc as) = set acc \<union> set as"
  unfolding once_def by (induction as arbitrary: acc) auto

lemma collect_actions_facts:
  assumes "collect_actions [] as = Inr r"
  shows "distinct r" "set r = TrimSpace ` set as" "[] \<notin> set r" "list_all (\<lambda>a. TrimSpace a = a) r"
proof -
  show "distinct r" "set r = TrimSpace ` set as" "[] \<notin> set r" "list_all (\<lambda>a. TrimSpace a = a) r"
    using assms foldl_once(1) [of "[]" "map TrimSpace as"] foldl_once(2) [of "[]" "map TrimSpace as"]
    by (auto simp: collect_actions_Inr list_all_iff)
qed

lemma ValidateAllowedActionsJSON_None_iff:
  "ValidateAllowedActionsJSON p raw = None \<longleftrightarrow> (\<exists>actions. AllowedActions p raw = Inr actions)"
  by (auto simp: ValidateAllowedActionsJSON_def split: sum.splits)

lemma AllowedActions_Inr:
  "AllowedActions p raw = Inr actions \<Longrightarrow>
     actions \<noteq> [] \<and> distinct actions \<and> [] \<notin> set actions \<and> list_all (\<lambda>a. TrimSpace a = a) actions"
  by (auto simp: AllowedActions_def Let_def dest: collect_actions_facts split: if_splits option.splits sum.splits)

lemma ValidatePublicSchemaJSON_None_iff:
  "ValidatePublicSchemaJSON p url_Parse raw = None \<longleftrightarrow>
     TrimSpace raw \<noteq> [] \<and> length (TrimSpace raw) \<le> 65536 \<and>
     (\<exists>v. json_Unmarshal p (TrimSpace raw) = Some v \<and>
        (\<forall>k \<in> json_keys v. \<not> privateKey p k) \<and> (\<forall>s \<in> json_strings v. \<not> privateString p url_Parse s))"
  by (auto simp: ValidatePublicSchemaJSON_def Let_def maxPublicSchemaBytes_def material.scan_iff not_less
      split: option.splits)

lemma ValidateEntry_None_iff:
  "ValidateEntry p url_Parse e = None \<longleftrightarrow>
     TrimSpace (ei_TenantID e) \<noteq> [] \<and> TrimSpace (ei_DisplayName e) \<noteq> [] \<and>
     \<not> privateString p url_Parse (ei_DisplayName e) \<and> \<not> privateString p url_Parse (ei_Description e) \<and>
     TrimSpace (ei_ServiceKind e) \<noteq> [] \<and> TrimSpace (ei_SchemaVersion e) \<noteq> [] \<and>
     ValidatePublicSchemaJSON p url_Parse (ei_SchemaJSON e) = None \<and>
     ValidateAllowedActionsJSON p (ei_AllowedActionsJSON e) = None \<and>
     TrimSpace (ei_State e) \<in> {[], ''active'', ''deprecated'', ''retired''} \<and>
     (TrimSpace (ei_State e) = ''deprecated'' \<longrightarrow>
        TrimSpace (ei_ReplacementCatalogEntryID e) \<noteq> TrimSpace (ei_ServiceCatalogID e))"
proof -
  have "privateString p url_Parse (TrimSpace s) = privateString p url_Parse s" for s by (simp add: privateString_def)
  then show ?thesis
    by (auto simp: ValidateEntry_def DefaultState_def Let_def sc_states split: option.splits)
qed

end
