(* ===== verification/OrderToCash.thy ===== *)
theory OrderToCash
  imports ServiceCatalog ContractManifest
begin

text \<open>
  The contract pack \<open>contracts/contractpacks/ordertocash\<close>: the seven interactions of the order-to-cash
  process with their payload schemas, the manifest and the catalog entries made from them, and the
  payload validator of the exchange with its search for private topology. \<open>url.Parse\<close> and the name
  hash of the \<open>uuid\<close> package are arguments. The list of a decoded object is in the order in which
  \<open>range\<close> visits the map; its keys are distinct. Names that another package also uses carry the
  prefix \<open>o2c_\<close>.
\<close>

section \<open>The interactions\<close>

definition o2c_CatalogVersion :: string where "o2c_CatalogVersion = ''order_to_cash.v1''"
definition o2c_ContractVersion :: string where "o2c_ContractVersion = ''1.0.0''"
definition o2c_SchemaVersion :: string where "o2c_SchemaVersion = ''order_to_cash.schema.v1''"
definition DefaultMaxPayload :: int64 where "DefaultMaxPayload = 32768"
definition DefaultReplaySeconds :: int64 where "DefaultReplaySeconds = 86400"

record Interaction =
  in_ContractID :: string
  in_DisplayName :: string
  in_ServiceKind :: string
  in_BusinessAction :: string
  in_TransactionKind :: string
  in_SchemaRef :: string
  in_SchemaJSON :: string
  in_ResultContracts :: "string list"

record ManifestInput =
  mi_TenantID :: string
  mi_ManifestID :: string
  mi_IssuedAtMS :: int64
  mi_ExpiresAtMS :: int64
  mi_SigningKeyID :: string
  mi_PartnerLinkIDs :: "string list"
  mi_MaxPayloadBytes :: int64
  mi_ReplayWindowSecs :: int64
  mi_EgressPolicyPrefix :: string

text \<open>The options of the catalog; a nil map behaves as an empty one.\<close>

record CatalogOptions =
  co_StateByContractID :: "string \<rightharpoonup> string"
  co_ReplacementByContractID :: "string \<rightharpoonup> string"

definition schema_request_for_quote :: string where
  \<open>schema_request_for_quote = ''{"type":"object","required":["transaction_kind","subject","document_id","buyer_ref","seller_ref","requested_at","line_items"],"properties":{"transaction_kind":{"type":"string"},"subject":{"type":"string"},"document_id":{"type":"string"},"buyer_ref":{"type":"string"},"seller_ref":{"type":"string"},"requested_at":{"type":"string"},"due_at":{"type":"string"},"currency":{"type":"string"},"line_items":{"type":"array"},"notes":{"type":"string"}},"additionalProperties":false}''\<close>

definition schema_quote :: string where
  \<open>schema_quote = ''{"type":"object","required":["transaction_kind","subject","document_id","rfq_document_id","seller_ref","buyer_ref","quoted_at","currency","total_amount","line_items"],"properties":{"transaction_kind":{"type":"string"},"subject":{"type":"string"},"document_id":{"type":"string"},"rfq_document_id":{"type":"string"},"seller_ref":{"type":"string"},"buyer_ref":{"type":"string"},"quoted_at":{"type":"string"},"valid_until":{"type":"string"},"currency":{"type":"string"},"total_amount":{"type":"number"},"line_items":{"type":"array"},"terms_ref":{"type":"string"}},"additionalProperties":false}''\<close>

definition schema_purchase_order :: string where
  \<open>schema_purchase_order = ''{"type":"object","required":["transaction_kind","subject","document_id","quote_document_id","buyer_ref","seller_ref","ordered_at","currency","total_amount","line_items"],"properties":{"transaction_kind":{"type":"string"},"subject":{"type":"string"},"document_id":{"type":"string"},"quote_document_id":{"type":"string"},"buyer_ref":{"type":"string"},"seller_ref":{"type":"string"},"ordered_at":{"type":"string"},"currency":{"type":"string"},"total_amount":{"type":"number"},"line_items":{"type":"array"},"delivery_window":{"type":"string"},"buyer_reference":{"type":"string"}},"additionalProperties":false}''\<close>

definition schema_order_confirmation :: string where
  \<open>schema_order_confirmation = ''{"type":"object","required":["transaction_kind","subject","document_id","purchase_order_document_id","seller_ref","buyer_ref","confirmed_at","status"],"properties":{"transaction_kind":{"type":"string"},"subject":{"type":"string"},"document_id":{"type":"string"},"purchase_order_document_id":{"type":"string"},"seller_ref":{"type":"string"},"buyer_ref":{"type":"string"},"confirmed_at":{"type":"string"},"status":{"type":"string"},"promised_ship_at":{"type":"string"},"exception_reason":{"type":"string"}},"additionalProperties":false}''\<close>

definition schema_shipment_status :: string where
  \<open>schema_shipment_status = ''{"type":"object","required":["transaction_kind","subject","document_id","purchase_order_document_id","seller_ref","buyer_ref","status","updated_at"],"properties":{"transaction_kind":{"type":"string"},"subject":{"type":"string"},"document_id":{"type":"string"},"purchase_order_document_id":{"type":"string"},"seller_ref":{"type":"string"},"buyer_ref":{"type":"string"},"status":{"type":"string"},"updated_at":{"type":"string"},"carrier_ref":{"type":"string"},"tracking_ref":{"type":"string"},"estimated_delivery_at":{"type":"string"}},"additionalProperties":false}''\<close>

definition schema_invoice :: string where
  \<open>schema_invoice = ''{"type":"object","required":["transaction_kind","subject","document_id","purchase_order_document_id","seller_ref","buyer_ref","issued_at","currency","invoice_amount","due_at"],"properties":{"transaction_kind":{"type":"string"},"subject":{"type":"string"},"document_id":{"type":"string"},"purchase_order_document_id":{"type":"string"},"seller_ref":{"type":"string"},"buyer_ref":{"type":"string"},"issued_at":{"type":"string"},"currency":{"type":"string"},"invoice_amount":{"type":"number"},"due_at":{"type":"string"},"remittance_ref":{"type":"string"}},"additionalProperties":false}''\<close>

definition schema_payment_status :: string where
  \<open>schema_payment_status = ''{"type":"object","required":["transaction_kind","subject","document_id","invoice_document_id","buyer_ref","seller_ref","status","updated_at"],"properties":{"transaction_kind":{"type":"string"},"subject":{"type":"string"},"document_id":{"type":"string"},"invoice_document_id":{"type":"string"},"buyer_ref":{"type":"string"},"seller_ref":{"type":"string"},"status":{"type":"string"},"updated_at":{"type":"string"},"payment_ref":{"type":"string"},"paid_amount":{"type":"number"},"currency":{"type":"string"}},"additionalProperties":false}''\<close>

definition interactions :: "Interaction list" where
  "interactions =
     [\<lparr>in_ContractID = ''order_to_cash.request_for_quote.request.v1'', in_DisplayName = ''Request for quote'',
       in_ServiceKind = ''order_to_cash.request_for_quote'', in_BusinessAction = ''request_for_quote'',
       in_TransactionKind = ''order_to_cash.request_for_quote'',
       in_SchemaRef = ''schemas/order_to_cash/request_for_quote.request.v1.json'',
       in_SchemaJSON = schema_request_for_quote, in_ResultContracts = [''order_to_cash.quote.response.v1'']\<rparr>,
      \<lparr>in_ContractID = ''order_to_cash.quote.response.v1'', in_DisplayName = ''Quote response'',
       in_ServiceKind = ''order_to_cash.quote'', in_BusinessAction = ''submit_quote'',
       in_TransactionKind = ''order_to_cash.quote'',
       in_SchemaRef = ''schemas/order_to_cash/quote.response.v1.json'',
       in_SchemaJSON = schema_quote, in_ResultContracts = [''order_to_cash.purchase_order.request.v1'']\<rparr>,
      \<lparr>in_ContractID = ''order_to_cash.purchase_order.request.v1'', in_DisplayName = ''Purchase order request'',
       in_ServiceKind = ''order_to_cash.purchase_order'', in_BusinessAction = ''submit_purchase_order'',
       in_TransactionKind = ''order_to_cash.purchase_order'',
       in_SchemaRef = ''schemas/order_to_cash/purchase_order.request.v1.json'',
       in_SchemaJSON = schema_purchase_order, in_ResultContracts = [''order_to_cash.order_confirmation.response.v1'']\<rparr>,
      \<lparr>in_ContractID = ''order_to_cash.order_confirmation.response.v1'', in_DisplayName = ''Order confirmation'',
       in_ServiceKind = ''order_to_cash.order_confirmation'', in_BusinessAction = ''confirm_order'',
       in_TransactionKind = ''order_to_cash.order_confirmation'',
       in_SchemaRef = ''schemas/order_to_cash/order_confirmation.response.v1.json'',
       in_SchemaJSON = schema_order_confirmation, in_ResultContracts = [''order_to_cash.shipment_status.update.v1'', ''order_to_cash.invoice.issue.v1'']\<rparr>,
      \<lparr>in_ContractID = ''order_to_cash.shipment_status.update.v1'', in_DisplayName = ''Shipment status update'',
       in_ServiceKind = ''order_to_cash.shipment_status'', in_BusinessAction = ''update_shipment_status'',
       in_TransactionKind = ''order_to_cash.shipment_status'',
       in_SchemaRef = ''schemas/order_to_cash/shipment_status.update.v1.json'',
       in_SchemaJSON = schema_shipment_status, in_ResultContracts = [''order_to_cash.invoice.issue.v1'']\<rparr>,
      \<lparr>in_ContractID = ''order_to_cash.invoice.issue.v1'', in_DisplayName = ''Invoice issue'',
       in_ServiceKind = ''order_to_cash.invoice'', in_BusinessAction = ''issue_invoice'',
       in_TransactionKind = ''order_to_cash.invoice'',
       in_SchemaRef = ''schemas/order_to_cash/invoice.issue.v1.json'',
       in_SchemaJSON = schema_invoice, in_ResultContracts = [''order_to_cash.payment_status.update.v1'']\<rparr>,
      \<lparr>in_ContractID = ''order_to_cash.payment_status.update.v1'', in_DisplayName = ''Payment status update'',
       in_ServiceKind = ''order_to_cash.payment_status'', in_BusinessAction = ''update_payment_status'',
       in_TransactionKind = ''order_to_cash.payment_status'',
       in_SchemaRef = ''schemas/order_to_cash/payment_status.update.v1.json'',
       in_SchemaJSON = schema_payment_status, in_ResultContracts = []\<rparr>]"

definition Interactions :: "Interaction list" where "Interactions = interactions"

definition interactionByContractID :: "string \<Rightarrow> Interaction option" where
  "interactionByContractID contractID = find (\<lambda>i. in_ContractID i = TrimSpace contractID) interactions"

definition PayloadSchema :: "string \<Rightarrow> string option" where
  "PayloadSchema contractID = map_option in_SchemaJSON (interactionByContractID contractID)"

definition PayloadSchemaHash :: "platform \<Rightarrow> string \<Rightarrow> string" where
  "PayloadSchemaHash p contractID =
     (case PayloadSchema contractID of None \<Rightarrow> [] | Some schema \<Rightarrow> hexEncode (sha256 p schema))"

section \<open>Manifest and catalog\<close>

definition o2c_normalizeStrings :: "string list \<Rightarrow> string list" where
  "o2c_normalizeStrings values = sort (trim_unique [] values)"

definition positive_or :: "int64 \<Rightarrow> int64 \<Rightarrow> int64" where
  "positive_or fallback n = (if sint n \<le> 0 then fallback else n)"

definition contract_of :: "platform \<Rightarrow> ManifestInput \<Rightarrow> Interaction \<Rightarrow> Contract" where
  "contract_of p input interaction =
     (let prefix = TrimSpace (mi_EgressPolicyPrefix input);
          egressPrefix = (if prefix = [] then ''egress.order_to_cash'' else prefix)
      in \<lparr>ct_ContractID = in_ContractID interaction, ct_ContractVersion = o2c_ContractVersion,
          ct_DisplayName = in_DisplayName interaction, ct_Action = ActionOpenFederationTransaction,
          ct_ServiceCatalogAction = in_BusinessAction interaction, ct_PayloadSchemaRef = in_SchemaRef interaction,
          ct_PayloadSchemaHashSHA256 = PayloadSchemaHash p (in_ContractID interaction),
          ct_MaxPayloadBytes = positive_or DefaultMaxPayload (mi_MaxPayloadBytes input),
          ct_RequiresIdempotency = True,
          ct_ReplayWindowSeconds = positive_or DefaultReplaySeconds (mi_ReplayWindowSecs input),
          ct_AllowedPartnerLinkIDs = Some (o2c_normalizeStrings (mi_PartnerLinkIDs input)),
          ct_AllowedGatewayMethodScopes = Some [''federation.open_federation_transaction''],
          ct_PrivateTopologyAllowed = False,
          ct_EgressPolicyRef = egressPrefix @ ''.'' @ in_BusinessAction interaction,
          ct_AuditClass = ''commercial_transaction'', ct_RetentionClass = ''order_to_cash'',
          ct_ResultContractIDs = (if in_ResultContracts interaction = [] then None
            else Some (in_ResultContracts interaction))\<rparr>)"

definition Contracts :: "platform \<Rightarrow> ManifestInput \<Rightarrow> Contract list" where
  "Contracts p input = map (contract_of p input) interactions"

definition o2c_Manifest :: "platform \<Rightarrow> ManifestInput \<Rightarrow> Manifest" where
  "o2c_Manifest p input =
     \<lparr>mf_SchemaVersion = mf_SchemaVersionV1, mf_TenantID = TrimSpace (mi_TenantID input),
      mf_ManifestID = TrimSpace (mi_ManifestID input), mf_IssuedAtMS = mi_IssuedAtMS input,
      mf_ExpiresAtMS = mi_ExpiresAtMS input, mf_CatalogVersion = o2c_CatalogVersion,
      mf_SigningKeyID = TrimSpace (mi_SigningKeyID input), mf_Contracts = Contracts p input,
      mf_ManifestHashSHA256 = [], mf_Signature = \<lparr>sig_Algorithm = [], sig_SignatureB64 = []\<rparr>\<rparr>"

definition ServiceCatalogID :: "(bytes \<Rightarrow> string) \<Rightarrow> string \<Rightarrow> string" where
  "ServiceCatalogID uuid_NewSHA1 contractID = uuid_NewSHA1 (''x-builders-net:order-to-cash:'' @ TrimSpace contractID)"

definition allowedActionJSON :: "string \<Rightarrow> string" where
  "allowedActionJSON action = marshal (JArr [JStr action])"

definition option_text :: "(string \<rightharpoonup> string) \<Rightarrow> string \<Rightarrow> string" where
  "option_text m key = TrimSpace (case m key of None \<Rightarrow> [] | Some v \<Rightarrow> v)"

definition catalog_entry :: "(bytes \<Rightarrow> string) \<Rightarrow> string \<Rightarrow> CatalogOptions \<Rightarrow> Interaction \<Rightarrow> EntryInput" where
  "catalog_entry uuid_NewSHA1 tenantID options interaction =
     (let chosen = option_text (co_StateByContractID options) (in_ContractID interaction);
          wanted = option_text (co_ReplacementByContractID options) (in_ContractID interaction)
      in \<lparr>ei_TenantID = TrimSpace tenantID,
          ei_ServiceCatalogID = ServiceCatalogID uuid_NewSHA1 (in_ContractID interaction),
          ei_DisplayName = in_DisplayName interaction, ei_Description = [],
          ei_ServiceKind = in_ServiceKind interaction, ei_SchemaJSON = in_SchemaJSON interaction,
          ei_SchemaVersion = o2c_SchemaVersion,
          ei_AllowedActionsJSON = allowedActionJSON (in_BusinessAction interaction),
          ei_State = (if chosen \<noteq> [] then chosen else sc_StateActive),
          ei_ReplacementCatalogEntryID =
            (case interactionByContractID wanted of
               Some r \<Rightarrow> ServiceCatalogID uuid_NewSHA1 (in_ContractID r)
             | None \<Rightarrow> wanted)\<rparr>)"

definition ServiceCatalogEntries :: "(bytes \<Rightarrow> string) \<Rightarrow> string \<Rightarrow> CatalogOptions \<Rightarrow> EntryInput list" where
  "ServiceCatalogEntries uuid_NewSHA1 tenantID options = map (catalog_entry uuid_NewSHA1 tenantID options) interactions"

section \<open>The search for private topology\<close>

definition o2c_privateTopologyKey :: "platform \<Rightarrow> string \<Rightarrow> bool" where
  "o2c_privateTopologyKey p key \<longleftrightarrow>
     ToLower (unicode_lower p)
       (RemoveAll (CHR ''.'') (RemoveAll (CHR ''-'') (RemoveAll (CHR ''_'') (TrimSpace key)))) \<in>
       {''meship'', ''privateip'', ''internalip'', ''lanip'', ''hostip'', ''wireguardendpoint'', ''endpoint'', ''peerbundle'',
        ''hostname'', ''internalhostname'', ''privatehostname'', ''libp2pmultiaddr'', ''multiaddr'', ''repopath''}"

definition o2c_candidateHost :: "(string \<Rightarrow> URL option) \<Rightarrow> string \<Rightarrow> string" where
  "o2c_candidateHost = candidateHost_with (Trim ''[]'')"

definition privateHost :: "platform \<Rightarrow> string \<Rightarrow> bool" where
  "privateHost p host0 =
     (let host = ToLower (unicode_lower p) (Trim ''[]'' (TrimSpace host0))
      in if host = [] then False else internal_host host)"

definition o2c_privateMarkers :: "string list" where
  "o2c_privateMarkers =
     [''fd00:'', ''fc00:'', ''fe80:'', ''::1'', ''localhost'', ''.local'', ''.internal'', ''.lan'', ''.corp'',
      ''10.0.'', ''10.1.'', ''10.2.'', ''10.3.'', ''10.4.'', ''10.5.'', ''10.6.'', ''10.7.'', ''10.8.'', ''10.9.'',
      ''192.168.'', ''172.16.'', ''172.17.'', ''172.18.'', ''172.19.'', ''172.20.'', ''172.21.'', ''172.22.'', ''172.23.'',
      ''172.24.'', ''172.25.'', ''172.26.'', ''172.27.'', ''172.28.'', ''172.29.'', ''172.30.'', ''172.31.'']"

definition o2c_privateTopologyString :: "platform \<Rightarrow> (string \<Rightarrow> URL option) \<Rightarrow> string \<Rightarrow> bool" where
  "o2c_privateTopologyString p url_Parse value0 =
     (let value = TrimSpace value0
      in if value = [] then False
         else let host = o2c_candidateHost url_Parse value
         in if host \<noteq> [] \<and> privateHost p host then True
            else if list_ex (privateHost p) (find_quads False value) then True
            else list_ex (Contains (ToLower (unicode_lower p) value)) o2c_privateMarkers)"

fun o2c_containsPrivateTopology :: "platform \<Rightarrow> (string \<Rightarrow> URL option) \<Rightarrow> json \<Rightarrow> bool" where
  "o2c_containsPrivateTopology p url_Parse (JSObj kvs) \<longleftrightarrow>
     (\<exists>(key, child) \<in> set kvs. o2c_privateTopologyKey p key \<or> o2c_containsPrivateTopology p url_Parse child)"
| "o2c_containsPrivateTopology p url_Parse (JSArr xs) \<longleftrightarrow> (\<exists>child \<in> set xs. o2c_containsPrivateTopology p url_Parse child)"
| "o2c_containsPrivateTopology p url_Parse (JSStr s) \<longleftrightarrow> o2c_privateTopologyString p url_Parse s"
| "o2c_containsPrivateTopology p url_Parse _ \<longleftrightarrow> False"

section \<open>The payload validator\<close>

text \<open>\<open>json.Unmarshal\<close> into a \<open>map[string]any\<close>: \<open>null\<close> leaves a nil map.\<close>

fun decode_map :: "json \<Rightarrow> (string \<times> json) list option" where
  "decode_map (JSObj kvs) = Some kvs"
| "decode_map JSNull = Some []"
| "decode_map _ = None"

fun stringValue :: "json option \<Rightarrow> string" where
  "stringValue (Some (JSStr s)) = s"
| "stringValue _ = []"

text \<open>The type assertions \<open>v.([]any)\<close>, \<open>v.(map[string]any)\<close> and \<open>v.(bool)\<close>, with what a failed one leaves.\<close>

fun as_list :: "json option \<Rightarrow> json list" where
  "as_list (Some (JSArr xs)) = xs"
| "as_list _ = []"

fun as_map :: "json option \<Rightarrow> (string \<times> json) list option" where
  "as_map (Some (JSObj kvs)) = Some kvs"
| "as_map _ = None"

definition jsonValueMatchesType :: "json \<Rightarrow> string \<Rightarrow> bool" where
  "jsonValueMatchesType value want =
     (if want = ''string'' then (case value of JSStr s \<Rightarrow> True | _ \<Rightarrow> False)
      else if want = ''number'' then (case value of JSNum n \<Rightarrow> True | _ \<Rightarrow> False)
      else if want = ''integer'' then (case value of JSNum n \<Rightarrow> of_int \<lfloor>n\<rfloor> = n | _ \<Rightarrow> False)
      else if want = ''boolean'' then (case value of JSBool b \<Rightarrow> True | _ \<Rightarrow> False)
      else if want = ''object'' then (case value of JSObj kvs \<Rightarrow> True | _ \<Rightarrow> False)
      else if want = ''array'' then (case value of JSArr xs \<Rightarrow> True | _ \<Rightarrow> False)
      else False)"

definition o2c_err :: "string \<Rightarrow> goerror" where
  "o2c_err message = app_New CodeControlInvalidArgument ''order_to_cash_contract'' message"

definition o2c_storage :: "string \<Rightarrow> goerror" where
  "o2c_storage message = app_New CodeStorageUnavailable ''order_to_cash_contract'' message"

fun check_required :: "(string \<times> json) list \<Rightarrow> json list \<Rightarrow> goerror option" where
  "check_required payloadObject [] = None"
| "check_required payloadObject (item # items) =
     (case item of
        JSStr key \<Rightarrow>
          if TrimSpace key = [] then Some (o2c_storage ''compiled schema required list is invalid'')
          else if map_of payloadObject key = None then Some (o2c_err (''payload missing required property '' @ key))
          else check_required payloadObject items
      | _ \<Rightarrow> Some (o2c_storage ''compiled schema required list is invalid''))"

fun check_properties :: "(string \<times> json) list \<Rightarrow> (string \<times> json) list \<Rightarrow> goerror option" where
  "check_properties schema [] = None"
| "check_properties schema ((key, value) # rest) =
     (let properties = (case as_map (map_of schema ''properties'') of None \<Rightarrow> [] | Some kvs \<Rightarrow> kvs)
      in case as_map (map_of properties key) of
           None \<Rightarrow>
             if map_of schema ''additionalProperties'' = Some (JSBool False) then
               Some (o2c_err (''payload contains unsupported property '' @ key))
             else check_properties schema rest
         | Some property \<Rightarrow>
             (let want = stringValue (map_of property ''type'')
              in if want \<noteq> [] \<and> \<not> jsonValueMatchesType value want then
                   Some (o2c_err (''payload property '' @ key @ '' must be '' @ want))
                 else check_properties schema rest))"

definition ValidatePayload :: "platform \<Rightarrow> (string \<Rightarrow> URL option) \<Rightarrow> string \<Rightarrow> bytes \<Rightarrow> goerror option" where
  "ValidatePayload p url_Parse contractID payload =
     (case interactionByContractID contractID of
        None \<Rightarrow> Some (o2c_err ''contract_id is not in the order-to-cash pack'')
      | Some interaction \<Rightarrow>
          (case Option.bind (json_Unmarshal p payload) decode_map of
             None \<Rightarrow> Some (app_Wrap CodeControlInvalidArgument ''order_to_cash_contract'' ''payload must be a JSON object'' (Some json_err))
           | Some payloadObject \<Rightarrow>
               if TrimSpace (stringValue (map_of payloadObject ''transaction_kind'')) \<noteq> in_TransactionKind interaction then
                 Some (o2c_err ''payload transaction_kind does not match the contract'')
               else if TrimSpace (stringValue (map_of payloadObject ''subject'')) = [] then
                 Some (o2c_err ''payload subject is required'')
               else case Option.bind (json_Unmarshal p (in_SchemaJSON interaction)) decode_map of
                 None \<Rightarrow> Some (app_Wrap CodeStorageUnavailable ''order_to_cash_contract'' ''compiled schema is invalid'' (Some json_err))
               | Some schema \<Rightarrow>
                   if o2c_containsPrivateTopology p url_Parse (JSObj payloadObject) then
                     Some (o2c_err ''payload contains private topology'')
                   else case check_required payloadObject (as_list (map_of schema ''required'')) of
                     Some err \<Rightarrow> Some err
                   | None \<Rightarrow> check_properties schema payloadObject))"

definition o2c_ValidateGatewayExchangePayload ::
  "platform \<Rightarrow> (string \<Rightarrow> URL option) \<Rightarrow> PayloadValidationInput \<Rightarrow> goerror option" where
  "o2c_ValidateGatewayExchangePayload p url_Parse input =
     (case interactionByContractID (cr_ContractID (pv_Contract input)) of
        None \<Rightarrow> Some (o2c_err ''contract_id is not in the order-to-cash pack'')
      | Some interaction \<Rightarrow>
          if cr_ContractVersion (pv_Contract input) \<noteq> o2c_ContractVersion then
            Some (o2c_err ''contract_version is not supported'')
          else if cr_PayloadSchemaHashSHA256 (pv_Contract input) \<noteq> PayloadSchemaHash p (in_ContractID interaction) then
            Some (o2c_err ''payload schema hash does not match the compiled contract'')
          else if ac_Action (pv_Action input) \<noteq> ActionOpenFederationTransaction \<or>
                  ac_FacadeMethod (pv_Action input) \<noteq> FacadeOpenFederationTransaction \<or>
                  \<not> ac_IdempotencyRequired (pv_Action input) \<or> ac_PrivateTopologyAllowed (pv_Action input) then
            Some (o2c_err ''contract action is not the narrowed order-to-cash transaction facade'')
          else ValidatePayload p url_Parse (in_ContractID interaction) (pv_Payload input))"

section \<open>Facts\<close>

interpretation pack: json_scan "o2c_containsPrivateTopology p url_Parse" "o2c_privateTopologyKey p"
  "o2c_privateTopologyString p url_Parse" for p url_Parse
  by unfold_locales auto

end
