(* ===== verification/PackProps.thy ===== *)
theory PackProps
  imports OrderToCash
begin

text \<open>
  The properties of the order-to-cash pack and of the service catalog: what a payload must be to be
  accepted, that the manifest, the validator and the catalog entries of the pack agree with each
  other, and which addresses the searches for private topology find.
\<close>

section \<open>The schemas as tables\<close>

text \<open>For each contract its required properties and the types of all properties.\<close>

definition schema_table :: "(string \<times> string list \<times> (string \<times> string) list) list" where
  "schema_table =
     [(''order_to_cash.request_for_quote.request.v1'',
        [''transaction_kind'', ''subject'', ''document_id'', ''buyer_ref'', ''seller_ref'', ''requested_at'', ''line_items''],
        [(''transaction_kind'', ''string''), (''subject'', ''string''), (''document_id'', ''string''), (''buyer_ref'', ''string''), (''seller_ref'', ''string''), (''requested_at'', ''string''), (''due_at'', ''string''), (''currency'', ''string''), (''line_items'', ''array''), (''notes'', ''string'')]),
      (''order_to_cash.quote.response.v1'',
        [''transaction_kind'', ''subject'', ''document_id'', ''rfq_document_id'', ''seller_ref'', ''buyer_ref'', ''quoted_at'', ''currency'', ''total_amount'', ''line_items''],
        [(''transaction_kind'', ''string''), (''subject'', ''string''), (''document_id'', ''string''), (''rfq_document_id'', ''string''), (''seller_ref'', ''string''), (''buyer_ref'', ''string''), (''quoted_at'', ''string''), (''valid_until'', ''string''), (''currency'', ''string''), (''total_amount'', ''number''), (''line_items'', ''array''), (''terms_ref'', ''string'')]),
      (''order_to_cash.purchase_order.request.v1'',
        [''transaction_kind'', ''subject'', ''document_id'', ''quote_document_id'', ''buyer_ref'', ''seller_ref'', ''ordered_at'', ''currency'', ''total_amount'', ''line_items''],
        [(''transaction_kind'', ''string''), (''subject'', ''string''), (''document_id'', ''string''), (''quote_document_id'', ''string''), (''buyer_ref'', ''string''), (''seller_ref'', ''string''), (''ordered_at'', ''string''), (''currency'', ''string''), (''total_amount'', ''number''), (''line_items'', ''array''), (''delivery_window'', ''string''), (''buyer_reference'', ''string'')]),
      (''order_to_cash.order_confirmation.response.v1'',
        [''transaction_kind'', ''subject'', ''document_id'', ''purchase_order_document_id'', ''seller_ref'', ''buyer_ref'', ''confirmed_at'', ''status''],
        [(''transaction_kind'', ''string''), (''subject'', ''string''), (''document_id'', ''string''), (''purchase_order_document_id'', ''string''), (''seller_ref'', ''string''), (''buyer_ref'', ''string''), (''confirmed_at'', ''string''), (''status'', ''string''), (''promised_ship_at'', ''string''), (''exception_reason'', ''string'')]),
      (''order_to_cash.shipment_status.update.v1'',
        [''transaction_kind'', ''subject'', ''document_id'', ''purchase_order_document_id'', ''seller_ref'', ''buyer_ref'', ''status'', ''updated_at''],
        [(''transaction_kind'', ''string''), (''subject'', ''string''), (''document_id'', ''string''), (''purchase_order_document_id'', ''string''), (''seller_ref'', ''string''), (''buyer_ref'', ''string''), (''status'', ''string''), (''updated_at'', ''string''), (''carrier_ref'', ''string''), (''tracking_ref'', ''string''), (''estimated_delivery_at'', ''string'')]),
      (''order_to_cash.invoice.issue.v1'',
        [''transaction_kind'', ''subject'', ''document_id'', ''purchase_order_document_id'', ''seller_ref'', ''buyer_ref'', ''issued_at'', ''currency'', ''invoice_amount'', ''due_at''],
        [(''transaction_kind'', ''string''), (''subject'', ''string''), (''document_id'', ''string''), (''purchase_order_document_id'', ''string''), (''seller_ref'', ''string''), (''buyer_ref'', ''string''), (''issued_at'', ''string''), (''currency'', ''string''), (''invoice_amount'', ''number''), (''due_at'', ''string''), (''remittance_ref'', ''string'')]),
      (''order_to_cash.payment_status.update.v1'',
        [''transaction_kind'', ''subject'', ''document_id'', ''invoice_document_id'', ''buyer_ref'', ''seller_ref'', ''status'', ''updated_at''],
        [(''transaction_kind'', ''string''), (''subject'', ''string''), (''document_id'', ''string''), (''invoice_document_id'', ''string''), (''buyer_ref'', ''string''), (''seller_ref'', ''string''), (''status'', ''string''), (''updated_at'', ''string''), (''payment_ref'', ''string''), (''paid_amount'', ''number''), (''currency'', ''string'')])]"

definition schema_doc :: "string list \<Rightarrow> (string \<times> string) list \<Rightarrow> jdoc" where
  "schema_doc req props = JObj [(''type'', JStr ''object''), (''required'', JArr (map JStr req)),
     (''properties'', JObj (map (\<lambda>(k, t). (k, JObj [(''type'', JStr t)])) props)), (''additionalProperties'', JBool False)]"

definition schema_value :: "string list \<Rightarrow> (string \<times> string) list \<Rightarrow> json" where
  "schema_value req props = JSObj [(''type'', JSStr ''object''), (''required'', JSArr (map JSStr req)),
     (''properties'', JSObj (map (\<lambda>(k, t). (k, JSObj [(''type'', JSStr t)])) props)), (''additionalProperties'', JSBool False)]"

lemma schema_texts:
  "map (\<lambda>i. (in_ContractID i, in_SchemaJSON i)) interactions =
     map (\<lambda>(c, req, props). (c, marshal (schema_doc req props))) schema_table"
  by code_simp

text \<open>The JSON reader decodes the compiled schemas to the values their texts stand for.\<close>

definition reads_schemas :: "platform \<Rightarrow> bool" where
  "reads_schemas p \<longleftrightarrow> (\<forall>(c, req, props) \<in> set schema_table.
     json_Unmarshal p (marshal (schema_doc req props)) = Some (schema_value req props))"

lemma interaction_ids: "map in_ContractID interactions = map fst schema_table"
  using schema_texts by (auto simp: comp_def case_prod_beta dest!: arg_cong [of _ _ "map fst"])

lemma schema_table_props:
  "list_all (\<lambda>(c, req, props). list_all (\<lambda>r. TrimSpace r \<noteq> []) req \<and> list_all (\<lambda>(k, t). t \<noteq> []) props) schema_table"
  by code_simp

lemma interaction_facts:
  "list_all (\<lambda>i. in_TransactionKind i \<noteq> [] \<and> in_ContractID i \<noteq> [] \<and> TrimSpace (in_ContractID i) = in_ContractID i \<and>
     TrimSpace (in_BusinessAction i) = in_BusinessAction i \<and> in_BusinessAction i \<noteq> [] \<and>
     TrimSpace (in_SchemaRef i) = in_SchemaRef i \<and> in_SchemaRef i \<noteq> [] \<and>
     TrimSpace (in_DisplayName i) = in_DisplayName i \<and> in_DisplayName i \<noteq> [] \<and>
     TrimSpace (in_ServiceKind i) \<noteq> []) interactions"
  by code_simp

lemma distinct_interactions: "distinct (map in_ContractID interactions)"
  by code_simp

lemma schema_row:
  assumes "i \<in> set interactions"
  obtains req props where "(in_ContractID i, req, props) \<in> set schema_table" "in_SchemaJSON i = marshal (schema_doc req props)"
proof -
  have "(in_ContractID i, in_SchemaJSON i) \<in> set (map (\<lambda>(c, req, props). (c, marshal (schema_doc req props))) schema_table)"
    using assms unfolding schema_texts [symmetric] by auto
  then show thesis using that by auto
qed

lemma schema_row_unique:
  "(c, req, props) \<in> set schema_table \<Longrightarrow> (c, req', props') \<in> set schema_table \<Longrightarrow> req = req' \<and> props = props'"
  using distinct_interactions unfolding interaction_ids by (metis eq_key_imp_eq_value prod.inject)

lemma find_SomeD: "find P xs = Some x \<Longrightarrow> x \<in> set xs \<and> P x"
  by (induction xs) (auto split: if_splits)

lemma interactionByContractID_Some:
  "interactionByContractID c = Some i \<longleftrightarrow> i \<in> set interactions \<and> in_ContractID i = TrimSpace c"
proof
  assume "interactionByContractID c = Some i"
  then show "i \<in> set interactions \<and> in_ContractID i = TrimSpace c"
    unfolding interactionByContractID_def by (rule find_SomeD)
next
  assume i: "i \<in> set interactions \<and> in_ContractID i = TrimSpace c"
  then have "interactionByContractID c \<noteq> None"
    unfolding interactionByContractID_def find_None_iff by blast
  then obtain j where j: "interactionByContractID c = Some j" by blast
  then have "j \<in> set interactions \<and> in_ContractID j = TrimSpace c"
    unfolding interactionByContractID_def by (rule find_SomeD)
  moreover have "inj_on in_ContractID (set interactions)" using distinct_interactions unfolding distinct_map by blast
  ultimately have "j = i" using i by (metis inj_onD)
  with j show "interactionByContractID c = Some i" by simp
qed

lemma interactionByContractID_own: "i \<in> set interactions \<Longrightarrow> interactionByContractID (in_ContractID i) = Some i"
  using interaction_facts by (auto simp: interactionByContractID_Some list_all_iff)

section \<open>Which payloads are accepted\<close>

lemma check_required_None_iff:
  "list_all (\<lambda>r. TrimSpace r \<noteq> []) req \<Longrightarrow>
     check_required kvs (map JSStr req) = None \<longleftrightarrow> set req \<subseteq> fst ` set kvs"
  by (induction req) (auto simp: map_of_eq_None_iff)

lemma as_map_properties:
  "as_map (map_of (map (\<lambda>(k, t). (k, JSObj [(''type'', JSStr t)])) props) key) =
     map_option (\<lambda>t. [(''type'', JSStr t)]) (map_of props key)"
  by (induction props) auto

lemma check_properties_None_iff:
  assumes "list_all (\<lambda>(k, t). t \<noteq> []) props" "schema_value req props = JSObj schema"
  shows "check_properties schema kvs = None \<longleftrightarrow>
    (\<forall>(k, v) \<in> set kvs. \<exists>t. map_of props k = Some t \<and> jsonValueMatchesType v t)"
proof -
  have s: "as_map (map_of schema ''properties'') = Some (map (\<lambda>(k, t). (k, JSObj [(''type'', JSStr t)])) props)"
    "map_of schema ''additionalProperties'' = Some (JSBool False)"
    using assms(2) by (auto simp: schema_value_def)
  have "t \<noteq> []" if "map_of props k = Some t" for k t
    using assms(1) map_of_SomeD [OF that] by (auto simp: list_all_iff)
  then show ?thesis
    by (induction kvs) (auto simp: Let_def s as_map_properties split: option.splits if_splits)
qed

lemma ValidatePayload_row:
  assumes "reads_schemas p" "interactionByContractID cid = Some i" "(in_ContractID i, req, props) \<in> set schema_table"
  shows "ValidatePayload p url_Parse cid payload = None \<longleftrightarrow>
    (\<exists>kvs. json_Unmarshal p payload = Some (JSObj kvs) \<and>
       TrimSpace (stringValue (map_of kvs ''transaction_kind'')) = in_TransactionKind i \<and>
       TrimSpace (stringValue (map_of kvs ''subject'')) \<noteq> [] \<and> \<not> o2c_containsPrivateTopology p url_Parse (JSObj kvs) \<and>
       set req \<subseteq> fst ` set kvs \<and> (\<forall>(k, v) \<in> set kvs. \<exists>t. map_of props k = Some t \<and> jsonValueMatchesType v t))"
proof -
  obtain schema where v: "schema_value req props = JSObj schema" and rq: "map_of schema ''required'' = Some (JSArr (map JSStr req))"
    by (auto simp: schema_value_def)
  have i: "i \<in> set interactions" using assms(2) by (simp add: interactionByContractID_Some)
  then obtain req' props' where row: "(in_ContractID i, req', props') \<in> set schema_table" "in_SchemaJSON i = marshal (schema_doc req' props')"
    by (rule schema_row)
  with schema_row_unique [OF assms(3) row(1)] have "json_Unmarshal p (in_SchemaJSON i) = Some (JSObj schema)"
    using assms(1,3) v by (auto simp: reads_schemas_def)
  moreover have "list_all (\<lambda>r. TrimSpace r \<noteq> []) req" "list_all (\<lambda>(k, t). t \<noteq> []) props"
    using schema_table_props assms(3) by (auto simp: list_all_iff)
  moreover have "in_TransactionKind i \<noteq> []" using interaction_facts i by (auto simp: list_all_iff)
  ultimately have val: "Option.bind (json_Unmarshal p payload) decode_map = Some kvs \<Longrightarrow>
      ValidatePayload p url_Parse cid payload =
        (if TrimSpace (stringValue (map_of kvs ''transaction_kind'')) \<noteq> in_TransactionKind i then
           Some (o2c_err ''payload transaction_kind does not match the contract'')
         else if TrimSpace (stringValue (map_of kvs ''subject'')) = [] then Some (o2c_err ''payload subject is required'')
         else if o2c_containsPrivateTopology p url_Parse (JSObj kvs) then Some (o2c_err ''payload contains private topology'')
         else case check_required kvs (map JSStr req) of Some err \<Rightarrow> Some err | None \<Rightarrow> check_properties schema kvs)"
    and cr: "check_required kvs (map JSStr req) = None \<longleftrightarrow> set req \<subseteq> fst ` set kvs"
    and cp: "check_properties schema kvs = None \<longleftrightarrow> (\<forall>(k, v) \<in> set kvs. \<exists>t. map_of props k = Some t \<and> jsonValueMatchesType v t)"
    and tk: "in_TransactionKind i \<noteq> []" for kvs
    using assms(2) rq check_required_None_iff check_properties_None_iff [OF _ v]
    by (simp_all add: ValidatePayload_def del: o2c_containsPrivateTopology.simps cong: if_cong)
  show ?thesis
  proof (cases "Option.bind (json_Unmarshal p payload) decode_map")
    case None
    then show ?thesis using assms(2) by (auto simp: ValidatePayload_def)
  next
    case (Some kvs)
    then consider "json_Unmarshal p payload = Some (JSObj kvs)" | "json_Unmarshal p payload = Some JSNull" "kvs = []"
      by (cases "json_Unmarshal p payload") (auto elim!: decode_map.elims)
    then show ?thesis
    proof cases
      case 1
      then show ?thesis unfolding val [OF Some] using cr [of kvs] cp [of kvs]
        by (auto simp del: o2c_containsPrivateTopology.simps split: option.splits if_splits)
    next
      case 2
      then show ?thesis unfolding val [OF Some] using tk by simp
    qed
  qed
qed

section \<open>The manifest of the pack\<close>

definition input_ok :: "ManifestInput \<Rightarrow> bool" where
  "input_ok input \<longleftrightarrow> TrimSpace (mi_TenantID input) \<noteq> [] \<and> TrimSpace (mi_ManifestID input) \<noteq> [] \<and>
     TrimSpace (mi_SigningKeyID input) \<noteq> [] \<and> 0 < sint (mi_IssuedAtMS input) \<and>
     sint (mi_IssuedAtMS input) < sint (mi_ExpiresAtMS input) \<and> (\<exists>l \<in> set (mi_PartnerLinkIDs input). TrimSpace l \<noteq> [])"

lemma open_transaction:
  "TrimSpace ActionOpenFederationTransaction = ActionOpenFederationTransaction" "ActionOpenFederationTransaction \<noteq> []"
  "facadeForAction ActionOpenFederationTransaction = Inr (FacadeOpenFederationTransaction, True)"
  "expectedMethodScope ActionOpenFederationTransaction = ''federation.open_federation_transaction''"
  "normalizeStringSlice (Some [''federation.open_federation_transaction'']) = Some [''federation.open_federation_transaction'']"
  by code_simp+

lemma pack_words:
  "TrimSpace o2c_ContractVersion = o2c_ContractVersion" "o2c_ContractVersion \<noteq> []" "TrimSpace o2c_CatalogVersion = o2c_CatalogVersion"
  "o2c_CatalogVersion \<noteq> []" "TrimSpace ''commercial_transaction'' = ''commercial_transaction''" "TrimSpace ''order_to_cash'' = ''order_to_cash''"
  "TrimSpace mf_SchemaVersionV1 = mf_SchemaVersionV1"
  by code_simp+

lemma positive_or_positive: "0 < sint fallback \<Longrightarrow> 0 < sint (positive_or fallback n)"
  by (simp add: positive_or_def)

lemma default_limits: "0 < sint DefaultMaxPayload" "0 < sint DefaultReplaySeconds"
  by code_simp+

lemma links_listed:
  "elems (normalizeStringSlice (Some (o2c_normalizeStrings links))) \<noteq> [] \<longleftrightarrow> (\<exists>l \<in> set links. TrimSpace l \<noteq> [])"
proof -
  define xs where "xs = o2c_normalizeStrings links"
  define S where "S = TrimSpace ` set links - {[]}"
  have xs: "set xs = S" by (simp add: xs_def S_def o2c_normalizeStrings_def trim_unique_set)
  have "TrimSpace ` S = id ` S" by (rule image_cong) (auto simp: S_def)
  then have "set (sort (trim_unique [] xs)) = S" by (auto simp: trim_unique_set xs) (auto simp: S_def)
  then have "sort (trim_unique [] xs) = [] \<longleftrightarrow> S = {}" by (metis set_empty)
  moreover have "xs = [] \<longleftrightarrow> S = {}" using xs by (metis set_empty)
  ultimately have "elems (normalizeStringSlice (Some xs)) = [] \<longleftrightarrow> S = {}"
    by (simp add: normalizeStringSlice_def)
  moreover have "S = {} \<longleftrightarrow> \<not> (\<exists>l \<in> set links. TrimSpace l \<noteq> [])" by (auto simp: S_def)
  ultimately show ?thesis unfolding xs_def by simp
qed

lemma dotted_not_blank: "TrimSpace (s @ ''.'' @ t) \<noteq> []"
proof -
  have "CHR ''.'' \<in> set (TrimSpace (s @ ''.'' @ t))" by (rule TrimSpace_keeps) (simp_all add: ws_runes_def)
  then show ?thesis by auto
qed

lemma pack_contract_valid:
  assumes "sha256_sized p" "i \<in> set interactions"
  shows "validateContract (normalizeContract (contract_of p input i)) = None \<longleftrightarrow>
    (\<exists>l \<in> set (mi_PartnerLinkIDs input). TrimSpace l \<noteq> [])"
proof -
  have f: "in_ContractID i \<noteq> [] \<and> TrimSpace (in_ContractID i) = in_ContractID i \<and> in_SchemaRef i \<noteq> [] \<and> TrimSpace (in_SchemaRef i) = in_SchemaRef i"
    using interaction_facts assms(2) by (simp add: list_all_iff)
  have "hexEncode (sha256 p b) \<noteq> []" for b using hex_sha256_length [OF assms(1), of b] by (auto simp flip: length_0_conv)
  then have "PayloadSchemaHash p (in_ContractID i) \<noteq> []" "TrimSpace (PayloadSchemaHash p (in_ContractID i)) = PayloadSchemaHash p (in_ContractID i)"
    using interactionByContractID_own [OF assms(2)] by (simp_all add: PayloadSchemaHash_def PayloadSchema_def)
  then show ?thesis
    using f links_listed [of "mi_PartnerLinkIDs input"] dotted_not_blank
      positive_or_positive [OF default_limits(1), of "mi_MaxPayloadBytes input"]
      positive_or_positive [OF default_limits(2), of "mi_ReplayWindowSecs input"]
    by (auto simp: validateContract_def normalizeContract_def contract_of_def Let_def open_transaction pack_words)
qed

lemma distinct_sort_key: "distinct (map f (sort_key f xs)) \<longleftrightarrow> distinct (map f xs)"
proof -
  have "mset (map f (sort_key f xs)) = mset (map f xs)" by (simp only: mset_map mset_sort)
  then show ?thesis by (rule mset_eq_imp_distinct_iff)
qed

lemma pack_contract_fields:
  assumes "i \<in> set interactions"
  shows "ct_ContractID (normalizeContract (contract_of p input i)) = in_ContractID i"
    "ct_ContractVersion (normalizeContract (contract_of p input i)) = o2c_ContractVersion"
    "ct_Action (normalizeContract (contract_of p input i)) = ActionOpenFederationTransaction"
    "ct_PayloadSchemaHashSHA256 (normalizeContract (contract_of p input i)) = PayloadSchemaHash p (in_ContractID i)"
    "ct_RequiresIdempotency (normalizeContract (contract_of p input i))"
    "\<not> ct_PrivateTopologyAllowed (normalizeContract (contract_of p input i))"
  using interaction_facts assms interactionByContractID_own [OF assms]
  by (simp_all add: list_all_iff normalizeContract_def contract_of_def Let_def pack_words open_transaction
      PayloadSchemaHash_def PayloadSchema_def)

lemma pack_keys_distinct: "distinct (map (contract_key \<circ> normalizeContract \<circ> contract_of p input) interactions)"
proof -
  have "contract_key (normalizeContract (contract_of p input i)) =
      in_ContractID i @ CHR 0x00 # o2c_ContractVersion @ CHR 0x00 # ActionOpenFederationTransaction"
    if "i \<in> set interactions" for i
    using that by (simp add: contract_key_def pack_contract_fields)
  then have "map (contract_key \<circ> normalizeContract \<circ> contract_of p input) interactions =
      map (\<lambda>k. k @ CHR 0x00 # o2c_ContractVersion @ CHR 0x00 # ActionOpenFederationTransaction) (map in_ContractID interactions)"
    by simp
  then show ?thesis using distinct_interactions by (simp add: distinct_map inj_on_def)
qed

lemma some_interaction:
  obtains i where "i \<in> set interactions"
proof -
  have "interactions \<noteq> []" by (simp add: interactions_def)
  then show thesis using that hd_in_set by blast
qed

lemma pack_contracts:
  "mf_Contracts (normalizeManifest (o2c_Manifest p input)) =
     sort_key contract_key (map (normalizeContract \<circ> contract_of p input) interactions)"
  by (simp add: normalizeManifest_def o2c_Manifest_def Contracts_def)

lemma pack_shape:
  assumes "sha256_sized p"
  shows "validateManifestShape (normalizeManifest (o2c_Manifest p input)) = None \<longleftrightarrow> input_ok input"
proof -
  let ?m = "normalizeManifest (o2c_Manifest p input)"
  obtain i where i: "i \<in> set interactions" by (rule some_interaction)
  note cs = pack_contracts [of p input]
  have "(\<forall>c \<in> set (mf_Contracts ?m). validateContract c = None) \<longleftrightarrow> (\<exists>l \<in> set (mi_PartnerLinkIDs input). TrimSpace l \<noteq> [])"
    unfolding cs using pack_contract_valid [OF assms] i by auto
  moreover have "distinct (map contract_key (mf_Contracts ?m))"
    unfolding cs distinct_sort_key using pack_keys_distinct [of p input] by (simp add: comp_def)
  moreover have "mf_Contracts ?m \<noteq> []" unfolding cs using i by (metis length_pos_if_in_set length_sort length_map list.size(3) less_irrefl)
  ultimately show ?thesis
    unfolding validateManifestShape_iff input_ok_def by (simp add: normalizeManifest_def o2c_Manifest_def pack_words)
qed

section \<open>Properties of the pack\<close>

text \<open>
  The pack's manifest is publishable exactly on complete inputs. A 64-byte key signs
  \<open>Manifest(input)\<close> exactly when tenant, manifest and signing-key ids are not blank, the manifest
  is issued at a positive time before it expires and some partner link is not blank; the signed
  manifest then has one contract per interaction and verifies under any keyring that holds the
  signer's key until it expires.
\<close>

theorem pack_manifest_publishes:
  assumes "sha256_sized p" "ed25519_correct p" "length sk = 64"
  shows "((\<exists>m. cm_Sign p (o2c_Manifest p input) sk = Inr m) \<longleftrightarrow> input_ok input) \<and>
    (\<forall>m keyring sys nowMS. cm_Sign p (o2c_Manifest p input) sk = Inr m \<longrightarrow>
       mset (map ct_ContractID (mf_Contracts m)) = mset (map in_ContractID interactions) \<and>
       (keyring (TrimSpace (mi_SigningKeyID input)) = Some (ed_public p sk) \<longrightarrow>
        sint (effectiveNowMS sys nowMS) < sint (mi_ExpiresAtMS input) \<longrightarrow>
        cm_Verify p sys m keyring nowMS = None))"
proof (intro conjI allI impI)
  show "(\<exists>m. cm_Sign p (o2c_Manifest p input) sk = Inr m) \<longleftrightarrow> input_ok input"
    using assms(3) pack_shape [OF assms(1)] by (simp add: cm_Sign_Inr_iff)
next
  fix m keyring sys nowMS
  assume s: "cm_Sign p (o2c_Manifest p input) sk = Inr m"
  note m = cm_Sign_signed(3) [OF s]
  have "map ct_ContractID (map (normalizeContract \<circ> contract_of p input) interactions) = map in_ContractID interactions"
    by (simp add: pack_contract_fields(1))
  moreover have "mset (map ct_ContractID (mf_Contracts m)) =
      mset (map ct_ContractID (map (normalizeContract \<circ> contract_of p input) interactions))"
  proof -
    have "mf_Contracts m = sort_key contract_key (map (normalizeContract \<circ> contract_of p input) interactions)"
      unfolding m by (simp add: pack_contracts)
    then show ?thesis by (simp only: mset_map mset_sort)
  qed
  ultimately show "mset (map ct_ContractID (mf_Contracts m)) = mset (map in_ContractID interactions)"
    by (simp only:)
  assume k: "keyring (TrimSpace (mi_SigningKeyID input)) = Some (ed_public p sk)"
    and e: "sint (effectiveNowMS sys nowMS) < sint (mi_ExpiresAtMS input)"
  show "cm_Verify p sys m keyring nowMS = None"
  proof (rule cm_Sign_Verify [OF assms(2,1) s])
    show "keyring (mf_SigningKeyID m) = Some (ed_public p sk)" "sint (effectiveNowMS sys nowMS) < sint (mf_ExpiresAtMS m)"
      using k e by (simp_all add: m normalizeManifest_def o2c_Manifest_def)
  qed
qed

definition pack_input :: ManifestInput where
  "pack_input = \<lparr>mi_TenantID = ''t1'', mi_ManifestID = ''m1'', mi_IssuedAtMS = 1000, mi_ExpiresAtMS = 5000,
     mi_SigningKeyID = ''k1'', mi_PartnerLinkIDs = ['' '', ''link-1''], mi_MaxPayloadBytes = 0, mi_ReplayWindowSecs = 0,
     mi_EgressPolicyPrefix = []\<rparr>"

lemma pack_input_ok: "input_ok pack_input" "TrimSpace (mi_SigningKeyID pack_input) = ''k1''" "sint (mi_ExpiresAtMS pack_input) = 5000"
  by code_simp+

theorem pack_manifest_publishes_witness:
  "\<exists>m. cm_Sign demo_platform (o2c_Manifest demo_platform pack_input) (replicate 64 CHR ''k'') = Inr m \<and>
    mset (map ct_ContractID (mf_Contracts m)) = mset (map in_ContractID interactions) \<and>
    cm_Verify demo_platform 0 m [''k1'' \<mapsto> ed_public demo_platform (replicate 64 CHR ''k'')] 2000 = None"
proof -
  have now: "sint (effectiveNowMS 0 2000) < 5000" by code_simp
  note pub = pack_manifest_publishes [OF demo_sha256_sized demo_ed25519_correct, of "replicate 64 CHR ''k''" pack_input]
  then obtain m where m: "cm_Sign demo_platform (o2c_Manifest demo_platform pack_input) (replicate 64 CHR ''k'') = Inr m"
    using pack_input_ok(1) by auto
  then show ?thesis using pub now pack_input_ok by auto
qed

text \<open>
  Manifest and payload validator of the pack agree. For every contract of a signed pack manifest
  and the exchange action it resolves to, the validator passes its checks of version, schema hash
  and facade, so its answer is that of \<open>ValidatePayload\<close> for the contract, whatever the payload.
\<close>

theorem pack_validator_agrees:
  assumes "cm_Sign p (o2c_Manifest p input) sk = Inr m" "ct \<in> set (mf_Contracts m)" "toExchangeAction ct = Inr act"
  shows "o2c_ValidateGatewayExchangePayload p url_Parse
      \<lparr>pv_Contract = \<lparr>cr_ContractID = ct_ContractID ct, cr_ContractVersion = ct_ContractVersion ct,
         cr_ManifestHashSHA256 = mf_ManifestHashSHA256 m, cr_PayloadSchemaHashSHA256 = ct_PayloadSchemaHashSHA256 ct\<rparr>,
       pv_Action = act, pv_Payload = payload\<rparr> = ValidatePayload p url_Parse (ct_ContractID ct) payload"
proof -
  obtain i where i: "i \<in> set interactions" "ct = normalizeContract (contract_of p input i)"
    using assms(2) unfolding cm_Sign_signed(3) [OF assms(1)] by (auto simp: pack_contracts)
  note f = pack_contract_fields [OF i(1), of p input, folded i(2)]
  have "ac_Action act = ActionOpenFederationTransaction" "ac_FacadeMethod act = FacadeOpenFederationTransaction"
    "ac_IdempotencyRequired act" "\<not> ac_PrivateTopologyAllowed act"
    using assms(3) f by (auto simp: toExchangeAction_def open_transaction)
  then show ?thesis
    using interactionByContractID_own [OF i(1)] by (simp add: o2c_ValidateGatewayExchangePayload_def f)
qed

theorem pack_validator_agrees_witness:
  "\<exists>(m :: Manifest) (ct :: Contract) act. ct \<in> set (mf_Contracts m) \<and> toExchangeAction ct = Inr act \<and>
    o2c_ValidateGatewayExchangePayload demo_platform (\<lambda>s. None)
      \<lparr>pv_Contract = \<lparr>cr_ContractID = ct_ContractID ct, cr_ContractVersion = ct_ContractVersion ct,
         cr_ManifestHashSHA256 = mf_ManifestHashSHA256 m, cr_PayloadSchemaHashSHA256 = ct_PayloadSchemaHashSHA256 ct\<rparr>,
       pv_Action = act, pv_Payload = ''{}''\<rparr> = ValidatePayload demo_platform (\<lambda>s. None) (ct_ContractID ct) ''{}''"
proof -
  obtain m where m: "cm_Sign demo_platform (o2c_Manifest demo_platform pack_input) (replicate 64 CHR ''k'') = Inr m"
    using cm_Sign_Inr_iff pack_shape [OF demo_sha256_sized] pack_input_ok(1) by force
  obtain i where i: "i \<in> set interactions" by (rule some_interaction)
  define ct where "ct = normalizeContract (contract_of demo_platform pack_input i)"
  have "ct \<in> set (mf_Contracts m)" unfolding cm_Sign_signed(3) [OF m] using i by (simp add: pack_contracts ct_def)
  moreover obtain act where "toExchangeAction ct = Inr act"
    using pack_contract_fields(3) [OF i] by (simp add: toExchangeAction_def ct_def open_transaction)
  ultimately show ?thesis using pack_validator_agrees [OF m] by blast
qed

text \<open>
  C23. A payload is accepted exactly when it is a JSON object that names the transaction of its
  contract and a subject, holds no key and no string of private topology at any depth, has every
  property its compiled schema requires and no property the schema does not list, each of the
  listed type. The reader of the compiled schemas is assumed to decode them correctly.
\<close>

theorem ValidatePayload_exact:
  assumes "reads_schemas p"
  shows "ValidatePayload p url_Parse cid payload = None \<longleftrightarrow>
    (\<exists>i req props kvs. i \<in> set interactions \<and> in_ContractID i = TrimSpace cid \<and>
       (in_ContractID i, req, props) \<in> set schema_table \<and> json_Unmarshal p payload = Some (JSObj kvs) \<and>
       TrimSpace (stringValue (map_of kvs ''transaction_kind'')) = in_TransactionKind i \<and>
       TrimSpace (stringValue (map_of kvs ''subject'')) \<noteq> [] \<and>
       (\<forall>k \<in> json_keys (JSObj kvs). \<not> o2c_privateTopologyKey p k) \<and>
       (\<forall>s \<in> json_strings (JSObj kvs). \<not> o2c_privateTopologyString p url_Parse s) \<and>
       set req \<subseteq> fst ` set kvs \<and> (\<forall>(k, v) \<in> set kvs. \<exists>t. map_of props k = Some t \<and> jsonValueMatchesType v t))"
proof (cases "interactionByContractID cid")
  case None
  then have "\<not> (i \<in> set interactions \<and> in_ContractID i = TrimSpace cid)" for i
    using interactionByContractID_Some [of cid i] by simp
  then show ?thesis using None by (auto simp: ValidatePayload_def)
next
  case (Some i)
  have i: "j \<in> set interactions \<and> in_ContractID j = TrimSpace cid \<longleftrightarrow> j = i" for j
    using Some interactionByContractID_Some [of cid j] by auto
  obtain req props where r: "(in_ContractID i, req, props) \<in> set schema_table" using schema_row i by blast
  then have row: "(in_ContractID i, req', props') \<in> set schema_table \<longleftrightarrow> req' = req \<and> props' = props" for req' props'
    using schema_row_unique by blast
  have "ValidatePayload p url_Parse cid payload = None \<longleftrightarrow>
    (\<exists>kvs. json_Unmarshal p payload = Some (JSObj kvs) \<and>
       TrimSpace (stringValue (map_of kvs ''transaction_kind'')) = in_TransactionKind i \<and>
       TrimSpace (stringValue (map_of kvs ''subject'')) \<noteq> [] \<and>
       (\<forall>k \<in> json_keys (JSObj kvs). \<not> o2c_privateTopologyKey p k) \<and>
       (\<forall>s \<in> json_strings (JSObj kvs). \<not> o2c_privateTopologyString p url_Parse s) \<and>
       set req \<subseteq> fst ` set kvs \<and> (\<forall>(k, v) \<in> set kvs. \<exists>t. map_of props k = Some t \<and> jsonValueMatchesType v t))"
    unfolding ValidatePayload_row [OF assms Some r] pack.scan_iff by (simp only: de_Morgan_disj bex_simps conj_assoc)
  then show ?thesis using i row by (metis (no_types, lifting))
qed

definition pack_payload :: "(string \<times> json) list" where
  "pack_payload = [(''transaction_kind'', JSStr ''order_to_cash.payment_status''), (''subject'', JSStr ''Invoice 7''),
     (''document_id'', JSStr ''d1''), (''invoice_document_id'', JSStr ''i7''), (''buyer_ref'', JSStr ''b''),
     (''seller_ref'', JSStr ''s''), (''status'', JSStr ''paid''), (''updated_at'', JSStr ''2026-01-01''),
     (''paid_amount'', JSNum (25 / 2))]"

definition pack_platform :: platform where
  "pack_platform = demo_platform\<lparr>json_Unmarshal := (\<lambda>b.
     case find (\<lambda>(i, row). b = in_SchemaJSON i) (zip interactions schema_table) of
       Some (i, c, req, props) \<Rightarrow> Some (schema_value req props)
     | None \<Rightarrow> if b = ''payload'' then Some (JSObj pack_payload) else None)\<rparr>"

lemma pack_platform_reads: "reads_schemas pack_platform"
proof -
  have "list_all (\<lambda>(i, c, req, props). json_Unmarshal pack_platform (in_SchemaJSON i) = Some (schema_value req props))
    (zip interactions schema_table)"
    by code_simp
  moreover have "length interactions = length schema_table" using arg_cong [OF schema_texts, of length] by simp
  moreover have "in_SchemaJSON (interactions ! n) = (case schema_table ! n of (c, req, props) \<Rightarrow> marshal (schema_doc req props))"
    if "n < length schema_table" for n
    using arg_cong [OF schema_texts, of "\<lambda>xs. snd (xs ! n)"] that calculation(2) by (simp add: case_prod_beta)
  ultimately show ?thesis
    by (fastforce simp: reads_schemas_def list_all_length in_set_conv_nth split: prod.splits)
qed

theorem ValidatePayload_exact_witness:
  "ValidatePayload pack_platform (\<lambda>s. None) ''order_to_cash.payment_status.update.v1'' ''payload'' = None"
proof -
  let ?i = "interactions ! 6" and ?row = "schema_table ! 6"
  have "?i \<in> set interactions" "?row \<in> set schema_table" by (simp_all add: interactions_def schema_table_def)
  moreover have id: "in_ContractID ?i = TrimSpace ''order_to_cash.payment_status.update.v1'' \<and> in_ContractID ?i = fst ?row" by code_simp
  moreover have "(in_ContractID ?i, fst (snd ?row), snd (snd ?row)) \<in> set schema_table"
    using id calculation(2) by (metis prod.collapse)
  moreover have "json_Unmarshal pack_platform ''payload'' = Some (JSObj pack_payload)" by code_simp
  moreover have "TrimSpace (stringValue (map_of pack_payload ''transaction_kind'')) = in_TransactionKind ?i \<and>
      TrimSpace (stringValue (map_of pack_payload ''subject'')) \<noteq> []" by code_simp
  moreover have "\<not> o2c_containsPrivateTopology pack_platform (\<lambda>s. None) (JSObj pack_payload)" by code_simp
  moreover have "list_all (\<lambda>r. r \<in> fst ` set pack_payload) (fst (snd ?row)) \<and>
      list_all (\<lambda>(k, v). case map_of (snd (snd ?row)) k of None \<Rightarrow> False | Some t \<Rightarrow> jsonValueMatchesType v t) pack_payload"
    by code_simp
  ultimately show ?thesis
    unfolding ValidatePayload_exact [OF pack_platform_reads] pack.scan_iff
    by (intro exI [of _ ?i] exI [of _ "fst (snd ?row)"] exI [of _ "snd (snd ?row)"] exI [of _ pack_payload])
      (auto simp: list_all_iff simp del: prod.collapse split: option.splits)
qed

end
