(* ===== verification/TopologyProps.thy ===== *)
theory TopologyProps
  imports OrderToCash
begin

text \<open>
  Which addresses the searches for private topology find. Every private, loopback or link-local IPv4
  address is found by the service catalog where it stands alone, and by the order-to-cash pack
  wherever it stands in a text between characters that cannot belong to a dotted quad.
\<close>

section \<open>Dotted quads\<close>

text \<open>\<open>url.Parse\<close> finds a host only after a double slash.\<close>

definition hostless :: "(string \<Rightarrow> URL option) \<Rightarrow> bool" where
  "hostless url_Parse \<longleftrightarrow> (\<forall>s u. url_Parse s = Some u \<longrightarrow> \<not> Contains s ''//'' \<longrightarrow> url_Host u = [])"

definition octets :: "nat list \<Rightarrow> bool" where
  "octets os \<longleftrightarrow> length os = 4 \<and> list_all (\<lambda>n. n < 256) os"

lemma dec_digit_char_of: "k < 10 \<Longrightarrow> dec_digit (char_of (48 + k)) = Some k"
  by (simp add: dec_digit_def less_eq_char_def of_char_of)

lemma dec_nat_small:
  "n < 10 \<Longrightarrow> dec_nat n = [char_of (48 + n)]"
  "10 \<le> n \<Longrightarrow> n < 100 \<Longrightarrow> dec_nat n = [char_of (48 + n div 10), char_of (48 + n mod 10)]"
  "100 \<le> n \<Longrightarrow> n < 1000 \<Longrightarrow>
     dec_nat n = [char_of (48 + n div 100), char_of (48 + n div 10 mod 10), char_of (48 + n mod 10)]"
proof -
  have d: "n div 10 div 10 = n div 100" by (simp add: div_mult2_eq [symmetric])
  show "n < 10 \<Longrightarrow> dec_nat n = [char_of (48 + n)]" by (simp add: dec_nat.simps)
  show "10 \<le> n \<Longrightarrow> n < 100 \<Longrightarrow> dec_nat n = [char_of (48 + n div 10), char_of (48 + n mod 10)]"
    by (simp add: dec_nat.simps [of n] dec_nat.simps [of "n div 10"])
  assume "100 \<le> n" "n < 1000"
  then have "\<not> n div 10 < 10" "n div 100 < 10" "\<not> n < 10" by auto
  then show "dec_nat n = [char_of (48 + n div 100), char_of (48 + n div 10 mod 10), char_of (48 + n mod 10)]"
    by (simp add: dec_nat.simps [of n] dec_nat.simps [of "n div 10"] dec_nat.simps [of "n div 100"] d)
qed

lemma octet_dec_nat:
  assumes "n < 256"
  shows "octet (dec_nat n) = Some n" "length (dec_nat n) \<le> 3"
proof -
  have "n div 100 = n div 10 div 10" by (simp add: div_mult2_eq [symmetric])
  then have m: "n mod 10 < 10" "n div 10 mod 10 < 10" "10 * (10 * (n div 100) + n div 10 mod 10) + n mod 10 = n"
    "10 * (n div 10) + n mod 10 = n" by (simp_all only: mult_div_mod_eq mod_less_divisor zero_less_numeral)
  consider "n < 10" | "10 \<le> n" "n < 100" | "100 \<le> n" "n < 1000" using assms by linarith
  then show "octet (dec_nat n) = Some n"
  proof cases
    case 1
    then show ?thesis by (simp add: dec_nat_small octet_def dec_digit_char_of)
  next
    case 2
    then have "n div 10 < 10" "n div 10 \<noteq> 0" by auto
    with 2 m assms show ?thesis by (simp add: dec_nat_small octet_def dec_digit_char_of)
  next
    case 3
    then have "n div 100 < 10" "n div 100 \<noteq> 0" by auto
    with 3 m assms show ?thesis by (simp add: dec_nat_small octet_def dec_digit_char_of)
  qed
  from \<open>n < 256\<close> show "length (dec_nat n) \<le> 3"
    by (cases "n < 10"; cases "n < 100") (simp_all add: dec_nat_small)
qed

lemma octets_cases:
  assumes "octets os"
  obtains a b c d where "os = [a, b, c, d]" "a < 256" "b < 256" "c < 256" "d < 256"
    "octets_string os = dec_nat a @ CHR ''.'' # dec_nat b @ CHR ''.'' # dec_nat c @ CHR ''.'' # dec_nat d"
  using assms unfolding octets_def octets_string_def
  by (auto simp: length_Suc_conv numeral_eq_Suc)

lemma digit_facts:
  "is_digit c \<Longrightarrow> c \<noteq> CHR ''.'' \<and> c \<noteq> CHR '':'' \<and> c \<noteq> CHR ''%'' \<and> c \<noteq> CHR ''/'' \<and> c \<noteq> CHR ''['' \<and> c \<noteq> CHR '']'' \<and>
     word_char c \<and> ascii c \<and> ascii_lower c = c"
  by (auto simp: is_digit_def byte_in_def word_char_def alphanum_def less_eq_char_def ascii_def ascii_lower_def)

lemma dec_nat_chars: "c \<in> set (dec_nat n) \<Longrightarrow> is_digit c"
  using dec_nat_digits [of n] by (simp add: list_all_iff)

lemma ParseIP_quad:
  assumes "octets os"
  shows "ParseIP (octets_string os) = Some (IP4 os)"
proof -
  obtain a b c d where os: "os = [a, b, c, d]" "a < 256" "b < 256" "c < 256" "d < 256"
    and s: "octets_string os = dec_nat a @ CHR ''.'' # dec_nat b @ CHR ''.'' # dec_nat c @ CHR ''.'' # dec_nat d"
    using assms by (rule octets_cases)
  have no_dot: "CHR ''.'' \<notin> set (dec_nat n)" for n using dec_nat_chars digit_facts by blast
  have "find P (xs @ y # ys) = Some y" if "P y" "\<not> list_ex P xs" for P xs y and ys :: string
    using that by (induction xs) auto
  moreover have "\<not> list_ex (\<lambda>c. c = CHR ''.'' \<or> c = CHR '':'' \<or> c = CHR ''%'') (dec_nat a)"
    using dec_nat_chars digit_facts by (auto simp: list_ex_iff)
  ultimately have "find (\<lambda>c. c = CHR ''.'' \<or> c = CHR '':'' \<or> c = CHR ''%'') (octets_string os) = Some CHR ''.''"
    unfolding s by simp
  moreover have "split_char CHR ''.'' (octets_string os) = [dec_nat a, dec_nat b, dec_nat c, dec_nat d]"
    unfolding s by (simp add: split_char_append split_char_free no_dot)
  ultimately show ?thesis
    using os octet_dec_nat(1) by (simp add: ParseIP_def ParseAddr_def parseIPv4_def parseIPv4Fields_def)
qed

lemma Trim_fix: "s \<noteq> [] \<Longrightarrow> hd s \<notin> set cs \<Longrightarrow> last s \<notin> set cs \<Longrightarrow> Trim cs s = s"
proof -
  assume s: "s \<noteq> []" "hd s \<notin> set cs" "last s \<notin> set cs"
  then have "dropWhile (\<lambda>c. c \<in> set cs) s = s" "dropWhile (\<lambda>c. c \<in> set cs) (rev s) = rev s"
    by (simp_all only: dropWhile_eq_self_iff hd_rev) simp_all
  then show "Trim cs s = s" by (simp only: Trim_def rev_rev_ident)
qed

text \<open>The characters of a quad are digits and dots, a digit first and last.\<close>

lemma quad_chars:
  assumes "octets os"
  shows "list_all (\<lambda>c. is_digit c \<or> c = CHR ''.'') (octets_string os)" "octets_string os \<noteq> []"
    "is_digit (hd (octets_string os))" "is_digit (last (octets_string os))"
proof -
  obtain a b c d where s: "octets_string os = dec_nat a @ CHR ''.'' # dec_nat b @ CHR ''.'' # dec_nat c @ CHR ''.'' # dec_nat d"
    using assms by (rule octets_cases)
  show "list_all (\<lambda>c. is_digit c \<or> c = CHR ''.'') (octets_string os)" "octets_string os \<noteq> []"
    unfolding s using dec_nat_chars by (auto simp: list_all_iff)
  show "is_digit (hd (octets_string os))" "is_digit (last (octets_string os))"
    unfolding s using dec_nat_chars [OF hd_in_set, of a] dec_nat_chars [OF last_in_set, of d] by simp_all
qed

lemma quad_text:
  assumes "octets os"
  shows "TrimSpace (octets_string os) = octets_string os" "ToLower low (octets_string os) = octets_string os"
    "Trim ''[]'' (octets_string os) = octets_string os" "CHR '':'' \<notin> set (octets_string os)" "CHR ''/'' \<notin> set (octets_string os)"
proof -
  note q = quad_chars [OF assms]
  have ws: "list_all (\<lambda>c. \<not> is_digit c \<and> c \<noteq> CHR ''.'') (concat ws_runes)"
    by (simp add: ws_runes_def is_digit_def byte_in_def)
  have "c \<notin> set (concat ws_runes)" if "c \<in> set (octets_string os)" for c
    using that q(1) ws unfolding list_all_iff by blast
  then show "TrimSpace (octets_string os) = octets_string os" by (rule trimmed_no_ws)
  have "ascii CHR ''.'' \<and> ascii_lower CHR ''.'' = CHR ''.''" by code_simp
  then have "ascii c \<and> ascii_lower c = c" if "c \<in> set (octets_string os)" for c
    using that q(1) digit_facts unfolding list_all_iff by metis
  then have "list_all ascii (octets_string os)" "map ascii_lower (octets_string os) = octets_string os"
    by (simp_all add: list_all_iff map_idI)
  then show "ToLower low (octets_string os) = octets_string os" by (simp add: ToLower_ascii)
  have "hd (octets_string os) \<notin> set ''[]''" "last (octets_string os) \<notin> set ''[]''" using q(3,4) digit_facts by auto
  then show "Trim ''[]'' (octets_string os) = octets_string os"
    using q(2) by (intro Trim_fix)
  show "CHR '':'' \<notin> set (octets_string os)" "CHR ''/'' \<notin> set (octets_string os)"
    using q(1) by (auto simp: list_all_iff is_digit_def byte_in_def)
qed

lemma candidateHost_plain:
  assumes "hostless url_Parse" "CHR '':'' \<notin> set s" "CHR ''/'' \<notin> set s" "s \<noteq> []" "hd s \<noteq> CHR ''[''"
  shows "candidateHost_with finish url_Parse s = finish s"
proof -
  have "Cut CHR '':'' (rev s) = None" using assms(2) by (simp add: Cut_None_iff)
  then have "CutLast CHR '':'' s = None" "SplitHostPort s = None" by (simp_all add: CutLast_def SplitHostPort_def)
  moreover have tw: "takeWhile (\<lambda>c. c \<noteq> CHR ''/'') s = s" using assms(3) by (auto simp: takeWhile_eq_all_conv)
  moreover have "\<not> HasPrefix s ''[''" using assms(4,5) by (cases s) (auto simp: HasPrefix_def)
  moreover have "\<not> Contains s ''//''" using assms(3) by (auto simp: Contains_def sublist_def)
  moreover have "case url_Parse s of None \<Rightarrow> True | Some u \<Rightarrow> url_Host u = []"
    using assms(1) calculation(5) by (simp add: hostless_def split: option.splits)
  ultimately show ?thesis unfolding candidateHost_with_def Let_def tw by (cases "url_Parse s") simp_all
qed

lemma internal_quad: "octets os \<Longrightarrow> internal_ip (IP4 os) \<Longrightarrow> internal_host (octets_string os)"
  by (simp add: internal_host_def ParseIP_quad)

lemma catalog_finds_quad:
  assumes "hostless url_Parse" "octets os" "internal_ip (IP4 os)"
  shows "privateString p url_Parse (octets_string os)"
proof -
  note q = quad_text [OF assms(2)] quad_chars [OF assms(2)]
  have "hd (octets_string os) \<noteq> CHR ''[''" using q(8) digit_facts by blast
  then have "sc_candidateHost url_Parse (octets_string os) = octets_string os"
    unfolding sc_candidateHost_def using q by (subst candidateHost_plain [OF assms(1)]) auto
  then show ?thesis using internal_quad [OF assms(2,3)] by (simp add: privateString_def q Let_def)
qed

lemma privateHost_quad: "octets os \<Longrightarrow> internal_ip (IP4 os) \<Longrightarrow> privateHost p (octets_string os)"
  using quad_chars(2) by (simp add: privateHost_def quad_text internal_quad)

section \<open>Quads inside a text\<close>

lemma span_digits:
  "r = [] \<or> \<not> is_digit (hd r) \<Longrightarrow> takeWhile is_digit (dec_nat n @ r) = dec_nat n \<and> dropWhile is_digit (dec_nat n @ r) = r"
  using dec_nat_digits [of n] by (cases r) (auto simp: list_all_iff)

lemma quad_at_quad:
  assumes "octets os" "post = [] \<or> \<not> word_char (hd post)"
  shows "quad_at 3 (octets_string os @ post) = Some (octets_string os, post)"
proof -
  obtain a b c d where os: "a < 256" "b < 256" "c < 256" "d < 256"
    and s: "octets_string os = dec_nat a @ CHR ''.'' # dec_nat b @ CHR ''.'' # dec_nat c @ CHR ''.'' # dec_nat d"
    using assms(1) by (rule octets_cases)
  have "post = [] \<or> \<not> is_digit (hd post)" using assms(2) digit_facts by blast
  note span = span_digits [OF this, of d] span_digits [of "CHR ''.'' # r" for r]
  have dot: "\<not> is_digit CHR ''.''" by (simp add: is_digit_def byte_in_def)
  have ok: "digits_ok (dec_nat a)" "digits_ok (dec_nat b)" "digits_ok (dec_nat c)" "digits_ok (dec_nat d)"
    using os octet_dec_nat(2) by (simp_all add: digits_ok_def)
  have three: "(3 :: nat) = Suc (Suc (Suc 0))" by simp
  show ?thesis
    unfolding s three using span dot ok assms(2) by auto
qed

text \<open>A character that is neither a word character nor a dot separates the matches on its two sides.\<close>

lemma quad_at_stop:
  assumes "\<not> word_char c" "c \<noteq> CHR ''.''"
  shows "quad_at n (xs @ c # ys) = map_option (\<lambda>(m, r). (m, r @ c # ys)) (quad_at n xs)"
proof -
  have d: "\<not> is_digit c" using assms(1) digit_facts by blast
  have t: "takeWhile is_digit (xs @ c # ys) = takeWhile is_digit xs" "dropWhile is_digit (xs @ c # ys) = dropWhile is_digit xs @ c # ys" for xs
    using d by (induction xs) auto
  show ?thesis
  proof (induction n arbitrary: xs)
    case 0
    then show ?case using assms by (cases "dropWhile is_digit xs") (simp_all add: t Let_def del: dropWhile_eq_Nil_conv)
  next
    case (Suc n)
    then show ?case using assms
      by (cases "dropWhile is_digit xs")
        (simp_all add: t Let_def option.map_comp comp_def case_prod_beta del: dropWhile_eq_Nil_conv)
  qed
qed

lemma find_quads_stop:
  assumes "\<not> word_char c" "c \<noteq> CHR ''.''"
  shows "find_quads b (xs @ c # ys) = find_quads b xs @ find_quads False ys"
proof (induction b xs rule: find_quads.induct)
  case (1 b)
  have "quad_at 3 [] = None" by (simp add: numeral_3_eq_3 digits_ok_def)
  then have "quad_at 3 (c # ys) = None" using quad_at_stop [OF assms, of 3 "[]" ys] by (simp del: quad_at.simps)
  then show ?case using assms(1) by simp
next
  case (2 b x xs)
  show ?case
  proof (cases "if b then None else quad_at 3 (x # xs)")
    case None
    then show ?thesis using 2 quad_at_stop [OF assms, of 3 "x # xs" ys] by (simp split: if_splits)
  next
    case (Some mr)
    then obtain m r where "\<not> b" "quad_at 3 (x # xs) = Some (m, r)" by (cases mr) (auto split: if_splits)
    then show ?thesis using 2 quad_at_stop [OF assms, of 3 "x # xs" ys] by simp
  qed
qed

lemma find_quads_finds:
  assumes "octets os" "post = [] \<or> \<not> word_char (hd post)"
    and "pre = [] \<or> \<not> word_char (last pre) \<and> last pre \<noteq> CHR ''.''"
  shows "octets_string os \<in> set (find_quads False (pre @ octets_string os @ post))"
proof -
  have here: "octets_string os \<in> set (find_quads False (octets_string os @ post))"
    using quad_at_quad [OF assms(1,2)] quad_chars(2) [OF assms(1)]
    by (cases "octets_string os") simp_all
  show ?thesis
  proof (cases pre rule: rev_cases)
    case Nil
    then show ?thesis using here by simp
  next
    case (snoc xs c)
    then show ?thesis using here assms(3) find_quads_stop [of c False xs "octets_string os @ post"] by simp
  qed
qed

section \<open>Properties\<close>



text \<open>
  C24. The pack's search refines the one of the exchange: whatever the exchange reports in a decoded
  value the pack reports too, so a payload the pack accepts passes the scan of the exchange.
\<close>

theorem pack_refines_exchange_scan:
  "privateTopologyValue p v \<Longrightarrow> o2c_containsPrivateTopology p url_Parse v"
proof -
  have "privateTopologyKey p = o2c_privateTopologyKey p"
    unfolding privateTopologyKey_def o2c_privateTopologyKey_def by simp
  moreover have "set privateMarkers \<subseteq> set o2c_privateMarkers" by (simp add: privateMarkers_def o2c_privateMarkers_def)
  then have "privateTopologyString p s \<Longrightarrow> o2c_privateTopologyString p url_Parse s" for s
    by (auto simp: privateTopologyString_def o2c_privateTopologyString_def Let_def list_ex_iff split: if_splits)
  ultimately show "privateTopologyValue p v \<Longrightarrow> o2c_containsPrivateTopology p url_Parse v"
    unfolding topology.scan_iff pack.scan_iff by metis
qed

theorem pack_refines_exchange_scan_witness:
  "o2c_containsPrivateTopology demo_platform (\<lambda>s. None) (JSArr [JSObj [(''mesh_ip'', JSNull)]])"
proof (rule pack_refines_exchange_scan)
  show "privateTopologyValue demo_platform (JSArr [JSObj [(''mesh_ip'', JSNull)]])" by code_simp
qed

end
