(* ===== verification/CatalogProps.thy ===== *)
theory CatalogProps
  imports PackProps TopologyProps
begin

text \<open>
  The order-to-cash pack and the service catalog together: every entry the pack generates is one the
  catalog accepts. The texts of the pack are lower-case words and short titles, which the search for
  private material passes on every platform.
\<close>

section \<open>Words and titles\<close>

definition letters :: string where "letters = ''abcdefghijklmnopqrstuvwxyz_ABCDEFGHIJKLMNOPQRSTUVWXYZ ''"

definition lower_word :: "string \<Rightarrow> bool" where
  "lower_word s \<longleftrightarrow> s \<noteq> [] \<and> list_all (\<lambda>c. c \<in> set ''abcdefghijklmnopqrstuvwxyz_'') s \<and>
     \<not> prefix ''ghp_'' s \<and> \<not> prefix ''github_pat_'' s \<and> s \<noteq> ''localhost''"

definition title :: "string \<Rightarrow> bool" where
  "title s \<longleftrightarrow> s \<noteq> [] \<and> list_all (\<lambda>c. c \<in> set letters) s \<and> hd s \<in> set ''RQPOSI'' \<and> last s \<noteq> CHR '' ''"

lemma letters_facts:
  "list_all (\<lambda>c. ascii c \<and> c \<notin> set '':/[].%-'' \<and> c \<noteq> CHR 0xC5 \<and> ascii_lower c \<in> set letters \<and>
     ascii_lower (ascii_lower c) = ascii_lower c) letters"
  "list_all (\<lambda>c. ascii_lower c = c \<and> c \<in> set letters) ''abcdefghijklmnopqrstuvwxyz_''"
  "list_all (\<lambda>c. c = CHR '' '' \<or> c \<notin> set (concat ws_runes)) letters"
  "list_all (\<lambda>c. ascii_lower c \<notin> set ''bl'' \<and> c \<notin> set ''gA'' \<and> c \<noteq> CHR '' '') ''RQPOSI''"
  by code_simp+

lemma trimmed_ends:
  assumes "s = [] \<or> hd s \<notin> set (concat ws_runes) \<and> last s \<notin> set (concat ws_runes)"
  shows "TrimSpace s = s"
proof -
  have p: "hd w = hd t \<and> t \<noteq> []" if "prefix w t" "w \<noteq> []" for w t :: string
    using that by (auto simp: prefix_def)
  have in_ws: "hd w \<in> set (concat ws_runes)" "hd (rev w) \<in> set (concat ws_runes)" if "w \<in> set ws_runes" for w
  proof -
    have "w \<noteq> []" using that by (auto simp: ws_runes_def)
    then have "hd w \<in> set w" "hd (rev w) \<in> set w" by (simp_all add: hd_rev)
    with that show "hd w \<in> set (concat ws_runes)" "hd (rev w) \<in> set (concat ws_runes)" by auto
  qed
  have "\<not> (w \<noteq> [] \<and> prefix w s)" if "w \<in> set ws_runes" for w
    using in_ws(1) [OF that] p [of w s] assms by (cases "s = []") auto
  moreover have "\<not> (rev w \<noteq> [] \<and> prefix (rev w) (rev s))" if "w \<in> set ws_runes" for w
    using in_ws(2) [OF that] p [of "rev w" "rev s"] assms by (cases "s = []") (auto simp: hd_rev)
  ultimately have "trimmed s" unfolding trimmed_def starts_with_one_def find_None_iff set_map by blast
  then show ?thesis by (simp add: trimmed_iff)
qed

text \<open>Which letter texts the catalog takes for private: secrets by their prefix, and the local host.\<close>

lemma letters_private:
  assumes "hostless url_Parse" "s \<noteq> []" "list_all (\<lambda>c. c \<in> set letters) s" "TrimSpace s = s"
    and "privateString p url_Parse s"
  shows "prefix ''bearer '' (map ascii_lower s) \<or> prefix ''basic '' (map ascii_lower s) \<or> prefix ''ghp_'' s \<or>
    prefix ''github_pat_'' s \<or> prefix ''AKIA'' s \<or> map ascii_lower s = ''localhost''"
proof -
  have c: "ascii c \<and> c \<notin> set '':/[].%-'' \<and> ascii_lower c \<in> set letters \<and> ascii_lower (ascii_lower c) = ascii_lower c"
    if "c \<in> set s" for c
    using that assms(3) letters_facts(1) unfolding list_all_iff by blast
  have l: "c \<notin> set '':/[].%-'' \<and> c \<noteq> CHR 0xC5" if "c \<in> set (map ascii_lower s)" for c
    using that c letters_facts(1) unfolding list_all_iff by auto
  have no: "\<not> sublist w s \<and> \<not> sublist w (map ascii_lower s)" if "list_ex (\<lambda>c. c \<in> set '':/[].%-'') w" for w
    using that c l set_mono_sublist [of w s] set_mono_sublist [of w "map ascii_lower s"] unfolding list_ex_iff by blast
  have lo: "ToLower low s = map ascii_lower s" for low using c by (intro ToLower_ascii) (simp add: list_all_iff)
  moreover have "hd s \<notin> set ''[]''" "last s \<notin> set ''[]''" using c hd_in_set [OF assms(2)] last_in_set [OF assms(2)] by auto
  moreover have "candidateHost_with id url_Parse s = s"
    using c assms(2) calculation(2) by (subst candidateHost_plain [OF assms(1)]) auto
  ultimately have "secretLikeValue p s \<or> Contains s ''/.git'' \<or> HasPrefix s ''/Users/'' \<or> HasPrefix s ''/var/'' \<or> internal_host (map ascii_lower s)"
    using assms(2,4,5) Trim_fix [OF assms(2)] by (auto simp: privateString_def sc_candidateHost_def Let_def split: if_splits)
  moreover have "find (\<lambda>c. c = CHR ''.'' \<or> c = CHR '':'' \<or> c = CHR ''%'') (map ascii_lower s) = None"
    using l unfolding find_None_iff by force
  then have "internal_host (map ascii_lower s) \<Longrightarrow> fold_localhost (map ascii_lower s)"
    using no by (auto simp: internal_host_def internal_name_def ParseIP_def ParseAddr_def HasSuffix_def dest: suffix_imp_sublist)
  moreover have "map ascii_lower (map ascii_lower s) = map ascii_lower s" using c by simp
  then have "fold_localhost (map ascii_lower s) \<Longrightarrow> map ascii_lower s = ''localhost''"
    using l [of "CHR 0xC5"] by (auto simp: fold_localhost_def)
  moreover have "secretLikeValue p s \<Longrightarrow> prefix ''bearer '' (map ascii_lower s) \<or> prefix ''basic '' (map ascii_lower s) \<or>
      prefix ''ghp_'' s \<or> prefix ''github_pat_'' s \<or> prefix ''AKIA'' s"
    using lo no by (auto simp: secretLikeValue_def Let_def HasPrefix_def Contains_def dest: prefix_imp_sublist)
  moreover have "\<not> Contains s ''/.git''" "\<not> HasPrefix s ''/Users/''" "\<not> HasPrefix s ''/var/''"
    using no by (auto simp: HasPrefix_def Contains_def dest: prefix_imp_sublist)
  ultimately show ?thesis by blast
qed

lemma lower_word_public:
  assumes "hostless url_Parse" "lower_word s"
  shows "\<not> privateString p url_Parse s"
proof
  assume a: "privateString p url_Parse s"
  have s: "s \<noteq> []" "\<not> prefix ''ghp_'' s" "\<not> prefix ''github_pat_'' s" "s \<noteq> ''localhost''"
    and c: "c \<in> set s \<Longrightarrow> c \<in> set ''abcdefghijklmnopqrstuvwxyz_''" for c
    using assms(2) unfolding lower_word_def list_all_iff by blast+
  have lc: "c \<in> set s \<Longrightarrow> ascii_lower c = c \<and> c \<in> set letters" for c
    using c letters_facts(2) unfolding list_all_iff by blast
  have "CHR '' '' \<notin> set ''abcdefghijklmnopqrstuvwxyz_''" "CHR ''A'' \<notin> set ''abcdefghijklmnopqrstuvwxyz_''" by simp_all
  then have n: "CHR '' '' \<notin> set s" "CHR ''A'' \<notin> set s" using c by blast+
  have l: "map ascii_lower s = s" using lc by (simp add: map_idI)
  have "c = CHR '' '' \<or> c \<notin> set (concat ws_runes)" if "c \<in> set s" for c
    using lc [OF that] letters_facts(3) by (simp only: list_all_iff)
  then have "TrimSpace s = s" using n(1) by (intro trimmed_no_ws) metis
  moreover have "list_all (\<lambda>c. c \<in> set letters) s" using lc by (simp add: list_all_iff)
  ultimately have d: "prefix ''bearer '' s \<or> prefix ''basic '' s \<or> prefix ''ghp_'' s \<or> prefix ''github_pat_'' s \<or>
      prefix ''AKIA'' s \<or> s = ''localhost''"
    using letters_private [OF assms(1) s(1) _ _ a] by (simp only: l)
  have "\<not> prefix w s" if "CHR '' '' \<in> set w \<or> CHR ''A'' \<in> set w" for w using that n set_mono_prefix [of w s] by blast
  then have "\<not> prefix ''bearer '' s" "\<not> prefix ''basic '' s" "\<not> prefix ''AKIA'' s" by simp_all
  with d s(2-4) show False by blast
qed

lemma title_public:
  assumes "hostless url_Parse" "title s"
  shows "\<not> privateString p url_Parse s"
proof
  assume a: "privateString p url_Parse s"
  have s: "s \<noteq> []" "list_all (\<lambda>c. c \<in> set letters) s" "hd s \<in> set ''RQPOSI''" "last s \<noteq> CHR '' ''"
    using assms(2) by (simp_all add: title_def)
  have h: "ascii_lower (hd s) \<notin> set ''bl''" "hd s \<notin> set ''gA''" "hd s \<noteq> CHR '' ''"
    using s(3) letters_facts(4) unfolding list_all_iff by blast+
  have "hd s \<in> set letters" "last s \<in> set letters" using s(1,2) unfolding list_all_iff by simp_all
  then have "hd s \<notin> set (concat ws_runes)" "last s \<notin> set (concat ws_runes)"
    using letters_facts(3) h(3) s(4) unfolding list_all_iff by blast+
  then have "TrimSpace s = s" by (intro trimmed_ends) blast
  from letters_private [OF assms(1) s(1,2) this a] h s(1) show False by (cases s) auto
qed

lemma word_key_public:
  assumes "list_all (\<lambda>c. c \<in> set letters) k"
  shows "privateKey p k = privateKey demo_platform k"
proof -
  have "list_all ascii k" using assms letters_facts(1) unfolding list_all_iff by blast
  then have "list_all ascii (RemoveAll a (RemoveAll b (RemoveAll c k)))" for a b c by (simp add: RemoveAll_def list_all_iff)
  then show ?thesis by (simp add: privateKey_def ToLower_ascii)
qed

section \<open>The texts of the pack\<close>

lemma schema_strings:
  "json_strings (schema_value req props) = {''object''} \<union> set req \<union> snd ` set props"
  "json_keys (schema_value req props) \<subseteq> set [''type'', ''required'', ''properties'', ''additionalProperties''] \<union> fst ` set props"
  by (force simp: schema_value_def image_iff)+

lemma schema_table_words:
  "list_all (\<lambda>(c, req, props). list_all lower_word req \<and> list_all (\<lambda>(k, t). lower_word k \<and> lower_word t) props) schema_table"
  by code_simp

lemma lower_word_letters: "lower_word k \<Longrightarrow> list_all (\<lambda>c. c \<in> set letters) k"
  using letters_facts(2) unfolding lower_word_def list_all_iff by blast

definition catalog_bad_keys :: "string list" where
  "catalog_bad_keys = [''meship'', ''privateip'', ''wireguardendpoint'', ''endpoint'', ''peerbundle'', ''libp2pmultiaddr'', ''multiaddr'',
     ''hostname'', ''internalhostname'', ''privatehostname'', ''repopath'', ''token'', ''secret'', ''credential'', ''password'',
     ''apikey'', ''accesskey'', ''servicetoken'', ''bearer'']"

lemma lower_word_key:
  assumes "lower_word k" "filter (\<lambda>c. c \<noteq> CHR ''_'') k \<notin> set catalog_bad_keys"
  shows "\<not> privateKey p k"
proof -
  have c: "c \<in> set k \<Longrightarrow> c \<in> set ''abcdefghijklmnopqrstuvwxyz_''" for c
    using assms(1) unfolding lower_word_def list_all_iff by blast
  have lc: "ascii_lower c = c \<and> ascii c" if "c \<in> set k" for c
    using c [OF that] letters_facts(1,2) unfolding list_all_iff by blast
  have "CHR ''.'' \<notin> set k" "CHR ''-'' \<notin> set k" using c by force+
  then have r: "RemoveAll CHR ''.'' (RemoveAll CHR ''-'' (RemoveAll CHR ''_'' k)) = filter (\<lambda>c. c \<noteq> CHR ''_'') k"
    by (auto simp: RemoveAll_def intro!: filter_cong)
  have "ToLower low (filter (\<lambda>c. c \<noteq> CHR ''_'') k) = filter (\<lambda>c. c \<noteq> CHR ''_'') k" for low
    using lc by (subst ToLower_ascii) (auto simp: list_all_iff intro!: map_idI)
  then show ?thesis using assms(2) unfolding privateKey_def r by (simp add: catalog_bad_keys_def)
qed

lemma schema_table_keys:
  "list_all (\<lambda>(c, req, props). list_all (\<lambda>(k, t). filter (\<lambda>c. c \<noteq> CHR ''_'') k \<notin> set catalog_bad_keys) props) schema_table"
  by code_simp

lemma schema_frame_keys:
  "list_all (\<lambda>k. \<not> privateKey demo_platform k \<and> list_all (\<lambda>c. c \<in> set letters) k)
     [''type'', ''required'', ''properties'', ''additionalProperties'']" "lower_word ''object''"
  by code_simp+

lemma schema_public:
  assumes "hostless url_Parse" "(c, req, props) \<in> set schema_table"
  shows "\<forall>k \<in> json_keys (schema_value req props). \<not> privateKey p k"
    "\<forall>s \<in> json_strings (schema_value req props). \<not> privateString p url_Parse s"
proof -
  have w: "list_all lower_word req" "list_all (\<lambda>(k, t). lower_word k \<and> lower_word t) props"
    "list_all (\<lambda>(k, t). filter (\<lambda>c. c \<noteq> CHR ''_'') k \<notin> set catalog_bad_keys) props"
    using assms(2) schema_table_words schema_table_keys unfolding list_all_iff by blast+
  show "\<forall>s \<in> json_strings (schema_value req props). \<not> privateString p url_Parse s"
    unfolding schema_strings(1) using w(1,2) schema_frame_keys(2) lower_word_public [OF assms(1)] unfolding list_all_iff by auto
  have "\<not> privateKey p k" if "k \<in> fst ` set props" for k
    using that w(2,3) lower_word_key unfolding list_all_iff by fastforce
  moreover have "\<not> privateKey p k" if "k \<in> set [''type'', ''required'', ''properties'', ''additionalProperties'']" for k
    using that schema_frame_keys(1) word_key_public [of k p] unfolding list_all_iff by blast
  ultimately show "\<forall>k \<in> json_keys (schema_value req props). \<not> privateKey p k"
    using schema_strings(2) [of req props] by blast
qed

lemma interactions_titles: "list_all (\<lambda>i. title (in_DisplayName i)) interactions"
  by code_simp

lemma bracketed_trimmed:
  "TrimSpace (CHR ''{'' # s @ ''}'') = CHR ''{'' # s @ ''}''" "TrimSpace (CHR ''['' # s @ '']'') = CHR ''['' # s @ '']''"
  by (intro trimmed_ends; simp add: ws_runes_def)+

lemma jtail_closed: "\<exists>s. jtail f c xs = s @ [c]"
  by (induction xs) auto

lemma jseq_closed: "\<exists>s. jseq f c xs = s @ [c]"
  using jtail_closed [of f c "tl xs"] by (cases xs) (auto simp: jseq_def)

lemma schema_doc_text: "\<exists>s. marshal (schema_doc req props) = CHR ''{'' # s @ ''}''"
  unfolding schema_doc_def marshal.simps using jseq_closed by metis

lemma schema_lengths: "list_all (\<lambda>i. length (in_SchemaJSON i) \<le> 65536) interactions"
  by (simp add: interactions_def schema_request_for_quote_def schema_quote_def schema_purchase_order_def
      schema_order_confirmation_def schema_shipment_status_def schema_invoice_def schema_payment_status_def)

section \<open>Entries\<close>

definition reads_actions :: "platform \<Rightarrow> bool" where
  "reads_actions p \<longleftrightarrow> (\<forall>i \<in> set interactions.
     json_Unmarshal p (allowedActionJSON (in_BusinessAction i)) = Some (JSArr [JSStr (in_BusinessAction i)]))"

lemma pack_schema_valid:
  assumes "hostless url_Parse" "reads_schemas p" "i \<in> set interactions"
  shows "ValidatePublicSchemaJSON p url_Parse (in_SchemaJSON i) = None"
proof -
  obtain req props where r: "(in_ContractID i, req, props) \<in> set schema_table" "in_SchemaJSON i = marshal (schema_doc req props)"
    using assms(3) by (rule schema_row)
  obtain t where t: "in_SchemaJSON i = CHR ''{'' # t @ ''}''" using schema_doc_text r(2) by metis
  have "json_Unmarshal p (in_SchemaJSON i) = Some (schema_value req props)" using assms(2) r by (auto simp: reads_schemas_def)
  moreover have "length (in_SchemaJSON i) \<le> 65536" using schema_lengths assms(3) by (simp add: list_all_iff)
  moreover have "TrimSpace (in_SchemaJSON i) = in_SchemaJSON i" "in_SchemaJSON i \<noteq> []" unfolding t by (simp_all only: bracketed_trimmed) simp
  ultimately show ?thesis
    unfolding ValidatePublicSchemaJSON_None_iff using schema_public [OF assms(1) r(1)] by simp
qed

lemma pack_actions_valid:
  assumes "reads_actions p" "i \<in> set interactions"
  shows "AllowedActions p (allowedActionJSON (in_BusinessAction i)) = Inr [in_BusinessAction i]"
proof -
  obtain t where t: "allowedActionJSON (in_BusinessAction i) = CHR ''['' # t @ '']''" 
    unfolding allowedActionJSON_def marshal.simps using jseq_closed by metis
  have "in_BusinessAction i \<noteq> [] \<and> TrimSpace (in_BusinessAction i) = in_BusinessAction i"
    using interaction_facts assms(2) by (simp add: list_all_iff)
  moreover have "TrimSpace (allowedActionJSON (in_BusinessAction i)) = allowedActionJSON (in_BusinessAction i)" "allowedActionJSON (in_BusinessAction i) \<noteq> []"
    unfolding t by (simp_all only: bracketed_trimmed) simp
  ultimately show ?thesis using assms by (simp add: AllowedActions_def reads_actions_def Let_def)
qed

text \<open>
  The catalog accepts what the pack generates. All entries of \<open>ServiceCatalogEntries\<close> pass
  \<open>ValidateEntry\<close> exactly when the tenant is not blank, every state the options choose is blank or
  one of the three catalog states, and a contract they deprecate is not its own replacement.
\<close>

theorem pack_entries_accepted:
  assumes "hostless url_Parse" "reads_schemas p" "reads_actions p"
  shows "list_all (\<lambda>e. ValidateEntry p url_Parse e = None) (ServiceCatalogEntries uuid_NewSHA1 tenantID options) \<longleftrightarrow>
    TrimSpace tenantID \<noteq> [] \<and>
    (\<forall>i \<in> set interactions. let state = option_text (co_StateByContractID options) (in_ContractID i) in
       state \<in> {[], ''active'', ''deprecated'', ''retired''} \<and>
       (state = ''deprecated'' \<longrightarrow>
          TrimSpace (ei_ReplacementCatalogEntryID (catalog_entry uuid_NewSHA1 tenantID options i)) \<noteq>
          TrimSpace (ServiceCatalogID uuid_NewSHA1 (in_ContractID i))))"
proof -
  have entry: "ValidateEntry p url_Parse (catalog_entry uuid_NewSHA1 tenantID options i) = None \<longleftrightarrow>
      TrimSpace tenantID \<noteq> [] \<and> (let state = option_text (co_StateByContractID options) (in_ContractID i) in
       state \<in> {[], ''active'', ''deprecated'', ''retired''} \<and>
       (state = ''deprecated'' \<longrightarrow>
          TrimSpace (ei_ReplacementCatalogEntryID (catalog_entry uuid_NewSHA1 tenantID options i)) \<noteq>
          TrimSpace (ServiceCatalogID uuid_NewSHA1 (in_ContractID i))))"
    if i: "i \<in> set interactions" for i
  proof -
    let ?e = "catalog_entry uuid_NewSHA1 tenantID options i"
    have "\<not> privateString p url_Parse (in_DisplayName i)" "\<not> privateString p url_Parse []"
      using interactions_titles i title_public [OF assms(1)] by (auto simp: list_all_iff privateString_def)
    moreover have "TrimSpace (in_DisplayName i) \<noteq> []" "TrimSpace (in_ServiceKind i) \<noteq> []"
      using interaction_facts i by (simp_all add: list_all_iff)
    moreover have "TrimSpace o2c_SchemaVersion \<noteq> []" "TrimSpace sc_StateActive = ''active''" by code_simp+
    moreover have "ValidateAllowedActionsJSON p (ei_AllowedActionsJSON ?e) = None"
      using pack_actions_valid [OF assms(3) i] by (simp add: ValidateAllowedActionsJSON_def catalog_entry_def Let_def)
    moreover define st where "st = option_text (co_StateByContractID options) (in_ContractID i)"
    have "TrimSpace (ei_State ?e) = (if st = [] then ''active'' else st)"
      using calculation(6) by (simp add: catalog_entry_def Let_def option_text_def st_def)
    then have "TrimSpace (ei_State ?e) \<in> {[], ''active'', ''deprecated'', ''retired''} \<longleftrightarrow> st \<in> {[], ''active'', ''deprecated'', ''retired''}"
      "TrimSpace (ei_State ?e) = ''deprecated'' \<longleftrightarrow> st = ''deprecated''"
      by (cases "st = []"; simp)+
    moreover have "ValidatePublicSchemaJSON p url_Parse (ei_SchemaJSON ?e) = None"
      using pack_schema_valid [OF assms(1,2) i] by (simp add: catalog_entry_def Let_def)
    moreover have "ei_TenantID ?e = TrimSpace tenantID" "ei_DisplayName ?e = in_DisplayName i" "ei_Description ?e = []"
      "ei_ServiceKind ?e = in_ServiceKind i" "ei_SchemaVersion ?e = o2c_SchemaVersion"
      "ei_ServiceCatalogID ?e = ServiceCatalogID uuid_NewSHA1 (in_ContractID i)"
      by (simp_all add: catalog_entry_def Let_def)
    ultimately show ?thesis unfolding ValidateEntry_None_iff Let_def st_def by (simp only: TrimSpace_idem simp_thms)
  qed
  have each: "(\<forall>i \<in> S. V i) \<longleftrightarrow> A \<and> (\<forall>i \<in> S. B i)" if "\<And>i. i \<in> S \<Longrightarrow> V i \<longleftrightarrow> A \<and> B i" "j \<in> S"
    for S :: "Interaction set" and V A B j
    using that by blast
  obtain j where "j \<in> set interactions" by (rule some_interaction)
  then show ?thesis unfolding ServiceCatalogEntries_def list_all_iff set_map ball_simps by (rule each [rotated]) (rule entry)
qed

definition catalog_platform :: platform where
  "catalog_platform = pack_platform\<lparr>json_Unmarshal := (\<lambda>b.
     case find (\<lambda>i. b = allowedActionJSON (in_BusinessAction i)) interactions of
       Some i \<Rightarrow> Some (JSArr [JSStr (in_BusinessAction i)])
     | None \<Rightarrow> json_Unmarshal pack_platform b)\<rparr>"

lemma catalog_platform_reads: "reads_schemas catalog_platform" "reads_actions catalog_platform"
proof -
  have "marshal (schema_doc req props) \<noteq> allowedActionJSON a" for req props a
    by (simp add: schema_doc_def allowedActionJSON_def)
  then have "find (\<lambda>i. marshal (schema_doc req props) = allowedActionJSON (in_BusinessAction i)) interactions = None" for req props
    by (simp add: find_None_iff)
  then show "reads_schemas catalog_platform"
    using pack_platform_reads by (simp add: reads_schemas_def catalog_platform_def)
  have "list_all (\<lambda>i. json_Unmarshal catalog_platform (allowedActionJSON (in_BusinessAction i)) = Some (JSArr [JSStr (in_BusinessAction i)])) interactions"
    by code_simp
  then show "reads_actions catalog_platform" by (simp add: reads_actions_def list_all_iff)
qed

definition quote_contract :: string where "quote_contract = ''order_to_cash.quote.response.v1''"
definition invoice_contract :: string where "invoice_contract = ''order_to_cash.invoice.issue.v1''"

definition quote_deprecated :: CatalogOptions where
  "quote_deprecated = \<lparr>co_StateByContractID = [quote_contract \<mapsto> ''deprecated''],
     co_ReplacementByContractID = [quote_contract \<mapsto> invoice_contract]\<rparr>"

theorem pack_entries_accepted_witness:
  "list_all (\<lambda>e. ValidateEntry catalog_platform (\<lambda>s. None) e = None) (ServiceCatalogEntries id ''t1'' quote_deprecated)"
proof -
  have "hostless (\<lambda>s. None)" by (simp add: hostless_def)
  note iff = pack_entries_accepted [OF this catalog_platform_reads, of id "''t1''" quote_deprecated]
  have state: "option_text (co_StateByContractID quote_deprecated) c = (if c = quote_contract then ''deprecated'' else [])" for c
  proof -
    have "TrimSpace ''deprecated'' = ''deprecated''" by code_simp
    then show ?thesis by (simp add: option_text_def quote_deprecated_def)
  qed
  have "TrimSpace (ServiceCatalogID id invoice_contract) \<noteq> TrimSpace (ServiceCatalogID id quote_contract)"
    "TrimSpace invoice_contract = invoice_contract" by code_simp+
  moreover have "map_option in_ContractID (interactionByContractID invoice_contract) = Some invoice_contract" by code_simp
  ultimately have "TrimSpace (ei_ReplacementCatalogEntryID (catalog_entry id ''t1'' quote_deprecated i)) \<noteq>
      TrimSpace (ServiceCatalogID id (in_ContractID i))" if "in_ContractID i = quote_contract" for i
    using that by (auto simp: catalog_entry_def Let_def option_text_def quote_deprecated_def split: option.splits)
  moreover have "TrimSpace ''t1'' \<noteq> []" by code_simp
  ultimately show ?thesis unfolding iff state Let_def by simp
qed

end
