(* ===== verification/GoPath.thy ===== *)
theory GoPath
  imports GoNetip
begin

text \<open>
  The lexical functions of Go's \<open>path/filepath\<close> on a Unix system that the program calls: \<open>Clean\<close>,
  \<open>Join\<close> of two elements, \<open>Base\<close>, \<open>Ext\<close> and \<open>IsAbs\<close>, with \<open>strings.TrimSuffix\<close> and \<open>strings.Join\<close>.
\<close>

section \<open>Definitions\<close>

fun strings_Join :: "string list \<Rightarrow> string \<Rightarrow> string" where
  "strings_Join [] sep = []"
| "strings_Join [s] sep = s"
| "strings_Join (s # t # ss) sep = s @ sep @ strings_Join (t # ss) sep"

definition TrimSuffix :: "string \<Rightarrow> string \<Rightarrow> string" where
  "TrimSuffix s t = (if suffix t s then take (length s - length t) s else s)"

definition IsAbs :: "string \<Rightarrow> bool" where
  "IsAbs path \<longleftrightarrow> path \<noteq> [] \<and> hd path = CHR ''/''"

text \<open>One element of \<open>Clean\<close>: the elements kept so far, nearest first.\<close>

definition clean_step :: "bool \<Rightarrow> string list \<Rightarrow> string \<Rightarrow> string list" where
  "clean_step rooted kept e =
     (if e = [] \<or> e = ''.'' then kept
      else if e = ''..'' then
        (if kept \<noteq> [] \<and> hd kept \<noteq> ''..'' then tl kept else if rooted then kept else e # kept)
      else e # kept)"

definition Clean :: "string \<Rightarrow> string" where
  "Clean path =
     (let rooted = IsAbs path; kept = rev (foldl (clean_step rooted) [] (split_char CHR ''/'' path))
      in if rooted then CHR ''/'' # strings_Join kept ''/''
         else if kept = [] then ''.'' else strings_Join kept ''/'')"

definition path_Join :: "string \<Rightarrow> string \<Rightarrow> string" where
  "path_Join a b =
     (if a = [] \<and> b = [] then [] else if a = [] then Clean b else if b = [] then Clean a
      else Clean (a @ CHR ''/'' # b))"

definition Base :: "string \<Rightarrow> string" where
  "Base path =
     (if path = [] then ''.''
      else let rest = dropWhile (\<lambda>c. c = CHR ''/'') (rev path)
           in if rest = [] then ''/'' else rev (takeWhile (\<lambda>c. c \<noteq> CHR ''/'') rest))"

definition Ext :: "string \<Rightarrow> string" where
  "Ext path =
     (let name = takeWhile (\<lambda>c. c \<noteq> CHR ''/'') (rev path); tail = takeWhile (\<lambda>c. c \<noteq> CHR ''.'') name
      in if tail = name then [] else CHR ''.'' # rev tail)"

section \<open>Facts\<close>

lemma split_char_nonempty [simp]: "split_char d s \<noteq> []"
  by (induction s) (auto split: list.splits)

lemma split_char_concat: "split_char d (s @ d # t) = split_char d s @ split_char d t"
proof (induction s)
  case (Cons c cs)
  then show ?case using split_char_nonempty [of d cs] by (auto split: list.splits)
qed simp

text \<open>A path with a plain last element keeps that element through \<open>Join\<close>, so distinct names stay distinct.\<close>

definition plain_name :: "string \<Rightarrow> bool" where
  "plain_name n \<longleftrightarrow> n \<noteq> [] \<and> n \<noteq> ''.'' \<and> n \<noteq> ''..'' \<and> CHR ''/'' \<notin> set n"

lemma strings_Join_snoc: "xs \<noteq> [] \<Longrightarrow> strings_Join (xs @ [x]) sep = strings_Join xs sep @ sep @ x"
  by (induction xs sep rule: strings_Join.induct) auto

lemma path_Join_plain:
  assumes "dir \<noteq> []" "plain_name n"
  shows "\<exists>pre. path_Join dir n = pre @ n \<and> (pre = [] \<or> last pre = CHR ''/'') \<and>
    (\<forall>m. plain_name m \<longrightarrow> path_Join dir m = pre @ m)"
proof -
  define rooted where "rooted = IsAbs dir"
  define kept where "kept = foldl (clean_step rooted) [] (split_char CHR ''/'' dir)"
  define pre where "pre = (if rooted then ''/'' else []) @ (if kept = [] then [] else strings_Join (rev kept) ''/'' @ ''/'')"
  have join: "path_Join dir m = pre @ m" if m: "plain_name m" for m
  proof -
    have abs: "IsAbs (dir @ CHR ''/'' # m) = rooted" using assms(1) by (simp add: IsAbs_def rooted_def)
    have "split_char CHR ''/'' (dir @ CHR ''/'' # m) = split_char CHR ''/'' dir @ [m]"
      using m by (simp add: split_char_concat split_char_free plain_name_def)
    moreover have "clean_step rooted kept m = m # kept" using m by (simp add: clean_step_def plain_name_def)
    ultimately have kept': "foldl (clean_step rooted) [] (split_char CHR ''/'' (dir @ CHR ''/'' # m)) = m # kept"
      by (simp add: kept_def)
    have "Clean (dir @ CHR ''/'' # m) =
        (if rooted then CHR ''/'' # strings_Join (rev kept @ [m]) ''/'' else strings_Join (rev kept @ [m]) ''/'')"
      unfolding Clean_def abs Let_def kept' by simp
    also have "\<dots> = pre @ m" by (cases "kept = []") (simp_all add: pre_def strings_Join_snoc)
    finally show ?thesis using assms(1) m by (simp add: path_Join_def plain_name_def)
  qed
  have "pre = [] \<or> last pre = CHR ''/''" by (simp add: pre_def)
  then show ?thesis using join assms(2) by blast
qed

lemma path_Join_nil: "plain_name n \<Longrightarrow> path_Join [] n = n"
proof -
  assume n: "plain_name n"
  then have "split_char CHR ''/'' n = [n]" "\<not> IsAbs n" "clean_step False [] n = [n]"
    by (cases n; auto simp: split_char_free plain_name_def IsAbs_def clean_step_def)+
  then show ?thesis using n by (simp add: path_Join_def plain_name_def Clean_def)
qed

lemma path_Join_inject:
  "plain_name m \<Longrightarrow> plain_name n \<Longrightarrow> path_Join dir m = path_Join dir n \<longleftrightarrow> m = n"
  using path_Join_plain [of dir m] path_Join_nil by (cases "dir = []") auto

end
