(* ===== verification/KeyMaterial.thy ===== *)
theory KeyMaterial
  imports MembershipCap GoPath
begin

text \<open>
  Key material (\<open>src/keymaterial/keymaterial.go\<close>): the providers of signing keys, the resolution of
  the membership and service-access signers from a configuration, and the directories of trusted
  public keys. The file system, the parsers of \<open>golang.org/x/crypto/ssh\<close> and the key generation of
  \<open>ed25519\<close> are the fields of the record \<open>keyenv\<close>, which every definition that uses them takes as an
  argument. An error of theirs is its text; operands that \<open>fmt.Errorf\<close> quotes with \<open>%q\<close> are left out.
\<close>

section \<open>Definitions\<close>

text \<open>What \<open>ssh.ParseRawPrivateKey\<close> and \<open>ssh.ParseAuthorizedKey\<close> return, up to the type switches on it.\<close>

datatype raw_key = EdKey bytes | EdKeyPtr bytes | OtherKey bytes
datatype crypto_public = EdPublic bytes | OtherPublic bytes
datatype ssh_public = CryptoPublic crypto_public | NotExportable

record 'signer keyenv =
  os_ReadFile :: "string \<Rightarrow> string + bytes"
  os_ReadDir :: "string \<Rightarrow> string + (string \<times> bool) list"
  ssh_ParseRawPrivateKey :: "bytes \<Rightarrow> string + raw_key"
  ssh_ParseAuthorizedKey :: "bytes \<Rightarrow> string + ssh_public \<times> string"
  ssh_NewSignerFromKey :: "raw_key \<Rightarrow> goerror + 'signer"
  ed_NewKeyFromSeed :: "bytes \<Rightarrow> bytes"

definition DevLocalAuditSigningKeyID :: string where
  "DevLocalAuditSigningKeyID = ''dev-local-ed25519-audit-key''"
definition DevLocalSSHCAKeyID :: string where
  "DevLocalSSHCAKeyID = ''dev-local-ed25519-ssh-ca''"
definition DevLocalMembershipSigningKeyID :: string where
  "DevLocalMembershipSigningKeyID = ''dev-local-ed25519-membership-key''"
definition DevLocalServiceAccessSigningKeyID :: string where
  "DevLocalServiceAccessSigningKeyID = ''dev-local-ed25519-service-access-key''"

definition ErrProviderUnavailable :: goerror where
  "ErrProviderUnavailable = Plain ''key material provider unavailable''"

record AuditSigningMaterial =
  asm_KeyID :: string
  asm_PrivateKey :: "char slice"

record MembershipSigningMaterial =
  msm_KeyID :: string
  msm_PrivateKey :: "char slice"

record ServiceAccessSigningMaterial =
  ssm_KeyID :: string
  ssm_PrivateKey :: "char slice"

record ProviderConfig =
  pc_Mode :: string
  pc_AuditSigningKeyID :: string
  pc_AuditSigningKeyFile :: string
  pc_SSHCAKeyFile :: string
  pc_MembershipSigningKeyID :: string
  pc_MembershipSigningKeyFile :: string
  pc_ServiceAccessSigningKeyID :: string
  pc_ServiceAccessSigningKeyFile :: string

datatype Provider =
    DevLocalProvider
  | FailClosedProvider (fcp_Mode: string)
  | MountedSecretProvider (msp_AuditSigningKeyID: string) (msp_AuditSigningKeyFile: string) (msp_SSHCAKeyFile: string)

definition unsupported_mode :: goerror where
  "unsupported_mode = Plain ''unsupported key material mode ''"

definition ProviderFromConfig :: "ProviderConfig \<Rightarrow> goerror + Provider" where
  "ProviderFromConfig cfg =
     (let m = pc_Mode cfg
      in if m = [] \<or> m = ''dev_local'' then Inr DevLocalProvider
         else if m = ''kms_vault'' then
           (if pc_AuditSigningKeyID cfg = [] \<or> pc_AuditSigningKeyFile cfg = [] \<or> pc_SSHCAKeyFile cfg = []
            then Inr (FailClosedProvider m)
            else Inr (MountedSecretProvider (pc_AuditSigningKeyID cfg) (pc_AuditSigningKeyFile cfg) (pc_SSHCAKeyFile cfg)))
         else Inl unsupported_mode)"

definition ProviderForMode :: "string \<Rightarrow> goerror + Provider" where
  "ProviderForMode m = ProviderFromConfig
     \<lparr>pc_Mode = m, pc_AuditSigningKeyID = [], pc_AuditSigningKeyFile = [], pc_SSHCAKeyFile = [],
      pc_MembershipSigningKeyID = [], pc_MembershipSigningKeyFile = [],
      pc_ServiceAccessSigningKeyID = [], pc_ServiceAccessSigningKeyFile = []\<rparr>"

definition devLocalKey :: "platform \<Rightarrow> 's keyenv \<Rightarrow> string \<Rightarrow> bytes" where
  "devLocalKey p k seedMaterial = ed_NewKeyFromSeed k (sha256 p seedMaterial)"

definition DevLocalAuditSigningKey :: "platform \<Rightarrow> 's keyenv \<Rightarrow> bytes" where
  "DevLocalAuditSigningKey p k = devLocalKey p k ''x-builders-net/dev-local-audit-signing-key/v1''"
definition DevLocalSSHCAKey :: "platform \<Rightarrow> 's keyenv \<Rightarrow> bytes" where
  "DevLocalSSHCAKey p k = devLocalKey p k ''x-builders-net/dev-local-ssh-ca/v1''"
definition DevLocalMembershipSigningKey :: "platform \<Rightarrow> 's keyenv \<Rightarrow> bytes" where
  "DevLocalMembershipSigningKey p k = devLocalKey p k ''x-builders-net/dev-local-membership-signing-key/v1''"
definition DevLocalServiceAccessSigningKey :: "platform \<Rightarrow> 's keyenv \<Rightarrow> bytes" where
  "DevLocalServiceAccessSigningKey p k = devLocalKey p k ''x-builders-net/dev-local-service-access-signing-key/v1''"

definition readRawPrivateKey :: "'s keyenv \<Rightarrow> string \<Rightarrow> goerror + raw_key" where
  "readRawPrivateKey k path =
     (if path = [] then Inl (errorf ErrProviderUnavailable ''private key file is required'')
      else case os_ReadFile k path of
             Inl err \<Rightarrow> Inl (errorf ErrProviderUnavailable (''read private key file: '' @ err))
           | Inr pemBytes \<Rightarrow>
               (case ssh_ParseRawPrivateKey k pemBytes of
                  Inl err \<Rightarrow> Inl (errorf ErrProviderUnavailable (''parse private key file: '' @ err))
                | Inr privateKey \<Rightarrow> Inr privateKey))"

definition readEd25519PrivateKey :: "'s keyenv \<Rightarrow> string \<Rightarrow> goerror + char slice" where
  "readEd25519PrivateKey k path =
     (case readRawPrivateKey k path of
        Inl err \<Rightarrow> Inl err
      | Inr privateKey \<Rightarrow>
          (case privateKey of
             EdKey key \<Rightarrow> Inr (copy_nil key)
           | EdKeyPtr key \<Rightarrow> Inr (copy_nil key)
           | OtherKey _ \<Rightarrow> Inl (errorf ErrProviderUnavailable ''audit signing key must be ed25519'')))"

definition fcp_err :: "string \<Rightarrow> goerror" where
  "fcp_err m0 = (let m = (if m0 = [] then ''unknown'' else m0)
     in errorf ErrProviderUnavailable (m @ '' backend is not configured''))"

fun provider_AuditSigningMaterial :: "platform \<Rightarrow> 's keyenv \<Rightarrow> Provider \<Rightarrow> goerror + AuditSigningMaterial" where
  "provider_AuditSigningMaterial p k DevLocalProvider =
     Inr \<lparr>asm_KeyID = DevLocalAuditSigningKeyID, asm_PrivateKey = Some (DevLocalAuditSigningKey p k)\<rparr>"
| "provider_AuditSigningMaterial p k (FailClosedProvider m) = Inl (fcp_err m)"
| "provider_AuditSigningMaterial p k (MountedSecretProvider kid file ca) =
     (case readEd25519PrivateKey k file of
        Inl err \<Rightarrow> Inl err
      | Inr privateKey \<Rightarrow> Inr \<lparr>asm_KeyID = kid, asm_PrivateKey = privateKey\<rparr>)"

fun SSHCASigner :: "platform \<Rightarrow> 's keyenv \<Rightarrow> Provider \<Rightarrow> goerror + 's" where
  "SSHCASigner p k DevLocalProvider =
     (case ssh_NewSignerFromKey k (EdKey (DevLocalSSHCAKey p k)) of
        Inl err \<Rightarrow> Inl (Wrapped (''create dev-local SSH CA signer: '' @ Error err) err)
      | Inr signer \<Rightarrow> Inr signer)"
| "SSHCASigner p k (FailClosedProvider m) = Inl (fcp_err m)"
| "SSHCASigner p k (MountedSecretProvider kid file ca) =
     (case readRawPrivateKey k ca of
        Inl err \<Rightarrow> Inl err
      | Inr privateKey \<Rightarrow>
          (case ssh_NewSignerFromKey k privateKey of
             Inl err \<Rightarrow> Inl (Wrapped (''create mounted SSH CA signer: '' @ Error err) err)
           | Inr signer \<Rightarrow> Inr signer))"

definition MembershipSigningMaterialFromConfig ::
  "platform \<Rightarrow> 's keyenv \<Rightarrow> ProviderConfig \<Rightarrow> goerror + MembershipSigningMaterial" where
  "MembershipSigningMaterialFromConfig p k cfg =
     (let m = pc_Mode cfg
      in if m = [] \<or> m = ''dev_local'' then
           Inr \<lparr>msm_KeyID = DevLocalMembershipSigningKeyID, msm_PrivateKey = Some (DevLocalMembershipSigningKey p k)\<rparr>
         else if m = ''kms_vault'' then
           (if pc_MembershipSigningKeyFile cfg = [] then
              Inl (errorf ErrProviderUnavailable ''membership signing key not configured'')
            else let keyID = (if pc_MembershipSigningKeyID cfg = [] then ''mounted-ed25519-membership-key''
                              else pc_MembershipSigningKeyID cfg)
                 in case readEd25519PrivateKey k (pc_MembershipSigningKeyFile cfg) of
                      Inl err \<Rightarrow> Inl err
                    | Inr privateKey \<Rightarrow> Inr \<lparr>msm_KeyID = keyID, msm_PrivateKey = privateKey\<rparr>)
         else Inl unsupported_mode)"

definition ServiceAccessSigningMaterialFromConfig ::
  "platform \<Rightarrow> 's keyenv \<Rightarrow> ProviderConfig \<Rightarrow> goerror + ServiceAccessSigningMaterial" where
  "ServiceAccessSigningMaterialFromConfig p k cfg =
     (let m = pc_Mode cfg
      in if m = [] \<or> m = ''dev_local'' then
           Inr \<lparr>ssm_KeyID = DevLocalServiceAccessSigningKeyID, ssm_PrivateKey = Some (DevLocalServiceAccessSigningKey p k)\<rparr>
         else if m = ''kms_vault'' then
           (if pc_ServiceAccessSigningKeyFile cfg = [] then
              Inl (errorf ErrProviderUnavailable ''service-access signing key not configured'')
            else let keyID = (if pc_ServiceAccessSigningKeyID cfg = [] then ''mounted-ed25519-service-access-key''
                              else pc_ServiceAccessSigningKeyID cfg)
                 in case readEd25519PrivateKey k (pc_ServiceAccessSigningKeyFile cfg) of
                      Inl err \<Rightarrow> Inl err
                    | Inr privateKey \<Rightarrow> Inr \<lparr>ssm_KeyID = keyID, ssm_PrivateKey = privateKey\<rparr>)
         else Inl unsupported_mode)"

text \<open>
  One file of a directory of trusted keys, read and parsed: the id and the key. The two loaders of
  the source differ in the word \<open>what\<close> of their error texts.
\<close>

definition read_public_key :: "'s keyenv \<Rightarrow> string \<Rightarrow> string \<Rightarrow> string \<Rightarrow> goerror + string \<times> bytes" where
  "read_public_key k what dir name =
     (case os_ReadFile k (path_Join dir name) of
        Inl err \<Rightarrow> Inl (errorf ErrProviderUnavailable (''read '' @ what @ '' public key: '' @ err))
      | Inr data \<Rightarrow>
          (case ssh_ParseAuthorizedKey k data of
             Inl err \<Rightarrow> Inl (errorf ErrProviderUnavailable (''parse '' @ what @ '' public key '' @ '': '' @ err))
           | Inr (publicKey, comment) \<Rightarrow>
               let keyID = (if TrimSpace comment = [] then TrimSuffix name (Ext name) else TrimSpace comment)
               in case publicKey of
                    NotExportable \<Rightarrow> Inl (errorf ErrProviderUnavailable (what @ '' public key '' @ '' is not exportable''))
                  | CryptoPublic (OtherPublic _) \<Rightarrow>
                      Inl (errorf ErrProviderUnavailable (what @ '' public key '' @ '' must be ed25519''))
                  | CryptoPublic (EdPublic edKey) \<Rightarrow> Inr (keyID, edKey)))"

fun load_entries :: "'s keyenv \<Rightarrow> string \<Rightarrow> string \<Rightarrow> trust \<Rightarrow> (string \<times> bool) list \<Rightarrow> goerror + trust" where
  "load_entries k what dir keys [] = Inr keys"
| "load_entries k what dir keys ((name, isDir) # entries) =
     (if isDir then load_entries k what dir keys entries
      else case read_public_key k what dir name of
             Inl err \<Rightarrow> Inl err
           | Inr (keyID, edKey) \<Rightarrow>
               if keys keyID \<noteq> None then
                 Inl (errorf ErrProviderUnavailable (''duplicate '' @ what @ '' public key id ''))
               else load_entries k what dir (keys(keyID \<mapsto> edKey)) entries)"

definition load_public_keys :: "'s keyenv \<Rightarrow> string \<Rightarrow> string \<Rightarrow> goerror + trust" where
  "load_public_keys k what dir =
     (if dir = [] then Inr Map.empty
      else case os_ReadDir k dir of
             Inl err \<Rightarrow> Inl (errorf ErrProviderUnavailable (''read '' @ what @ '' public keys dir: '' @ err))
           | Inr entries \<Rightarrow> load_entries k what dir Map.empty entries)"

definition LoadAuditPublicKeys :: "'s keyenv \<Rightarrow> string \<Rightarrow> goerror + trust" where
  "LoadAuditPublicKeys k = load_public_keys k ''audit''"

definition LoadMembershipPublicKeys :: "'s keyenv \<Rightarrow> string \<Rightarrow> goerror + trust" where
  "LoadMembershipPublicKeys k = load_public_keys k ''membership''"

text \<open>The active key, and over it the retained ones; the order of the range over them does not matter.\<close>

definition active_key :: "platform \<Rightarrow> string \<Rightarrow> char slice \<Rightarrow> trust" where
  "active_key p keyID privateKey =
     (case privateKey of
        Some key \<Rightarrow> if keyID \<noteq> [] then [keyID \<mapsto> ed_public p key] else Map.empty
      | None \<Rightarrow> Map.empty)"

definition AuditPublicKeys :: "platform \<Rightarrow> 's keyenv \<Rightarrow> AuditSigningMaterial \<Rightarrow> string \<Rightarrow> goerror + trust" where
  "AuditPublicKeys p k active retainedDir =
     (case LoadAuditPublicKeys k retainedDir of
        Inl err \<Rightarrow> Inl err
      | Inr retainedKeys \<Rightarrow> Inr (active_key p (asm_KeyID active) (asm_PrivateKey active) ++ retainedKeys))"

definition MembershipPublicKeys ::
  "platform \<Rightarrow> 's keyenv \<Rightarrow> MembershipSigningMaterial \<Rightarrow> string \<Rightarrow> goerror + trust" where
  "MembershipPublicKeys p k active retainedDir =
     (case LoadMembershipPublicKeys k retainedDir of
        Inl err \<Rightarrow> Inl err
      | Inr retainedKeys \<Rightarrow> Inr (active_key p (msm_KeyID active) (msm_PrivateKey active) ++ retainedKeys))"

end
