(* ===== verification/KeyMaterialProps.thy ===== *)
theory KeyMaterialProps
  imports KeyMaterial MembershipProps
begin

text \<open>
  Properties of the key material: what a resolved signer was read from, what a directory of trusted
  keys must hold to load, and that a capability signed with the resolved membership key is accepted
  under the trust set built from it. The locale \<open>signing_source\<close> is the contract the three signers
  (audit, membership, service access) share.
\<close>

section \<open>Sources of signing keys\<close>

text \<open>The private key a mounted file holds.\<close>

definition mounted_key :: "'s keyenv \<Rightarrow> string \<Rightarrow> char slice \<Rightarrow> bool" where
  "mounted_key k file sk \<longleftrightarrow>
     file \<noteq> [] \<and> (\<exists>data key. os_ReadFile k file = Inr data \<and>
       ssh_ParseRawPrivateKey k data \<in> {Inr (EdKey key), Inr (EdKeyPtr key)} \<and> sk = copy_nil key)"

lemma errors_Is_errorf [simp]: "errors_Is (errorf ErrProviderUnavailable msg) ErrProviderUnavailable"
  by (simp add: errors_Is_def errorf_def ErrProviderUnavailable_def)

lemma readEd25519PrivateKey_Inr: "readEd25519PrivateKey k file = Inr sk \<longleftrightarrow> mounted_key k file sk"
  by (auto simp: readEd25519PrivateKey_def readRawPrivateKey_def mounted_key_def split: sum.splits raw_key.splits)

lemma readEd25519PrivateKey_Inl:
  "readEd25519PrivateKey k file = Inl e \<Longrightarrow> errors_Is e ErrProviderUnavailable"
  by (auto simp: readEd25519PrivateKey_def readRawPrivateKey_def split: sum.splits raw_key.splits if_splits)

locale signing_source =
  fixes resolve :: "'s keyenv \<Rightarrow> ProviderConfig \<Rightarrow> goerror + 'm"
    and configured :: "ProviderConfig \<Rightarrow> bool"
    and key_file :: "ProviderConfig \<Rightarrow> string"
    and material :: "ProviderConfig \<Rightarrow> char slice \<Rightarrow> 'm"
    and dev :: "'s keyenv \<Rightarrow> 'm"
  assumes dev_mode: "pc_Mode cfg \<in> {[], ''dev_local''} \<Longrightarrow> resolve k cfg = Inr (dev k)"
    and not_configured: "pc_Mode cfg = ''kms_vault'' \<Longrightarrow> \<not> configured cfg \<Longrightarrow>
      \<exists>e. resolve k cfg = Inl e \<and> errors_Is e ErrProviderUnavailable"
    and mounted: "pc_Mode cfg = ''kms_vault'' \<Longrightarrow> configured cfg \<Longrightarrow>
      resolve k cfg = map_sum id (material cfg) (readEd25519PrivateKey k (key_file cfg))"
    and other_mode: "pc_Mode cfg \<notin> {[], ''dev_local'', ''kms_vault''} \<Longrightarrow> resolve k cfg = Inl unsupported_mode"
begin

lemma resolved_iff:
  assumes "pc_Mode cfg \<notin> {[], ''dev_local''}"
  shows "resolve k cfg = Inr m \<longleftrightarrow>
    pc_Mode cfg = ''kms_vault'' \<and> configured cfg \<and> (\<exists>sk. mounted_key k (key_file cfg) sk \<and> m = material cfg sk)"
proof (cases "pc_Mode cfg = ''kms_vault''")
  case True
  show ?thesis
  proof (cases "configured cfg")
    case c: True
    then show ?thesis using mounted [OF True c, of k] True
      by (auto simp: readEd25519PrivateKey_Inr [symmetric] split: sum.splits) (cases "readEd25519PrivateKey k (key_file cfg)"; simp)
  next
    case False
    then show ?thesis using not_configured [OF True False, of k] by auto
  qed
next
  case False
  then show ?thesis using other_mode assms by simp
qed

lemma unavailable: "pc_Mode cfg = ''kms_vault'' \<Longrightarrow> resolve k cfg = Inl e \<Longrightarrow> errors_Is e ErrProviderUnavailable"
  using not_configured [of cfg k] mounted [of cfg k] readEd25519PrivateKey_Inl [of k "key_file cfg"]
  by (cases "configured cfg"; cases "readEd25519PrivateKey k (key_file cfg)") auto

end

text \<open>The audit signer as its clients reach it, through the provider of the configuration.\<close>

definition audit_material :: "platform \<Rightarrow> 's keyenv \<Rightarrow> ProviderConfig \<Rightarrow> goerror + AuditSigningMaterial" where
  "audit_material p k cfg =
     (case ProviderFromConfig cfg of Inl err \<Rightarrow> Inl err | Inr provider \<Rightarrow> provider_AuditSigningMaterial p k provider)"

definition id_or :: "string \<Rightarrow> string \<Rightarrow> string" where
  "id_or fallback s = (if s = [] then fallback else s)"

interpretation audit: signing_source "audit_material p"
  "\<lambda>cfg. pc_AuditSigningKeyID cfg \<noteq> [] \<and> pc_AuditSigningKeyFile cfg \<noteq> [] \<and> pc_SSHCAKeyFile cfg \<noteq> []"
  pc_AuditSigningKeyFile "\<lambda>cfg sk. \<lparr>asm_KeyID = pc_AuditSigningKeyID cfg, asm_PrivateKey = sk\<rparr>"
  "\<lambda>k. \<lparr>asm_KeyID = DevLocalAuditSigningKeyID, asm_PrivateKey = Some (DevLocalAuditSigningKey p k)\<rparr>" for p
  by unfold_locales (auto simp: audit_material_def ProviderFromConfig_def Let_def fcp_err_def split: sum.splits)

interpretation membership: signing_source "MembershipSigningMaterialFromConfig p"
  "\<lambda>cfg. pc_MembershipSigningKeyFile cfg \<noteq> []" pc_MembershipSigningKeyFile
  "\<lambda>cfg sk. \<lparr>msm_KeyID = id_or ''mounted-ed25519-membership-key'' (pc_MembershipSigningKeyID cfg), msm_PrivateKey = sk\<rparr>"
  "\<lambda>k. \<lparr>msm_KeyID = DevLocalMembershipSigningKeyID, msm_PrivateKey = Some (DevLocalMembershipSigningKey p k)\<rparr>" for p
  by unfold_locales (auto simp: MembershipSigningMaterialFromConfig_def Let_def id_or_def split: sum.splits)

interpretation service: signing_source "ServiceAccessSigningMaterialFromConfig p"
  "\<lambda>cfg. pc_ServiceAccessSigningKeyFile cfg \<noteq> []" pc_ServiceAccessSigningKeyFile
  "\<lambda>cfg sk. \<lparr>ssm_KeyID = id_or ''mounted-ed25519-service-access-key'' (pc_ServiceAccessSigningKeyID cfg), ssm_PrivateKey = sk\<rparr>"
  "\<lambda>k. \<lparr>ssm_KeyID = DevLocalServiceAccessSigningKeyID, ssm_PrivateKey = Some (DevLocalServiceAccessSigningKey p k)\<rparr>" for p
  by unfold_locales (auto simp: ServiceAccessSigningMaterialFromConfig_def Let_def id_or_def split: sum.splits)

section \<open>Directories of trusted keys\<close>

text \<open>What a file of the directory holds: an exportable ed25519 key, named by its comment or else by its file name.\<close>

definition holds_key :: "'s keyenv \<Rightarrow> string \<Rightarrow> string \<Rightarrow> string \<times> bytes \<Rightarrow> bool" where
  "holds_key k dir name kv \<longleftrightarrow>
     (\<exists>data comment. os_ReadFile k (path_Join dir name) = Inr data \<and>
        ssh_ParseAuthorizedKey k data = Inr (CryptoPublic (EdPublic (snd kv)), comment) \<and>
        fst kv = id_or (TrimSuffix name (Ext name)) (TrimSpace comment))"

definition plain_files :: "(string \<times> bool) list \<Rightarrow> string list" where
  "plain_files entries = map fst (filter (\<lambda>e. \<not> snd e) entries)"

lemma read_public_key_Inr: "read_public_key k what dir name = Inr kv \<longleftrightarrow> holds_key k dir name kv"
  by (cases kv) (auto simp: read_public_key_def holds_key_def id_or_def Let_def
      split: sum.splits ssh_public.splits crypto_public.splits if_splits)

lemma read_public_key_Inl: "read_public_key k what dir name = Inl e \<Longrightarrow> errors_Is e ErrProviderUnavailable"
  by (auto simp: read_public_key_def Let_def split: sum.splits prod.splits ssh_public.splits crypto_public.splits if_splits)

lemma load_entries_Inr:
  "load_entries k what dir keys entries = Inr r \<longleftrightarrow>
     (\<exists>kvs. list_all2 (holds_key k dir) (plain_files entries) kvs \<and> distinct (map fst kvs) \<and>
        fst ` set kvs \<inter> dom keys = {} \<and> r = keys ++ map_of kvs)"
proof (induction k what dir keys entries rule: load_entries.induct)
  case (2 k what dir keys name isDir entries)
  show ?case
  proof (cases isDir)
    case True
    then show ?thesis using 2(1) by (simp add: plain_files_def)
  next
    case False
    note files = this
    show ?thesis
    proof (cases "read_public_key k what dir name")
      case (Inl e)
      then have "\<not> holds_key k dir name kv" for kv using read_public_key_Inr [of k what dir name kv] by simp
      then show ?thesis using Inl files by (simp add: plain_files_def list_all2_Cons1)
    next
      case (Inr kv)
      obtain i key where kv: "kv = (i, key)" by (cases kv)
      have only: "holds_key k dir name kv' \<longleftrightarrow> kv' = (i, key)" for kv'
        using Inr kv read_public_key_Inr [of k what dir name kv'] by auto
      have upd: "keys(i \<mapsto> key) ++ map_of kvs = keys ++ map_of ((i, key) # kvs)" if "i \<notin> fst ` set kvs" for kvs
        using that by (simp add: map_add_upd_left dom_map_of_conv_image_fst)
      show ?thesis
      proof (cases "keys i")
        case None
        have "load_entries k what dir keys ((name, isDir) # entries) = load_entries k what dir (keys(i \<mapsto> key)) entries"
          using files Inr kv None by simp
        moreover have "load_entries k what dir (keys(i \<mapsto> key)) entries = Inr r \<longleftrightarrow>
            (\<exists>kvs. list_all2 (holds_key k dir) (plain_files entries) kvs \<and> distinct (map fst kvs) \<and>
               fst ` set kvs \<inter> dom (keys(i \<mapsto> key)) = {} \<and> r = keys(i \<mapsto> key) ++ map_of kvs)"
          by (rule 2(2) [OF files Inr kv [symmetric]]) (simp add: None)
        moreover have "plain_files ((name, isDir) # entries) = name # plain_files entries"
          using files by (simp add: plain_files_def)
        moreover have "distinct (map fst kvs) \<and> fst ` set kvs \<inter> dom (keys(i \<mapsto> key)) = {} \<and> r = keys(i \<mapsto> key) ++ map_of kvs \<longleftrightarrow>
            distinct (map fst ((i, key) # kvs)) \<and> fst ` set ((i, key) # kvs) \<inter> dom keys = {} \<and> r = keys ++ map_of ((i, key) # kvs)"
          for kvs using None upd [of kvs] by (cases "i \<in> fst ` set kvs") (auto simp: domIff)
        ultimately show ?thesis by (simp only: list_all2_Cons1 only) blast
      next
        case (Some key')
        then show ?thesis using files Inr kv by (auto simp: plain_files_def list_all2_Cons1 only domIff)
      qed
    qed
  qed
qed (auto simp: plain_files_def)

lemma load_entries_Inl: "load_entries k what dir keys entries = Inl e \<Longrightarrow> errors_Is e ErrProviderUnavailable"
  by (induction k what dir keys entries rule: load_entries.induct)
    (auto split: if_splits sum.splits prod.splits dest: read_public_key_Inl)

lemma load_public_keys_Inr:
  "load_public_keys k what dir = Inr r \<longleftrightarrow>
     (if dir = [] then r = Map.empty
      else \<exists>entries kvs. os_ReadDir k dir = Inr entries \<and> list_all2 (holds_key k dir) (plain_files entries) kvs \<and>
             distinct (map fst kvs) \<and> r = map_of kvs)"
  by (auto simp: load_public_keys_def load_entries_Inr split: sum.splits)

lemma load_public_keys_Inl: "load_public_keys k what dir = Inl e \<Longrightarrow> errors_Is e ErrProviderUnavailable"
  by (auto simp: load_public_keys_def split: if_splits sum.splits dest: load_entries_Inl)

section \<open>Properties\<close>


text \<open>A concrete mount with one private key and one retained public key.\<close>

definition sample_mount :: "unit keyenv" where
  "sample_mount = \<lparr>os_ReadFile = (\<lambda>f. if f = ''/keys/m'' then Inr ''priv'' else if f = ''/ring/old.pub'' then Inr ''pub'' else Inl ''no such file''),
     os_ReadDir = (\<lambda>d. if d = ''/ring/'' then Inr [(''old.pub'', False), (''sub'', True)] else Inl ''no such directory''),
     ssh_ParseRawPrivateKey = (\<lambda>b. if b = ''priv'' then Inr (EdKeyPtr sample_priv) else Inl ''bad''),
     ssh_ParseAuthorizedKey = (\<lambda>b. if b = ''pub'' then Inr (CryptoPublic (EdPublic sample_pub), '' '') else Inl ''bad''),
     ssh_NewSignerFromKey = (\<lambda>key. Inr ()), ed_NewKeyFromSeed = zero_pad 64\<rparr>"

definition sample_vault :: ProviderConfig where
  "sample_vault = \<lparr>pc_Mode = ''kms_vault'', pc_AuditSigningKeyID = [], pc_AuditSigningKeyFile = [], pc_SSHCAKeyFile = [],
     pc_MembershipSigningKeyID = [], pc_MembershipSigningKeyFile = ''/keys/m'',
     pc_ServiceAccessSigningKeyID = [], pc_ServiceAccessSigningKeyFile = []\<rparr>"

definition sample_material :: MembershipSigningMaterial where
  "sample_material = \<lparr>msm_KeyID = ''mounted-ed25519-membership-key'', msm_PrivateKey = Some sample_priv\<rparr>"

lemma sample_priv_nonempty: "copy_nil sample_priv = Some sample_priv"
  by (simp add: copy_nil_def sample_priv_def)


text \<open>
  A directory of trusted keys loads exactly when every plain file in it can be read, holds an
  exportable ed25519 key and no two of them have the same id (the comment, or else the file name
  without its extension); the trust set then holds exactly these keys. Every failure is reported as
  an unavailable provider. This holds for the audit and for the membership directory.
\<close>

theorem trusted_directory_exact:
  "load \<in> {LoadAuditPublicKeys k, LoadMembershipPublicKeys k} \<Longrightarrow>
   (load dir = Inr r \<longleftrightarrow>
     (if dir = [] then r = Map.empty
      else \<exists>entries kvs. os_ReadDir k dir = Inr entries \<and> list_all2 (holds_key k dir) (plain_files entries) kvs \<and>
             distinct (map fst kvs) \<and> r = map_of kvs)) \<and>
   (load dir = Inl e \<longrightarrow> errors_Is e ErrProviderUnavailable)"
  by (auto simp: LoadAuditPublicKeys_def LoadMembershipPublicKeys_def load_public_keys_Inr dest: load_public_keys_Inl)

lemma sample_directory: "list_all2 (holds_key sample_mount ''/ring/'') (plain_files [(''old.pub'', False), (''sub'', True)]) [(''old'', sample_pub)]"
proof -
  have "path_Join ''/ring/'' ''old.pub'' = ''/ring/old.pub''" "TrimSuffix ''old.pub'' (Ext ''old.pub'') = ''old''" "TrimSpace '' '' = []"
    by code_simp+
  then show ?thesis by (simp add: holds_key_def plain_files_def sample_mount_def id_or_def)
qed

theorem trusted_directory_exact_witness:
  "LoadMembershipPublicKeys sample_mount ''/ring/'' = Inr [''old'' \<mapsto> sample_pub]"
proof -
  have "os_ReadDir sample_mount ''/ring/'' = Inr [(''old.pub'', False), (''sub'', True)]" by (simp add: sample_mount_def)
  then show ?thesis
    using trusted_directory_exact [of "LoadMembershipPublicKeys sample_mount" sample_mount "''/ring/''" "[''old'' \<mapsto> sample_pub]"] sample_directory
    by fastforce
qed

text \<open>
  C26. What the membership signer issues is admitted. With the signer resolved from any
  configuration and the trust set built from it and a directory of retained keys, an unexpired
  capability is signed, and it verifies exactly when no retained file reuses the id of the active
  signer or the retained key accepts the signature itself: the retained key replaces the active
  one. The key parser and the key generation are assumed to give keys of 64 bytes.
\<close>

definition sized_keys :: "'s keyenv \<Rightarrow> bool" where
  "sized_keys k \<longleftrightarrow> (\<forall>b key. ssh_ParseRawPrivateKey k b \<in> {Inr (EdKey key), Inr (EdKeyPtr key)} \<longrightarrow> length key = PrivateKeySize) \<and>
     (\<forall>seed. length seed = 32 \<longrightarrow> length (ed_NewKeyFromSeed k seed) = PrivateKeySize)"

lemma resolved_key_sized:
  assumes "sized_keys k" "sha256_sized p" "MembershipSigningMaterialFromConfig p k cfg = Inr m"
  shows "\<exists>sk. msm_PrivateKey m = Some sk \<and> length sk = PrivateKeySize \<and> msm_KeyID m \<noteq> []"
proof (cases "pc_Mode cfg \<in> {[], ''dev_local''}")
  case True
  then show ?thesis using assms(1,2) membership.dev_mode [OF True, of p k] assms(3)
    by (auto simp: sized_keys_def DevLocalMembershipSigningKey_def devLocalKey_def DevLocalMembershipSigningKeyID_def)
next
  case False
  with assms(3) obtain sk where "mounted_key k (pc_MembershipSigningKeyFile cfg) sk"
    "m = \<lparr>msm_KeyID = id_or ''mounted-ed25519-membership-key'' (pc_MembershipSigningKeyID cfg), msm_PrivateKey = sk\<rparr>"
    using membership.resolved_iff by blast
  then show ?thesis using assms(1) by (fastforce simp: mounted_key_def sized_keys_def copy_nil_def id_or_def)
qed

theorem membership_signer_admitted:
  assumes "ed25519_correct p" "sha256_sized p" "sized_keys k"
    and "MembershipSigningMaterialFromConfig p k cfg = Inr m" "MembershipPublicKeys p k m dir = Inr ring"
    and "length (elems (cap_LibP2PPublicKey c)) = PublicKeySize" "unexpired (cap_NotAfterMS c) now"
  shows "\<exists>c' retained. cap_Sign p (msm_KeyID m) (elems (msm_PrivateKey m)) c = Inr c' \<and>
    LoadMembershipPublicKeys k dir = Inr retained \<and>
    (cap_Verify p c' ring now = None \<longleftrightarrow>
      (\<forall>pub. retained (msm_KeyID m) = Some pub \<longrightarrow>
         length pub = PublicKeySize \<and> ed_verify p pub (canonicalBytes c') (cap_Signature c')))"
proof -
  obtain sk where sk: "msm_PrivateKey m = Some sk" "length sk = PrivateKeySize" "msm_KeyID m \<noteq> []"
    using resolved_key_sized [OF assms(3,2,4)] by blast
  obtain retained where r: "LoadMembershipPublicKeys k dir = Inr retained"
    "ring = [msm_KeyID m \<mapsto> ed_public p sk] ++ retained"
    using assms(5) sk by (auto simp: MembershipPublicKeys_def active_key_def split: sum.splits)
  obtain c' where s: "cap_Sign p (msm_KeyID m) sk c = Inr c'"
    "cap_SignerKeyID c' = msm_KeyID m" "length (cap_Signature c') = SignatureSize"
    "cap_LibP2PPublicKey c' = cap_LibP2PPublicKey c" "cap_NotAfterMS c' = cap_NotAfterMS c"
    using sk(2) assms(6) ed25519_correctD(2) [OF assms(1) sk(2)] by (simp add: cap_Sign_def Let_def)
  have "cap_Verify p c' ring now = None \<longleftrightarrow>
      (\<forall>pub. retained (msm_KeyID m) = Some pub \<longrightarrow> length pub = PublicKeySize \<and> ed_verify p pub (canonicalBytes c') (cap_Signature c'))"
  proof (cases "retained (msm_KeyID m)")
    case None
    then have "ring (msm_KeyID m) = Some (ed_public p sk)" using r(2) by (simp add: map_add_def)
    then have "cap_Verify p c' ring now = None"
      using assms(6,7) by (intro cap.signed_accepted [OF s(1) assms(1)]) simp_all
    then show ?thesis using None by simp
  next
    case (Some pub)
    then have "ring (msm_KeyID m) = Some pub" using r(2) by (simp add: map_add_def)
    then show ?thesis
      using Some assms(6,7) unfolding cap.accepts_iff s(2-5) by simp
  qed
  then show ?thesis using s(1) r(1) sk(1) by auto
qed

theorem membership_signer_admitted_witness:
  "\<exists>c' ring. MembershipPublicKeys demo_platform sample_mount sample_material ''/ring/'' = Inr ring \<and>
    cap_Sign demo_platform (msm_KeyID sample_material) sample_priv sample_cap = Inr c' \<and> cap_Verify demo_platform c' ring 1500 = None"
proof -
  have keys: "LoadMembershipPublicKeys sample_mount ''/ring/'' = Inr [''old'' \<mapsto> sample_pub]"
    using sample_directory by (fastforce simp: LoadMembershipPublicKeys_def load_public_keys_Inr sample_mount_def)
  then obtain ring where ring: "MembershipPublicKeys demo_platform sample_mount sample_material ''/ring/'' = Inr ring"
    by (simp add: MembershipPublicKeys_def)
  have "sized_keys sample_mount" by (auto simp: sized_keys_def sample_mount_def sample_sizes split: if_splits)
  moreover have "MembershipSigningMaterialFromConfig demo_platform sample_mount sample_vault = Inr sample_material"
    using sample_priv_nonempty
    by (simp add: MembershipSigningMaterialFromConfig_def sample_vault_def sample_material_def readEd25519PrivateKey_def readRawPrivateKey_def sample_mount_def)
  moreover have "length (elems (cap_LibP2PPublicKey sample_cap)) = PublicKeySize" "unexpired (cap_NotAfterMS sample_cap) 1500"
    by (simp_all add: sample_cap_def unexpired_def)
  ultimately obtain c' where "cap_Sign demo_platform (msm_KeyID sample_material) (elems (msm_PrivateKey sample_material)) sample_cap = Inr c'"
    "cap_Verify demo_platform c' ring 1500 = None"
    using membership_signer_admitted [OF demo_ed25519_correct demo_sha256_sized _ _ ring, of sample_vault sample_cap 1500]
    by (auto simp: keys sample_material_def)
  then show ?thesis using ring keys by (auto simp: sample_material_def)
qed

end
