(* ===== verification/GoRegexp.thy ===== *)
theory GoRegexp
  imports GoStrings
begin

text \<open>
  The part of Go's \<open>regexp\<close> the program uses: compiling a pattern and \<open>MatchString\<close>. Text is matched
  as runes, a byte that begins no valid rune counting as U+FFFD. \<open>matches\<close> says which stretches of the
  text an expression matches; \<open>MatchString\<close> searches for one, and the two are shown to agree.
  Patterns are written as in the source, with a backquote for each backslash: a raw string literal
  of Go cannot hold a backquote, so the translation \<open>raw\<close> is unambiguous. A flag group such as \<open>(?i)\<close>
  is read as applying to the rest of the pattern; the program only uses it at the head.
\<close>

section \<open>Definitions\<close>

type_synonym rune = int

function decode_runes :: "string \<Rightarrow> rune list" where
  "decode_runes [] = []"
| "decode_runes (c # cs) =
     (let w = rune_width (c # cs)
      in if w = 0 then 0xFFFD # decode_runes cs
         else (if w = 1 then of_char c else int (rune_value (take w (c # cs)))) # decode_runes (drop (w - 1) cs))"
  by pat_completeness auto
termination
  by (relation "measure length") auto

declare decode_runes.simps(2) [simp del]

subsection \<open>Expressions\<close>

datatype assertion = WordBoundary | TextBegin | LineBegin | TextEnd

datatype regex =
    Class (negated: bool) (foldcase: bool) (ranges: "(rune \<times> rune) list")
  | Empty
  | Assert assertion
  | Seq regex regex
  | Alt regex regex
  | Star regex

text \<open>The lower-case letter a rune folds to; U+017F and U+212A fold to \<open>s\<close> and \<open>k\<close>.\<close>

definition canon :: "rune \<Rightarrow> rune" where
  "canon x = (if 65 \<le> x \<and> x \<le> 90 then x + 32 else if x = 0x17F then 115 else if x = 0x212A then 107 else x)"

definition in_ranges :: "(rune \<times> rune) list \<Rightarrow> rune \<Rightarrow> bool" where
  "in_ranges rs x \<longleftrightarrow> list_ex (\<lambda>(lo, hi). lo \<le> x \<and> x \<le> hi) rs"

text \<open>The ranges of the patterns are ASCII, so a folded class need only be tried on both cases.\<close>

definition in_class :: "bool \<Rightarrow> bool \<Rightarrow> (rune \<times> rune) list \<Rightarrow> rune \<Rightarrow> bool" where
  "in_class neg ci rs x \<longleftrightarrow>
     (in_ranges rs x \<or>
      ci \<and> (in_ranges rs (canon x) \<or> 97 \<le> canon x \<and> canon x \<le> 122 \<and> in_ranges rs (canon x - 32))) \<noteq> neg"

definition word_rune :: "rune \<Rightarrow> bool" where
  "word_rune x \<longleftrightarrow> in_ranges [(48, 57), (65, 90), (95, 95), (97, 122)] x"

text \<open>An assertion between a rune and the rest of the text; \<open>None\<close> stands before the first rune.\<close>

fun holds :: "assertion \<Rightarrow> rune option \<Rightarrow> rune list \<Rightarrow> bool" where
  "holds WordBoundary before rest \<longleftrightarrow>
     (case before of None \<Rightarrow> False | Some x \<Rightarrow> word_rune x) \<noteq> (case rest of [] \<Rightarrow> False | y # ys \<Rightarrow> word_rune y)"
| "holds TextBegin before rest \<longleftrightarrow> before = None"
| "holds LineBegin before rest \<longleftrightarrow> before = None \<or> before = Some 10"
| "holds TextEnd before rest \<longleftrightarrow> rest = []"

text \<open>The place \<open>i\<close> of a text: the rune before it and the rest.\<close>

definition place :: "rune list \<Rightarrow> nat \<Rightarrow> rune option \<times> rune list" where
  "place s i = (if i = 0 then None else Some (s ! (i - 1)), drop i s)"

primrec matches :: "rune list \<Rightarrow> regex \<Rightarrow> nat \<Rightarrow> nat \<Rightarrow> bool" where
  "matches s (Class neg ci rs) = (\<lambda>i j. i < length s \<and> j = Suc i \<and> in_class neg ci rs (s ! i))"
| "matches s Empty = (\<lambda>i j. j = i)"
| "matches s (Assert a) = (\<lambda>i j. j = i \<and> (case place s i of (before, rest) \<Rightarrow> holds a before rest))"
| "matches s (Seq r t) = (\<lambda>i j. \<exists>k. matches s r i k \<and> matches s t k j)"
| "matches s (Alt r t) = (\<lambda>i j. matches s r i j \<or> matches s t i j)"
| "matches s (Star r) = rtranclp (matches s r)"

subsection \<open>Searching\<close>

text \<open>The places a match from a place can end at.\<close>

function ends :: "regex \<Rightarrow> rune option \<times> rune list \<Rightarrow> (rune option \<times> rune list) list" where
  "ends (Class neg ci rs) q = (case snd q of [] \<Rightarrow> [] | x # xs \<Rightarrow> if in_class neg ci rs x then [(Some x, xs)] else [])"
| "ends Empty q = [q]"
| "ends (Assert a) q = (if holds a (fst q) (snd q) then [q] else [])"
| "ends (Seq r t) q = concat (map (ends t) (ends r q))"
| "ends (Alt r t) q = ends r q @ ends t q"
| "ends (Star r) q = q # concat (map (ends (Star r)) (filter (\<lambda>q'. length (snd q') < length (snd q)) (ends r q)))"
  by pat_completeness auto
termination
  by (relation "measures [\<lambda>(r, q). size r, \<lambda>(r, q). length (snd q)]") auto

declare ends.simps(6) [simp del]

fun search :: "regex \<Rightarrow> rune option \<Rightarrow> rune list \<Rightarrow> bool" where
  "search r before [] \<longleftrightarrow> ends r (before, []) \<noteq> []"
| "search r before (x # xs) \<longleftrightarrow> ends r (before, x # xs) \<noteq> [] \<or> search r (Some x) xs"

definition MatchString :: "regex \<Rightarrow> string \<Rightarrow> bool" where
  "MatchString r text \<longleftrightarrow> search r None (decode_runes text)"

subsection \<open>Compiling\<close>

definition raw :: "string \<Rightarrow> string" where
  "raw p = map (\<lambda>c. if c = CHR 0x60 then CHR 0x5C else c) p"

datatype token =
    TSet bool "(rune \<times> rune) list" | TBoundary | TCaret | TDollar | TOpen | TClose | TFlag char | TBar
  | TStar | TPlus | TQuest | TRange nat nat | TFrom nat

abbreviation rune_of :: "char \<Rightarrow> rune" where "rune_of c \<equiv> of_char c"

text \<open>The ranges behind a backslash, inside and outside of a class.\<close>

definition escape_ranges :: "char \<Rightarrow> (rune \<times> rune) list" where
  "escape_ranges c =
     (if c = CHR ''d'' then [(48, 57)]
      else if c = CHR ''s'' then [(9, 10), (12, 13), (32, 32)]
      else if c = CHR ''n'' then [(10, 10)]
      else if c = CHR ''r'' then [(13, 13)]
      else [(rune_of c, rune_of c)])"

fun class_items :: "string \<Rightarrow> ((rune \<times> rune) list \<times> string) option" where
  "class_items [] = None"
| "class_items (c # r) =
     (if c = CHR '']'' then Some ([], r)
      else case r of
        [] \<Rightarrow> None
      | d # r' \<Rightarrow>
          if c = CHR 0x5C then map_option (\<lambda>(rs, t). (escape_ranges d @ rs, t)) (class_items r')
          else if d = CHR ''-'' then
            (case r' of
               [] \<Rightarrow> None
             | e # r'' \<Rightarrow>
                 if e = CHR '']'' then Some ([(rune_of c, rune_of c), (45, 45)], r'')
                 else map_option (\<lambda>(rs, t). ((rune_of c, rune_of e) # rs, t)) (class_items r''))
          else map_option (\<lambda>(rs, t). ((rune_of c, rune_of c) # rs, t)) (class_items (d # r')))"

lemma class_items_shorter: "class_items s = Some (rs, t) \<Longrightarrow> length t < length s"
proof (induction s arbitrary: rs t rule: class_items.induct)
  case (2 c r)
  show ?case
  proof (cases "c = CHR '']'' \<or> r = []")
    case False
    then obtain d r' where c: "c \<noteq> CHR '']''" and r: "r = d # r'" by (cases r) auto
    show ?thesis
    proof (cases "c = CHR 0x5C")
      case True
      then obtain rs' where "class_items r' = Some (rs', t)" using 2(4) c r by auto
      then show ?thesis using 2(1) [OF c r True] r by force
    next
      case esc: False
      show ?thesis
      proof (cases "d = CHR ''-''")
        case True
        show ?thesis
        proof (cases r')
          case (Cons e r'')
          show ?thesis
          proof (cases "e = CHR '']''")
            case False
            then obtain rs' where "class_items r'' = Some (rs', t)" using 2(4) c r esc True Cons by auto
            then show ?thesis using 2(2) [OF c r esc True Cons False] r Cons by force
          qed (use 2(4) c r esc True Cons in simp)
        qed (use 2(4) c r esc True in simp)
      next
        case False
        then obtain rs' where "class_items r = Some (rs', t)" using 2(4) c r esc by (simp del: class_items.simps) (simp only: class_items.simps(2) [of c], auto)
        then show ?thesis using 2(3) [OF c r esc False] r by force
      qed
    qed
  qed (use 2(4) in \<open>auto split: if_splits\<close>)
qed simp

declare class_items.simps(2) [simp del]

definition lex_class :: "string \<Rightarrow> (token \<times> string) option" where
  "lex_class s =
     (case s of
        c # r \<Rightarrow>
          if c = CHR ''^'' then map_option (\<lambda>(rs, t). (TSet True rs, t)) (class_items r)
          else map_option (\<lambda>(rs, t). (TSet False rs, t)) (class_items s)
      | [] \<Rightarrow> None)"

definition decimal :: "string \<Rightarrow> nat" where
  "decimal ds = foldl (\<lambda>n c. n * 10 + (of_char c - 48)) 0 ds"

definition is_dec :: "char \<Rightarrow> bool" where "is_dec c \<longleftrightarrow> byte_in 48 57 c"

text \<open>A repetition count, after its brace.\<close>

definition lex_count :: "string \<Rightarrow> (token \<times> string) option" where
  "lex_count s =
     (let lo = takeWhile is_dec s; r = dropWhile is_dec s
      in case r of
           [] \<Rightarrow> None
         | c # r' \<Rightarrow>
             if c = CHR ''}'' then Some (TRange (decimal lo) (decimal lo), r')
             else let hi = takeWhile is_dec r'; r'' = dropWhile is_dec r'
                  in if c \<noteq> CHR '','' \<or> r'' = [] \<or> hd r'' \<noteq> CHR ''}'' then None
                     else Some (if hi = [] then TFrom (decimal lo) else TRange (decimal lo) (decimal hi), tl r''))"

definition lex_open :: "string \<Rightarrow> token \<times> string" where
  "lex_open s =
     (case s of
        a # b # r \<Rightarrow>
          if a = CHR ''?'' \<and> b = CHR '':'' then (TOpen, r)
          else if a = CHR ''?'' \<and> r \<noteq> [] \<and> hd r = CHR '')'' then (TFlag b, tl r)
          else (TOpen, s)
      | _ \<Rightarrow> (TOpen, s))"

definition lex_one :: "char \<Rightarrow> string \<Rightarrow> (token \<times> string) option" where
  "lex_one c r =
     (if c = CHR 0x5C then
        (case r of [] \<Rightarrow> None | d # r' \<Rightarrow> Some (if d = CHR ''b'' then TBoundary else TSet False (escape_ranges d), r'))
      else if c = CHR ''['' then lex_class r
      else if c = CHR ''{'' then lex_count r
      else if c = CHR ''('' then Some (lex_open r)
      else if c = CHR '')'' then Some (TClose, r)
      else if c = CHR ''|'' then Some (TBar, r)
      else if c = CHR ''*'' then Some (TStar, r)
      else if c = CHR ''+'' then Some (TPlus, r)
      else if c = CHR ''?'' then Some (TQuest, r)
      else if c = CHR ''^'' then Some (TCaret, r)
      else if c = CHR ''$'' then Some (TDollar, r)
      else Some (TSet False [(rune_of c, rune_of c)], r))"

lemma lex_one_shorter: "lex_one c r = Some (tok, t) \<Longrightarrow> length t \<le> length r"
proof -
  have "length (dropWhile P xs) \<le> length xs" for P :: "char \<Rightarrow> bool" and xs by (rule length_dropWhile_le)
  note dw = this
  have "length t \<le> length r" if "lex_count r = Some (tok, t)"
  proof (cases "dropWhile is_dec r")
    case (Cons c r')
    then have "length r' < length r" using dw [of is_dec r] by simp
    moreover have "t = r' \<or> t = tl (dropWhile is_dec r')"
      using that Cons by (auto simp: lex_count_def Let_def split: if_splits)
    ultimately show ?thesis using dw [of is_dec r'] by (auto simp: le_diff_conv)
  next
    case Nil
    then show ?thesis using that unfolding lex_count_def Let_def by (simp del: dropWhile_eq_Nil_conv)
  qed
  moreover have "lex_class r = Some (tok, t) \<Longrightarrow> length t \<le> length r"
    by (auto simp: lex_class_def split: list.splits if_splits dest!: class_items_shorter)
  moreover have "lex_open r = (tok, t) \<Longrightarrow> length t \<le> length r"
    by (auto simp: lex_open_def split: list.splits if_splits)
  ultimately show "lex_one c r = Some (tok, t) \<Longrightarrow> length t \<le> length r"
    by (auto simp: lex_one_def split: if_splits list.splits)
qed

function lex_all :: "string \<Rightarrow> token list option" where
  "lex_all [] = Some []"
| "lex_all (c # r) = (case lex_one c r of None \<Rightarrow> None | Some (tok, t) \<Rightarrow> map_option ((#) tok) (lex_all t))"
  by pat_completeness auto
termination
  by (relation "measure length") (auto dest: lex_one_shorter simp: less_Suc_eq_le)

primrec repeat_times :: "nat \<Rightarrow> regex \<Rightarrow> regex \<Rightarrow> regex" where
  "repeat_times 0 r t = t"
| "repeat_times (Suc n) r t = Seq r (repeat_times n r t)"

primrec up_to :: "nat \<Rightarrow> regex \<Rightarrow> regex" where
  "up_to 0 r = Empty"
| "up_to (Suc n) r = Alt (Seq r (up_to n r)) Empty"

definition sequence :: "regex list \<Rightarrow> regex" where
  "sequence rs = foldl (\<lambda>t r. Seq r t) Empty rs"

text \<open>The alternatives already closed, and the items of the open one, latest first.\<close>

type_synonym frame = "regex option \<times> regex list"

definition close_alt :: "frame \<Rightarrow> regex" where
  "close_alt f = (case fst f of None \<Rightarrow> sequence (snd f) | Some a \<Rightarrow> Alt a (sequence (snd f)))"

definition repeated :: "token \<Rightarrow> regex \<Rightarrow> regex" where
  "repeated tok r =
     (case tok of TStar \<Rightarrow> Star r | TPlus \<Rightarrow> Seq r (Star r) | TQuest \<Rightarrow> Alt r Empty
      | TRange lo hi \<Rightarrow> repeat_times lo r (up_to (hi - lo) r) | TFrom lo \<Rightarrow> repeat_times lo r (Star r) | _ \<Rightarrow> r)"

fun parse :: "bool \<Rightarrow> bool \<Rightarrow> frame list \<Rightarrow> frame \<Rightarrow> token list \<Rightarrow> regex option" where
  "parse i m st f [] = (if st = [] then Some (close_alt f) else None)"
| "parse i m st (a, rs) (tok # toks) =
     (case tok of
        TSet neg cs \<Rightarrow> parse i m st (a, Class neg i cs # rs) toks
      | TBoundary \<Rightarrow> parse i m st (a, Assert WordBoundary # rs) toks
      | TCaret \<Rightarrow> parse i m st (a, Assert (if m then LineBegin else TextBegin) # rs) toks
      | TDollar \<Rightarrow> if m then None else parse i m st (a, Assert TextEnd # rs) toks
      | TOpen \<Rightarrow> parse i m ((a, rs) # st) (None, []) toks
      | TClose \<Rightarrow> (case st of [] \<Rightarrow> None | (b, ts) # st' \<Rightarrow> parse i m st' (b, close_alt (a, rs) # ts) toks)
      | TFlag c \<Rightarrow> if c = CHR ''i'' then parse True m st (a, rs) toks
                   else if c = CHR ''m'' then parse i True st (a, rs) toks else None
      | TBar \<Rightarrow> parse i m st (Some (close_alt (a, rs)), []) toks
      | _ \<Rightarrow> (case rs of [] \<Rightarrow> None | r # ts \<Rightarrow> parse i m st (a, repeated tok r # ts) toks))"

definition compile :: "string \<Rightarrow> regex option" where
  "compile p = Option.bind (lex_all (raw p)) (parse False False [] (None, []))"

text \<open>\<open>MustCompile\<close> panics on a pattern that does not compile; all of the program's patterns do.\<close>

definition MustCompile :: "string \<Rightarrow> regex" where
  "MustCompile p = (case compile p of Some r \<Rightarrow> r | None \<Rightarrow> Class False False [])"

section \<open>The search finds exactly the matches\<close>

lemma place_end: "i < length s \<Longrightarrow> snd (place s i) = s ! i # snd (place s (Suc i)) \<and> fst (place s (Suc i)) = Some (s ! i)"
  by (simp add: place_def Cons_nth_drop_Suc)

lemma length_place: "length (snd (place s i)) = length s - i"
  by (simp add: place_def)

lemma matches_range: "matches s r i j \<Longrightarrow> i \<le> length s \<Longrightarrow> i \<le> j \<and> j \<le> length s"
proof (induction r arbitrary: i j)
  case (Seq r t)
  then obtain k where k: "matches s r i k" "matches s t k j" by auto
  then show ?case using Seq.IH(1) [OF k(1) Seq.prems(2)] Seq.IH(2) [OF k(2)] by auto
next
  case (Star r)
  from Star.prems(1) have "rtranclp (matches s r) i j" by simp
  then show ?case
  proof (induction rule: rtranclp_induct)
    case (step k j)
    then show ?case using Star.IH [of k j] by auto
  qed (use Star.prems(2) in simp)
qed auto

lemma star_ends: "x \<in> set (ends (Star r) q) \<longleftrightarrow>
    x = q \<or> (\<exists>q' \<in> set (ends r q). length (snd q') < length (snd q) \<and> x \<in> set (ends (Star r) q'))"
  by (subst ends.simps(6)) (simp only: set_simps insert_iff set_concat set_map set_filter UN_iff bex_simps, blast)

lemma first_move: "rtranclp R i j \<Longrightarrow> i \<noteq> j \<Longrightarrow> \<exists>k. R i k \<and> k \<noteq> i \<and> rtranclp R k j"
  by (induction rule: converse_rtranclp_induct) blast+

lemma ends_matches: "i \<le> length s \<Longrightarrow> q = place s i \<Longrightarrow> set (ends r q) = place s ` {j. matches s r i j}"
proof (induction r q arbitrary: i rule: ends.induct)
  case (1 neg ci rs q)
  show ?case
  proof (cases "i < length s")
    case True
    have "{j. matches s (Class neg ci rs) i j} = (if in_class neg ci rs (s ! i) then {Suc i} else {})" using True by auto
    moreover have "snd q = s ! i # drop (Suc i) s" using True 1(2) by (simp add: place_def Cons_nth_drop_Suc)
    ultimately show ?thesis by (simp add: place_def)
  next
    case False
    then show ?thesis using 1 by (simp add: place_def)
  qed
next
  case (3 a q)
  then show ?case by (auto simp: case_prod_beta)
next
  case (4 r t q)
  have "set (ends t (place s k)) = place s ` {j. matches s t k j}" if "matches s r i k" for k
    using 4(2) [of "place s k" k] 4(1) [OF 4(3,4)] that matches_range [OF that 4(3)] by auto
  then show ?case using 4(1) [OF 4(3,4)] by auto
next
  case (6 r q)
  have sub: "set (ends (Star r) (place s k)) = place s ` {j. rtranclp (matches s r) k j}"
    if k: "matches s r i k" "i < k" for k
  proof -
    have len: "k \<le> length s" using matches_range [OF k(1) 6(3)] by simp
    have "place s k \<in> set (filter (\<lambda>q'. length (snd q') < length (snd q)) (ends r q))"
      using k 6(1) [OF 6(3,4)] 6(4) len by (auto simp: length_place)
    from 6(2) [OF this len refl] show ?thesis by (simp only: matches.simps)
  qed
  have "place s j \<in> set (ends (Star r) q)" if star: "rtranclp (matches s r) i j" for j
  proof (cases "i = j")
    case False
    obtain k where k: "matches s r i k" "i < k" "rtranclp (matches s r) k j"
    proof -
      obtain k where "matches s r i k" "k \<noteq> i" "rtranclp (matches s r) k j" using first_move [OF star False] by blast
      then show thesis using that [of k] matches_range [OF _ 6(3), of r k] by auto
    qed
    have "place s k \<in> set (ends r q)" using k(1) 6(1) [OF 6(3,4)] by simp
    moreover have "length (snd (place s k)) < length (snd q)"
      using k(2) 6(4) matches_range [OF k(1) 6(3)] by (simp add: length_place)
    moreover have "place s j \<in> set (ends (Star r) (place s k))" using sub [OF k(1,2)] k(3) by simp
    ultimately show ?thesis unfolding star_ends [of _ r q] by blast
  qed (use 6(4) star_ends [of "place s i" r "place s i"] in auto)
  moreover have "x \<in> place s ` {j. rtranclp (matches s r) i j}" if x: "x \<in> set (ends (Star r) q)" for x
  proof -
    consider "x = q" | q' where "q' \<in> set (ends r q)" "length (snd q') < length (snd q)" "x \<in> set (ends (Star r) q')"
      using x unfolding star_ends [of _ r q] by blast
    then show ?thesis
    proof cases
      case 2
      then obtain k where k: "matches s r i k" "q' = place s k" using 6(1) [OF 6(3,4)] by auto
      have "i < k" using 2(2) k 6(4) by (simp add: length_place)
      then show ?thesis using sub [OF k(1)] 2(3) k by (auto intro: converse_rtranclp_into_rtranclp)
    qed (use 6(4) in auto)
  qed
  ultimately show ?case by auto
qed auto

lemma ex_from: "i \<le> n \<Longrightarrow> (\<exists>k. i \<le> k \<and> k \<le> n \<and> P k) \<longleftrightarrow> P i \<or> (\<exists>k. Suc i \<le> k \<and> k \<le> (n :: nat) \<and> P k)"
  by (metis Suc_leD Suc_leI le_neq_implies_less order_refl)

lemma search_ends:
  "i \<le> length s \<Longrightarrow> search r (fst (place s i)) (snd (place s i)) \<longleftrightarrow> (\<exists>k. i \<le> k \<and> k \<le> length s \<and> ends r (place s k) \<noteq> [])"
proof (induction "length s - i" arbitrary: i)
  case 0
  then have i: "i = length s" by simp
  then have "snd (place s i) = []" by (simp add: place_def)
  then have "search r (fst (place s i)) (snd (place s i)) \<longleftrightarrow> ends r (place s i) \<noteq> []"
    by (metis prod.collapse search.simps(1))
  then show ?case using i by auto
next
  case (Suc n)
  then have i: "i < length s" by simp
  have "search r (fst (place s i)) (snd (place s i)) \<longleftrightarrow>
      ends r (place s i) \<noteq> [] \<or> search r (fst (place s (Suc i))) (snd (place s (Suc i)))"
    using place_end [OF i] by (metis prod.collapse search.simps(2))
  then show ?case using ex_from [OF Suc.prems, of "\<lambda>k. ends r (place s k) \<noteq> []"] Suc(1) [of "Suc i"] Suc(2) i by simp
qed

lemma search_matches: "search r None s \<longleftrightarrow> (\<exists>i j. i \<le> length s \<and> matches s r i j)"
proof -
  have "search r None s \<longleftrightarrow> (\<exists>i \<le> length s. ends r (place s i) \<noteq> [])"
    using search_ends [of 0 s r] by (simp add: place_def)
  moreover have "ends r (place s i) \<noteq> [] \<longleftrightarrow> (\<exists>j. matches s r i j)" if "i \<le> length s" for i
    using ends_matches [OF that refl, of r] by (metis (no_types, lifting) Collect_empty_eq image_is_empty set_empty)
  ultimately show ?thesis by auto
qed

lemma MatchString_matches: "MatchString r text \<longleftrightarrow> (\<exists>i j. i \<le> length (decode_runes text) \<and> matches (decode_runes text) r i j)"
  by (simp add: MatchString_def search_matches)

section \<open>Decoding around ASCII text\<close>

lemma decode_runes_ascii: "ascii c \<Longrightarrow> decode_runes (c # cs) = rune_of c # decode_runes cs"
  by (simp add: decode_runes.simps(2) rune_width_ascii)

lemma rune_width_before_ascii:
  assumes "ascii c" "pre \<noteq> []"
  shows "rune_width (pre @ c # post) = rune_width pre"
proof -
  obtain a as where pre: "pre = a # as" using assms(2) by (cases pre) auto
  let ?n = "rune_need (of_char a)"
  show ?thesis
  proof (cases "?n \<le> 1")
    case True
    then show ?thesis by (simp add: pre rune_width.simps(2) Let_def)
  next
    case big: False
    show ?thesis
    proof (cases "?n - 1 \<le> length as")
      case True
      then have "as \<noteq> []" "take (?n - 2) (tl (as @ c # post)) = take (?n - 2) (tl as)" using big by (cases as; auto)+
      then show ?thesis using True by (simp add: pre rune_width.simps(2) Let_def)
    next
      case False
      have "rune_width pre = 0" using False big by (simp add: pre rune_width.simps(2) Let_def)
      moreover have "rune_width (pre @ c # post) = 0"
      proof (rule ccontr)
        assume w: "rune_width (pre @ c # post) \<noteq> 0"
        then have n: "rune_width (pre @ c # post) = ?n" using big by (auto simp: pre rune_width.simps(2) Let_def split: if_splits)
        have "(pre @ c # post) ! length pre \<in> set (take ?n (pre @ c # post))"
          using False big n rune_width_le [of "pre @ c # post"] pre
          by (metis One_nat_def Suc_less_eq Suc_pred in_set_conv_nth length_Cons length_take min.absorb2 not_le nth_take not_less_eq zero_less_diff less_imp_le_nat not_less)
        then show False using rune_width_multibyte [of "pre @ c # post"] n big assms(1) by auto
      qed
      ultimately show ?thesis by simp
    qed
  qed
qed

lemma decode_runes_before_ascii: "ascii c \<Longrightarrow> decode_runes (pre @ c # post) = decode_runes pre @ decode_runes (c # post)"
proof (induction pre rule: decode_runes.induct)
  case (2 a as)
  note w = rune_width_before_ascii [OF 2(3), of "a # as" post, simplified]
  have len: "rune_width (a # as) \<le> Suc (length as)" using rune_width_le [of "a # as"] by simp
  then have "take (rune_width (a # as)) (a # as @ c # post) = take (rune_width (a # as)) (a # as)"
    "drop (rune_width (a # as) - 1) (as @ c # post) = drop (rune_width (a # as) - 1) as @ c # post"
    using take_append [of "rune_width (a # as)" "a # as" "c # post"] by auto
  then show ?case using 2 w by (simp add: decode_runes.simps(2) [of a] Let_def)
qed simp

lemma decode_runes_text: "list_all ascii m \<Longrightarrow> decode_runes (m @ post) = map rune_of m @ decode_runes post"
  by (induction m) (simp_all add: decode_runes_ascii)

lemma decode_runes_around:
  "m \<noteq> [] \<Longrightarrow> list_all ascii m \<Longrightarrow> decode_runes (pre @ m @ post) = decode_runes pre @ map rune_of m @ decode_runes post"
  using decode_runes_before_ascii [of "hd m" pre "tl m @ post"] decode_runes_text [of m post] by (cases m) auto

section \<open>Following a pattern\<close>

lemma reach_Seq: "q' \<in> set (ends r q) \<Longrightarrow> q'' \<in> set (ends t q') \<Longrightarrow> q'' \<in> set (ends (Seq r t) q)"
  by auto

lemma reach_Class: "in_class neg ci rs x \<Longrightarrow> (Some x, xs) \<in> set (ends (Class neg ci rs) (before, x # xs))"
  by simp

lemma search_finds: "ends r (if ps = [] then before else Some (last ps), xs) \<noteq> [] \<Longrightarrow> search r before (ps @ xs)"
proof (induction ps arbitrary: before)
  case Nil
  then show ?case by (cases xs) auto
next
  case (Cons p ps)
  then show ?case by (cases "ps = []") auto
qed

end
