(* ===== verification/GoFlag.thy ===== *)
theory GoFlag
  imports AppErrors
begin

text \<open>
  The command-line reader of Go's \<open>flag\<close> package for flag sets whose flags all hold strings. The
  result is the value last given to each flag and the arguments that are left.
\<close>

section \<open>Definitions\<close>

definition ErrHelp :: goerror where "ErrHelp = Plain ''flag: help requested''"

text \<open>The name and, where the argument holds an equals sign after its first character, the value.\<close>

definition split_flag :: "string \<Rightarrow> string \<times> string option" where
  "split_flag arg =
     (case arg of
        [] \<Rightarrow> ([], None)
      | c # cs \<Rightarrow>
          let head = takeWhile (\<lambda>x. x \<noteq> CHR ''='') cs; tail = dropWhile (\<lambda>x. x \<noteq> CHR ''='') cs
          in (c # head, if tail = [] then None else Some (tl tail)))"

fun parse_flags :: "string set \<Rightarrow> (string \<rightharpoonup> string) \<Rightarrow> string list \<Rightarrow> goerror + (string \<rightharpoonup> string) \<times> string list" where
  "parse_flags formal vals [] = Inr (vals, [])"
| "parse_flags formal vals (s # args) =
     (if length s < 2 \<or> hd s \<noteq> CHR ''-'' then Inr (vals, s # args)
      else if s = ''--'' then Inr (vals, args)
      else let body = (if s ! 1 = CHR ''-'' then drop 2 s else drop 1 s)
           in if body = [] \<or> hd body = CHR ''-'' \<or> hd body = CHR ''='' then Inl (Plain (''bad flag syntax: '' @ s))
              else case split_flag body of (name, given) \<Rightarrow>
                if name \<notin> formal then
                  Inl (if name = ''help'' \<or> name = ''h'' then ErrHelp else Plain (''flag provided but not defined: -'' @ name))
                else case given of
                  Some v \<Rightarrow> parse_flags formal (vals(name \<mapsto> v)) args
                | None \<Rightarrow>
                    (case args of
                       [] \<Rightarrow> Inl (Plain (''flag needs an argument: -'' @ name))
                     | v # args' \<Rightarrow> parse_flags formal (vals(name \<mapsto> v)) args'))"

definition flag_value :: "(string \<rightharpoonup> string) \<Rightarrow> string \<Rightarrow> string \<Rightarrow> string" where
  "flag_value vals name fallback = (case vals name of None \<Rightarrow> fallback | Some v \<Rightarrow> v)"

section \<open>Facts\<close>

text \<open>A command line of two-word flags sets each to the last value given for it.\<close>

definition plain_flag :: "string \<Rightarrow> bool" where
  "plain_flag name \<longleftrightarrow> name \<noteq> [] \<and> hd name \<noteq> CHR ''-'' \<and> CHR ''='' \<notin> set name"

lemma split_flag_plain: "plain_flag name \<Longrightarrow> split_flag name = (name, None)"
  by (cases name) (auto simp: split_flag_def plain_flag_def Let_def)

lemma parse_flags_pairs:
  "list_all (\<lambda>(n, v). n \<in> formal \<and> plain_flag n) nvs \<Longrightarrow>
   parse_flags formal vals (concat (map (\<lambda>(n, v). [''--'' @ n, v]) nvs)) = Inr (vals ++ map_of (rev nvs), [])"
proof (induction nvs arbitrary: vals)
  case (Cons nv nvs)
  obtain n v where nv: "nv = (n, v)" by (cases nv)
  then have n: "n \<in> formal" "plain_flag n" using Cons.prems by auto
  then have "hd n \<noteq> CHR ''-''" "hd n \<noteq> CHR ''=''" "n \<noteq> []" by (cases n; auto simp: plain_flag_def)+
  moreover have "vals(n \<mapsto> v) ++ map_of (rev nvs) = vals ++ map_of (rev nvs @ [(n, v)])"
    by (auto simp: map_add_def fun_eq_iff map_of_append split: option.splits)
  ultimately show ?case using Cons nv n by (simp add: split_flag_plain)
qed simp

end
