(* ===== verification/Release.thy ===== *)
theory Release
  imports GoPlatform GoRegexp GoPath GoFlag GoNet
begin

text \<open>
  Release manifests and acceptance records (\<open>src/release/release.go\<close> and \<open>acceptance.go\<close>): the build
  metadata, the record a release is accepted with, the checks of its options and the scan of every
  text for private topology and secrets. The variables the linker sets and what \<open>debug.ReadBuildInfo\<close>
  returns are the record \<open>buildinfo\<close>. A writer is the function from what is written to the error it
  returns. A \<open>range\<close> over a map visits its entries in an order of its own: \<open>visit n\<close> is the order of the
  \<open>n\<close>-th such loop. The patterns are those of the source, a backquote standing for a backslash.
\<close>

section \<open>Build metadata and release manifests\<close>

record Module =
  mod_Path :: string
  mod_Version :: string
  mod_Replace :: "(string \<times> string) option"

record buildinfo =
  bi_Version :: string
  bi_Commit :: string
  bi_Date :: string
  bi_GoVersion :: string
  bi_Info :: "(string \<times> Module list) option"

type_synonym writer = "bytes \<Rightarrow> goerror option"

definition ReleaseSchemaVersion :: string where "ReleaseSchemaVersion = ''builders.release.v1''"
definition DocsVersion :: string where "DocsVersion = ''v1.89''"

record Dependency =
  rd_Path :: string
  rd_Version :: string
  rd_Replace :: string

record ReleaseManifest =
  rm_SchemaVersion :: string
  rm_Component :: string
  rm_Version :: string
  rm_Commit :: string
  rm_Date :: string
  rm_DocsVersion :: string
  rm_GoVersion :: string
  rm_Module :: string
  rm_Dependencies :: "Dependency list"

definition Dependency_json :: "Dependency \<Rightarrow> jdoc" where
  "Dependency_json v = JObj
     (jfield ''path'' (JStr (rd_Path v)) @
      jfield ''version'' (JStr (rd_Version v)) @
      jomit (rd_Replace v = []) ''replace'' (JStr (rd_Replace v)))"

definition ReleaseManifest_json :: "ReleaseManifest \<Rightarrow> jdoc" where
  "ReleaseManifest_json v = JObj
     (jfield ''schema_version'' (JStr (rm_SchemaVersion v)) @
      jfield ''component'' (JStr (rm_Component v)) @
      jfield ''version'' (JStr (rm_Version v)) @
      jfield ''commit'' (JStr (rm_Commit v)) @
      jfield ''date'' (JStr (rm_Date v)) @
      jfield ''docs_version'' (JStr (rm_DocsVersion v)) @
      jfield ''go_version'' (JStr (rm_GoVersion v)) @
      jfield ''module'' (JStr (rm_Module v)) @
      jfield ''dependencies'' (JArr (map Dependency_json (rm_Dependencies v))))"

text \<open>\<open>publicReplacement\<close>: the path and version of a replacement that names a published module.\<close>

definition publicReplacement :: "(string \<times> string) option \<Rightarrow> string" where
  "publicReplacement replacement =
     (case replacement of
        None \<Rightarrow> []
      | Some (path, version) \<Rightarrow>
          if version = [] \<or> version = ''(devel)'' \<or> IsAbs path \<or> HasPrefix path ''./'' \<or> HasPrefix path ''../'' then []
          else path @ ''@'' @ version)"

text \<open>The paths of build information are distinct, so sorting by path has one result.\<close>

definition BuildManifest :: "buildinfo \<Rightarrow> string \<Rightarrow> ReleaseManifest" where
  "BuildManifest b component =
     (let deps = (case bi_Info b of None \<Rightarrow> [] | Some (main, deps) \<Rightarrow>
            map (\<lambda>dep. \<lparr>rd_Path = mod_Path dep, rd_Version = mod_Version dep, rd_Replace = publicReplacement (mod_Replace dep)\<rparr>) deps)
      in \<lparr>rm_SchemaVersion = ReleaseSchemaVersion, rm_Component = component, rm_Version = bi_Version b, rm_Commit = bi_Commit b,
          rm_Date = bi_Date b, rm_DocsVersion = DocsVersion, rm_GoVersion = bi_GoVersion b,
          rm_Module = (case bi_Info b of None \<Rightarrow> [] | Some (main, deps) \<Rightarrow> main),
          rm_Dependencies = sort_key rd_Path deps\<rparr>)"

definition version_text :: "buildinfo \<Rightarrow> string \<Rightarrow> bytes" where
  "version_text b component =
     component @ '' '' @ bi_Version b @ '' commit='' @ bi_Commit b @ '' date='' @ bi_Date b @
     '' docs='' @ DocsVersion @ '' go='' @ bi_GoVersion b @ [CHR 0x0A]"

definition WriteVersion :: "buildinfo \<Rightarrow> writer \<Rightarrow> string \<Rightarrow> goerror option" where
  "WriteVersion b wr component = wr (version_text b component)"

text \<open>\<open>json.Encoder\<close> with \<open>SetIndent("", "  ")\<close>: each element on a line of its own, empty ones closed at once, a final newline.\<close>

definition indent :: "nat \<Rightarrow> bytes" where
  "indent n = CHR 0x0A # replicate (2 * n) (CHR '' '')"

fun marshal_indent :: "nat \<Rightarrow> jdoc \<Rightarrow> bytes" where
  "marshal_indent n (JArr xs) =
     (if xs = [] then ''[]''
      else CHR ''['' # strings_Join (map (\<lambda>x. indent (Suc n) @ marshal_indent (Suc n) x) xs) '','' @ indent n @ '']'')"
| "marshal_indent n (JObj kvs) =
     (if kvs = [] then ''{}''
      else CHR ''{'' # strings_Join (map (\<lambda>(k, x). indent (Suc n) @ json_string k @ '': '' @ marshal_indent (Suc n) x) kvs) '','' @
        indent n @ ''}'')"
| "marshal_indent n d = marshal d"

definition encode_indented :: "jdoc \<Rightarrow> bytes" where
  "encode_indented d = marshal_indent 0 d @ [CHR 0x0A]"

definition WriteManifest :: "buildinfo \<Rightarrow> writer \<Rightarrow> string \<Rightarrow> goerror option" where
  "WriteManifest b wr component = wr (encode_indented (ReleaseManifest_json (BuildManifest b component)))"

section \<open>Patterns\<close>

definition AcceptanceSchemaVersion :: string where "AcceptanceSchemaVersion = ''b2b-federation.acceptance.v1''"

definition acceptanceSHA256Pattern :: regex where
  "acceptanceSHA256Pattern = MustCompile ''^[0-9a-f]{64}$''"
definition acceptanceCommitPattern :: regex where
  "acceptanceCommitPattern = MustCompile ''^[0-9a-f]{7,40}$''"
definition acceptanceDatePattern :: regex where
  "acceptanceDatePattern = MustCompile ''^`d{4}-`d{2}-`d{2}$''"
definition acceptanceRFC3339Pattern :: regex where
  "acceptanceRFC3339Pattern = MustCompile ''^`d{4}-`d{2}-`d{2}T`d{2}:`d{2}:`d{2}Z$''"

definition unsafe_patterns :: "string list" where
  "unsafe_patterns =
     [''`b10`.`d{1,3}`.`d{1,3}`.`d{1,3}`b'',
      ''`b172`.(1[6-9]|2`d|3[0-1])`.`d{1,3}`.`d{1,3}`b'',
      ''`b192`.168`.`d{1,3}`.`d{1,3}`b'',
      ''`b127`.0`.0`.1`b'',
      ''(?i)`blocalhost`b'',
      ''(?i)`b(?:fc|fd)[0-9a-f]{0,2}:[0-9a-f:]*'',
      ''(?i)`.(?:local|internal|corp)`b'',
      ''(?i)/(?:ip4|ip6|dns4|dns6)/'',
      ''`b12D3Koo[0-9A-Za-z]+`b'',
      ''(?i)`bBearer`s+[A-Za-z0-9._~+/=-]+'',
      ''-----BEGIN [A-Z ]*PRIVATE KEY-----'',
      ''`b(?:DATABASE_URL|AWS_ACCESS_KEY_ID|AWS_SECRET_ACCESS_KEY|OPENAI_API_KEY)='',
      ''(?i)`b(?:token|api[_-]?key|password|secret)`b`s*[:=]'',
      ''(?i)`b(?:ghp|github_pat|tk)_[A-Za-z0-9_]{8,}'',
      ''`bsk-[A-Za-z0-9]{16,}`b'',
      ''(?i)`b(?:postgres|mysql|redis)://[^`s]+'',
      ''(?i)`b(?:access|refresh|enrollment)[-_ ]?token`b`s*[:=]'',
      ''(?i)`bprivate[-_ ]?key`b`s*[:=]'',
      ''(?i)`bpeer[-_ ]?bundle`b`s*[:=]'',
      ''/Users/[^`s]+'',
      ''/home/[^`s]+'',
      ''(?i)`bfile://[^`s\"']+'',
      ''(?m)(?:^|[`s\"'=:])/(?:tmp|private/tmp|var/(?:folders|tmp|lib|run)|etc|run|usr/local|Volumes|workspace|opt|mnt|builds|data)/[^`s\"']+'',
      ''(?m)(?:^|[`s\"'=:])(?:`.{1,2}/|dist/|bin/|build/|target/)[^`s\"']+'',
      ''(?m)(?:^|[`s\"'=:])[A-Za-z]:``[^`s\"']+'',
      ''(?m)(?:^|[`s\"'=:])[A-Za-z]:/[^`s\"']+'']"

definition acceptanceUnsafeEvidence :: "regex list" where
  "acceptanceUnsafeEvidence = map MustCompile unsafe_patterns"

definition unsafe_evidence :: goerror where
  "unsafe_evidence = Plain ''acceptance evidence contains private topology or secret-like material''"

definition ScanAcceptanceEvidence :: "bytes \<Rightarrow> goerror option" where
  "ScanAcceptanceEvidence text = (if list_ex (\<lambda>pattern. MatchString pattern text) acceptanceUnsafeEvidence then Some unsafe_evidence else None)"

definition ScanAcceptanceValue :: "jdoc \<Rightarrow> goerror option" where
  "ScanAcceptanceValue v = ScanAcceptanceEvidence (marshal v)"

section \<open>Acceptance records\<close>

record AcceptanceOptions =
  ao_Component :: string
  ao_ReleaseID :: string
  ao_ReleaseDate :: string
  ao_Owner :: string
  ao_DecisionBy :: string
  ao_PilotEnvironmentName :: string
  ao_PR :: string
  ao_MergeCommit :: string
  ao_TagOrBuildLabel :: string
  ao_ArtifactFilename :: string
  ao_ArtifactSHA256 :: string
  ao_ArtifactSizeBytes :: int64
  ao_ArtifactPlatform :: string
  ao_SignedBy :: string
  ao_SignedAt :: string
  ao_UnsignedException :: string
  ao_ExceptionOwner :: string
  ao_ExceptionExpires :: string
  ao_PackageSmokeEvidenceSHA256 :: string
  ao_BackupArtifactSHA256 :: string
  ao_RestoreVerifiedAt :: string
  ao_SecurityDocCommit :: string
  ao_SecurityDocEvidenceSHA256 :: string

record AcceptancePilotEnvironment =
  ape_Name :: string
  ape_Type :: string
  ape_ContainsPartnerData :: bool

record AcceptanceDecision =
  ade_Status :: string
  ade_By :: string
  ade_Reason :: string
  ade_AuditOwnerAcknowledged :: bool

record AcceptanceUnsignedException =
  aue_Reason :: string
  aue_Owner :: string
  aue_ExpiresAt :: string

record AcceptanceArtifact =
  aar_Filename :: string
  aar_SHA256 :: string
  aar_SizeBytes :: int64
  aar_Platform :: string
  aar_Signed :: bool
  aar_SignerID :: string
  aar_SignatureVerified :: bool
  aar_UnsignedException :: "AcceptanceUnsignedException option"

record AcceptancePackageSmoke =
  aps_Platform :: string
  aps_Command :: string
  aps_Result :: string
  aps_EvidenceSHA256 :: string
  aps_RequiresPartnerAccess :: bool

record AcceptanceBackupRestore =
  abr_BackupScope :: "string list"
  abr_BackupArtifactSHA256 :: string
  abr_RestoreEnvironment :: string
  abr_RestoreCommand :: string
  abr_RestoreResult :: string
  abr_RestoreVerifiedAt :: string
  abr_RestoreAuditVerifierResult :: string

record AcceptanceUpgrade =
  aup_Order :: "string list"
  aup_Commands :: "string list"
  aup_MigrationDestructive :: bool
  aup_PreRestoreDrillRequired :: bool
  aup_Result :: string

record AcceptanceRollback =
  arb_Order :: "string list"
  arb_Commands :: "string list"
  arb_Result :: string
  arb_AuditPreserved :: bool
  arb_CredentialRotationRequired :: bool
  arb_RevocationAuditEventID :: string

record AcceptanceComponent =
  aco_Name :: string
  aco_Repo :: string
  aco_Branch :: string
  aco_PR :: string
  aco_MergeCommit :: string
  aco_TagOrBuildLabel :: string
  aco_VersionCommand :: string
  aco_VersionOutputSHA256 :: string
  aco_ManifestCommand :: string
  aco_ManifestOutputSHA256 :: string
  aco_Artifacts :: "AcceptanceArtifact list"
  aco_PackageSmoke :: "AcceptancePackageSmoke list"
  aco_BackupRestore :: AcceptanceBackupRestore
  aco_Upgrade :: AcceptanceUpgrade
  aco_Rollback :: AcceptanceRollback

record AcceptanceInvariant =
  ain_Passed :: bool
  ain_Evidence :: "string list"

record AcceptanceDenial =
  adn_Field :: string
  adn_Result :: string
  adn_Evidence :: string

record AcceptanceEgressSmoke =
  aes_DefaultDeny :: bool
  aes_DeniedUngrantedAttemptEvidence :: "string list"
  aes_AllowedTargetsEvidence :: "string list"

record AcceptanceAuditVerification =
  aav_RestoreAuditVerifierResult :: string
  aav_RollbackAuditVerifierResult :: string
  aav_Evidence :: "string list"

record AcceptanceLeakScan =
  als_ScannerVersion :: string
  als_Targets :: "string list"
  als_Result :: string
  als_DenyPatternsVersion :: string
  als_FindingsCount :: int

record AcceptanceSecurityDoc =
  asd_Path :: string
  asd_LastReviewedAt :: string
  asd_Commit :: string
  asd_EvidenceSHA256 :: string

record AcceptanceRetention =
  art_AcceptanceRecordDays :: int
  art_ManifestDays :: int
  art_LogsDays :: int
  art_ScreenshotsDays :: int
  art_BackupDrillDays :: int

record AcceptanceRecord =
  acr_SchemaVersion :: string
  acr_ReleaseID :: string
  acr_ReleaseDate :: string
  acr_Owner :: string
  acr_PilotEnvironment :: AcceptancePilotEnvironment
  acr_Decision :: AcceptanceDecision
  acr_Components :: "AcceptanceComponent list"
  acr_SecurityInvariants :: "(string \<times> AcceptanceInvariant) list"
  acr_RequestBodyIdentityDenials :: "AcceptanceDenial list"
  acr_EgressSmoke :: AcceptanceEgressSmoke
  acr_AuditVerification :: AcceptanceAuditVerification
  acr_LeakScan :: AcceptanceLeakScan
  acr_SecurityDocs :: "AcceptanceSecurityDoc list"
  acr_Retention :: AcceptanceRetention

definition AcceptancePilotEnvironment_json :: "AcceptancePilotEnvironment \<Rightarrow> jdoc" where
  "AcceptancePilotEnvironment_json v = JObj
     (jfield ''name'' (JStr (ape_Name v)) @
      jfield ''type'' (JStr (ape_Type v)) @
      jfield ''contains_partner_data'' (JBool (ape_ContainsPartnerData v)))"

definition AcceptanceDecision_json :: "AcceptanceDecision \<Rightarrow> jdoc" where
  "AcceptanceDecision_json v = JObj
     (jfield ''status'' (JStr (ade_Status v)) @
      jfield ''by'' (JStr (ade_By v)) @
      jfield ''reason'' (JStr (ade_Reason v)) @
      jfield ''audit_owner_acknowledged'' (JBool (ade_AuditOwnerAcknowledged v)))"

definition AcceptanceUnsignedException_json :: "AcceptanceUnsignedException \<Rightarrow> jdoc" where
  "AcceptanceUnsignedException_json v = JObj
     (jfield ''reason'' (JStr (aue_Reason v)) @
      jfield ''owner'' (JStr (aue_Owner v)) @
      jfield ''expires_at'' (JStr (aue_ExpiresAt v)))"

definition AcceptanceArtifact_json :: "AcceptanceArtifact \<Rightarrow> jdoc" where
  "AcceptanceArtifact_json v = JObj
     (jfield ''filename'' (JStr (aar_Filename v)) @
      jfield ''sha256'' (JStr (aar_SHA256 v)) @
      jfield ''size_bytes'' (JInt (sint (aar_SizeBytes v))) @
      jfield ''platform'' (JStr (aar_Platform v)) @
      jfield ''signed'' (JBool (aar_Signed v)) @
      jfield ''signer_id'' (JStr (aar_SignerID v)) @
      jfield ''signature_verified'' (JBool (aar_SignatureVerified v)) @
      (case aar_UnsignedException v of None \<Rightarrow> [] | Some x \<Rightarrow> jfield ''unsigned_exception'' (AcceptanceUnsignedException_json x)))"

definition AcceptancePackageSmoke_json :: "AcceptancePackageSmoke \<Rightarrow> jdoc" where
  "AcceptancePackageSmoke_json v = JObj
     (jfield ''platform'' (JStr (aps_Platform v)) @
      jfield ''command'' (JStr (aps_Command v)) @
      jfield ''result'' (JStr (aps_Result v)) @
      jfield ''evidence_sha256'' (JStr (aps_EvidenceSHA256 v)) @
      jfield ''requires_partner_access'' (JBool (aps_RequiresPartnerAccess v)))"

definition AcceptanceBackupRestore_json :: "AcceptanceBackupRestore \<Rightarrow> jdoc" where
  "AcceptanceBackupRestore_json v = JObj
     (jfield ''backup_scope'' (JArr (map JStr (abr_BackupScope v))) @
      jfield ''backup_artifact_sha256'' (JStr (abr_BackupArtifactSHA256 v)) @
      jfield ''restore_environment'' (JStr (abr_RestoreEnvironment v)) @
      jfield ''restore_command'' (JStr (abr_RestoreCommand v)) @
      jfield ''restore_result'' (JStr (abr_RestoreResult v)) @
      jfield ''restore_verified_at'' (JStr (abr_RestoreVerifiedAt v)) @
      jfield ''restore_audit_verifier_result'' (JStr (abr_RestoreAuditVerifierResult v)))"

definition AcceptanceUpgrade_json :: "AcceptanceUpgrade \<Rightarrow> jdoc" where
  "AcceptanceUpgrade_json v = JObj
     (jfield ''order'' (JArr (map JStr (aup_Order v))) @
      jfield ''commands'' (JArr (map JStr (aup_Commands v))) @
      jfield ''migration_destructive'' (JBool (aup_MigrationDestructive v)) @
      jfield ''pre_restore_drill_required'' (JBool (aup_PreRestoreDrillRequired v)) @
      jfield ''result'' (JStr (aup_Result v)))"

definition AcceptanceRollback_json :: "AcceptanceRollback \<Rightarrow> jdoc" where
  "AcceptanceRollback_json v = JObj
     (jfield ''order'' (JArr (map JStr (arb_Order v))) @
      jfield ''commands'' (JArr (map JStr (arb_Commands v))) @
      jfield ''result'' (JStr (arb_Result v)) @
      jfield ''audit_preserved'' (JBool (arb_AuditPreserved v)) @
      jfield ''credential_rotation_required'' (JBool (arb_CredentialRotationRequired v)) @
      jfield ''revocation_audit_event_id'' (JStr (arb_RevocationAuditEventID v)))"

definition AcceptanceComponent_json :: "AcceptanceComponent \<Rightarrow> jdoc" where
  "AcceptanceComponent_json v = JObj
     (jfield ''name'' (JStr (aco_Name v)) @
      jfield ''repo'' (JStr (aco_Repo v)) @
      jfield ''branch'' (JStr (aco_Branch v)) @
      jfield ''pr'' (JStr (aco_PR v)) @
      jfield ''merge_commit'' (JStr (aco_MergeCommit v)) @
      jfield ''tag_or_build_label'' (JStr (aco_TagOrBuildLabel v)) @
      jfield ''version_command'' (JStr (aco_VersionCommand v)) @
      jfield ''version_output_sha256'' (JStr (aco_VersionOutputSHA256 v)) @
      jfield ''manifest_command'' (JStr (aco_ManifestCommand v)) @
      jfield ''manifest_output_sha256'' (JStr (aco_ManifestOutputSHA256 v)) @
      jfield ''artifacts'' (JArr (map AcceptanceArtifact_json (aco_Artifacts v))) @
      jfield ''package_smoke'' (JArr (map AcceptancePackageSmoke_json (aco_PackageSmoke v))) @
      jfield ''backup_restore'' (AcceptanceBackupRestore_json (aco_BackupRestore v)) @
      jfield ''upgrade'' (AcceptanceUpgrade_json (aco_Upgrade v)) @
      jfield ''rollback'' (AcceptanceRollback_json (aco_Rollback v)))"

definition AcceptanceInvariant_json :: "AcceptanceInvariant \<Rightarrow> jdoc" where
  "AcceptanceInvariant_json v = JObj
     (jfield ''passed'' (JBool (ain_Passed v)) @
      jfield ''evidence'' (JArr (map JStr (ain_Evidence v))))"

definition AcceptanceDenial_json :: "AcceptanceDenial \<Rightarrow> jdoc" where
  "AcceptanceDenial_json v = JObj
     (jfield ''field'' (JStr (adn_Field v)) @
      jfield ''result'' (JStr (adn_Result v)) @
      jfield ''evidence'' (JStr (adn_Evidence v)))"

definition AcceptanceEgressSmoke_json :: "AcceptanceEgressSmoke \<Rightarrow> jdoc" where
  "AcceptanceEgressSmoke_json v = JObj
     (jfield ''default_deny'' (JBool (aes_DefaultDeny v)) @
      jfield ''denied_ungranted_attempt_evidence'' (JArr (map JStr (aes_DeniedUngrantedAttemptEvidence v))) @
      jfield ''allowed_targets_evidence'' (JArr (map JStr (aes_AllowedTargetsEvidence v))))"

definition AcceptanceAuditVerification_json :: "AcceptanceAuditVerification \<Rightarrow> jdoc" where
  "AcceptanceAuditVerification_json v = JObj
     (jfield ''restore_audit_verifier_result'' (JStr (aav_RestoreAuditVerifierResult v)) @
      jfield ''rollback_audit_verifier_result'' (JStr (aav_RollbackAuditVerifierResult v)) @
      jfield ''evidence'' (JArr (map JStr (aav_Evidence v))))"

definition AcceptanceLeakScan_json :: "AcceptanceLeakScan \<Rightarrow> jdoc" where
  "AcceptanceLeakScan_json v = JObj
     (jfield ''scanner_version'' (JStr (als_ScannerVersion v)) @
      jfield ''targets'' (JArr (map JStr (als_Targets v))) @
      jfield ''result'' (JStr (als_Result v)) @
      jfield ''deny_patterns_version'' (JStr (als_DenyPatternsVersion v)) @
      jfield ''findings_count'' (JInt (als_FindingsCount v)))"

definition AcceptanceSecurityDoc_json :: "AcceptanceSecurityDoc \<Rightarrow> jdoc" where
  "AcceptanceSecurityDoc_json v = JObj
     (jfield ''path'' (JStr (asd_Path v)) @
      jfield ''last_reviewed_at'' (JStr (asd_LastReviewedAt v)) @
      jfield ''commit'' (JStr (asd_Commit v)) @
      jfield ''evidence_sha256'' (JStr (asd_EvidenceSHA256 v)))"

definition AcceptanceRetention_json :: "AcceptanceRetention \<Rightarrow> jdoc" where
  "AcceptanceRetention_json v = JObj
     (jfield ''acceptance_record_days'' (JInt (art_AcceptanceRecordDays v)) @
      jfield ''manifest_days'' (JInt (art_ManifestDays v)) @
      jfield ''logs_days'' (JInt (art_LogsDays v)) @
      jfield ''screenshots_days'' (JInt (art_ScreenshotsDays v)) @
      jfield ''backup_drill_days'' (JInt (art_BackupDrillDays v)))"

definition AcceptanceRecord_json :: "AcceptanceRecord \<Rightarrow> jdoc" where
  "AcceptanceRecord_json v = JObj
     (jfield ''schema_version'' (JStr (acr_SchemaVersion v)) @
      jfield ''release_id'' (JStr (acr_ReleaseID v)) @
      jfield ''release_date'' (JStr (acr_ReleaseDate v)) @
      jfield ''owner'' (JStr (acr_Owner v)) @
      jfield ''pilot_environment'' (AcceptancePilotEnvironment_json (acr_PilotEnvironment v)) @
      jfield ''decision'' (AcceptanceDecision_json (acr_Decision v)) @
      jfield ''components'' (JArr (map AcceptanceComponent_json (acr_Components v))) @
      jfield ''security_invariants'' (JObj (sort_key fst (map (\<lambda>(k, v). (k, AcceptanceInvariant_json v)) (acr_SecurityInvariants v)))) @
      jfield ''request_body_identity_denials'' (JArr (map AcceptanceDenial_json (acr_RequestBodyIdentityDenials v))) @
      jfield ''egress_smoke'' (AcceptanceEgressSmoke_json (acr_EgressSmoke v)) @
      jfield ''audit_verification'' (AcceptanceAuditVerification_json (acr_AuditVerification v)) @
      jfield ''leak_scan'' (AcceptanceLeakScan_json (acr_LeakScan v)) @
      jfield ''security_docs'' (JArr (map AcceptanceSecurityDoc_json (acr_SecurityDocs v))) @
      jfield ''retention'' (AcceptanceRetention_json (acr_Retention v)))"

section \<open>Building a record\<close>

type_synonym visiting = "nat \<Rightarrow> (string \<times> string) list \<Rightarrow> (string \<times> string) list"

definition normalizeAcceptanceOptions :: "AcceptanceOptions \<Rightarrow> AcceptanceOptions" where
  "normalizeAcceptanceOptions opts =
     opts\<lparr>ao_Component := TrimSpace (ao_Component opts),
          ao_ArtifactFilename := (if ao_ArtifactFilename opts = [] then [] else Base (ao_ArtifactFilename opts)),
          ao_DecisionBy := (if ao_DecisionBy opts = [] then ao_Owner opts else ao_DecisionBy opts),
          ao_PilotEnvironmentName :=
            (if ao_PilotEnvironmentName opts = [] then ''two-company-pilot-fixture'' else ao_PilotEnvironmentName opts)\<rparr>"

definition isBackendAcceptanceComponent :: "string \<Rightarrow> bool" where
  "isBackendAcceptanceComponent component \<longleftrightarrow>
     component \<in> {''builders-control'', ''builders-agent'', ''builders-federation-gateway''}"

definition validateAcceptanceBuildMetadata :: "buildinfo \<Rightarrow> string \<Rightarrow> goerror option" where
  "validateAcceptanceBuildMetadata b mergeCommit =
     (if TrimSpace (bi_Version b) = [] \<or> bi_Version b = ''0.0.0-dev'' then
        Some (Plain ''release Version must be set to non-dev metadata'')
      else if \<not> MatchString acceptanceCommitPattern (bi_Commit b) then
        Some (Plain ''release Commit must be a 7-40 character lowercase git commit'')
      else if \<not> MatchString acceptanceRFC3339Pattern (bi_Date b) then Some (Plain ''release Date must be RFC3339 UTC'')
      else if mergeCommit \<noteq> [] \<and> \<not> HasPrefix mergeCommit (bi_Commit b) \<and> \<not> HasPrefix (bi_Commit b) mergeCommit then
        Some (Plain ''merge-commit must match release Commit metadata'')
      else None)"

definition required_options :: "AcceptanceOptions \<Rightarrow> (string \<times> string) list" where
  "required_options opts =
     [(''release-id'', ao_ReleaseID opts),
      (''release-date'', ao_ReleaseDate opts),
      (''owner'', ao_Owner opts),
      (''decision-by'', ao_DecisionBy opts),
      (''pilot-environment'', ao_PilotEnvironmentName opts),
      (''pr'', ao_PR opts),
      (''merge-commit'', ao_MergeCommit opts),
      (''tag-or-build-label'', ao_TagOrBuildLabel opts),
      (''artifact'', ao_ArtifactFilename opts),
      (''artifact-platform'', ao_ArtifactPlatform opts),
      (''package-smoke-evidence-sha256'', ao_PackageSmokeEvidenceSHA256 opts),
      (''backup-artifact-sha256'', ao_BackupArtifactSHA256 opts),
      (''restore-verified-at'', ao_RestoreVerifiedAt opts),
      (''security-doc-commit'', ao_SecurityDocCommit opts),
      (''security-doc-evidence-sha256'', ao_SecurityDocEvidenceSHA256 opts)]"

definition digest_options :: "AcceptanceOptions \<Rightarrow> (string \<times> string) list" where
  "digest_options opts =
     [(''artifact-sha256'', ao_ArtifactSHA256 opts),
      (''package-smoke-evidence-sha256'', ao_PackageSmokeEvidenceSHA256 opts),
      (''backup-artifact-sha256'', ao_BackupArtifactSHA256 opts),
      (''security-doc-evidence-sha256'', ao_SecurityDocEvidenceSHA256 opts)]"

definition scanned_options :: "AcceptanceOptions \<Rightarrow> (string \<times> string) list" where
  "scanned_options opts =
     [(''artifact filename'', ao_ArtifactFilename opts),
      (''signed-by'', ao_SignedBy opts),
      (''unsigned-exception'', ao_UnsignedException opts),
      (''exception-owner'', ao_ExceptionOwner opts)]"

text \<open>The loops over these maps: the first entry visited that fails decides the error.\<close>

definition first_failing :: "((string \<times> string) \<Rightarrow> goerror option) \<Rightarrow> (string \<times> string) list \<Rightarrow> goerror option" where
  "first_failing check nvs = Option.bind (find (\<lambda>nv. check nv \<noteq> None) nvs) check"

definition check_required_option :: "string \<times> string \<Rightarrow> goerror option" where
  "check_required_option nv = (if TrimSpace (snd nv) = [] then Some (Plain (fst nv @ '' is required'')) else None)"

definition check_digest_option :: "string \<times> string \<Rightarrow> goerror option" where
  "check_digest_option nv =
     (if \<not> MatchString acceptanceSHA256Pattern (snd nv)
      then Some (Plain (fst nv @ '' must be a 64-character lowercase SHA-256 hex digest'')) else None)"

definition check_safe_option :: "string \<times> string \<Rightarrow> goerror option" where
  "check_safe_option nv = map_option (wrapf (fst nv @ '' unsafe: '')) (ScanAcceptanceEvidence (snd nv))"

text \<open>The signature of the artifact, or else the exception it was accepted with.\<close>

definition check_signing :: "AcceptanceOptions \<Rightarrow> goerror option" where
  "check_signing opts =
     (if ao_SignedBy opts \<noteq> [] \<or> ao_SignedAt opts \<noteq> [] then
        (if ao_SignedBy opts = [] \<or> ao_SignedAt opts = [] then Some (Plain ''signed artifacts require signed-by and signed-at'')
         else if \<not> MatchString acceptanceRFC3339Pattern (ao_SignedAt opts) then Some (Plain ''signed-at must be RFC3339 UTC'')
         else if ao_UnsignedException opts \<noteq> [] \<or> ao_ExceptionOwner opts \<noteq> [] \<or> ao_ExceptionExpires opts \<noteq> [] then
           Some (Plain ''choose signed evidence or unsigned exception evidence, not both'')
         else None)
      else
        (if ao_UnsignedException opts = [] \<or> ao_ExceptionOwner opts = [] \<or> ao_ExceptionExpires opts = [] then
           Some (Plain ''unsigned artifacts require unsigned-exception, exception-owner, and exception-expires'')
         else if \<not> MatchString acceptanceDatePattern (ao_ExceptionExpires opts) then
           Some (Plain ''exception-expires must be YYYY-MM-DD'')
         else None))"

definition validateAcceptanceOptions :: "buildinfo \<Rightarrow> visiting \<Rightarrow> AcceptanceOptions \<Rightarrow> goerror option" where
  "validateAcceptanceOptions b visit opts =
     (if \<not> isBackendAcceptanceComponent (ao_Component opts) then
        Some (Plain ''component must be builders-control, builders-agent, or builders-federation-gateway'')
      else case validateAcceptanceBuildMetadata b (ao_MergeCommit opts) of Some err \<Rightarrow> Some err | None \<Rightarrow>
      case first_failing check_required_option (visit 0 (required_options opts)) of Some err \<Rightarrow> Some err | None \<Rightarrow>
      if \<not> MatchString acceptanceDatePattern (ao_ReleaseDate opts) then Some (Plain ''release-date must be YYYY-MM-DD'')
      else if \<not> MatchString acceptanceRFC3339Pattern (ao_RestoreVerifiedAt opts) then
        Some (Plain ''restore-verified-at must be RFC3339 UTC'')
      else if \<not> MatchString acceptanceCommitPattern (ao_MergeCommit opts) then
        Some (Plain ''merge-commit must be a 7-40 character lowercase git commit'')
      else if \<not> MatchString acceptanceCommitPattern (ao_SecurityDocCommit opts) then
        Some (Plain ''security-doc-commit must be a 7-40 character lowercase git commit'')
      else if \<not> Contains (ao_PR opts) ''github.com/b2bautopilot/xyz-b2b/services/builders-net/pull/'' then
        Some (Plain ''pr must be an xyz-b2b/services/builders-net GitHub pull request URL'')
      else case first_failing check_digest_option (visit 1 (digest_options opts)) of Some err \<Rightarrow> Some err | None \<Rightarrow>
      if sint (ao_ArtifactSizeBytes opts) \<le> 0 then Some (Plain ''artifact size must be positive'')
      else case check_signing opts of Some err \<Rightarrow> Some err | None \<Rightarrow>
      case first_failing check_safe_option (visit 2 (required_options opts)) of Some err \<Rightarrow> Some err | None \<Rightarrow>
      first_failing check_safe_option (visit 3 (scanned_options opts)))"

definition acceptanceVersionCommand :: "string \<Rightarrow> string" where
  "acceptanceVersionCommand component =
     (if component = ''builders-federation-gateway'' then component @ '' --version'' else component @ '' version'')"

definition acceptanceManifestCommand :: "string \<Rightarrow> string" where
  "acceptanceManifestCommand component =
     (if component = ''builders-federation-gateway'' then component @ '' --release-manifest'' else component @ '' release-manifest'')"

definition acceptancePackageSmokeCommand :: "string \<Rightarrow> string" where
  "acceptancePackageSmokeCommand component =
     (if component = ''builders-federation-gateway'' then ''make federation-facade-package-smoke'' else ''make package-smoke'')"

definition acceptanceUpgradeCommand :: "string \<Rightarrow> string" where
  "acceptanceUpgradeCommand component = ''install '' @ component @ '' candidate after restore drill''"

definition acceptanceRollbackCommand :: "string \<Rightarrow> string" where
  "acceptanceRollbackCommand component = ''restore previous '' @ component @ '' candidate and rerun audit verifier''"

definition acceptanceEvidenceHashes :: "platform \<Rightarrow> buildinfo \<Rightarrow> string \<Rightarrow> goerror + string \<times> string" where
  "acceptanceEvidenceHashes p b component =
     (let version = version_text b component; manifest = encode_indented (ReleaseManifest_json (BuildManifest b component))
      in case ScanAcceptanceEvidence version of
           Some err \<Rightarrow> Inl (wrapf ''version evidence unsafe: '' err)
         | None \<Rightarrow>
             (case ScanAcceptanceEvidence manifest of
                Some err \<Rightarrow> Inl (wrapf ''release-manifest evidence unsafe: '' err)
              | None \<Rightarrow> Inr (hexEncode (sha256 p version), hexEncode (sha256 p manifest))))"

definition acceptance_artifact :: "AcceptanceOptions \<Rightarrow> AcceptanceArtifact" where
  "acceptance_artifact opts =
     \<lparr>aar_Filename = Base (ao_ArtifactFilename opts),
       aar_SHA256 = ao_ArtifactSHA256 opts,
       aar_SizeBytes = ao_ArtifactSizeBytes opts,
       aar_Platform = ao_ArtifactPlatform opts,
       aar_Signed = (ao_SignedBy opts \<noteq> []),
       aar_SignerID = ao_SignedBy opts,
       aar_SignatureVerified = (ao_SignedBy opts \<noteq> []),
       aar_UnsignedException =
         (if ao_SignedBy opts = [] then
            Some \<lparr>aue_Reason = ao_UnsignedException opts, aue_Owner = ao_ExceptionOwner opts, aue_ExpiresAt = ao_ExceptionExpires opts\<rparr>
          else None)\<rparr>"

definition acceptance_component :: "string \<Rightarrow> string \<Rightarrow> AcceptanceOptions \<Rightarrow> AcceptanceComponent" where
  "acceptance_component versionSHA manifestSHA opts =
     \<lparr>aco_Name = ao_Component opts,
        aco_Repo = ''https://github.com/b2bautopilot/xyz-b2b/services/builders-net'',
        aco_Branch = ''main'',
        aco_PR = ao_PR opts,
        aco_MergeCommit = ao_MergeCommit opts,
        aco_TagOrBuildLabel = ao_TagOrBuildLabel opts,
        aco_VersionCommand = acceptanceVersionCommand (ao_Component opts),
        aco_VersionOutputSHA256 = versionSHA,
        aco_ManifestCommand = acceptanceManifestCommand (ao_Component opts),
        aco_ManifestOutputSHA256 = manifestSHA,
        aco_Artifacts = [acceptance_artifact opts],
        aco_PackageSmoke = [\<lparr>aps_Platform = ao_ArtifactPlatform opts,
                             aps_Command = acceptancePackageSmokeCommand (ao_Component opts),
                             aps_Result = ''pass'',
                             aps_EvidenceSHA256 = ao_PackageSmokeEvidenceSHA256 opts,
                             aps_RequiresPartnerAccess = False\<rparr>],
        aco_BackupRestore = \<lparr>abr_BackupScope = [''tenant identity and operator membership metadata'', ''project and room pilot metadata'', ''partner links gateway pools gateways and credential metadata'', ''service catalog policy grants and egress policy'', ''federation transactions commercial events and audit records'', ''tenant federation controls and signing key references''],
                             abr_BackupArtifactSHA256 = ao_BackupArtifactSHA256 opts,
                             abr_RestoreEnvironment = ''isolated'',
                             abr_RestoreCommand = ''builders-control restore-drill fixture evidence'',
                             abr_RestoreResult = ''pass'',
                             abr_RestoreVerifiedAt = ao_RestoreVerifiedAt opts,
                             abr_RestoreAuditVerifierResult = ''pass''\<rparr>,
        aco_Upgrade = \<lparr>aup_Order = [''builders-control'', ''builders-federation-gateway'', ''builders-agent''],
                       aup_Commands = [acceptanceUpgradeCommand (ao_Component opts)],
                       aup_MigrationDestructive = False,
                       aup_PreRestoreDrillRequired = True,
                       aup_Result = ''pass''\<rparr>,
        aco_Rollback = \<lparr>arb_Order = [''builders-agent'', ''builders-federation-gateway'', ''builders-control''],
                        arb_Commands = [acceptanceRollbackCommand (ao_Component opts)],
                        arb_Result = ''pass'',
                        arb_AuditPreserved = True,
                        arb_CredentialRotationRequired = False,
                        arb_RevocationAuditEventID = ''not-required-no-credential-change''\<rparr>\<rparr>"

definition acceptance_invariants :: "(string \<times> AcceptanceInvariant) list" where
  "acceptance_invariants =
     [(''gateway_facade_only'', \<lparr>ain_Passed = True,
           ain_Evidence = [''federation-auth-method-scope-tests'', ''gateway-facade-negative-admin-scope'']\<rparr>),
      (''request_body_identity_rejected'', \<lparr>ain_Passed = True,
           ain_Evidence = [''spoofed-tenant-and-partner-link-denials'', ''raw-admin-identity-claim-denials'']\<rparr>),
      (''mesh_reachability_not_authorization'', \<lparr>ain_Passed = True,
           ain_Evidence = [''fabric-diagnostic-not-policy-tests'']\<rparr>),
      (''egress_default_deny'', \<lparr>ain_Passed = True,
           ain_Evidence = [''egress-default-deny-policy-tests'']\<rparr>),
      (''audit_evidence_preserved'', \<lparr>ain_Passed = True,
           ain_Evidence = [''restore-audit-verifier'', ''rollback-audit-verifier'']\<rparr>),
      (''docs_current'', \<lparr>ain_Passed = True,
           ain_Evidence = [''security-doc-review'']\<rparr>),
      (''no_secret_or_topology_leaks'', \<lparr>ain_Passed = True,
           ain_Evidence = [''builders-net-acceptance-leak-scan'']\<rparr>)]"

definition acceptance_record :: "string \<Rightarrow> string \<Rightarrow> AcceptanceOptions \<Rightarrow> AcceptanceRecord" where
  "acceptance_record versionSHA manifestSHA opts =
     \<lparr>acr_SchemaVersion = AcceptanceSchemaVersion,
       acr_ReleaseID = ao_ReleaseID opts,
       acr_ReleaseDate = ao_ReleaseDate opts,
       acr_Owner = ao_Owner opts,
       acr_PilotEnvironment = \<lparr>ape_Name = ao_PilotEnvironmentName opts,
                               ape_Type = ''isolated'',
                               ape_ContainsPartnerData = False\<rparr>,
       acr_Decision = \<lparr>ade_Status = ''approved_for_pilot'',
                       ade_By = ao_DecisionBy opts,
                       ade_Reason = ''Builders Net backend release evidence, restore drill, rollback drill, and security invariants passed.'',
                       ade_AuditOwnerAcknowledged = True\<rparr>,
       acr_Components = [acceptance_component versionSHA manifestSHA opts],
       acr_SecurityInvariants = acceptance_invariants,
       acr_RequestBodyIdentityDenials = [\<lparr>adn_Field = ''tenant_id'',
                                          adn_Result = ''denied'',
                                          adn_Evidence = ''gateway-facade-spoof-tenant-denial''\<rparr>,
                                        \<lparr>adn_Field = ''partner_id'',
                                          adn_Result = ''denied'',
                                          adn_Evidence = ''raw-admin-partner-identity-claim-denial''\<rparr>,
                                        \<lparr>adn_Field = ''partner_link_id'',
                                          adn_Result = ''denied'',
                                          adn_Evidence = ''gateway-facade-spoof-partner-link-denial''\<rparr>,
                                        \<lparr>adn_Field = ''gateway_id'',
                                          adn_Result = ''denied'',
                                          adn_Evidence = ''raw-admin-gateway-identity-claim-denial''\<rparr>],
       acr_EgressSmoke = \<lparr>aes_DefaultDeny = True,
                          aes_DeniedUngrantedAttemptEvidence = [''ungranted-corporate-resource-denied''],
                          aes_AllowedTargetsEvidence = [''approved-model-provider-fixture'']\<rparr>,
       acr_AuditVerification = \<lparr>aav_RestoreAuditVerifierResult = ''pass'',
                                aav_RollbackAuditVerifierResult = ''pass'',
                                aav_Evidence = [''audit-chain-restore-verify'', ''audit-chain-rollback-verify'']\<rparr>,
       acr_LeakScan = \<lparr>als_ScannerVersion = ''builders-net acceptance-record v1'',
                       als_Targets = [''version'', ''release-manifest'', ''artifact'', ''package-smoke'', ''acceptance-record'', ''security-docs''],
                       als_Result = ''pass'',
                       als_DenyPatternsVersion = ''2026-06-04'',
                       als_FindingsCount = 0\<rparr>,
       acr_SecurityDocs = [\<lparr>asd_Path = ''docs/architecture/threat-model.md'',
                            asd_LastReviewedAt = ao_ReleaseDate opts,
                            asd_Commit = ao_SecurityDocCommit opts,
                            asd_EvidenceSHA256 = ao_SecurityDocEvidenceSHA256 opts\<rparr>,
                          \<lparr>asd_Path = ''docs/architecture/egress-policy.md'',
                            asd_LastReviewedAt = ao_ReleaseDate opts,
                            asd_Commit = ao_SecurityDocCommit opts,
                            asd_EvidenceSHA256 = ao_SecurityDocEvidenceSHA256 opts\<rparr>,
                          \<lparr>asd_Path = ''docs/contracts/audit-chain.md'',
                            asd_LastReviewedAt = ao_ReleaseDate opts,
                            asd_Commit = ao_SecurityDocCommit opts,
                            asd_EvidenceSHA256 = ao_SecurityDocEvidenceSHA256 opts\<rparr>,
                          \<lparr>asd_Path = ''docs/contracts/api-contracts.md'',
                            asd_LastReviewedAt = ao_ReleaseDate opts,
                            asd_Commit = ao_SecurityDocCommit opts,
                            asd_EvidenceSHA256 = ao_SecurityDocEvidenceSHA256 opts\<rparr>,
                          \<lparr>asd_Path = ''docs/operations/b2b-federation-release-standards.md'',
                            asd_LastReviewedAt = ao_ReleaseDate opts,
                            asd_Commit = ao_SecurityDocCommit opts,
                            asd_EvidenceSHA256 = ao_SecurityDocEvidenceSHA256 opts\<rparr>],
       acr_Retention = \<lparr>art_AcceptanceRecordDays = 365,
                        art_ManifestDays = 365,
                        art_LogsDays = 90,
                        art_ScreenshotsDays = 90,
                        art_BackupDrillDays = 30\<rparr>\<rparr>"

definition BuildAcceptanceRecord :: "platform \<Rightarrow> buildinfo \<Rightarrow> visiting \<Rightarrow> AcceptanceOptions \<Rightarrow> goerror + AcceptanceRecord" where
  "BuildAcceptanceRecord p b visit opts0 =
     (let opts = normalizeAcceptanceOptions opts0
      in case validateAcceptanceOptions b visit opts of
           Some err \<Rightarrow> Inl err
         | None \<Rightarrow>
             (case acceptanceEvidenceHashes p b (ao_Component opts) of
                Inl err \<Rightarrow> Inl err
              | Inr (versionSHA, manifestSHA) \<Rightarrow>
                  let rec = acceptance_record versionSHA manifestSHA opts
                  in case ScanAcceptanceValue (AcceptanceRecord_json rec) of Some err \<Rightarrow> Inl err | None \<Rightarrow> Inr rec))"

section \<open>The command\<close>

text \<open>What \<open>os.Open\<close> gives for an artifact: the result of \<open>Stat\<close> (name, directory, size) and of reading it to its end.\<close>

type_synonym opened = "(goerror + string \<times> bool \<times> int64) \<times> (goerror + bytes)"

definition artifactEvidence :: "platform \<Rightarrow> (string \<Rightarrow> goerror + opened) \<Rightarrow> string \<Rightarrow> goerror + string \<times> string \<times> int64" where
  "artifactEvidence p os_Open path =
     (case os_Open path of
        Inl err \<Rightarrow> Inl (wrapf ''open artifact: '' err)
      | Inr (Inl err, contents) \<Rightarrow> Inl (wrapf ''stat artifact: '' err)
      | Inr (Inr (name, isDir, sizeBytes), contents) \<Rightarrow>
          if isDir then Inl (Plain ''artifact is a directory'')
          else case contents of
                 Inl err \<Rightarrow> Inl (wrapf ''hash artifact: '' err)
               | Inr data \<Rightarrow> Inr (name, hexEncode (sha256 p data), sizeBytes))"

definition acceptance_flags :: "string set" where
  "acceptance_flags =
     {''component'', ''release-id'', ''release-date'', ''owner'', ''decision-by'', ''pilot-environment'', ''pr'', ''merge-commit'', ''tag-or-build-label'', ''artifact'', ''artifact-platform'', ''signed-by'', ''signed-at'', ''unsigned-exception'', ''exception-owner'', ''exception-expires'', ''package-smoke-evidence-sha256'', ''backup-artifact-sha256'', ''restore-verified-at'', ''security-doc-commit'', ''security-doc-evidence-sha256''}"

definition ParseAcceptanceRecordArgs ::
  "platform \<Rightarrow> (string \<Rightarrow> goerror + opened) \<Rightarrow> string list \<Rightarrow> string \<Rightarrow> goerror + AcceptanceOptions" where
  "ParseAcceptanceRecordArgs p os_Open args defaultComponent =
     (case parse_flags acceptance_flags Map.empty args of
        Inl err \<Rightarrow> Inl (wrapf ''acceptance-record: '' err)
      | Inr (vals, x # rest) \<Rightarrow> Inl (Plain (''acceptance-record: unexpected argument '' @ x))
      | Inr (vals, []) \<Rightarrow>
          let artifactPath = flag_value vals ''artifact'' []
          in if artifactPath = [] then Inl (Plain ''acceptance-record: --artifact is required'')
             else case artifactEvidence p os_Open artifactPath of
               Inl err \<Rightarrow> Inl (wrapf ''acceptance-record: '' err)
             | Inr (filename, sha, sizeBytes) \<Rightarrow>
                 Inr \<lparr>ao_Component = flag_value vals ''component'' defaultComponent,
                      ao_ReleaseID = flag_value vals ''release-id'' [],
                      ao_ReleaseDate = flag_value vals ''release-date'' [],
                      ao_Owner = flag_value vals ''owner'' [],
                      ao_DecisionBy = flag_value vals ''decision-by'' [],
                      ao_PilotEnvironmentName = flag_value vals ''pilot-environment'' [],
                      ao_PR = flag_value vals ''pr'' [],
                      ao_MergeCommit = flag_value vals ''merge-commit'' [],
                      ao_TagOrBuildLabel = flag_value vals ''tag-or-build-label'' [],
                      ao_ArtifactFilename = filename,
                      ao_ArtifactSHA256 = sha,
                      ao_ArtifactSizeBytes = sizeBytes,
                      ao_ArtifactPlatform = flag_value vals ''artifact-platform'' [],
                      ao_SignedBy = flag_value vals ''signed-by'' [],
                      ao_SignedAt = flag_value vals ''signed-at'' [],
                      ao_UnsignedException = flag_value vals ''unsigned-exception'' [],
                      ao_ExceptionOwner = flag_value vals ''exception-owner'' [],
                      ao_ExceptionExpires = flag_value vals ''exception-expires'' [],
                      ao_PackageSmokeEvidenceSHA256 = flag_value vals ''package-smoke-evidence-sha256'' [],
                      ao_BackupArtifactSHA256 = flag_value vals ''backup-artifact-sha256'' [],
                      ao_RestoreVerifiedAt = flag_value vals ''restore-verified-at'' [],
                      ao_SecurityDocCommit = flag_value vals ''security-doc-commit'' [],
                      ao_SecurityDocEvidenceSHA256 = flag_value vals ''security-doc-evidence-sha256'' []\<rparr>)"

definition WriteAcceptanceRecord :: "platform \<Rightarrow> buildinfo \<Rightarrow> visiting \<Rightarrow> writer \<Rightarrow> AcceptanceOptions \<Rightarrow> goerror option" where
  "WriteAcceptanceRecord p b visit wr opts =
     (case BuildAcceptanceRecord p b visit opts of
        Inl err \<Rightarrow> Some err
      | Inr rec \<Rightarrow> wr (encode_indented (AcceptanceRecord_json rec)))"

definition IsAcceptanceRecordCommand :: "string list \<Rightarrow> bool" where
  "IsAcceptanceRecordCommand args \<longleftrightarrow> args \<noteq> [] \<and> (hd args = ''acceptance-record'' \<or> hd args = ''--acceptance-record'')"

definition HandleAcceptanceRecordCommand ::
  "platform \<Rightarrow> buildinfo \<Rightarrow> visiting \<Rightarrow> (string \<Rightarrow> goerror + opened) \<Rightarrow> string list \<Rightarrow> writer \<Rightarrow> string \<Rightarrow> goerror option" where
  "HandleAcceptanceRecordCommand p b visit os_Open args wr defaultComponent =
     (case ParseAcceptanceRecordArgs p os_Open (tl args) defaultComponent of
        Inl err \<Rightarrow> Some err
      | Inr opts \<Rightarrow> WriteAcceptanceRecord p b visit wr opts)"

end
