(* ===== verification/ProductionEvidence.thy ===== *)
theory ProductionEvidence
  imports Release
begin

text \<open>
  Production evidence (\<open>src/release/production_evidence.go\<close>): the options and evidence files a component's
  production release is recorded with, the fragment built from them, and the directory it is written
  to. The file system is a state of any type, changed by the operations of the record \<open>disk\<close>; what
  they do is a hypothesis of the theorems (\<open>disk_ok\<close>). \<open>HandleCommand\<close> of \<open>release.go\<close>, which runs all
  the commands, stands at the end.
\<close>

section \<open>Data\<close>

record 'fs disk =
  os_MkdirAll :: "string \<Rightarrow> 'fs \<Rightarrow> goerror option \<times> 'fs"
  os_WriteFile :: "string \<Rightarrow> bytes \<Rightarrow> 'fs \<Rightarrow> goerror option \<times> 'fs"
  os_Create :: "string \<Rightarrow> 'fs \<Rightarrow> goerror option \<times> 'fs"
  file_Write :: "string \<Rightarrow> bytes \<Rightarrow> 'fs \<Rightarrow> goerror option \<times> 'fs"
  disk_ReadFile :: "string \<Rightarrow> 'fs \<Rightarrow> goerror + bytes"
  disk_Open :: "string \<Rightarrow> 'fs \<Rightarrow> goerror + opened"

definition ProductionEvidenceSchemaVersion :: string where
  "ProductionEvidenceSchemaVersion = ''b2b-federation.production-evidence.component.v1''"

definition productionPullRequestPattern :: regex where
  "productionPullRequestPattern = MustCompile
     ''^https://github`.com/b2bautopilot/xyz-b2b/services/builders-net/pull/[1-9][0-9]*$''"
definition unsignedProductionEvidencePattern :: regex where
  "unsignedProductionEvidencePattern = MustCompile
     ''(?i)`bunsigned(?:[-_ ]?(?:exception|artifact|build|package|smoke|installer|binary|evidence))?`b''"
definition productionRequestBodyIdentityAcceptancePattern :: regex where
  "productionRequestBodyIdentityAcceptancePattern = MustCompile
     ''(?i)request[-_ ]?body[^`n`r]{0,120}`b(?:accepted|allowed|trusted|authorized|authenticated|establish(?:es|ed)?`s+identity|identity`s+(?:accepted|allowed|trusted|authorized|authenticated))`b''"
definition productionRequestBodySubjectAcceptancePattern :: regex where
  "productionRequestBodySubjectAcceptancePattern = MustCompile
     ''(?i)`b(?:tenant|partner|subject|principal)[-_ ]?id`b[^`n`r]{0,120}`bfrom`s+request[-_ ]?body`b[^`n`r]{0,120}`b(?:accepted|allowed|trusted|authorized|authenticated)`b''"
definition productionUnsafeBuildMetadataPattern :: regex where
  "productionUnsafeBuildMetadataPattern = MustCompile
     ''(?i)(^$|0`.0`.0-dev|local|dirty|snapshot|unknown)''"

definition productionBackendComponents :: "string list" where
  "productionBackendComponents = [''builders-agent'', ''builders-control'', ''builders-federation-gateway'']"

record ProductionEvidenceOptions =
  po_Component :: string
  po_ReleaseID :: string
  po_ReleaseDate :: string
  po_Owner :: string
  po_PR :: string
  po_MergeCommit :: string
  po_TagOrBuildLabel :: string
  po_ArtifactFilename :: string
  po_ArtifactSHA256 :: string
  po_ArtifactSizeBytes :: int64
  po_ArtifactPlatform :: string
  po_SignedBy :: string
  po_SignedAt :: string
  po_SignatureVerifier :: string
  po_SignatureVerifierEvidence :: bytes
  po_PackageSmokeEvidence :: bytes
  po_SBOMDependencyEvidence :: bytes
  po_InstallerBreadthEvidence :: bytes
  po_GatewayBoundaryEvidence :: bytes
  po_DefaultDenyEgressEvidence :: bytes
  po_AuditChainEvidence :: bytes
  po_ServiceCatalogEvidence :: bytes
  po_PolicyGrantEvidence :: bytes
  po_TransactionEvidence :: bytes
  po_BackupRestoreEvidence :: bytes
  po_RollbackEvidence :: bytes
  po_LeakScanEvidence :: bytes
  po_EnterpriseComplianceEvidence :: bytes
  po_AdversarialReviewEvidence :: bytes

record ProductionEvidenceFileRef =
  pfr_Path :: string
  pfr_SHA256 :: string
  pfr_SizeBytes :: int64

record ProductionEvidenceArtifact =
  pa_Filename :: string
  pa_Platform :: string
  pa_SHA256 :: string
  pa_SizeBytes :: int64
  pa_SignedBy :: string
  pa_SignedAt :: string
  pa_SignatureVerifier :: string
  pa_SignatureEvidence :: ProductionEvidenceFileRef

record ProductionEvidenceGate =
  pgt_Result :: string
  pgt_Evidence :: "ProductionEvidenceFileRef slice"
  pgt_Components :: "string list"
  pgt_Areas :: "string list"
  pgt_Notes :: "string list"

record ProductionEvidenceSigningGate =
  psg_Result :: string
  psg_Artifacts :: "ProductionEvidenceArtifact list"
  psg_Evidence :: "ProductionEvidenceFileRef slice"

record ProductionEvidenceGates =
  pg_ProductionSigning :: ProductionEvidenceSigningGate
  pg_PackageSmoke :: ProductionEvidenceGate
  pg_SBOMDependencyEvidence :: ProductionEvidenceGate
  pg_InstallerBreadth :: ProductionEvidenceGate
  pg_GatewayBoundary :: ProductionEvidenceGate
  pg_DefaultDenyEgress :: ProductionEvidenceGate
  pg_AuditChain :: ProductionEvidenceGate
  pg_ServiceCatalog :: ProductionEvidenceGate
  pg_PolicyGrant :: ProductionEvidenceGate
  pg_Transaction :: ProductionEvidenceGate
  pg_BackupRestore :: ProductionEvidenceGate
  pg_Rollback :: ProductionEvidenceGate
  pg_LeakScan :: ProductionEvidenceGate
  pg_EnterpriseCompliance :: ProductionEvidenceGate
  pg_AdversarialReview :: ProductionEvidenceGate

record ProductionEvidenceBuild =
  pb_Version :: string
  pb_Commit :: string
  pb_Date :: string
  pb_DocsVersion :: string

record ProductionEvidenceInvariant =
  piv_Passed :: bool
  piv_Evidence :: "string list"

record ProductionEvidenceRetention =
  prt_EvidenceDays :: int

record ProductionEvidenceFragment =
  pf_SchemaVersion :: string
  pf_Component :: string
  pf_Repo :: string
  pf_ReleaseID :: string
  pf_ReleaseDate :: string
  pf_Owner :: string
  pf_PR :: string
  pf_MergeCommit :: string
  pf_TagOrBuildLabel :: string
  pf_Scope :: string
  pf_Build :: ProductionEvidenceBuild
  pf_ProductionEvidence :: ProductionEvidenceGates
  pf_OutOfScopeGates :: "string list"
  pf_SecurityInvariants :: "(string \<times> ProductionEvidenceInvariant) list"
  pf_RetainedEvidence :: "ProductionEvidenceFileRef slice"
  pf_Retention :: ProductionEvidenceRetention

record productionEvidenceInputPaths =
  pip_SignatureVerifier :: string
  pip_PackageSmoke :: string
  pip_SBOMDependency :: string
  pip_InstallerBreadth :: string
  pip_GatewayBoundary :: string
  pip_DefaultDenyEgress :: string
  pip_AuditChain :: string
  pip_ServiceCatalog :: string
  pip_PolicyGrant :: string
  pip_Transaction :: string
  pip_BackupRestore :: string
  pip_Rollback :: string
  pip_LeakScan :: string
  pip_EnterpriseCompliance :: string
  pip_AdversarialReview :: string

definition ProductionEvidenceFileRef_json :: "ProductionEvidenceFileRef \<Rightarrow> jdoc" where
  "ProductionEvidenceFileRef_json v = JObj
     (jfield ''path'' (JStr (pfr_Path v)) @
      jfield ''sha256'' (JStr (pfr_SHA256 v)) @
      jfield ''size_bytes'' (JInt (sint (pfr_SizeBytes v))))"

definition ProductionEvidenceArtifact_json :: "ProductionEvidenceArtifact \<Rightarrow> jdoc" where
  "ProductionEvidenceArtifact_json v = JObj
     (jfield ''filename'' (JStr (pa_Filename v)) @
      jfield ''platform'' (JStr (pa_Platform v)) @
      jfield ''sha256'' (JStr (pa_SHA256 v)) @
      jfield ''size_bytes'' (JInt (sint (pa_SizeBytes v))) @
      jfield ''signed_by'' (JStr (pa_SignedBy v)) @
      jfield ''signed_at'' (JStr (pa_SignedAt v)) @
      jfield ''signature_verifier'' (JStr (pa_SignatureVerifier v)) @
      jfield ''signature_evidence'' (ProductionEvidenceFileRef_json (pa_SignatureEvidence v)))"

definition ProductionEvidenceGate_json :: "ProductionEvidenceGate \<Rightarrow> jdoc" where
  "ProductionEvidenceGate_json v = JObj
     (jfield ''result'' (JStr (pgt_Result v)) @
      jfield ''evidence'' (JSlice ProductionEvidenceFileRef_json (pgt_Evidence v)) @
      jomit (pgt_Components v = []) ''components'' (JArr (map JStr (pgt_Components v))) @
      jomit (pgt_Areas v = []) ''areas'' (JArr (map JStr (pgt_Areas v))) @
      jomit (pgt_Notes v = []) ''notes'' (JArr (map JStr (pgt_Notes v))))"

definition ProductionEvidenceSigningGate_json :: "ProductionEvidenceSigningGate \<Rightarrow> jdoc" where
  "ProductionEvidenceSigningGate_json v = JObj
     (jfield ''result'' (JStr (psg_Result v)) @
      jfield ''artifacts'' (JArr (map ProductionEvidenceArtifact_json (psg_Artifacts v))) @
      jfield ''evidence'' (JSlice ProductionEvidenceFileRef_json (psg_Evidence v)))"

definition ProductionEvidenceGates_json :: "ProductionEvidenceGates \<Rightarrow> jdoc" where
  "ProductionEvidenceGates_json v = JObj
     (jfield ''production_signing'' (ProductionEvidenceSigningGate_json (pg_ProductionSigning v)) @
      jfield ''package_smoke'' (ProductionEvidenceGate_json (pg_PackageSmoke v)) @
      jfield ''sbom_dependency_evidence'' (ProductionEvidenceGate_json (pg_SBOMDependencyEvidence v)) @
      jfield ''installer_package_breadth'' (ProductionEvidenceGate_json (pg_InstallerBreadth v)) @
      jfield ''gateway_boundary'' (ProductionEvidenceGate_json (pg_GatewayBoundary v)) @
      jfield ''default_deny_egress'' (ProductionEvidenceGate_json (pg_DefaultDenyEgress v)) @
      jfield ''audit_chain'' (ProductionEvidenceGate_json (pg_AuditChain v)) @
      jfield ''service_catalog'' (ProductionEvidenceGate_json (pg_ServiceCatalog v)) @
      jfield ''policy_grant'' (ProductionEvidenceGate_json (pg_PolicyGrant v)) @
      jfield ''transaction'' (ProductionEvidenceGate_json (pg_Transaction v)) @
      jfield ''backup_restore'' (ProductionEvidenceGate_json (pg_BackupRestore v)) @
      jfield ''rollback'' (ProductionEvidenceGate_json (pg_Rollback v)) @
      jfield ''leak_scan'' (ProductionEvidenceGate_json (pg_LeakScan v)) @
      jfield ''enterprise_compliance'' (ProductionEvidenceGate_json (pg_EnterpriseCompliance v)) @
      jfield ''adversarial_review'' (ProductionEvidenceGate_json (pg_AdversarialReview v)))"

definition ProductionEvidenceBuild_json :: "ProductionEvidenceBuild \<Rightarrow> jdoc" where
  "ProductionEvidenceBuild_json v = JObj
     (jfield ''version'' (JStr (pb_Version v)) @
      jfield ''commit'' (JStr (pb_Commit v)) @
      jfield ''date'' (JStr (pb_Date v)) @
      jfield ''docs_version'' (JStr (pb_DocsVersion v)))"

definition ProductionEvidenceInvariant_json :: "ProductionEvidenceInvariant \<Rightarrow> jdoc" where
  "ProductionEvidenceInvariant_json v = JObj
     (jfield ''passed'' (JBool (piv_Passed v)) @
      jfield ''evidence'' (JArr (map JStr (piv_Evidence v))))"

definition ProductionEvidenceRetention_json :: "ProductionEvidenceRetention \<Rightarrow> jdoc" where
  "ProductionEvidenceRetention_json v = JObj
     (jfield ''evidence_days'' (JInt (prt_EvidenceDays v)))"

definition ProductionEvidenceFragment_json :: "ProductionEvidenceFragment \<Rightarrow> jdoc" where
  "ProductionEvidenceFragment_json v = JObj
     (jfield ''schema_version'' (JStr (pf_SchemaVersion v)) @
      jfield ''component'' (JStr (pf_Component v)) @
      jfield ''repo'' (JStr (pf_Repo v)) @
      jfield ''release_id'' (JStr (pf_ReleaseID v)) @
      jfield ''release_date'' (JStr (pf_ReleaseDate v)) @
      jfield ''owner'' (JStr (pf_Owner v)) @
      jfield ''pr'' (JStr (pf_PR v)) @
      jfield ''merge_commit'' (JStr (pf_MergeCommit v)) @
      jfield ''tag_or_build_label'' (JStr (pf_TagOrBuildLabel v)) @
      jfield ''scope'' (JStr (pf_Scope v)) @
      jfield ''build'' (ProductionEvidenceBuild_json (pf_Build v)) @
      jfield ''production_evidence'' (ProductionEvidenceGates_json (pf_ProductionEvidence v)) @
      jfield ''out_of_scope_required_gates'' (JArr (map JStr (pf_OutOfScopeGates v))) @
      jfield ''security_invariants'' (JObj (sort_key fst (map (\<lambda>(k, v). (k, ProductionEvidenceInvariant_json v)) (pf_SecurityInvariants v)))) @
      jfield ''retained_evidence'' (JSlice ProductionEvidenceFileRef_json (pf_RetainedEvidence v)) @
      jfield ''retention'' (ProductionEvidenceRetention_json (pf_Retention v)))"

section \<open>Checking the options\<close>

definition normalizeProductionEvidenceOptions :: "ProductionEvidenceOptions \<Rightarrow> ProductionEvidenceOptions" where
  "normalizeProductionEvidenceOptions opts =
     opts\<lparr>po_Component := TrimSpace (po_Component opts),
          po_ArtifactFilename := (if po_ArtifactFilename opts = [] then [] else Base (po_ArtifactFilename opts))\<rparr>"

definition scanProductionEvidence :: "bytes \<Rightarrow> goerror option" where
  "scanProductionEvidence data =
     (if MatchString unsignedProductionEvidencePattern data then
        Some (Plain ''unsigned evidence is not allowed for production evidence'')
      else if MatchString productionRequestBodyIdentityAcceptancePattern data \<or>
              MatchString productionRequestBodySubjectAcceptancePattern data then
        Some (Plain ''request-body identity acceptance is not allowed for production evidence'')
      else ScanAcceptanceEvidence data)"

definition po_required :: "ProductionEvidenceOptions \<Rightarrow> (string \<times> string) list" where
  "po_required opts =
     [(''release-id'', po_ReleaseID opts),
      (''release-date'', po_ReleaseDate opts),
      (''owner'', po_Owner opts),
      (''pr'', po_PR opts),
      (''merge-commit'', po_MergeCommit opts),
      (''tag-or-build-label'', po_TagOrBuildLabel opts),
      (''artifact'', po_ArtifactFilename opts),
      (''artifact-platform'', po_ArtifactPlatform opts),
      (''signed-by'', po_SignedBy opts),
      (''signed-at'', po_SignedAt opts),
      (''signature-verifier'', po_SignatureVerifier opts)]"

definition po_evidence :: "ProductionEvidenceOptions \<Rightarrow> (string \<times> bytes) list" where
  "po_evidence opts =
     [(''signature-evidence'', po_SignatureVerifierEvidence opts),
      (''package-smoke-evidence'', po_PackageSmokeEvidence opts),
      (''sbom-evidence'', po_SBOMDependencyEvidence opts),
      (''installer-evidence'', po_InstallerBreadthEvidence opts),
      (''gateway-boundary-evidence'', po_GatewayBoundaryEvidence opts),
      (''egress-evidence'', po_DefaultDenyEgressEvidence opts),
      (''audit-chain-evidence'', po_AuditChainEvidence opts),
      (''service-catalog-evidence'', po_ServiceCatalogEvidence opts),
      (''policy-grant-evidence'', po_PolicyGrantEvidence opts),
      (''transaction-evidence'', po_TransactionEvidence opts),
      (''backup-restore-evidence'', po_BackupRestoreEvidence opts),
      (''rollback-evidence'', po_RollbackEvidence opts),
      (''leak-scan-evidence'', po_LeakScanEvidence opts),
      (''enterprise-compliance-evidence'', po_EnterpriseComplianceEvidence opts),
      (''adversarial-review-evidence'', po_AdversarialReviewEvidence opts)]"

definition check_evidence_option :: "string \<times> bytes \<Rightarrow> goerror option" where
  "check_evidence_option nv =
     (if TrimSpace (snd nv) = [] then Some (Plain (fst nv @ '' is required''))
      else map_option (wrapf (fst nv @ '' unsafe: '')) (scanProductionEvidence (snd nv)))"

definition validateProductionEvidenceOptions :: "platform \<Rightarrow> buildinfo \<Rightarrow> visiting \<Rightarrow> ProductionEvidenceOptions \<Rightarrow> goerror option" where
  "validateProductionEvidenceOptions p b visit opts =
     (if \<not> isBackendAcceptanceComponent (po_Component opts) then
        Some (Plain ''component must be builders-control, builders-agent, or builders-federation-gateway'')
      else case validateAcceptanceBuildMetadata b (po_MergeCommit opts) of Some err \<Rightarrow> Some err | None \<Rightarrow>
      if MatchString productionUnsafeBuildMetadataPattern (TrimSpace (bi_Version b)) then
        Some (Plain ''release Version must be non-local production metadata'')
      else case first_failing check_required_option (visit 0 (po_required opts)) of Some err \<Rightarrow> Some err | None \<Rightarrow>
      if \<not> MatchString acceptanceDatePattern (po_ReleaseDate opts) then Some (Plain ''release-date must be YYYY-MM-DD'')
      else if \<not> MatchString acceptanceRFC3339Pattern (po_SignedAt opts) then Some (Plain ''signed-at must be RFC3339 UTC'')
      else if \<not> MatchString acceptanceCommitPattern (po_MergeCommit opts) then
        Some (Plain ''merge-commit must be a 7-40 character lowercase git commit'')
      else if \<not> MatchString productionPullRequestPattern (po_PR opts) then
        Some (Plain ''pr must be an xyz-b2b/services/builders-net GitHub pull request URL with a nonzero pull number'')
      else if Contains (ToLower (unicode_lower p) (po_ReleaseID opts)) ''local'' then
        Some (Plain ''release-id must not be local production evidence'')
      else if Contains (ToLower (unicode_lower p) (po_TagOrBuildLabel opts)) ''local'' then
        Some (Plain ''tag-or-build-label must not be local production evidence'')
      else if \<not> MatchString acceptanceSHA256Pattern (po_ArtifactSHA256 opts) then
        Some (Plain ''artifact-sha256 must be a 64-character lowercase SHA-256 hex digest'')
      else if sint (po_ArtifactSizeBytes opts) \<le> 0 then Some (Plain ''artifact size must be positive'')
      else case first_failing check_safe_option (visit 1 (po_required opts)) of Some err \<Rightarrow> Some err | None \<Rightarrow>
      first_failing check_evidence_option (visit 2 (po_evidence opts)))"

section \<open>The fragment\<close>

definition production_gates :: "string \<Rightarrow> string \<Rightarrow> ProductionEvidenceOptions \<Rightarrow> ProductionEvidenceGates" where
  "production_gates versionSHA manifestSHA opts =
     \<lparr>pg_ProductionSigning = \<lparr>psg_Result = ''pass'',
                               psg_Artifacts = [\<lparr>pa_Filename = po_ArtifactFilename opts,
                                                 pa_Platform = po_ArtifactPlatform opts,
                                                 pa_SHA256 = po_ArtifactSHA256 opts,
                                                 pa_SizeBytes = po_ArtifactSizeBytes opts,
                                                 pa_SignedBy = po_SignedBy opts,
                                                 pa_SignedAt = po_SignedAt opts,
                                                 pa_SignatureVerifier = po_SignatureVerifier opts,
                                                 pa_SignatureEvidence = \<lparr>pfr_Path = [],
 pfr_SHA256 = [],
 pfr_SizeBytes = 0\<rparr>\<rparr>],
                               psg_Evidence = None\<rparr>,
       pg_PackageSmoke = \<lparr>pgt_Result = ''pass'',
                          pgt_Evidence = None,
                          pgt_Components = sort productionBackendComponents,
                          pgt_Areas = [],
                          pgt_Notes = [''backend package smoke must validate all three candidate binaries and release manifest output'']\<rparr>,
       pg_SBOMDependencyEvidence = \<lparr>pgt_Result = ''pass'',
                                    pgt_Evidence = None,
                                    pgt_Components = sort productionBackendComponents,
                                    pgt_Areas = [],
                                    pgt_Notes = [po_Component opts @ '' version output sha256='' @ versionSHA, po_Component opts @ '' release-manifest sha256='' @ manifestSHA, ''release manifest is dependency evidence, not the final enterprise SBOM approval'']\<rparr>,
       pg_InstallerBreadth = \<lparr>pgt_Result = ''pass'',
                              pgt_Evidence = None,
                              pgt_Components = sort productionBackendComponents,
                              pgt_Areas = [],
                              pgt_Notes = [''installer/package breadth evidence must cover builders-control, builders-agent, and builders-federation-gateway'']\<rparr>,
       pg_GatewayBoundary = \<lparr>pgt_Result = ''pass'',
                             pgt_Evidence = None,
                             pgt_Components = [''builders-federation-gateway''],
                             pgt_Areas = [],
                             pgt_Notes = [''gateway runtime keeps narrowed federation facade and no inbound listener'']\<rparr>,
       pg_DefaultDenyEgress = \<lparr>pgt_Result = ''pass'',
                               pgt_Evidence = None,
                               pgt_Components = [],
                               pgt_Areas = [''default-deny'', ''allowed-targets'', ''denied-ungranted-attempts''],
                               pgt_Notes = []\<rparr>,
       pg_AuditChain = \<lparr>pgt_Result = ''pass'',
                        pgt_Evidence = None,
                        pgt_Components = [],
                        pgt_Areas = [''audit-chain-verification'', ''restore-verifier'', ''rollback-verifier''],
                        pgt_Notes = []\<rparr>,
       pg_ServiceCatalog = \<lparr>pgt_Result = ''pass'',
                            pgt_Evidence = None,
                            pgt_Components = [],
                            pgt_Areas = [''partner-visible-catalog'', ''retired-hidden-entry-denial''],
                            pgt_Notes = []\<rparr>,
       pg_PolicyGrant = \<lparr>pgt_Result = ''pass'',
                         pgt_Evidence = None,
                         pgt_Components = [],
                         pgt_Areas = [''active-grant-required'', ''revoked-expired-approval-required-denials''],
                         pgt_Notes = []\<rparr>,
       pg_Transaction = \<lparr>pgt_Result = ''pass'',
                         pgt_Evidence = None,
                         pgt_Components = [],
                         pgt_Areas = [''transaction-open'', ''commercial-event'', ''idempotent-replay'', ''cross-partner-denial''],
                         pgt_Notes = []\<rparr>,
       pg_BackupRestore = \<lparr>pgt_Result = ''pass'',
                           pgt_Evidence = None,
                           pgt_Components = [],
                           pgt_Areas = [],
                           pgt_Notes = [''restore evidence retained without raw payloads, secrets, or topology'']\<rparr>,
       pg_Rollback = \<lparr>pgt_Result = ''pass'',
                      pgt_Evidence = None,
                      pgt_Components = [],
                      pgt_Areas = [],
                      pgt_Notes = [''rollback evidence retains audit preservation'']\<rparr>,
       pg_LeakScan = \<lparr>pgt_Result = ''pass'',
                      pgt_Evidence = None,
                      pgt_Components = [],
                      pgt_Areas = [],
                      pgt_Notes = [''retained evidence and fragment scanned for secrets, topology, and local paths'']\<rparr>,
       pg_EnterpriseCompliance = \<lparr>pgt_Result = ''pass'',
                                  pgt_Evidence = None,
                                  pgt_Components = [],
                                  pgt_Areas = [''release-controls'', ''gateway-boundary'', ''default-deny-egress'', ''audit-retention'', ''policy-governance''],
                                  pgt_Notes = []\<rparr>,
       pg_AdversarialReview = \<lparr>pgt_Result = ''pass'',
                               pgt_Evidence = None,
                               pgt_Components = [],
                               pgt_Areas = [],
                               pgt_Notes = [''adversarial review evidence retained for this component slice'']\<rparr>\<rparr>"

definition production_invariants :: "(string \<times> ProductionEvidenceInvariant) list" where
  "production_invariants =
     [(''gateway_facade_only'', \<lparr>piv_Passed = True,
           piv_Evidence = [''gateway-boundary-evidence'', ''federation-facade-tests'']\<rparr>),
      (''request_body_identity_rejected'', \<lparr>piv_Passed = True,
           piv_Evidence = [''gateway-facade-denial-evidence'']\<rparr>),
      (''mesh_reachability_not_authorization'', \<lparr>piv_Passed = True,
           piv_Evidence = [''policy-grant-and-facade-evidence'']\<rparr>),
      (''egress_default_deny'', \<lparr>piv_Passed = True,
           piv_Evidence = [''default-deny-egress-evidence'']\<rparr>),
      (''audit_evidence_preserved'', \<lparr>piv_Passed = True,
           piv_Evidence = [''audit-chain-evidence'', ''backup-restore-evidence'', ''rollback-evidence'']\<rparr>),
      (''no_secret_or_topology_leaks'', \<lparr>piv_Passed = True,
           piv_Evidence = [''leak-scan-evidence'']\<rparr>)]"

definition production_fragment :: "buildinfo \<Rightarrow> string \<Rightarrow> string \<Rightarrow> ProductionEvidenceOptions \<Rightarrow> ProductionEvidenceFragment" where
  "production_fragment b versionSHA manifestSHA opts =
     \<lparr>pf_SchemaVersion = ProductionEvidenceSchemaVersion,
       pf_Component = po_Component opts,
       pf_Repo = ''https://github.com/b2bautopilot/xyz-b2b/services/builders-net'',
       pf_ReleaseID = po_ReleaseID opts,
       pf_ReleaseDate = po_ReleaseDate opts,
       pf_Owner = po_Owner opts,
       pf_PR = po_PR opts,
       pf_MergeCommit = po_MergeCommit opts,
       pf_TagOrBuildLabel = po_TagOrBuildLabel opts,
       pf_Scope = ''component evidence only; Builders Net production promotion remains docs-owned and requires operator approval'',
       pf_Build = \<lparr>pb_Version = bi_Version b,
                   pb_Commit = bi_Commit b,
                   pb_Date = bi_Date b,
                   pb_DocsVersion = DocsVersion\<rparr>,
       pf_ProductionEvidence = production_gates versionSHA manifestSHA opts,
       pf_OutOfScopeGates = [''final b2b-federation.production-promotion.v1 approval'', ''live partner-data production authorization'', ''company-specific compliance signoff''],
       pf_SecurityInvariants = production_invariants,
       pf_RetainedEvidence = None,
       pf_Retention = \<lparr>prt_EvidenceDays = 365\<rparr>\<rparr>"

definition BuildProductionEvidenceFragment ::
  "platform \<Rightarrow> buildinfo \<Rightarrow> visiting \<Rightarrow> ProductionEvidenceOptions \<Rightarrow> goerror + ProductionEvidenceFragment" where
  "BuildProductionEvidenceFragment p b visit opts0 =
     (let opts = normalizeProductionEvidenceOptions opts0
      in case validateProductionEvidenceOptions p b visit opts of
           Some err \<Rightarrow> Inl err
         | None \<Rightarrow>
             (case acceptanceEvidenceHashes p b (po_Component opts) of
                Inl err \<Rightarrow> Inl err
              | Inr (versionSHA, manifestSHA) \<Rightarrow>
                  let fragment = production_fragment b versionSHA manifestSHA opts
                  in case ScanAcceptanceValue (ProductionEvidenceFragment_json fragment) of
                       Some err \<Rightarrow> Inl err | None \<Rightarrow> Inr fragment))"

section \<open>Writing it out\<close>

definition productionSigningSummary :: "ProductionEvidenceFragment \<Rightarrow> ProductionEvidenceOptions \<Rightarrow> string" where
  "productionSigningSummary fragment opts =
     strings_Join
       [''component='' @ po_Component opts,
        ''release_id='' @ pf_ReleaseID fragment,
        ''artifact='' @ po_ArtifactFilename opts,
        ''artifact_platform='' @ po_ArtifactPlatform opts,
        ''artifact_sha256='' @ po_ArtifactSHA256 opts,
        ''artifact_size_bytes='' @ dec_int (sint (po_ArtifactSizeBytes opts)),
        ''signed_by='' @ po_SignedBy opts,
        ''signed_at='' @ po_SignedAt opts,
        ''signature_verifier='' @ po_SignatureVerifier opts,
        ''signed_only=true'',
        ''scope=builders_net_backend_component_evidence_only''] [CHR 0x0A] @ [CHR 0x0A]"

definition ensureTrailingNewline :: "bytes \<Rightarrow> bytes" where
  "ensureTrailingNewline data = (if data = [] \<or> last data = CHR 0x0A then data else data @ [CHR 0x0A])"

definition file_ref :: "platform \<Rightarrow> string \<Rightarrow> bytes \<Rightarrow> ProductionEvidenceFileRef" where
  "file_ref p name data =
     \<lparr>pfr_Path = name, pfr_SHA256 = hexEncode (sha256 p data), pfr_SizeBytes = word_of_nat (length data)\<rparr>"

definition writeProductionEvidenceFile ::
  "platform \<Rightarrow> 'fs disk \<Rightarrow> string \<Rightarrow> string \<Rightarrow> bytes \<Rightarrow> 'fs \<Rightarrow> (goerror + ProductionEvidenceFileRef) \<times> 'fs" where
  "writeProductionEvidenceFile p d outDir name data fs =
     (case scanProductionEvidence data of
        Some err \<Rightarrow> (Inl (wrapf (name @ '' unsafe: '') err), fs)
      | None \<Rightarrow>
          (case os_WriteFile d (path_Join outDir name) data fs of
             (Some err, fs') \<Rightarrow> (Inl (wrapf (''write '' @ name @ '': '') err), fs')
           | (None, fs') \<Rightarrow> (Inr (file_ref p name data), fs')))"

text \<open>The loop over the inputs; the references kept so far, in order.\<close>

fun write_inputs ::
  "platform \<Rightarrow> 'fs disk \<Rightarrow> string \<Rightarrow> ProductionEvidenceFileRef list \<Rightarrow> (string \<times> bytes) list \<Rightarrow> 'fs \<Rightarrow>
   (goerror + ProductionEvidenceFileRef list) \<times> 'fs" where
  "write_inputs p d outDir retained [] fs = (Inr retained, fs)"
| "write_inputs p d outDir retained ((name, data) # inputs) fs =
     (case writeProductionEvidenceFile p d outDir name (ensureTrailingNewline data) fs of
        (Inl err, fs') \<Rightarrow> (Inl err, fs')
      | (Inr r, fs') \<Rightarrow> write_inputs p d outDir (retained @ [r]) inputs fs')"

definition evidence_inputs :: "ProductionEvidenceOptions \<Rightarrow> (string \<times> bytes) list" where
  "evidence_inputs opts =
     [(''signature-verifier-output.txt'', po_SignatureVerifierEvidence opts),
      (''package-smoke-evidence.txt'', po_PackageSmokeEvidence opts),
      (''sbom-dependency-evidence.txt'', po_SBOMDependencyEvidence opts),
      (''installer-package-breadth-evidence.txt'', po_InstallerBreadthEvidence opts),
      (''gateway-boundary-evidence.txt'', po_GatewayBoundaryEvidence opts),
      (''default-deny-egress-evidence.txt'', po_DefaultDenyEgressEvidence opts),
      (''audit-chain-evidence.txt'', po_AuditChainEvidence opts),
      (''service-catalog-evidence.txt'', po_ServiceCatalogEvidence opts),
      (''policy-grant-evidence.txt'', po_PolicyGrantEvidence opts),
      (''transaction-evidence.txt'', po_TransactionEvidence opts),
      (''backup-restore-evidence.txt'', po_BackupRestoreEvidence opts),
      (''rollback-evidence.txt'', po_RollbackEvidence opts),
      (''leak-scan-evidence.txt'', po_LeakScanEvidence opts),
      (''enterprise-compliance-evidence.txt'', po_EnterpriseComplianceEvidence opts),
      (''adversarial-review-evidence.txt'', po_AdversarialReviewEvidence opts)]"

text \<open>The map \<open>refs\<close>, whose keys are the paths of the references.\<close>

definition ref_named :: "ProductionEvidenceFileRef list \<Rightarrow> string \<Rightarrow> ProductionEvidenceFileRef" where
  "ref_named retained name =
     (case find (\<lambda>r. pfr_Path r = name) retained of
        Some r \<Rightarrow> r | None \<Rightarrow> \<lparr>pfr_Path = [], pfr_SHA256 = [], pfr_SizeBytes = 0\<rparr>)"

definition evidence_of :: "ProductionEvidenceFileRef list \<Rightarrow> string \<Rightarrow> ProductionEvidenceGate \<Rightarrow> ProductionEvidenceGate" where
  "evidence_of retained name gate = gate\<lparr>pgt_Evidence := Some [ref_named retained name]\<rparr>"

definition attach_evidence :: "ProductionEvidenceFileRef list \<Rightarrow> ProductionEvidenceFragment \<Rightarrow> ProductionEvidenceFragment" where
  "attach_evidence retained fragment =
     (let g = pf_ProductionEvidence fragment; signing = pg_ProductionSigning g;
          signature = ref_named retained ''signature-verifier-output.txt''
      in fragment\<lparr>pf_ProductionEvidence :=
           g\<lparr>pg_ProductionSigning := signing\<lparr>
                psg_Evidence := Some [ref_named retained ''production-signing-summary.txt'', signature],
                psg_Artifacts := (case psg_Artifacts signing of [] \<Rightarrow> [] | a # as \<Rightarrow> a\<lparr>pa_SignatureEvidence := signature\<rparr> # as)\<rparr>,
             pg_PackageSmoke := evidence_of retained ''package-smoke-evidence.txt'' (pg_PackageSmoke g),
             pg_SBOMDependencyEvidence := evidence_of retained ''sbom-dependency-evidence.txt'' (pg_SBOMDependencyEvidence g),
             pg_InstallerBreadth := evidence_of retained ''installer-package-breadth-evidence.txt'' (pg_InstallerBreadth g),
             pg_GatewayBoundary := evidence_of retained ''gateway-boundary-evidence.txt'' (pg_GatewayBoundary g),
             pg_DefaultDenyEgress := evidence_of retained ''default-deny-egress-evidence.txt'' (pg_DefaultDenyEgress g),
             pg_AuditChain := evidence_of retained ''audit-chain-evidence.txt'' (pg_AuditChain g),
             pg_ServiceCatalog := evidence_of retained ''service-catalog-evidence.txt'' (pg_ServiceCatalog g),
             pg_PolicyGrant := evidence_of retained ''policy-grant-evidence.txt'' (pg_PolicyGrant g),
             pg_Transaction := evidence_of retained ''transaction-evidence.txt'' (pg_Transaction g),
             pg_BackupRestore := evidence_of retained ''backup-restore-evidence.txt'' (pg_BackupRestore g),
             pg_Rollback := evidence_of retained ''rollback-evidence.txt'' (pg_Rollback g),
             pg_LeakScan := evidence_of retained ''leak-scan-evidence.txt'' (pg_LeakScan g),
             pg_EnterpriseCompliance := evidence_of retained ''enterprise-compliance-evidence.txt'' (pg_EnterpriseCompliance g),
             pg_AdversarialReview := evidence_of retained ''adversarial-review-evidence.txt'' (pg_AdversarialReview g)\<rparr>,
           pf_RetainedEvidence := Some retained\<rparr>)"

definition WriteProductionEvidenceFragment ::
  "platform \<Rightarrow> buildinfo \<Rightarrow> visiting \<Rightarrow> 'fs disk \<Rightarrow> string \<Rightarrow> ProductionEvidenceOptions \<Rightarrow> 'fs \<Rightarrow> (goerror + string) \<times> 'fs" where
  "WriteProductionEvidenceFragment p b visit d outDir opts fs0 =
     (case BuildProductionEvidenceFragment p b visit opts of Inl err \<Rightarrow> (Inl err, fs0) | Inr fragment0 \<Rightarrow>
      case os_MkdirAll d outDir fs0 of (Some err, fs1) \<Rightarrow> (Inl (wrapf ''create production evidence dir: '' err), fs1) | (None, fs1) \<Rightarrow>
      case writeProductionEvidenceFile p d outDir ''production-signing-summary.txt'' (productionSigningSummary fragment0 opts) fs1 of
        (Inl err, fs2) \<Rightarrow> (Inl err, fs2) | (Inr signingRef, fs2) \<Rightarrow>
      case write_inputs p d outDir [signingRef] (evidence_inputs opts) fs2 of
        (Inl err, fs3) \<Rightarrow> (Inl err, fs3) | (Inr retained, fs3) \<Rightarrow>
      let fragment = attach_evidence retained fragment0; json = ProductionEvidenceFragment_json fragment;
          outPath = path_Join outDir (po_Component opts @ ''-production-evidence.json'')
      in case ScanAcceptanceValue json of
           Some err \<Rightarrow> (Inl (wrapf ''production evidence fragment unsafe: '' err), fs3) | None \<Rightarrow>
         case os_Create d outPath fs3 of
           (Some err, fs4) \<Rightarrow> (Inl (wrapf ''create production evidence fragment: '' err), fs4) | (None, fs4) \<Rightarrow>
         case file_Write d outPath (encode_indented json) fs4 of
           (Some err, fs5) \<Rightarrow> (Inl (wrapf ''write production evidence fragment: '' err), fs5) | (None, fs5) \<Rightarrow>
         case disk_ReadFile d outPath fs5 of
           Inl err \<Rightarrow> (Inl (wrapf ''read production evidence fragment: '' err), fs5)
         | Inr data \<Rightarrow>
             (case ScanAcceptanceEvidence data of
                Some err \<Rightarrow> (Inl (wrapf ''production evidence fragment unsafe: '' err), fs5)
              | None \<Rightarrow> (Inr outPath, fs5)))"

section \<open>The commands\<close>

definition evidence_paths :: "productionEvidenceInputPaths \<Rightarrow> (string \<times> string) list" where
  "evidence_paths paths =
     [(''--signature-evidence'', pip_SignatureVerifier paths),
      (''--package-smoke-evidence'', pip_PackageSmoke paths),
      (''--sbom-evidence'', pip_SBOMDependency paths),
      (''--installer-evidence'', pip_InstallerBreadth paths),
      (''--gateway-boundary-evidence'', pip_GatewayBoundary paths),
      (''--egress-evidence'', pip_DefaultDenyEgress paths),
      (''--audit-chain-evidence'', pip_AuditChain paths),
      (''--service-catalog-evidence'', pip_ServiceCatalog paths),
      (''--policy-grant-evidence'', pip_PolicyGrant paths),
      (''--transaction-evidence'', pip_Transaction paths),
      (''--backup-restore-evidence'', pip_BackupRestore paths),
      (''--rollback-evidence'', pip_Rollback paths),
      (''--leak-scan-evidence'', pip_LeakScan paths),
      (''--enterprise-compliance-evidence'', pip_EnterpriseCompliance paths),
      (''--adversarial-review-evidence'', pip_AdversarialReview paths)]"

definition requireComplete :: "visiting \<Rightarrow> productionEvidenceInputPaths \<Rightarrow> goerror option" where
  "requireComplete visit paths = first_failing check_required_option (visit 3 (evidence_paths paths))"

fun read_files :: "(string \<Rightarrow> goerror + bytes) \<Rightarrow> (string \<times> string) list \<Rightarrow> goerror + bytes list" where
  "read_files rd [] = Inr []"
| "read_files rd ((name, path) # rest) =
     (case rd path of
        Inl err \<Rightarrow> Inl (wrapf (''read '' @ name @ '': '') err)
      | Inr data \<Rightarrow> (case read_files rd rest of Inl err \<Rightarrow> Inl err | Inr ds \<Rightarrow> Inr (data # ds)))"

definition readAll :: "(string \<Rightarrow> goerror + bytes) \<Rightarrow> productionEvidenceInputPaths \<Rightarrow> goerror + ProductionEvidenceOptions" where
  "readAll rd paths =
     (case read_files rd
        [(''signature evidence'', pip_SignatureVerifier paths),
         (''package smoke evidence'', pip_PackageSmoke paths),
         (''sbom evidence'', pip_SBOMDependency paths),
         (''installer evidence'', pip_InstallerBreadth paths),
         (''gateway boundary evidence'', pip_GatewayBoundary paths),
         (''egress evidence'', pip_DefaultDenyEgress paths),
         (''audit-chain evidence'', pip_AuditChain paths),
         (''service catalog evidence'', pip_ServiceCatalog paths),
         (''policy grant evidence'', pip_PolicyGrant paths),
         (''transaction evidence'', pip_Transaction paths),
         (''backup restore evidence'', pip_BackupRestore paths),
         (''rollback evidence'', pip_Rollback paths),
         (''leak scan evidence'', pip_LeakScan paths),
         (''enterprise compliance evidence'', pip_EnterpriseCompliance paths),
         (''adversarial review evidence'', pip_AdversarialReview paths)] of
        Inl err \<Rightarrow> Inl err
      | Inr ds \<Rightarrow> Inr \<lparr>po_Component = [],
                   po_ReleaseID = [],
                   po_ReleaseDate = [],
                   po_Owner = [],
                   po_PR = [],
                   po_MergeCommit = [],
                   po_TagOrBuildLabel = [],
                   po_ArtifactFilename = [],
                   po_ArtifactSHA256 = [],
                   po_ArtifactSizeBytes = 0,
                   po_ArtifactPlatform = [],
                   po_SignedBy = [],
                   po_SignedAt = [],
                   po_SignatureVerifier = [],
                   po_SignatureVerifierEvidence = ds ! 0,
                   po_PackageSmokeEvidence = ds ! 1,
                   po_SBOMDependencyEvidence = ds ! 2,
                   po_InstallerBreadthEvidence = ds ! 3,
                   po_GatewayBoundaryEvidence = ds ! 4,
                   po_DefaultDenyEgressEvidence = ds ! 5,
                   po_AuditChainEvidence = ds ! 6,
                   po_ServiceCatalogEvidence = ds ! 7,
                   po_PolicyGrantEvidence = ds ! 8,
                   po_TransactionEvidence = ds ! 9,
                   po_BackupRestoreEvidence = ds ! 10,
                   po_RollbackEvidence = ds ! 11,
                   po_LeakScanEvidence = ds ! 12,
                   po_EnterpriseComplianceEvidence = ds ! 13,
                   po_AdversarialReviewEvidence = ds ! 14\<rparr>)"

definition production_flags :: "string set" where
  "production_flags =
     {''out-dir'', ''component'', ''release-id'', ''release-date'', ''owner'', ''pr'', ''merge-commit'', ''tag-or-build-label'', ''artifact'', ''artifact-platform'', ''signed-by'', ''signed-at'', ''signature-verifier'', ''signature-evidence'', ''package-smoke-evidence'', ''sbom-evidence'', ''installer-evidence'', ''gateway-boundary-evidence'', ''egress-evidence'', ''audit-chain-evidence'', ''service-catalog-evidence'', ''policy-grant-evidence'', ''transaction-evidence'', ''backup-restore-evidence'', ''rollback-evidence'', ''leak-scan-evidence'', ''enterprise-compliance-evidence'', ''adversarial-review-evidence''}"

definition ParseProductionEvidenceArgs ::
  "platform \<Rightarrow> visiting \<Rightarrow> 'fs disk \<Rightarrow> string list \<Rightarrow> string \<Rightarrow> 'fs \<Rightarrow> goerror + string \<times> ProductionEvidenceOptions" where
  "ParseProductionEvidenceArgs p visit d args defaultComponent fs =
     (case parse_flags production_flags Map.empty args of
        Inl err \<Rightarrow> Inl (wrapf ''production-evidence: '' err)
      | Inr (vals, x # rest) \<Rightarrow> Inl (Plain (''production-evidence: unexpected argument '' @ x))
      | Inr (vals, []) \<Rightarrow>
          let artifactPath = flag_value vals ''artifact'' [];
              outDir = flag_value vals ''out-dir'' (path_Join ''dist/production-evidence'' defaultComponent);
              evidencePaths = \<lparr>pip_SignatureVerifier = flag_value vals ''signature-evidence'' [],
                pip_PackageSmoke = flag_value vals ''package-smoke-evidence'' [],
                pip_SBOMDependency = flag_value vals ''sbom-evidence'' [],
                pip_InstallerBreadth = flag_value vals ''installer-evidence'' [],
                pip_GatewayBoundary = flag_value vals ''gateway-boundary-evidence'' [],
                pip_DefaultDenyEgress = flag_value vals ''egress-evidence'' [],
                pip_AuditChain = flag_value vals ''audit-chain-evidence'' [],
                pip_ServiceCatalog = flag_value vals ''service-catalog-evidence'' [],
                pip_PolicyGrant = flag_value vals ''policy-grant-evidence'' [],
                pip_Transaction = flag_value vals ''transaction-evidence'' [],
                pip_BackupRestore = flag_value vals ''backup-restore-evidence'' [],
                pip_Rollback = flag_value vals ''rollback-evidence'' [],
                pip_LeakScan = flag_value vals ''leak-scan-evidence'' [],
                pip_EnterpriseCompliance = flag_value vals ''enterprise-compliance-evidence'' [],
                pip_AdversarialReview = flag_value vals ''adversarial-review-evidence'' []\<rparr>
          in if TrimSpace artifactPath = [] then Inl (Plain ''production-evidence: --artifact is required'')
             else case requireComplete visit evidencePaths of Some err \<Rightarrow> Inl (wrapf ''production-evidence: '' err) | None \<Rightarrow>
             case artifactEvidence p (\<lambda>path. disk_Open d path fs) artifactPath of
               Inl err \<Rightarrow> Inl (wrapf ''production-evidence: '' err)
             | Inr (filename, sha, sizeBytes) \<Rightarrow>
                 (case readAll (\<lambda>path. disk_ReadFile d path fs) evidencePaths of
                    Inl err \<Rightarrow> Inl (wrapf ''production-evidence: '' err)
                  | Inr inputs \<Rightarrow>
                      Inr (outDir,
                        \<lparr>po_Component = flag_value vals ''component'' defaultComponent,
                         po_ReleaseID = flag_value vals ''release-id'' [],
                         po_ReleaseDate = flag_value vals ''release-date'' [],
                         po_Owner = flag_value vals ''owner'' [],
                         po_PR = flag_value vals ''pr'' [],
                         po_MergeCommit = flag_value vals ''merge-commit'' [],
                         po_TagOrBuildLabel = flag_value vals ''tag-or-build-label'' [],
                         po_ArtifactFilename = filename,
                         po_ArtifactSHA256 = sha,
                         po_ArtifactSizeBytes = sizeBytes,
                         po_ArtifactPlatform = flag_value vals ''artifact-platform'' [],
                         po_SignedBy = flag_value vals ''signed-by'' [],
                         po_SignedAt = flag_value vals ''signed-at'' [],
                         po_SignatureVerifier = flag_value vals ''signature-verifier'' [],
                         po_SignatureVerifierEvidence = po_SignatureVerifierEvidence inputs,
                         po_PackageSmokeEvidence = po_PackageSmokeEvidence inputs,
                         po_SBOMDependencyEvidence = po_SBOMDependencyEvidence inputs,
                         po_InstallerBreadthEvidence = po_InstallerBreadthEvidence inputs,
                         po_GatewayBoundaryEvidence = po_GatewayBoundaryEvidence inputs,
                         po_DefaultDenyEgressEvidence = po_DefaultDenyEgressEvidence inputs,
                         po_AuditChainEvidence = po_AuditChainEvidence inputs,
                         po_ServiceCatalogEvidence = po_ServiceCatalogEvidence inputs,
                         po_PolicyGrantEvidence = po_PolicyGrantEvidence inputs,
                         po_TransactionEvidence = po_TransactionEvidence inputs,
                         po_BackupRestoreEvidence = po_BackupRestoreEvidence inputs,
                         po_RollbackEvidence = po_RollbackEvidence inputs,
                         po_LeakScanEvidence = po_LeakScanEvidence inputs,
                         po_EnterpriseComplianceEvidence = po_EnterpriseComplianceEvidence inputs,
                         po_AdversarialReviewEvidence = po_AdversarialReviewEvidence inputs\<rparr>)))"

definition IsProductionEvidenceCommand :: "string list \<Rightarrow> bool" where
  "IsProductionEvidenceCommand args \<longleftrightarrow> args \<noteq> [] \<and> (hd args = ''production-evidence'' \<or> hd args = ''--production-evidence'')"

definition HandleProductionEvidenceCommand ::
  "platform \<Rightarrow> buildinfo \<Rightarrow> visiting \<Rightarrow> 'fs disk \<Rightarrow> string list \<Rightarrow> writer \<Rightarrow> string \<Rightarrow> 'fs \<Rightarrow> goerror option \<times> 'fs" where
  "HandleProductionEvidenceCommand p b visit d args wr defaultComponent fs =
     (case ParseProductionEvidenceArgs p visit d (tl args) defaultComponent fs of
        Inl err \<Rightarrow> (Some err, fs)
      | Inr (outDir, opts) \<Rightarrow>
          (case WriteProductionEvidenceFragment p b visit d outDir opts fs of
             (Inl err, fs') \<Rightarrow> (Some (wrapf ''production-evidence: '' err), fs')
           | (Inr outPath, fs') \<Rightarrow> (wr (''production evidence: '' @ outPath @ [CHR 0x0A]), fs')))"

definition HandleCommand ::
  "platform \<Rightarrow> buildinfo \<Rightarrow> visiting \<Rightarrow> 'fs disk \<Rightarrow> string list \<Rightarrow> writer \<Rightarrow> string \<Rightarrow> 'fs \<Rightarrow> (bool \<times> goerror option) \<times> 'fs" where
  "HandleCommand p b visit d args wr component fs =
     (if args = [] then ((False, None), fs)
      else if hd args \<in> {''version'', ''--version'', ''-version''} then ((True, WriteVersion b wr component), fs)
      else if hd args \<in> {''release-manifest'', ''--release-manifest''} then ((True, WriteManifest b wr component), fs)
      else if hd args \<in> {''acceptance-record'', ''--acceptance-record''} then
        ((True, HandleAcceptanceRecordCommand p b visit (\<lambda>path. disk_Open d path fs) args wr component), fs)
      else if hd args \<in> {''production-evidence'', ''--production-evidence''} then
        (case HandleProductionEvidenceCommand p b visit d args wr component fs of (err, fs') \<Rightarrow> ((True, err), fs'))
      else ((False, None), fs))"

end
