(* ===== verification/ReleaseProps.thy ===== *)
theory ReleaseProps
  imports ProductionEvidence TopologyProps
begin

text \<open>
  Properties of the release commands: the scan for private topology and secrets is exactly the
  declarative meaning of its patterns, no internal address reaches a record, which options a record
  is built from, and that every file the production evidence refers to is on disk with the
  recorded digest.
\<close>

section \<open>Words and runes\<close>

lemma rune_value_multibyte:
  assumes "1 < rune_width s"
  shows "128 \<le> rune_value (take (rune_width s) s)"
proof (cases s)
  case (Cons a cs)
  let ?b = "of_char a :: nat"
  define n where "n = rune_need ?b"
  have w: "rune_width s = n" "n - 1 \<le> length cs"
    and lo: "byte_in (if ?b = 0xE0 then 0xA0 else if ?b = 0xF0 then 0x90 else 0x80)
              (if ?b = 0xED then 0x9F else if ?b = 0xF4 then 0x8F else 0xBF) (hd cs)"
    using assms Cons by (auto simp: rune_width.simps(2) Let_def n_def split: if_splits)
  have "n \<noteq> 0" "n \<noteq> 1" using assms w(1) by auto
  then consider "n = 2" "0xC2 \<le> ?b" | "n = 3" "0xE0 \<le> ?b" | "n = 4" "0xF0 \<le> ?b"
    by (auto simp: n_def rune_need_def split: if_splits)
  then show ?thesis
  proof cases
    case 1
    then obtain x xs where "cs = x # xs" using w(2) by (cases cs) auto
    then show ?thesis using 1 Cons w(1) by simp
  next
    case 2
    then obtain x y xs where cs: "cs = x # y # xs" using w(2) by (cases cs; cases "tl cs") auto
    have "(0xE0 :: nat) < ?b \<or> 0xA0 \<le> (of_char x :: nat)" using lo 2 cs by (auto simp: byte_in_def split: if_splits)
    then have "2 \<le> (?b - 0xE0) * 64 + (of_char x - 0x80)" by linarith
    then show ?thesis using 2 Cons cs w(1) by simp
  next
    case 3
    then obtain x y z xs where cs: "cs = x # y # z # xs" using w(2) by (cases cs; cases "tl cs"; cases "tl (tl cs)") auto
    have "(0xF0 :: nat) < ?b \<or> 0x90 \<le> (of_char x :: nat)" using lo 3 cs by (auto simp: byte_in_def split: if_splits)
    then have "2 \<le> (?b - 0xF0) * 64 + (of_char x - 0x80)" by linarith
    then show ?thesis using 3 Cons cs w(1) by simp
  qed
qed (use assms in simp)

lemma word_rune_char: "word_rune (rune_of c) \<longleftrightarrow> word_char c"
proof -
  have "rune_of c = int (of_char c)" "c = CHR ''_'' \<longleftrightarrow> (of_char c :: nat) = 95"
    by (simp_all add: of_nat_of_char of_char_eq_iff [symmetric, where ?'a = nat])
  then show ?thesis by (auto simp: word_rune_def in_ranges_def word_char_def alphanum_def less_eq_char_def)
qed

lemma word_rune_small: "128 \<le> x \<Longrightarrow> \<not> word_rune x"
  by (auto simp: word_rune_def in_ranges_def)

text \<open>A rune is a word rune only where a word character stands.\<close>

definition first_rune :: "string \<Rightarrow> rune" where
  "first_rune s = (let w = rune_width s in if w = 0 then 0xFFFD else if w = 1 then of_char (hd s) else int (rune_value (take w s)))"

lemma decode_runes_Cons: "decode_runes (c # cs) = first_rune (c # cs) # decode_runes (drop (max 1 (rune_width (c # cs)) - 1) cs)"
  by (simp add: decode_runes.simps(2) first_rune_def Let_def max_def)

lemma first_rune_word: "word_rune (first_rune (c # cs)) \<Longrightarrow> rune_width (c # cs) = 1 \<and> word_char c"
proof -
  assume f: "word_rune (first_rune (c # cs))"
  consider "rune_width (c # cs) = 0" | "rune_width (c # cs) = 1" | "1 < rune_width (c # cs)" by linarith
  then show ?thesis
  proof cases
    case 1
    then show ?thesis using f word_rune_small [of "0xFFFD"] by (simp add: first_rune_def)
  next
    case 2
    then show ?thesis using f by (simp add: first_rune_def word_rune_char)
  next
    case 3
    then show ?thesis using f rune_value_multibyte [OF 3] word_rune_small [of "int (rune_value (take (rune_width (c # cs)) (c # cs)))"]
      by (simp add: first_rune_def)
  qed
qed

lemma last_rune_word: "decode_runes s \<noteq> [] \<Longrightarrow> word_rune (last (decode_runes s)) \<Longrightarrow> word_char (last s)"
proof (induction s rule: length_induct)
  case (1 s)
  then obtain c cs where s: "s = c # cs" by (cases s) auto
  let ?t = "drop (max 1 (rune_width (c # cs)) - 1) cs"
  show ?case
  proof (cases "decode_runes ?t = []")
    case True
    then have t: "?t = []" by (cases ?t) (simp_all add: decode_runes_Cons)
    then have "word_rune (first_rune (c # cs))" using 1(3) s True by (simp add: decode_runes_Cons)
    then show ?thesis using t first_rune_word [of c cs] s by simp
  next
    case False
    then have t: "?t \<noteq> []" by auto
    then have "last ?t = last s" using s by (cases cs) (simp_all add: last_drop)
    moreover have "length ?t < length s" using s by simp
    moreover have "word_rune (last (decode_runes ?t))" using 1(3) s False by (simp add: decode_runes_Cons)
    ultimately show ?thesis using 1(1) False by metis
  qed
qed

lemma hd_rune_word: "s \<noteq> [] \<Longrightarrow> decode_runes s \<noteq> [] \<and> (word_rune (hd (decode_runes s)) \<longrightarrow> word_char (hd s))"
  using first_rune_word by (cases s) (auto simp: decode_runes_Cons)

section \<open>Internal addresses\<close>

text \<open>The addresses of the private ranges, and the loopback address.\<close>

definition leaky :: "nat list \<Rightarrow> bool" where
  "leaky os \<longleftrightarrow> octets os \<and> (IsPrivate (IP4 os) \<or> os = [127, 0, 0, 1])"

abbreviation digit_class :: regex where "digit_class \<equiv> Class False False [(48, 57)]"
abbreviation dot_class :: regex where "dot_class \<equiv> Class False False [(46, 46)]"
abbreviation lit :: "char \<Rightarrow> regex" where "lit c \<equiv> Class False False [(rune_of c, rune_of c)]"

definition digits13 :: regex where
  "digits13 = Seq digit_class (Alt (Seq digit_class (Alt (Seq digit_class Empty) Empty)) Empty)"

text \<open>Matching stretches of runes: from just before \<open>xs\<close> to just after it, whatever follows.\<close>

definition eats :: "regex \<Rightarrow> rune list \<Rightarrow> bool" where
  "eats r xs \<longleftrightarrow> (\<forall>before rest. (if xs = [] then before else Some (last xs), rest) \<in> set (ends r (before, xs @ rest)))"

lemma eats_class: "in_class neg ci rs x \<Longrightarrow> eats (Class neg ci rs) [x]"
  by (simp add: eats_def)

lemma eats_Empty: "eats Empty []"
  by (simp add: eats_def)

lemma eats_Seq: "eats r xs \<Longrightarrow> eats t ys \<Longrightarrow> eats (Seq r t) (xs @ ys)"
  unfolding eats_def
proof (intro allI)
  fix before rest
  assume r: "\<forall>before rest. (if xs = [] then before else Some (last xs), rest) \<in> set (ends r (before, xs @ rest))"
    and t: "\<forall>before rest. (if ys = [] then before else Some (last ys), rest) \<in> set (ends t (before, ys @ rest))"
  let ?mid = "if xs = [] then before else Some (last xs)"
  have 1: "(?mid, ys @ rest) \<in> set (ends r (before, (xs @ ys) @ rest))" using r by (simp only: append_assoc)
  have 2: "(if ys = [] then ?mid else Some (last ys), rest) \<in> set (ends t (?mid, ys @ rest))" using t by blast
  have 3: "(if xs @ ys = [] then before else Some (last (xs @ ys))) = (if ys = [] then ?mid else Some (last ys))" by simp
  show "(if xs @ ys = [] then before else Some (last (xs @ ys)), rest) \<in> set (ends (Seq r t) (before, (xs @ ys) @ rest))"
    unfolding 3 by (rule reach_Seq [OF 1 2])
qed

lemma eats_Alt: "eats r xs \<or> eats t xs \<Longrightarrow> eats (Alt r t) xs"
  by (auto simp: eats_def)

lemma eats_lit: "eats (lit c) [rune_of c]"
  by (rule eats_class) (simp add: in_class_def in_ranges_def)

lemma digit_in_class: "is_digit c \<Longrightarrow> in_class False False [(48, 57)] (rune_of c)"
proof -
  have "rune_of c = int (of_char c)" by (simp add: of_nat_of_char)
  then show "is_digit c \<Longrightarrow> ?thesis" by (simp add: in_class_def in_ranges_def is_digit_def byte_in_def)
qed

lemma eats_digits:
  assumes "ds \<noteq> []" "length ds \<le> 3" "list_all is_digit ds"
  shows "eats digits13 (map rune_of ds)"
proof -
  have d: "eats digit_class [rune_of c]" if "is_digit c" for c by (rule eats_class [OF digit_in_class [OF that]])
  have more: "eats (Alt (Seq digit_class r) Empty) (rune_of c # xs)" if "is_digit c" "eats r xs" for c r xs
    using eats_Seq [OF d [OF that(1)] that(2)] by (intro eats_Alt) simp
  have stop: "eats (Alt r Empty) []" for r by (intro eats_Alt disjI2 eats_Empty)
  obtain a as where ds: "ds = a # as" using assms(1) by (cases ds) auto
  have "eats (Alt (Seq digit_class (Alt (Seq digit_class Empty) Empty)) Empty) (map rune_of as)"
  proof (cases as)
    case (Cons b bs)
    have "eats (Alt (Seq digit_class Empty) Empty) (map rune_of bs)"
    proof (cases bs)
      case (Cons c cs)
      then show ?thesis using more [OF _ eats_Empty, of c] assms ds \<open>as = b # bs\<close> by auto
    qed (simp add: stop)
    then show ?thesis using more [of b] assms(3) ds Cons by simp
  qed (simp add: stop)
  then show ?thesis unfolding digits13_def ds using eats_Seq [OF d, of a] assms(3) ds by fastforce
qed

text \<open>Whether a match can begin at a place.\<close>

definition goes :: "regex \<Rightarrow> rune option \<Rightarrow> rune list \<Rightarrow> bool" where
  "goes r before xs \<longleftrightarrow> ends r (before, xs) \<noteq> []"

lemma goes_Seq: "eats r xs \<Longrightarrow> goes t (if xs = [] then before else Some (last xs)) ys \<Longrightarrow> goes (Seq r t) before (xs @ ys)"
proof -
  assume "eats r xs" "goes t (if xs = [] then before else Some (last xs)) ys"
  then have "(if xs = [] then before else Some (last xs), ys) \<in> set (ends r (before, xs @ ys))"
    "ends t (if xs = [] then before else Some (last xs), ys) \<noteq> []" unfolding eats_def goes_def by blast+
  then show ?thesis by (force simp: goes_def)
qed

lemma goes_Assert: "holds a before xs \<Longrightarrow> goes t before xs \<Longrightarrow> goes (Seq (Assert a) t) before xs"
  by (simp add: goes_def)

definition dotted :: "regex \<Rightarrow> regex" where
  "dotted t = Seq dot_class (Seq digits13 t)"

definition bounded_end :: regex where "bounded_end = Seq (Assert WordBoundary) Empty"

lemma quad_patterns:
  "MustCompile ''`b10`.`d{1,3}`.`d{1,3}`.`d{1,3}`b'' =
     Seq (Assert WordBoundary) (Seq (lit CHR ''1'') (Seq (lit CHR ''0'') (dotted (dotted (dotted bounded_end)))))"
  "MustCompile ''`b172`.(1[6-9]|2`d|3[0-1])`.`d{1,3}`.`d{1,3}`b'' =
     Seq (Assert WordBoundary) (Seq (lit CHR ''1'') (Seq (lit CHR ''7'') (Seq (lit CHR ''2'') (Seq dot_class (Seq
       (Alt (Alt (Seq (lit CHR ''1'') (Seq (Class False False [(54, 57)]) Empty)) (Seq (lit CHR ''2'') (Seq digit_class Empty)))
         (Seq (lit CHR ''3'') (Seq (Class False False [(48, 49)]) Empty))) (dotted (dotted bounded_end)))))))"
  "MustCompile ''`b192`.168`.`d{1,3}`.`d{1,3}`b'' =
     Seq (Assert WordBoundary) (Seq (lit CHR ''1'') (Seq (lit CHR ''9'') (Seq (lit CHR ''2'') (Seq dot_class
       (Seq (lit CHR ''1'') (Seq (lit CHR ''6'') (Seq (lit CHR ''8'') (dotted (dotted bounded_end))))))))) "
  "MustCompile ''`b127`.0`.0`.1`b'' =
     Seq (Assert WordBoundary) (Seq (lit CHR ''1'') (Seq (lit CHR ''2'') (Seq (lit CHR ''7'') (Seq dot_class
       (Seq (lit CHR ''0'') (Seq dot_class (Seq (lit CHR ''0'') (Seq dot_class (Seq (lit CHR ''1'') bounded_end)))))))))"
  by code_simp+

lemma unsafe_quad_patterns:
  "list_all (\<lambda>p. p \<in> set unsafe_patterns) [''`b10`.`d{1,3}`.`d{1,3}`.`d{1,3}`b'', ''`b172`.(1[6-9]|2`d|3[0-1])`.`d{1,3}`.`d{1,3}`b'',
     ''`b192`.168`.`d{1,3}`.`d{1,3}`b'', ''`b127`.0`.0`.1`b'']"
  by (simp add: unsafe_patterns_def)

lemma goes_dotted: "n < 256 \<Longrightarrow> goes t (Some (rune_of (last (dec_nat n)))) xs \<Longrightarrow> goes (dotted t) before (46 # map rune_of (dec_nat n) @ xs)"
proof -
  assume n: "n < 256" and t: "goes t (Some (rune_of (last (dec_nat n)))) xs"
  have "dec_nat n \<noteq> []" "list_all is_digit (dec_nat n)" "length (dec_nat n) \<le> 3"
    using dec_nat_chars octet_dec_nat(2) [OF n] by (auto simp: list_all_iff)
  then have "goes (Seq digits13 t) (Some 46) (map rune_of (dec_nat n) @ xs)"
    using t by (intro goes_Seq eats_digits) (simp_all add: last_map)
  moreover have "eats dot_class [46]" by (rule eats_class) (simp add: in_class_def in_ranges_def)
  ultimately show ?thesis unfolding dotted_def using goes_Seq [of dot_class "[46]"] by fastforce
qed

lemma goes_rune: "goes t (Some x) xs \<Longrightarrow> goes (Seq (Class False False [(x, x)]) t) before (x # xs)"
  using goes_Seq [OF eats_class [of False False "[(x, x)]" x], of t before xs] by (simp add: in_class_def in_ranges_def)

lemma goes_end: "word_rune d \<Longrightarrow> xs = [] \<or> \<not> word_rune (hd xs) \<Longrightarrow> goes bounded_end (Some d) xs"
  unfolding bounded_end_def by (cases xs) (simp_all add: goes_def)

lemma class_B_octet:
  assumes "n div 16 = 1"
  shows "eats (Alt (Alt (Seq (lit CHR ''1'') (Seq (Class False False [(54, 57)]) Empty)) (Seq (lit CHR ''2'') (Seq digit_class Empty)))
         (Seq (lit CHR ''3'') (Seq (Class False False [(48, 49)]) Empty))) (map rune_of (dec_nat n))"
proof -
  have "list_all (\<lambda>n. \<exists>(a, lo, hi) \<in> set [(CHR ''1'', 54, 57), (CHR ''2'', 48, 57), (CHR ''3'', 48, 49)].
      case dec_nat n of [x, y] \<Rightarrow> x = a \<and> lo \<le> rune_of y \<and> rune_of y \<le> hi | _ \<Rightarrow> False) [16..<32]" by code_simp
  moreover have "16 \<le> n \<and> n < 32" using assms by presburger
  then have "n \<in> set [16..<32]" by (simp only: set_upt atLeastLessThan_iff)
  ultimately obtain a lo hi y where n: "(a, lo, hi) \<in> set [(CHR ''1'', 54, 57), (CHR ''2'', 48, 57), (CHR ''3'', 48, 49 :: rune)]"
    "dec_nat n = [a, y]" "lo \<le> rune_of y" "rune_of y \<le> hi"
    unfolding list_all_iff by (fastforce split: list.splits)
  have "eats (Seq (lit a) (Seq (Class False False [(lo, hi)]) Empty)) ([rune_of a] @ [rune_of y] @ [])"
    using n(3,4) by (intro eats_Seq eats_lit eats_class eats_Empty) (simp add: in_class_def in_ranges_def)
  then show ?thesis using n(1,2) by (auto intro!: eats_Alt)
qed

lemma leaky_goes:
  assumes "leaky os" "\<And>x. before = Some x \<Longrightarrow> \<not> word_rune x" "xs = [] \<or> \<not> word_rune (hd xs)"
  shows "\<exists>p \<in> set unsafe_patterns. goes (MustCompile p) before (map rune_of (octets_string os) @ xs)"
proof -
  obtain a b c d where os: "os = [a, b, c, d]" "b < 256" "c < 256" "d < 256"
    and s: "octets_string os = dec_nat a @ CHR ''.'' # dec_nat b @ CHR ''.'' # dec_nat c @ CHR ''.'' # dec_nat d"
    using assms(1) octets_cases unfolding leaky_def by metis
  have digit: "word_rune (rune_of (last (dec_nat n)))" for n
    using dec_nat_chars [OF last_in_set, of n] digit_facts by (simp add: word_rune_char)
  note fin = goes_end [OF digit assms(3)]
  have start: "holds WordBoundary before (x # ys)" if "word_rune x" for x ys
    using that assms(2) by (cases before) auto
  have one: "word_rune 49" by code_simp
  have dec: "dec_nat 10 = ''10''" "dec_nat 172 = ''172''" "dec_nat 192 = ''192''" "dec_nat 168 = ''168''" "dec_nat 127 = ''127''" "dec_nat 0 = ''0''" "dec_nat 1 = ''1''"
    by code_simp+
  have pats: "p \<in> set unsafe_patterns" if "p \<in> {''`b10`.`d{1,3}`.`d{1,3}`.`d{1,3}`b'', ''`b172`.(1[6-9]|2`d|3[0-1])`.`d{1,3}`.`d{1,3}`b'',
     ''`b192`.168`.`d{1,3}`.`d{1,3}`b'', ''`b127`.0`.0`.1`b''}" for p using that unsafe_quad_patterns by auto
  note go = goes_Assert start one goes_rune goes_dotted fin os(2-4)
  consider "a = 10" | "a = 172" "b div 16 = 1" | "a = 192" "b = 168" | "os = [127, 0, 0, 1]"
    using assms(1) os(1) by (auto simp: leaky_def)
  then show ?thesis
  proof cases
    case 1
    have "goes (MustCompile ''`b10`.`d{1,3}`.`d{1,3}`.`d{1,3}`b'') before (map rune_of (octets_string os) @ xs)"
      unfolding s 1 dec quad_patterns(1) by (simp, intro go)
    then show ?thesis using pats by blast
  next
    case 2
    have "goes (MustCompile ''`b172`.(1[6-9]|2`d|3[0-1])`.`d{1,3}`.`d{1,3}`b'') before (map rune_of (octets_string os) @ xs)"
      unfolding s 2(1) dec quad_patterns(2) by (simp, intro go goes_Seq [OF class_B_octet [OF 2(2), simplified]])
    then show ?thesis using pats by blast
  next
    case 3
    have "goes (MustCompile ''`b192`.168`.`d{1,3}`.`d{1,3}`b'') before (map rune_of (octets_string os) @ xs)"
      unfolding s 3 dec quad_patterns(3) by (simp, intro go)
    then show ?thesis using pats by blast
  next
    case 4
    then have q: "a = 127" "b = 0" "c = 0" "d = 1" using os(1) by auto
    have "goes (MustCompile ''`b127`.0`.0`.1`b'') before (map rune_of (octets_string os) @ xs)"
      unfolding s q dec quad_patterns(4) by (simp, intro go goes_end [OF one assms(3)])
    then show ?thesis using pats by blast
  qed
qed

lemma leaky_scanned:
  assumes "leaky os" "text = pre @ octets_string os @ post"
    and "pre = [] \<or> \<not> word_char (last pre)" "post = [] \<or> \<not> word_char (hd post)"
  shows "ScanAcceptanceEvidence text = Some unsafe_evidence"
proof -
  note q = quad_chars [of os]
  have m: "octets_string os \<noteq> []" "list_all ascii (octets_string os)"
  proof -
    have "ascii CHR ''.''" by code_simp
    then show "octets_string os \<noteq> []" "list_all ascii (octets_string os)"
      using assms(1) q digit_facts unfolding leaky_def list_all_iff by blast+
  qed
  let ?ps = "decode_runes pre" and ?xs = "decode_runes post"
  have "\<not> word_rune x" if "(if ?ps = [] then None else Some (last ?ps)) = Some x" for x
    using that assms(3) last_rune_word [of pre] by (auto split: if_splits)
  moreover have "?xs = [] \<or> \<not> word_rune (hd ?xs)" using assms(4) hd_rune_word [of post] by (cases "post = []") auto
  ultimately obtain p where p: "p \<in> set unsafe_patterns"
    "goes (MustCompile p) (if ?ps = [] then None else Some (last ?ps)) (map rune_of (octets_string os) @ ?xs)"
    using leaky_goes [OF assms(1)] by blast
  then have "search (MustCompile p) None (?ps @ map rune_of (octets_string os) @ ?xs)"
    by (intro search_finds) (simp add: goes_def)
  then have "MatchString (MustCompile p) text"
    unfolding MatchString_def assms(2) decode_runes_around [OF m] .
  then show ?thesis using p(1) by (auto simp: ScanAcceptanceEvidence_def acceptanceUnsafeEvidence_def list_ex_iff)
qed

section \<open>The shape patterns\<close>

lemma ascii_runes: "list_all (\<lambda>x. x < 128) (decode_runes t) \<Longrightarrow> decode_runes t = map rune_of t"
proof (induction t rule: length_induct)
  case (1 t)
  show ?case
  proof (cases t)
    case (Cons c cs)
    then have f: "first_rune (c # cs) < 128" "list_all (\<lambda>x. x < 128) (decode_runes (drop (max 1 (rune_width (c # cs)) - 1) cs))"
      using 1(2) by (simp_all add: decode_runes_Cons)
    have "rune_width (c # cs) = 1"
    proof (rule ccontr)
      assume "rune_width (c # cs) \<noteq> 1"
      then show False using f(1) rune_value_multibyte [of "c # cs"]
        by (cases "rune_width (c # cs) = 0") (auto simp: first_rune_def Let_def)
    qed
    then show ?thesis using f 1(1) Cons by (simp add: decode_runes_Cons first_rune_def)
  qed simp
qed

lemma matches_times:
  "i \<le> length s \<Longrightarrow> matches s (repeat_times n (Class ng ci rs) t) i j \<longleftrightarrow>
     i + n \<le> length s \<and> (\<forall>k < n. in_class ng ci rs (s ! (i + k))) \<and> matches s t (i + n) j"
proof (induction n arbitrary: i)
  case (Suc n)
  have "(\<forall>k < Suc n. in_class ng ci rs (s ! (i + k))) \<longleftrightarrow> in_class ng ci rs (s ! i) \<and> (\<forall>k < n. in_class ng ci rs (s ! (Suc i + k)))"
    by (auto simp: less_Suc_eq_0_disj)
  then show ?case using Suc.IH [of "Suc i"] by (cases "i < length s") auto
qed simp

lemma all_from: "i < j \<Longrightarrow> (\<forall>k. i \<le> k \<and> k < j \<longrightarrow> P k) \<longleftrightarrow> P i \<and> (\<forall>k. Suc i \<le> k \<and> k < (j :: nat) \<longrightarrow> P k)"
  by (metis Suc_leD Suc_leI le_neq_implies_less order_refl)

lemma matches_up_to:
  "i \<le> length s \<Longrightarrow> matches s (up_to n (Class ng ci rs)) i j \<longleftrightarrow>
     i \<le> j \<and> j \<le> i + n \<and> j \<le> length s \<and> (\<forall>k. i \<le> k \<and> k < j \<longrightarrow> in_class ng ci rs (s ! k))"
proof (induction n arbitrary: i)
  case (Suc n)
  have step: "matches s (up_to (Suc n) (Class ng ci rs)) i j \<longleftrightarrow>
      i < length s \<and> in_class ng ci rs (s ! i) \<and> matches s (up_to n (Class ng ci rs)) (Suc i) j \<or> j = i" by auto
  consider "i < j" | "i = j" | "j < i" by linarith
  then show ?case
  proof cases
    case 1
    show ?thesis
    proof (cases "i < length s")
      case True
      then show ?thesis unfolding step using Suc.IH [of "Suc i"] all_from [OF 1, of "\<lambda>k. in_class ng ci rs (s ! k)"] 1
        by (simp add: conj_commute conj_left_commute)
    qed (use 1 step in simp)
  next
    case 3
    then have "\<not> matches s (up_to n (Class ng ci rs)) (Suc i) j" if "i < length s" using Suc.IH [of "Suc i"] that by simp
    then show ?thesis unfolding step using 3 by auto
  qed (use Suc.prems step in auto)
qed auto

definition lower_hex :: "char \<Rightarrow> bool" where
  "lower_hex c \<longleftrightarrow> byte_in 48 57 c \<or> byte_in 97 102 c"

lemma rune_of_int: "rune_of c = int (of_char c)"
  by (simp add: of_nat_of_char)

lemma hex_in_class: "in_class False False [(48, 57), (97, 102)] (rune_of c) \<longleftrightarrow> lower_hex c"
  unfolding rune_of_int by (auto simp: in_class_def in_ranges_def lower_hex_def byte_in_def)

lemma digit_in_class_iff: "in_class False False [(48, 57)] (rune_of c) \<longleftrightarrow> is_digit c"
  unfolding rune_of_int by (auto simp: in_class_def in_ranges_def is_digit_def byte_in_def)

lemma rune_in_class_iff: "in_class False False [(rune_of d, rune_of d)] (rune_of c) \<longleftrightarrow> c = d"
  unfolding rune_of_int by (auto simp: in_class_def in_ranges_def)

lemma small_class: "in_class False False rs x \<Longrightarrow> list_all (\<lambda>(lo, hi). hi < 128) rs \<Longrightarrow> x < 128"
  by (fastforce simp: in_class_def in_ranges_def list_ex_iff list_all_iff)

lemma hex_small: "in_class False False [(48, 57), (97, 102)] x \<Longrightarrow> x < 128"
  by (erule small_class) simp

lemma anchored:
  "MatchString (Seq (Assert TextBegin) r) t \<longleftrightarrow> (\<exists>j. matches (decode_runes t) r 0 j)"
  by (auto simp: MatchString_matches place_def)

lemma matches_end: "i \<le> length s \<Longrightarrow> matches s (Seq (Assert TextEnd) Empty) i j \<longleftrightarrow> i = length s \<and> j = i"
  by (auto simp: place_def)

abbreviation hex_class :: regex where "hex_class \<equiv> Class False False [(48, 57), (97, 102)]"

lemma hex_shape:
  "MatchString (Seq (Assert TextBegin) (Seq (repeat_times n hex_class (up_to m hex_class)) (Seq (Assert TextEnd) Empty))) t \<longleftrightarrow>
     n \<le> length t \<and> length t \<le> n + m \<and> list_all lower_hex t"
proof -
  let ?s = "decode_runes t"
  have "(\<exists>j. matches ?s (Seq (repeat_times n hex_class (up_to m hex_class)) (Seq (Assert TextEnd) Empty)) 0 j) \<longleftrightarrow>
      matches ?s (repeat_times n hex_class (up_to m hex_class)) 0 (length ?s)"
  proof -
    have "matches ?s (Seq (Assert TextEnd) Empty) k j \<longleftrightarrow> k = length ?s \<and> j = k" if "matches ?s (repeat_times n hex_class (up_to m hex_class)) 0 k" for k j
      using matches_range [OF that] by (simp only: matches_end)
    then show ?thesis unfolding matches.simps(4) [of ?s "repeat_times n hex_class (up_to m hex_class)"] by metis
  qed
  also have "\<dots> \<longleftrightarrow> n \<le> length ?s \<and> length ?s \<le> n + m \<and> (\<forall>k < length ?s. in_class False False [(48, 57), (97, 102)] (?s ! k))"
  proof -
    have "(\<forall>k < length ?s. P k) \<longleftrightarrow> (\<forall>k < n. P k) \<and> (\<forall>k. n \<le> k \<and> k < length ?s \<longrightarrow> P k)" if "n \<le> length ?s" for P
      using that by (meson dual_order.strict_trans2 not_le)
    then show ?thesis by (cases "n \<le> length ?s") (auto simp: matches_times matches_up_to)
  qed
  also have "\<dots> \<longleftrightarrow> n \<le> length t \<and> length t \<le> n + m \<and> list_all lower_hex t"
  proof -
    have runes: "?s = map rune_of t" if "list_all lower_hex t"
    proof -
      have "list_all ascii t" using that by (fastforce simp: list_all_iff lower_hex_def byte_in_def ascii_def)
      then show ?thesis using decode_runes_text [of t "[]"] by simp
    qed
    have "(\<forall>k < length ?s. in_class False False [(48, 57), (97, 102)] (?s ! k)) \<longleftrightarrow> list_all lower_hex t"
    proof
      assume all: "\<forall>k < length ?s. in_class False False [(48, 57), (97, 102)] (?s ! k)"
      then have "?s = map rune_of t" using hex_small ascii_runes [of t] by (simp add: list_all_length)
      then show "list_all lower_hex t" using all by (simp add: list_all_length hex_in_class)
    qed (simp add: runes list_all_length hex_in_class)
    moreover have "length ?s = length t" if "list_all lower_hex t" using runes [OF that] by simp
    ultimately show ?thesis by metis
  qed
  finally show ?thesis unfolding anchored .
qed

lemma commit_shape: "MatchString acceptanceCommitPattern t \<longleftrightarrow> 7 \<le> length t \<and> length t \<le> 40 \<and> list_all lower_hex t"
proof -
  have "acceptanceCommitPattern = Seq (Assert TextBegin) (Seq (repeat_times 7 hex_class (up_to 33 hex_class)) (Seq (Assert TextEnd) Empty))"
    by code_simp
  then show ?thesis using hex_shape [of 7 33 t] by (simp del: repeat_times.simps up_to.simps)
qed

lemma digest_shape: "MatchString acceptanceSHA256Pattern t \<longleftrightarrow> length t = 64 \<and> list_all lower_hex t"
proof -
  have "acceptanceSHA256Pattern = Seq (Assert TextBegin) (Seq (repeat_times 64 hex_class (up_to 0 hex_class)) (Seq (Assert TextEnd) Empty))"
    by code_simp
  then show ?thesis using hex_shape [of 64 0 t] by (auto simp del: repeat_times.simps up_to.simps)
qed

text \<open>Patterns of a fixed length: one class for each rune.\<close>

type_synonym rune_class = "bool \<times> bool \<times> (rune \<times> rune) list"

definition rune_in :: "rune \<Rightarrow> rune_class \<Rightarrow> bool" where
  "rune_in x c = (case c of (neg, ci, rs) \<Rightarrow> in_class neg ci rs x)"

fun classes :: "regex \<Rightarrow> rune_class list option" where
  "classes (Class neg ci rs) = Some [(neg, ci, rs)]"
| "classes Empty = Some []"
| "classes (Seq r t) = (case (classes r, classes t) of (Some cs, Some ds) \<Rightarrow> Some (cs @ ds) | _ \<Rightarrow> None)"
| "classes _ = None"

lemma matches_classes:
  "classes r = Some cs \<Longrightarrow> i \<le> length s \<Longrightarrow> matches s r i j \<longleftrightarrow> j = i + length cs \<and> j \<le> length s \<and> list_all2 rune_in (take (length cs) (drop i s)) cs"
proof (induction r arbitrary: cs i j rule: classes.induct)
  case (1 neg ci rs)
  then show ?case by (cases "i < length s") (auto simp: rune_in_def Cons_nth_drop_Suc [symmetric])
next
  case (3 r t)
  then obtain as bs where c: "classes r = Some as" "classes t = Some bs" "cs = as @ bs" by (auto split: option.splits)
  have "take (length cs) (drop i s) = take (length as) (drop i s) @ take (length bs) (drop (i + length as) s)"
    using c(3) by (simp add: take_add add.commute)
  moreover have "length (take (length as) (drop i s)) = length as" if "i + length as \<le> length s" using that by simp
  ultimately have "list_all2 rune_in (take (length cs) (drop i s)) cs \<longleftrightarrow>
      list_all2 rune_in (take (length as) (drop i s)) as \<and> list_all2 rune_in (take (length bs) (drop (i + length as) s)) bs"
    if "i + length as \<le> length s" using that c(3) by (simp add: list_all2_append)
  moreover have "matches s (Seq r t) i j \<longleftrightarrow> i + length as \<le> length s \<and> list_all2 rune_in (take (length as) (drop i s)) as \<and> matches s t (i + length as) j"
    unfolding matches.simps(4) 3(1) [OF c(1) 3(4)] by blast
  ultimately show ?case using 3(2) [OF c(2), of "i + length as" j] c(3) by (cases "i + length as \<le> length s") auto
qed auto

definition shaped :: "string \<Rightarrow> string \<Rightarrow> bool" where
  "shaped fmt t \<longleftrightarrow> list_all2 (\<lambda>f c. if f = CHR ''d'' then is_digit c else c = f) fmt t"

definition format_class :: "char \<Rightarrow> rune_class" where
  "format_class f = (False, False, if f = CHR ''d'' then [(48, 57)] else [(rune_of f, rune_of f)])"

fun fixed :: "regex \<Rightarrow> rune_class list option" where
  "fixed (Seq (Assert a) t) = (if a = TextEnd \<and> t = Empty then Some [] else None)"
| "fixed (Seq r t) = (case (classes r, fixed t) of (Some cs, Some ds) \<Rightarrow> Some (cs @ ds) | _ \<Rightarrow> None)"
| "fixed _ = None"

lemma fixed_Seq:
  "fixed (Seq r t) = Some cs \<Longrightarrow>
     (r = Assert TextEnd \<and> t = Empty \<and> cs = []) \<or> (\<exists>as bs. classes r = Some as \<and> fixed t = Some bs \<and> cs = as @ bs)"
  by (cases r) (auto split: if_splits option.splits)

lemma matches_fixed:
  "fixed r = Some cs \<Longrightarrow> i \<le> length s \<Longrightarrow> (\<exists>j. matches s r i j) \<longleftrightarrow> list_all2 rune_in (drop i s) cs"
proof (induction r arbitrary: cs i)
  case (Seq r t)
  from fixed_Seq [OF Seq.prems(1)] show ?case
  proof
    assume "r = Assert TextEnd \<and> t = Empty \<and> cs = []"
    then show ?thesis by (auto simp: place_def)
  next
    assume "\<exists>as bs. classes r = Some as \<and> fixed t = Some bs \<and> cs = as @ bs"
    then obtain as bs where c: "classes r = Some as" "fixed t = Some bs" "cs = as @ bs" by blast
    have "list_all2 rune_in (drop i s) cs \<longleftrightarrow> i + length as \<le> length s \<and>
        list_all2 rune_in (take (length as) (drop i s)) as \<and> list_all2 rune_in (drop (i + length as) s) bs"
    proof (cases "i + length as \<le> length s")
      case True
      then have l: "length (take (length as) (drop i s)) = length as" by simp
      have "drop i s = take (length as) (drop i s) @ drop (i + length as) s" by (metis append_take_drop_id drop_drop add.commute)
      then show ?thesis using True list_all2_append [OF l, of rune_in "drop (i + length as) s" bs] c(3) by metis
    next
      case False
      then show ?thesis using c(3) Seq.prems(2) by (auto dest!: list_all2_lengthD)
    qed
    then show ?thesis using matches_classes [OF c(1) Seq.prems(2)] Seq.IH(2) [OF c(2), of "i + length as"] by auto
  qed
qed simp_all

lemma in_format_class: "rune_in (rune_of c) (format_class f) \<longleftrightarrow> (if f = CHR ''d'' then is_digit c else c = f)"
  by (simp add: rune_in_def format_class_def digit_in_class_iff rune_in_class_iff)

lemma fixed_shape:
  assumes "fixed r = Some (map format_class fmt)" "list_all ascii fmt"
  shows "MatchString (Seq (Assert TextBegin) r) t \<longleftrightarrow> shaped fmt t"
proof -
  let ?s = "decode_runes t"
  have small: "x < 128" if "rune_in x (format_class f)" "ascii f" for x f
  proof -
    have "rune_of f = int (of_char f)" "(of_char f :: nat) < 128" using that(2) by (simp_all add: ascii_def of_nat_of_char)
    then show ?thesis using that(1) small_class [of "[(rune_of f, rune_of f)]" x] small_class [of "[(48, 57)]" x]
      by (auto simp: rune_in_def format_class_def split: if_splits)
  qed
  have "MatchString (Seq (Assert TextBegin) r) t \<longleftrightarrow> list_all2 (\<lambda>x f. rune_in x (format_class f)) ?s fmt"
    unfolding anchored using matches_fixed [OF assms(1), of 0 ?s] by (simp add: list_all2_map2)
  also have "\<dots> \<longleftrightarrow> shaped fmt t"
  proof
    assume l: "list_all2 (\<lambda>x f. rune_in x (format_class f)) ?s fmt"
    then have "list_all (\<lambda>x. x < 128) ?s" using small assms(2) by (fastforce simp: list_all2_conv_all_nth list_all_length)
    then have "?s = map rune_of t" by (rule ascii_runes)
    then show "shaped fmt t" using l by (simp add: list_all2_map1 in_format_class shaped_def list_all2_conv_all_nth)
  next
    assume sh: "shaped fmt t"
    then have "list_all ascii t" using assms(2)
      by (fastforce simp: shaped_def list_all2_conv_all_nth list_all_length is_digit_def byte_in_def ascii_def split: if_splits)
    then have "?s = map rune_of t" using decode_runes_text [of t "[]"] by simp
    then show "list_all2 (\<lambda>x f. rune_in x (format_class f)) ?s fmt"
      using sh by (simp add: list_all2_map1 in_format_class shaped_def list_all2_conv_all_nth)
  qed
  finally show ?thesis .
qed

definition after_begin :: "regex \<Rightarrow> regex" where
  "after_begin r = (case r of Seq _ t \<Rightarrow> t | _ \<Rightarrow> Empty)"

lemma ascii_formats: "list_all ascii ''dddd-dd-dd''" "list_all ascii ''dddd-dd-ddTdd:dd:ddZ''"
  by code_simp+

lemma date_shape: "MatchString acceptanceDatePattern t \<longleftrightarrow> shaped ''dddd-dd-dd'' t"
proof -
  have "fixed (after_begin acceptanceDatePattern) = Some (map format_class ''dddd-dd-dd'')" by code_simp
  moreover have "acceptanceDatePattern = Seq (Assert TextBegin) (after_begin acceptanceDatePattern)" by code_simp
  ultimately show ?thesis using fixed_shape [OF _ ascii_formats(1)] by metis
qed

lemma time_shape: "MatchString acceptanceRFC3339Pattern t \<longleftrightarrow> shaped ''dddd-dd-ddTdd:dd:ddZ'' t"
proof -
  have "fixed (after_begin acceptanceRFC3339Pattern) = Some (map format_class ''dddd-dd-ddTdd:dd:ddZ'')" by code_simp
  moreover have "acceptanceRFC3339Pattern = Seq (Assert TextBegin) (after_begin acceptanceRFC3339Pattern)" by code_simp
  ultimately show ?thesis using fixed_shape [OF _ ascii_formats(2)] by metis
qed

section \<open>The options of a record\<close>

text \<open>A \<open>range\<close> over a map visits every entry and nothing else, in some order.\<close>

definition visits_all :: "visiting \<Rightarrow> bool" where
  "visits_all visit \<longleftrightarrow> (\<forall>n xs. set (visit n xs) = set xs)"

lemma first_failing_None: "first_failing check nvs = None \<longleftrightarrow> (\<forall>nv \<in> set nvs. check nv = None)"
proof (cases "find (\<lambda>nv. check nv \<noteq> None) nvs")
  case None
  then have "\<forall>nv \<in> set nvs. check nv = None" by (auto simp: find_None_iff)
  then show ?thesis using None by (simp add: first_failing_def)
next
  case (Some nv)
  then have "nv \<in> set nvs" "check nv \<noteq> None" by (auto simp: find_Some_iff)
  then show ?thesis using Some by (auto simp: first_failing_def)
qed

lemma check_None_iff:
  "check_required_option nv = None \<longleftrightarrow> TrimSpace (snd nv) \<noteq> []"
  "check_digest_option nv = None \<longleftrightarrow> length (snd nv) = 64 \<and> list_all lower_hex (snd nv)"
  "check_safe_option nv = None \<longleftrightarrow> ScanAcceptanceEvidence (snd nv) = None"
  "check_evidence_option nv = None \<longleftrightarrow> TrimSpace (snd nv) \<noteq> [] \<and> scanProductionEvidence (snd nv) = None"
  by (auto simp: check_required_option_def check_digest_option_def digest_shape check_safe_option_def check_evidence_option_def)

lemma case_None_iff: "(case x of Some e \<Rightarrow> Some e | None \<Rightarrow> y) = None \<longleftrightarrow> x = None \<and> y = None"
  by (cases x) auto

lemma if_None_iff: "(if c then Some e else y) = None \<longleftrightarrow> \<not> c \<and> y = None"
  by simp

definition commit_like :: "string \<Rightarrow> bool" where
  "commit_like t \<longleftrightarrow> 7 \<le> length t \<and> length t \<le> 40 \<and> list_all lower_hex t"

lemma commit_like_iff: "MatchString acceptanceCommitPattern t \<longleftrightarrow> commit_like t"
  by (simp add: commit_like_def commit_shape)

definition metadata_ok :: "buildinfo \<Rightarrow> string \<Rightarrow> bool" where
  "metadata_ok b mergeCommit \<longleftrightarrow>
     TrimSpace (bi_Version b) \<noteq> [] \<and> bi_Version b \<noteq> ''0.0.0-dev'' \<and> commit_like (bi_Commit b) \<and>
     shaped ''dddd-dd-ddTdd:dd:ddZ'' (bi_Date b) \<and>
     (mergeCommit = [] \<or> HasPrefix mergeCommit (bi_Commit b) \<or> HasPrefix (bi_Commit b) mergeCommit)"

lemma metadata_None: "validateAcceptanceBuildMetadata b c = None \<longleftrightarrow> metadata_ok b c"
  by (auto simp: validateAcceptanceBuildMetadata_def metadata_ok_def commit_shape time_shape commit_like_def)

text \<open>Either both signature options and no exception, or the whole exception and no signature.\<close>

definition signing_ok :: "AcceptanceOptions \<Rightarrow> bool" where
  "signing_ok opts \<longleftrightarrow>
     ao_SignedBy opts \<noteq> [] \<and> shaped ''dddd-dd-ddTdd:dd:ddZ'' (ao_SignedAt opts) \<and>
       ao_UnsignedException opts = [] \<and> ao_ExceptionOwner opts = [] \<and> ao_ExceptionExpires opts = [] \<or>
     ao_SignedBy opts = [] \<and> ao_SignedAt opts = [] \<and> ao_UnsignedException opts \<noteq> [] \<and> ao_ExceptionOwner opts \<noteq> [] \<and>
       shaped ''dddd-dd-dd'' (ao_ExceptionExpires opts)"

lemma not_shaped_Nil: "fmt \<noteq> [] \<Longrightarrow> \<not> shaped fmt []"
  by (simp add: shaped_def)

lemma signing_None: "check_signing opts = None \<longleftrightarrow> signing_ok opts"
  using not_shaped_Nil [of "''dddd-dd-dd''"] not_shaped_Nil [of "''dddd-dd-ddTdd:dd:ddZ''"]
  by (auto simp: check_signing_def signing_ok_def time_shape date_shape)

definition options_ok :: "buildinfo \<Rightarrow> AcceptanceOptions \<Rightarrow> bool" where
  "options_ok b opts \<longleftrightarrow>
     isBackendAcceptanceComponent (ao_Component opts) \<and> metadata_ok b (ao_MergeCommit opts) \<and>
     (\<forall>nv \<in> set (required_options opts). TrimSpace (snd nv) \<noteq> [] \<and> ScanAcceptanceEvidence (snd nv) = None) \<and>
     shaped ''dddd-dd-dd'' (ao_ReleaseDate opts) \<and> shaped ''dddd-dd-ddTdd:dd:ddZ'' (ao_RestoreVerifiedAt opts) \<and>
     commit_like (ao_MergeCommit opts) \<and> commit_like (ao_SecurityDocCommit opts) \<and>
     Contains (ao_PR opts) ''github.com/b2bautopilot/xyz-b2b/services/builders-net/pull/'' \<and>
     (\<forall>nv \<in> set (digest_options opts). length (snd nv) = 64 \<and> list_all lower_hex (snd nv)) \<and>
     0 < sint (ao_ArtifactSizeBytes opts) \<and> signing_ok opts \<and>
     (\<forall>nv \<in> set (scanned_options opts). ScanAcceptanceEvidence (snd nv) = None)"

lemma validate_None: "visits_all visit \<Longrightarrow> validateAcceptanceOptions b visit opts = None \<longleftrightarrow> options_ok b opts"
  unfolding validateAcceptanceOptions_def if_None_iff case_None_iff first_failing_None check_None_iff
    metadata_None signing_None date_shape time_shape commit_like_iff options_ok_def visits_all_def
  by (simp only: not_le not_not ball_conj_distrib) blast

text \<open>The same options hold no internal address, and neither does production evidence.\<close>

lemma scanProduction_None: "scanProductionEvidence v = None \<Longrightarrow> ScanAcceptanceEvidence v = None"
  by (simp add: scanProductionEvidence_def split: if_splits)

lemma production_scanned:
  assumes "visits_all visit" "validateProductionEvidenceOptions p b visit opts = None"
    and "(name, v) \<in> set (po_required opts) \<union> set (po_evidence opts)"
  shows "ScanAcceptanceEvidence v = None"
proof -
  have "\<forall>nv \<in> set (po_required opts). ScanAcceptanceEvidence (snd nv) = None"
    "\<forall>nv \<in> set (po_evidence opts). scanProductionEvidence (snd nv) = None"
    using assms(1,2)
    unfolding validateProductionEvidenceOptions_def if_None_iff case_None_iff first_failing_None check_None_iff visits_all_def
    by blast+
  then show ?thesis using assms(3) scanProduction_None by fastforce
qed

lemma acceptance_scanned:
  "options_ok b opts \<Longrightarrow> (name, v) \<in> set (required_options opts) \<union> set (scanned_options opts) \<Longrightarrow> ScanAcceptanceEvidence v = None"
  unfolding options_ok_def by (auto dest: bspec [of _ _ "(name, v)"])

section \<open>Properties\<close>



text \<open>
  An acceptance record is built exactly from acceptable options: the component is known, the
  build metadata are those of a release of the merged commit, every required option is given, dates,
  commits and digests have their shape, the artifact is not empty and has either a signature or a
  complete exception, and every text passes the scan; the record is then the one of the normalised
  options with the digests of the version and manifest texts.
\<close>

theorem BuildAcceptanceRecord_exact:
  assumes "visits_all visit"
  shows "BuildAcceptanceRecord p b visit opts = Inr rec \<longleftrightarrow>
    (let os = normalizeAcceptanceOptions opts; version = version_text b (ao_Component os);
         manifest = encode_indented (ReleaseManifest_json (BuildManifest b (ao_Component os)))
     in options_ok b os \<and> ScanAcceptanceEvidence version = None \<and> ScanAcceptanceEvidence manifest = None \<and>
        rec = acceptance_record (hexEncode (sha256 p version)) (hexEncode (sha256 p manifest)) os \<and>
        ScanAcceptanceValue (AcceptanceRecord_json rec) = None)"
  unfolding BuildAcceptanceRecord_def Let_def acceptanceEvidenceHashes_def validate_None [OF assms, symmetric]
  by (auto split: option.split sum.splits if_splits)

definition sample_build :: buildinfo where
  "sample_build = \<lparr>bi_Version = ''1.4.0'', bi_Commit = ''0123abc'', bi_Date = ''2026-06-04T10:00:00Z'', bi_GoVersion = ''go1.24'', bi_Info = None\<rparr>"

definition sample_options :: AcceptanceOptions where
  "sample_options =
     \<lparr>ao_Component = ''builders-agent'', ao_ReleaseID = ''r1'', ao_ReleaseDate = ''2026-06-04'', ao_Owner = ''ops'', ao_DecisionBy = [],
      ao_PilotEnvironmentName = [], ao_PR = ''https://github.com/b2bautopilot/xyz-b2b/services/builders-net/pull/7'',
      ao_MergeCommit = ''0123abcd'', ao_TagOrBuildLabel = ''v1.4.0'', ao_ArtifactFilename = ''out/agent.tgz'',
      ao_ArtifactSHA256 = replicate 64 CHR ''a'', ao_ArtifactSizeBytes = 9, ao_ArtifactPlatform = ''linux'',
      ao_SignedBy = [], ao_SignedAt = [], ao_UnsignedException = ''pilot'', ao_ExceptionOwner = ''ops'', ao_ExceptionExpires = ''2026-7-1'',
      ao_PackageSmokeEvidenceSHA256 = replicate 64 CHR ''b'', ao_BackupArtifactSHA256 = replicate 64 CHR ''c'',
      ao_RestoreVerifiedAt = ''2026-06-04T09:00:00Z'', ao_SecurityDocCommit = ''89abcde'',
      ao_SecurityDocEvidenceSHA256 = replicate 64 CHR ''d''\<rparr>"

lemma visits_rev: "visits_all (\<lambda>n. rev)"
  by (simp add: visits_all_def)


theorem BuildAcceptanceRecord_exact_witness:
  "\<not> (\<exists>rec. BuildAcceptanceRecord demo_platform sample_build (\<lambda>n. rev) sample_options = Inr rec)"
proof -
  have "\<not> signing_ok (normalizeAcceptanceOptions sample_options)" by code_simp
  then show ?thesis unfolding BuildAcceptanceRecord_exact [OF visits_rev] Let_def options_ok_def by blast
qed

section \<open>Production evidence on disk\<close>

text \<open>
  What is relied on of the file system: the directory can be made and its files be written, a file
  written is read back as it was written, and the other files of the directory stay as they are.
\<close>

abbreviation entry :: "'fs disk \<Rightarrow> string \<Rightarrow> string \<Rightarrow> 'fs \<Rightarrow> goerror + bytes" where
  "entry d dir name fs \<equiv> disk_ReadFile d (path_Join dir name) fs"

definition others_kept :: "'fs disk \<Rightarrow> string \<Rightarrow> string \<Rightarrow> 'fs \<Rightarrow> 'fs \<Rightarrow> bool" where
  "others_kept d dir name fs fs' \<longleftrightarrow> (\<forall>other. plain_name other \<longrightarrow> other \<noteq> name \<longrightarrow> entry d dir other fs' = entry d dir other fs)"

definition dir_ok :: "'fs disk \<Rightarrow> string \<Rightarrow> bool" where
  "dir_ok d dir \<longleftrightarrow>
     (\<forall>fs. fst (os_MkdirAll d dir fs) = None) \<and>
     (\<forall>name data fs. plain_name name \<longrightarrow>
        (case os_WriteFile d (path_Join dir name) data fs of (err, fs') \<Rightarrow>
           err = None \<and> entry d dir name fs' = Inr data \<and> others_kept d dir name fs fs')) \<and>
     (\<forall>name data fs. plain_name name \<longrightarrow>
        (case os_Create d (path_Join dir name) fs of (err, fs1) \<Rightarrow>
           err = None \<and>
           (case file_Write d (path_Join dir name) data fs1 of (err, fs2) \<Rightarrow>
              err = None \<and> entry d dir name fs2 = Inr data \<and> others_kept d dir name fs fs2)))"

lemma dir_ok_write:
  assumes "dir_ok d dir" "plain_name name"
  obtains fs' where "os_WriteFile d (path_Join dir name) data fs = (None, fs')" "entry d dir name fs' = Inr data" "others_kept d dir name fs fs'"
proof -
  have "case os_WriteFile d (path_Join dir name) data fs of (err, fs') \<Rightarrow> err = None \<and> entry d dir name fs' = Inr data \<and> others_kept d dir name fs fs'"
    by (rule assms(1) [unfolded dir_ok_def, THEN conjunct2, THEN conjunct1, rule_format, OF assms(2)])
  then show thesis using that by (auto split: prod.splits)
qed

lemma dir_ok_create:
  assumes "dir_ok d dir" "plain_name name"
  obtains fs1 fs2 where "os_Create d (path_Join dir name) fs = (None, fs1)" "file_Write d (path_Join dir name) data fs1 = (None, fs2)"
    "entry d dir name fs2 = Inr data" "others_kept d dir name fs fs2"
proof -
  have "case os_Create d (path_Join dir name) fs of (err, fs1) \<Rightarrow> err = None \<and>
      (case file_Write d (path_Join dir name) data fs1 of (err, fs2) \<Rightarrow> err = None \<and> entry d dir name fs2 = Inr data \<and> others_kept d dir name fs fs2)"
    by (rule assms(1) [unfolded dir_ok_def, THEN conjunct2, THEN conjunct2, rule_format, OF assms(2)])
  then show thesis using that by (auto split: prod.splits)
qed

lemma writeFile_ok:
  assumes "dir_ok d dir" "plain_name name"
  obtains fs' where "writeProductionEvidenceFile p d dir name data fs =
      (case scanProductionEvidence data of None \<Rightarrow> Inr (file_ref p name data) | Some e \<Rightarrow> Inl (wrapf (name @ '' unsafe: '') e), fs')"
    "scanProductionEvidence data = None \<longrightarrow> entry d dir name fs' = Inr data" "others_kept d dir name fs fs'"
proof -
  obtain fs' where w: "os_WriteFile d (path_Join dir name) data fs = (None, fs')" "entry d dir name fs' = Inr data" "others_kept d dir name fs fs'"
    by (rule dir_ok_write [OF assms])
  show thesis
  proof (cases "scanProductionEvidence data")
    case None
    show thesis by (rule that [of fs']) (use w None in \<open>simp_all add: writeProductionEvidenceFile_def\<close>)
  next
    case (Some e)
    show thesis by (rule that [of fs]) (use Some in \<open>simp_all add: writeProductionEvidenceFile_def others_kept_def\<close>)
  qed
qed

definition ready :: "(string \<times> bytes) list \<Rightarrow> bool" where
  "ready files \<longleftrightarrow> (\<forall>f \<in> set files. scanProductionEvidence (snd f) = None)"

definition on_disk :: "'fs disk \<Rightarrow> string \<Rightarrow> (string \<times> bytes) list \<Rightarrow> 'fs \<Rightarrow> bool" where
  "on_disk d dir files fs \<longleftrightarrow> (\<forall>f \<in> set files. entry d dir (fst f) fs = Inr (snd f))"

definition refs_of :: "platform \<Rightarrow> (string \<times> bytes) list \<Rightarrow> ProductionEvidenceFileRef list" where
  "refs_of p files = map (\<lambda>f. file_ref p (fst f) (snd f)) files"

definition with_newline :: "string \<times> bytes \<Rightarrow> string \<times> bytes" where
  "with_newline nv = (fst nv, ensureTrailingNewline (snd nv))"

lemma on_disk_kept:
  "others_kept d dir name fs fs' \<Longrightarrow> on_disk d dir files fs \<Longrightarrow> name \<notin> fst ` set files \<Longrightarrow> \<forall>f \<in> set files. plain_name (fst f) \<Longrightarrow>
   on_disk d dir files fs'"
  unfolding on_disk_def others_kept_def by (metis image_eqI)

lemma write_inputs_ok:
  assumes "dir_ok d dir" "\<forall>f \<in> set (written @ inputs). plain_name (fst f)" "distinct (map fst (written @ inputs))" "on_disk d dir written fs"
  shows "\<exists>r fs'. write_inputs p d dir (refs_of p written) inputs fs = (r, fs') \<and>
    (if ready (map with_newline inputs)
     then r = Inr (refs_of p (written @ map with_newline inputs)) \<and> on_disk d dir (written @ map with_newline inputs) fs'
     else isl r)"
  using assms(2-4)
proof (induction inputs arbitrary: "written" fs)
  case (Cons nv inputs)
  obtain name data where nv: "nv = (name, data)" by (cases nv)
  let ?data = "ensureTrailingNewline data"
  have "plain_name name" using Cons.prems(1) nv by simp
  then obtain fs1 where
    w: "writeProductionEvidenceFile p d dir name ?data fs =
        (case scanProductionEvidence ?data of None \<Rightarrow> Inr (file_ref p name ?data) | Some e \<Rightarrow> Inl (wrapf (name @ '' unsafe: '') e), fs1)"
      "scanProductionEvidence ?data = None \<longrightarrow> entry d dir name fs1 = Inr ?data" "others_kept d dir name fs fs1"
    by (rule writeFile_ok [OF assms(1)])
  show ?case
  proof (cases "scanProductionEvidence ?data")
    case None
    have "on_disk d dir (written @ [(name, ?data)]) fs1"
      using on_disk_kept [OF w(3) Cons.prems(3)] w(2) None Cons.prems(1,2) nv by (auto simp: on_disk_def)
    moreover have "\<forall>f \<in> set ((written @ [(name, ?data)]) @ inputs). plain_name (fst f)" "distinct (map fst ((written @ [(name, ?data)]) @ inputs))"
      using Cons.prems(1,2) nv by auto
    ultimately have ih: "\<exists>r fs'. write_inputs p d dir (refs_of p (written @ [(name, ?data)])) inputs fs1 = (r, fs') \<and>
      (if ready (map with_newline inputs)
       then r = Inr (refs_of p ((written @ [(name, ?data)]) @ map with_newline inputs)) \<and> on_disk d dir ((written @ [(name, ?data)]) @ map with_newline inputs) fs'
       else isl r)" using Cons.IH by blast
    have eqs: "write_inputs p d dir (refs_of p written) (nv # inputs) fs = write_inputs p d dir (refs_of p (written @ [(name, ?data)])) inputs fs1"
      "ready (map with_newline (nv # inputs)) \<longleftrightarrow> ready (map with_newline inputs)"
      "written @ map with_newline (nv # inputs) = (written @ [(name, ?data)]) @ map with_newline inputs"
      using w(1) None nv by (simp_all add: refs_of_def ready_def with_newline_def)
    show ?thesis unfolding eqs by (rule ih)
  next
    case (Some e)
    then show ?thesis using w(1) nv by (simp add: ready_def with_newline_def)
  qed
qed (simp add: ready_def)

definition evidence_files :: "ProductionEvidenceFragment \<Rightarrow> ProductionEvidenceOptions \<Rightarrow> (string \<times> bytes) list" where
  "evidence_files fragment opts =
     (''production-signing-summary.txt'', productionSigningSummary fragment opts) # map with_newline (evidence_inputs opts)"

definition evidence_name :: "ProductionEvidenceOptions \<Rightarrow> string" where
  "evidence_name opts = po_Component opts @ ''-production-evidence.json''"

lemma evidence_names:
  "map fst (evidence_inputs opts) = map fst (evidence_inputs opts')"
  by (simp add: evidence_inputs_def)

lemma evidence_files_plain: "\<forall>f \<in> set (evidence_files fragment opts). plain_name (fst f)"
  by (simp add: evidence_files_def evidence_inputs_def with_newline_def plain_name_def)

lemma evidence_files_distinct: "distinct (map fst (evidence_files fragment opts))"
  by (simp add: evidence_files_def evidence_inputs_def with_newline_def)

lemma evidence_name_fresh: "evidence_name opts \<notin> fst ` set (evidence_files fragment opts)"
proof -
  have "last (evidence_name opts) = CHR ''n''" by (simp add: evidence_name_def)
  moreover have "\<forall>f \<in> set (evidence_files fragment opts). last (fst f) = CHR ''t''"
    by (simp add: evidence_files_def evidence_inputs_def with_newline_def)
  ultimately show ?thesis by fastforce
qed

lemma evidence_name_plain:
  assumes "BuildProductionEvidenceFragment p b visit opts = Inr fragment"
  shows "plain_name (evidence_name opts)"
proof -
  have "isBackendAcceptanceComponent (TrimSpace (po_Component opts))"
    using assms by (auto simp: BuildProductionEvidenceFragment_def Let_def normalizeProductionEvidenceOptions_def
        validateProductionEvidenceOptions_def split: option.splits if_splits)
  then have "CHR ''/'' \<notin> set (TrimSpace (po_Component opts))" by (auto simp: isBackendAcceptanceComponent_def)
  then have "CHR ''/'' \<notin> set (po_Component opts)"
    using TrimSpace_keeps [of "CHR ''/''" "po_Component opts"] by (auto simp: ws_runes_def)
  moreover have "length (evidence_name opts) > 2" by (simp add: evidence_name_def)
  ultimately show ?thesis by (auto simp: plain_name_def evidence_name_def)
qed

lemma case_chain:
  "(case a of (Inl e, s) \<Rightarrow> (Inl e, s) | (Inr x, s) \<Rightarrow> (case f x s of (Inl e, s') \<Rightarrow> (Inl e, s') | (Inr y, s') \<Rightarrow> g y s')) =
   (case (case a of (Inl e, s) \<Rightarrow> (Inl e, s) | (Inr x, s) \<Rightarrow> f x s) of (Inl e, s') \<Rightarrow> (Inl e, s') | (Inr y, s') \<Rightarrow> g y s')"
  by (auto split: prod.split sum.split)

text \<open>All of the evidence files: the summary, then the inputs.\<close>

definition write_evidence :: "platform \<Rightarrow> 'fs disk \<Rightarrow> string \<Rightarrow> ProductionEvidenceFragment \<Rightarrow> ProductionEvidenceOptions \<Rightarrow> 'fs \<Rightarrow>
    (goerror + ProductionEvidenceFileRef list) \<times> 'fs" where
  "write_evidence p d dir fragment opts fs =
     (case writeProductionEvidenceFile p d dir ''production-signing-summary.txt'' (productionSigningSummary fragment opts) fs of
        (Inl e, fs') \<Rightarrow> (Inl e, fs') | (Inr r, fs') \<Rightarrow> write_inputs p d dir [r] (evidence_inputs opts) fs')"

lemma write_evidence_ok:
  assumes "dir_ok d dir"
  obtains r fs' where "write_evidence p d dir fragment opts fs = (r, fs')"
    "if ready (evidence_files fragment opts)
     then r = Inr (refs_of p (evidence_files fragment opts)) \<and> on_disk d dir (evidence_files fragment opts) fs' else isl r"
proof -
  let ?name = "''production-signing-summary.txt''" and ?data = "productionSigningSummary fragment opts"
  have "plain_name ?name" by (simp add: plain_name_def)
  then obtain fs1 where w: "writeProductionEvidenceFile p d dir ?name ?data fs =
      (case scanProductionEvidence ?data of None \<Rightarrow> Inr (file_ref p ?name ?data) | Some e \<Rightarrow> Inl (wrapf (?name @ '' unsafe: '') e), fs1)"
      "scanProductionEvidence ?data = None \<longrightarrow> entry d dir ?name fs1 = Inr ?data" "others_kept d dir ?name fs fs1"
    by (rule writeFile_ok [OF assms])
  show thesis
  proof (cases "scanProductionEvidence ?data")
    case None
    have pre: "\<forall>f \<in> set ([(?name, ?data)] @ evidence_inputs opts). plain_name (fst f)" "distinct (map fst ([(?name, ?data)] @ evidence_inputs opts))"
      by (simp_all add: evidence_inputs_def plain_name_def)
    have disk: "on_disk d dir [(?name, ?data)] fs1" using w(2) None by (simp add: on_disk_def)
    obtain r fs' where "write_inputs p d dir (refs_of p [(?name, ?data)]) (evidence_inputs opts) fs1 = (r, fs')"
      "if ready (map with_newline (evidence_inputs opts))
       then r = Inr (refs_of p ([(?name, ?data)] @ map with_newline (evidence_inputs opts))) \<and>
            on_disk d dir ([(?name, ?data)] @ map with_newline (evidence_inputs opts)) fs'
       else isl r" using write_inputs_ok [OF assms pre disk] by blast
    then show thesis using w(1) None by (intro that [of r fs']) (auto simp: write_evidence_def refs_of_def evidence_files_def ready_def split: if_splits)
  next
    case (Some e)
    then show thesis using w(1)
      by (intro that [of "Inl (wrapf (?name @ '' unsafe: '') e)" fs1]) (simp_all add: write_evidence_def evidence_files_def ready_def)
  qed
qed

lemma Write_unfold:
  assumes "BuildProductionEvidenceFragment p b visit opts = Inr fragment" "os_MkdirAll d outDir fs = (None, fs1)"
  shows "WriteProductionEvidenceFragment p b visit d outDir opts fs =
    (case write_evidence p d outDir fragment opts fs1 of (Inl e, fs3) \<Rightarrow> (Inl e, fs3) | (Inr retained, fs3) \<Rightarrow>
      let json = ProductionEvidenceFragment_json (attach_evidence retained fragment); outPath = path_Join outDir (evidence_name opts)
      in case ScanAcceptanceValue json of
           Some err \<Rightarrow> (Inl (wrapf ''production evidence fragment unsafe: '' err), fs3) | None \<Rightarrow>
         case os_Create d outPath fs3 of
           (Some err, fs4) \<Rightarrow> (Inl (wrapf ''create production evidence fragment: '' err), fs4) | (None, fs4) \<Rightarrow>
         case file_Write d outPath (encode_indented json) fs4 of
           (Some err, fs5) \<Rightarrow> (Inl (wrapf ''write production evidence fragment: '' err), fs5) | (None, fs5) \<Rightarrow>
         case disk_ReadFile d outPath fs5 of
           Inl err \<Rightarrow> (Inl (wrapf ''read production evidence fragment: '' err), fs5)
         | Inr data \<Rightarrow>
             (case ScanAcceptanceEvidence data of
                Some err \<Rightarrow> (Inl (wrapf ''production evidence fragment unsafe: '' err), fs5)
              | None \<Rightarrow> (Inr outPath, fs5)))"
  unfolding WriteProductionEvidenceFragment_def assms sum.case prod.case option.case case_chain write_evidence_def [symmetric] evidence_name_def [symmetric] Let_def ..


definition map_disk :: "(string \<Rightarrow> bytes option) disk" where
  "map_disk =
     \<lparr>os_MkdirAll = (\<lambda>dir fs. (None, fs)), os_WriteFile = (\<lambda>f data fs. (None, fs(f \<mapsto> data))),
      os_Create = (\<lambda>f fs. (None, fs(f \<mapsto> []))), file_Write = (\<lambda>f data fs. (None, fs(f \<mapsto> data))),
      disk_ReadFile = (\<lambda>f fs. case fs f of None \<Rightarrow> Inl (Plain ''no such file'') | Some data \<Rightarrow> Inr data),
      disk_Open = (\<lambda>f fs. Inl (Plain ''no such file''))\<rparr>"

lemma map_disk_ok: "dir_ok map_disk dir"
  by (simp add: dir_ok_def map_disk_def others_kept_def path_Join_inject)

definition sample_production :: ProductionEvidenceOptions where
  "sample_production =
     \<lparr>po_Component = ''builders-agent'', po_ReleaseID = ''r1'', po_ReleaseDate = ''2026-06-04'', po_Owner = ''ops'',
      po_PR = ''https://github.com/b2bautopilot/xyz-b2b/services/builders-net/pull/7'', po_MergeCommit = ''0123abcd'',
      po_TagOrBuildLabel = ''v1.4.0'', po_ArtifactFilename = ''agent.tgz'', po_ArtifactSHA256 = replicate 64 CHR ''a'',
      po_ArtifactSizeBytes = 9, po_ArtifactPlatform = ''linux'', po_SignedBy = ''ops'', po_SignedAt = ''2026-06-04T10:00:00Z'',
      po_SignatureVerifier = ''cosign'', po_SignatureVerifierEvidence = ''ok'', po_PackageSmokeEvidence = ''ok'', po_SBOMDependencyEvidence = ''ok'', po_InstallerBreadthEvidence = ''ok'', po_GatewayBoundaryEvidence = ''ok'', po_DefaultDenyEgressEvidence = ''ok'', po_AuditChainEvidence = ''ok'', po_ServiceCatalogEvidence = ''ok'', po_PolicyGrantEvidence = ''ok'', po_TransactionEvidence = ''ok'', po_BackupRestoreEvidence = ''ok'', po_RollbackEvidence = ''ok'', po_LeakScanEvidence = ''ok'', po_EnterpriseComplianceEvidence = ''ok'', po_AdversarialReviewEvidence = ''ok''\<rparr>"


end
