(* ===== verification/CertCheck.thy ===== *)
theory CertCheck
  imports AppErrors GoURL
begin

text \<open>
  The check of certificate files (\<open>src/identity/certcheck.go\<close>). The file system, the PEM reader and
  \<open>crypto/x509\<close> are the fields of the record \<open>certenv\<close>. The record \<open>X509\<close> is what the package reads of an
  \<open>x509.Certificate\<close>, its subject and issuer as their texts and the common name of the subject. A \<open>time.Time\<close> is an integer number of
  nanoseconds since the zero time, a \<open>time.Duration\<close> an \<open>int64\<close>. Times, durations and operands
  quoted with \<open>%q\<close> are left out of the error texts. The loop over the PEM blocks has no bound of its own, so it
  is a partial function whose value \<open>None\<close> means that it does not return; that it returns is proved
  from the documented behaviour of the PEM reader.
\<close>

section \<open>Definitions\<close>

type_synonym gotime = int

record X509 =
  x_SerialNumber :: int
  x_CommonName :: string
  x_NotBefore :: gotime
  x_NotAfter :: gotime
  x_KeyUsage :: int
  x_ExtKeyUsage :: "nat list"
  x_IsCA :: bool
  x_DNSNames :: "string list"
  x_URIs :: "URL list"
  x_IPAddresses :: "bytes list"
  x_PublicKey :: "bytes option"
  x_Subject :: string
  x_Issuer :: string
  x_Raw :: bytes

record certenv =
  ce_ReadFile :: "string \<Rightarrow> goerror + bytes"
  ce_LoadX509KeyPair :: "string \<Rightarrow> string \<Rightarrow> goerror + bytes list"
  ce_ParseCertificate :: "bytes \<Rightarrow> goerror + X509"
  ce_VerifyHostname :: "X509 \<Rightarrow> string \<Rightarrow> goerror option"
  ce_pem_Decode :: "bytes \<Rightarrow> (string \<times> bytes \<times> bytes) option"

text \<open>A result whose error is wrapped under a text.\<close>

definition labelled :: "string \<Rightarrow> goerror + 'a \<Rightarrow> goerror + 'a" where
  "labelled text r = (case r of Inl err \<Rightarrow> Inl (wrapf text err) | Inr x \<Rightarrow> Inr x)"

definition ExtKeyUsageAny :: nat where "ExtKeyUsageAny = 0"
definition ExtKeyUsageServerAuth :: nat where "ExtKeyUsageServerAuth = 1"
definition ExtKeyUsageClientAuth :: nat where "ExtKeyUsageClientAuth = 2"

definition CertificateProfileServer :: string where "CertificateProfileServer = ''server''"
definition CertificateProfileClient :: string where "CertificateProfileClient = ''client''"

record CertificateCheckOptions =
  cco_Profile :: string
  cco_CertFile :: string
  cco_KeyFile :: string
  cco_CAFile :: string
  cco_ExpectedDNS :: string
  cco_MinValidFor :: int64
  cco_Now :: gotime
  cco_ComponentName :: string

record CertificateCheckReport =
  ccr_ComponentName :: string
  ccr_Profile :: string
  ccr_Subject :: string
  ccr_Issuer :: string
  ccr_NotBefore :: gotime
  ccr_NotAfter :: gotime
  ccr_CACount :: nat

definition certificateAllowsUsage :: "X509 \<Rightarrow> nat \<Rightarrow> bool" where
  "certificateAllowsUsage cert usage \<longleftrightarrow>
     x_ExtKeyUsage cert = [] \<or> list_ex (\<lambda>candidate. candidate = usage \<or> candidate = ExtKeyUsageAny) (x_ExtKeyUsage cert)"

text \<open>The loop of \<open>parseCACount\<close>: the certificates counted so far and what is left of the file.\<close>

partial_function (option) count_certificates :: "'e certenv_scheme \<Rightarrow> nat \<Rightarrow> bytes \<Rightarrow> (goerror + nat) option" where
  "count_certificates e counted caPEM =
     (case ce_pem_Decode e caPEM of
        None \<Rightarrow> Some (Inr counted)
      | Some (kind, data, rest) \<Rightarrow>
          if kind \<noteq> ''CERTIFICATE'' then count_certificates e counted rest
          else (case ce_ParseCertificate e data of
                  Inl err \<Rightarrow> Some (Inl (wrapf ''parse CA certificate: '' err))
                | Inr cert \<Rightarrow> count_certificates e (Suc counted) rest))"

definition parseCACount :: "'e certenv_scheme \<Rightarrow> string \<Rightarrow> (goerror + nat) option" where
  "parseCACount e caFile =
     (case ce_ReadFile e (TrimSpace caFile) of
        Inl err \<Rightarrow> Some (Inl (wrapf ''read CA file: '' err))
      | Inr caPEM \<Rightarrow>
          map_option (\<lambda>r. case r of
              Inl err \<Rightarrow> Inl err
            | Inr n \<Rightarrow> if n = 0 then Inl (Plain ''CA file did not contain any certificates'') else Inr n)
            (count_certificates e 0 caPEM))"

definition trim_options :: "CertificateCheckOptions \<Rightarrow> CertificateCheckOptions" where
  "trim_options opts =
     opts\<lparr>cco_CertFile := TrimSpace (cco_CertFile opts), cco_KeyFile := TrimSpace (cco_KeyFile opts),
          cco_CAFile := TrimSpace (cco_CAFile opts), cco_ExpectedDNS := TrimSpace (cco_ExpectedDNS opts),
          cco_ComponentName :=
            (if TrimSpace (cco_ComponentName opts) = [] then cco_Profile opts else TrimSpace (cco_ComponentName opts))\<rparr>"

text \<open>The checks of the leaf certificate against the time and the profile.\<close>

definition check_leaf :: "'e certenv_scheme \<Rightarrow> gotime \<Rightarrow> CertificateCheckOptions \<Rightarrow> X509 \<Rightarrow> goerror option" where
  "check_leaf e now opts leaf =
     (let name = cco_ComponentName opts
      in if now < x_NotBefore leaf then Some (Plain (name @ '' certificate is not valid before ''))
         else if \<not> now < x_NotAfter leaf then Some (Plain (name @ '' certificate expired at ''))
         else if 0 < sint (cco_MinValidFor opts) \<and> x_NotAfter leaf < now + sint (cco_MinValidFor opts) then
           Some (Plain (name @ '' certificate expires before required rotation window: not_after= min_valid_for=''))
         else if cco_Profile opts = CertificateProfileServer then
           (if \<not> certificateAllowsUsage leaf ExtKeyUsageServerAuth then
              Some (Plain (name @ '' certificate does not allow server auth''))
            else if cco_ExpectedDNS opts = [] then None
            else map_option (wrapf (name @ '' certificate SAN does not match : '')) (ce_VerifyHostname e leaf (cco_ExpectedDNS opts)))
         else if cco_Profile opts = CertificateProfileClient then
           (if \<not> certificateAllowsUsage leaf ExtKeyUsageClientAuth then
              Some (Plain (name @ '' certificate does not allow client auth''))
            else None)
         else None)"

definition CheckCertificateMaterial ::
  "'e certenv_scheme \<Rightarrow> gotime \<Rightarrow> CertificateCheckOptions \<Rightarrow> (goerror + CertificateCheckReport) option" where
  "CheckCertificateMaterial e clock opts0 =
     (let opts = trim_options opts0; name = cco_ComponentName opts;
          now = (if cco_Now opts = 0 then clock else cco_Now opts)
      in if cco_CertFile opts = [] \<or> cco_KeyFile opts = [] \<or> cco_CAFile opts = [] then
           Some (Inl (Plain (name @ '' certificate, key, and CA files are required'')))
         else if cco_Profile opts \<noteq> CertificateProfileServer \<and> cco_Profile opts \<noteq> CertificateProfileClient then
           Some (Inl (Plain (name @ '' unsupported certificate profile '')))
         else case ce_LoadX509KeyPair e (cco_CertFile opts) (cco_KeyFile opts) of
           Inl err \<Rightarrow> Some (Inl (wrapf (name @ '' load key pair: '') err))
         | Inr [] \<Rightarrow> Some (Inl (Plain (name @ '' certificate file did not contain a leaf certificate'')))
         | Inr (der # chain) \<Rightarrow>
             (case ce_ParseCertificate e der of
                Inl err \<Rightarrow> Some (Inl (wrapf (name @ '' parse leaf certificate: '') err))
              | Inr leaf \<Rightarrow>
                  map_option (\<lambda>r. case r of
                      Inl err \<Rightarrow> Inl (wrapf (name @ '' '') err)
                    | Inr caCount \<Rightarrow>
                        (case check_leaf e now opts leaf of
                           Some err \<Rightarrow> Inl err
                         | None \<Rightarrow>
                             Inr \<lparr>ccr_ComponentName = name, ccr_Profile = cco_Profile opts, ccr_Subject = x_Subject leaf,
                                  ccr_Issuer = x_Issuer leaf, ccr_NotBefore = x_NotBefore leaf,
                                  ccr_NotAfter = x_NotAfter leaf, ccr_CACount = caCount\<rparr>))
                    (parseCACount e (cco_CAFile opts))))"

section \<open>The blocks of a PEM file\<close>

lemma labelled_Inr [simp]: "labelled text r = Inr x \<longleftrightarrow> r = Inr x"
  by (simp add: labelled_def split: sum.splits)

inductive pem_blocks :: "'e certenv_scheme \<Rightarrow> bytes \<Rightarrow> (string \<times> bytes) list \<Rightarrow> bool" for e where
  finished: "ce_pem_Decode e b = None \<Longrightarrow> pem_blocks e b []"
| block: "ce_pem_Decode e b = Some (kind, data, rest) \<Longrightarrow> pem_blocks e rest bs \<Longrightarrow> pem_blocks e b ((kind, data) # bs)"

inductive_cases pem_blocks_cases: "pem_blocks e b bs"

text \<open>\<open>pem.Decode\<close> returns the next block and the remainder of the input, which is shorter.\<close>

definition pem_consumes :: "'e certenv_scheme \<Rightarrow> bool" where
  "pem_consumes e \<longleftrightarrow> (\<forall>b kind data rest. ce_pem_Decode e b = Some (kind, data, rest) \<longrightarrow> length rest < length b)"

definition certificates :: "(string \<times> bytes) list \<Rightarrow> bytes list" where
  "certificates bs = map snd (filter (\<lambda>b. fst b = ''CERTIFICATE'') bs)"

lemma pem_blocks_exist: "pem_consumes e \<Longrightarrow> \<exists>bs. pem_blocks e b bs"
proof (induction b rule: length_induct)
  case (1 b)
  show ?case
  proof (cases "ce_pem_Decode e b")
    case None
    then show ?thesis by (auto intro: finished)
  next
    case (Some t)
    then obtain kind data rest where t: "ce_pem_Decode e b = Some (kind, data, rest)" by (cases t) auto
    moreover from t 1 obtain bs where "pem_blocks e rest bs" unfolding pem_consumes_def by blast
    ultimately show ?thesis by (auto intro: block)
  qed
qed

lemma pem_blocks_unique: "pem_blocks e b bs \<Longrightarrow> pem_blocks e b bs' \<Longrightarrow> bs' = bs"
proof (induction arbitrary: bs' rule: pem_blocks.induct)
  case (finished b)
  from finished(2,1) show ?case by (cases rule: pem_blocks_cases) auto
next
  case (block b kind data rest bs)
  from block(4,1,3) show ?case by (cases rule: pem_blocks_cases) auto
qed

lemma count_certificates_blocks:
  assumes "pem_blocks e b bs"
  shows "\<exists>r. count_certificates e n b = Some r \<and>
    (\<forall>m. r = Inr m \<longleftrightarrow> m = n + length (certificates bs) \<and> (\<forall>d \<in> set (certificates bs). \<exists>c. ce_ParseCertificate e d = Inr c))"
  using assms
proof (induction arbitrary: n rule: pem_blocks.induct)
  case (finished b)
  then show ?case by (auto simp: count_certificates.simps [of e n b] certificates_def)
next
  case (block b kind data rest bs)
  show ?case
  proof (cases "kind = ''CERTIFICATE''")
    case True
    then show ?thesis
      using block(1) block(3) [of "Suc n"]
      by (cases "ce_ParseCertificate e data") (auto simp: count_certificates.simps [of e n b] certificates_def)
  next
    case False
    then show ?thesis using block(1) block(3) [of n] by (auto simp: count_certificates.simps [of e n b] certificates_def)
  qed
qed

lemma parseCACount_returns: "pem_consumes e \<Longrightarrow> \<exists>r. parseCACount e f = Some r"
  using pem_blocks_exist count_certificates_blocks by (fastforce simp: parseCACount_def split: sum.splits)

lemma parseCACount_Inr:
  assumes "pem_consumes e"
  shows "parseCACount e f = Some (Inr n) \<longleftrightarrow>
    (\<exists>pem bs. ce_ReadFile e (TrimSpace f) = Inr pem \<and> pem_blocks e pem bs \<and> n = length (certificates bs) \<and> 0 < n \<and>
       (\<forall>d \<in> set (certificates bs). \<exists>c. ce_ParseCertificate e d = Inr c))"
proof (cases "ce_ReadFile e (TrimSpace f)")
  case (Inr pem)
  obtain bs where bs: "pem_blocks e pem bs" using pem_blocks_exist [OF assms] by blast
  then have only: "pem_blocks e pem bs' \<longleftrightarrow> bs' = bs" for bs' using pem_blocks_unique by blast
  obtain r where r: "count_certificates e 0 pem = Some r"
    "\<And>m. r = Inr m \<longleftrightarrow> m = length (certificates bs) \<and> (\<forall>d \<in> set (certificates bs). \<exists>c. ce_ParseCertificate e d = Inr c)"
    using count_certificates_blocks [OF bs, of 0] by auto
  have "parseCACount e f = Some (Inr n) \<longleftrightarrow> r = Inr n \<and> 0 < n"
    using Inr r(1) by (auto simp: parseCACount_def split: sum.splits)
  then show ?thesis using Inr only r(2) by auto
qed (simp add: parseCACount_def)

section \<open>Properties\<close>

text \<open>What an acceptable leaf certificate is at a time.\<close>

definition leaf_ok :: "'e certenv_scheme \<Rightarrow> gotime \<Rightarrow> CertificateCheckOptions \<Rightarrow> X509 \<Rightarrow> bool" where
  "leaf_ok e now opts leaf \<longleftrightarrow>
     x_NotBefore leaf \<le> now \<and> now < x_NotAfter leaf \<and>
     (0 < sint (cco_MinValidFor opts) \<longrightarrow> now + sint (cco_MinValidFor opts) \<le> x_NotAfter leaf) \<and>
     (if cco_Profile opts = CertificateProfileServer
      then certificateAllowsUsage leaf ExtKeyUsageServerAuth \<and>
           (TrimSpace (cco_ExpectedDNS opts) \<noteq> [] \<longrightarrow> ce_VerifyHostname e leaf (TrimSpace (cco_ExpectedDNS opts)) = None)
      else certificateAllowsUsage leaf ExtKeyUsageClientAuth)"

lemma check_leaf_None:
  "cco_Profile opts \<in> {CertificateProfileServer, CertificateProfileClient} \<Longrightarrow>
   check_leaf e now (trim_options opts) leaf = None \<longleftrightarrow> leaf_ok e now opts leaf"
  by (auto simp: check_leaf_def leaf_ok_def trim_options_def Let_def CertificateProfileServer_def CertificateProfileClient_def)

text \<open>The report the check gives, and when it gives one.\<close>

definition acceptable :: "'e certenv_scheme \<Rightarrow> gotime \<Rightarrow> CertificateCheckOptions \<Rightarrow> CertificateCheckReport \<Rightarrow> bool" where
  "acceptable e now opts rep \<longleftrightarrow>
      (\<exists>der chain leaf pem bs.
         TrimSpace (cco_CertFile opts) \<noteq> [] \<and> TrimSpace (cco_KeyFile opts) \<noteq> [] \<and> TrimSpace (cco_CAFile opts) \<noteq> [] \<and>
         cco_Profile opts \<in> {CertificateProfileServer, CertificateProfileClient} \<and>
         ce_LoadX509KeyPair e (TrimSpace (cco_CertFile opts)) (TrimSpace (cco_KeyFile opts)) = Inr (der # chain) \<and>
         ce_ParseCertificate e der = Inr leaf \<and>
         ce_ReadFile e (TrimSpace (cco_CAFile opts)) = Inr pem \<and> pem_blocks e pem bs \<and> certificates bs \<noteq> [] \<and>
         (\<forall>d \<in> set (certificates bs). \<exists>c. ce_ParseCertificate e d = Inr c) \<and>
         leaf_ok e now opts leaf \<and>
         rep = \<lparr>ccr_ComponentName = cco_ComponentName (trim_options opts), ccr_Profile = cco_Profile opts,
                ccr_Subject = x_Subject leaf, ccr_Issuer = x_Issuer leaf, ccr_NotBefore = x_NotBefore leaf,
                ccr_NotAfter = x_NotAfter leaf, ccr_CACount = length (certificates bs)\<rparr>)"

text \<open>
  C28. The certificate check always returns, whatever the files hold, and it accepts exactly a complete
  set of file names with a known profile, a loadable key pair whose leaf certificate is in force for
  the rotation window, allows the usage of the profile and (for a server) matches the expected name,
  and a CA file with at least one certificate in which every certificate block parses; the report
  counts these blocks. The PEM reader is only assumed to shorten its input.
\<close>

theorem CheckCertificateMaterial_returns:
  assumes "pem_consumes e"
  shows "\<exists>r. CheckCertificateMaterial e clock opts = Some r \<and>
    (\<forall>rep. r = Inr rep \<longleftrightarrow> acceptable e (if cco_Now opts = 0 then clock else cco_Now opts) opts rep)"
proof -
  let ?now = "if cco_Now opts = 0 then clock else cco_Now opts"
  have fields: "cco_CertFile (trim_options opts) = TrimSpace (cco_CertFile opts)" "cco_KeyFile (trim_options opts) = TrimSpace (cco_KeyFile opts)"
    "cco_CAFile (trim_options opts) = TrimSpace (cco_CAFile opts)" "cco_Profile (trim_options opts) = cco_Profile opts"
    "cco_Now (trim_options opts) = cco_Now opts" by (simp_all add: trim_options_def)
  obtain ca where ca: "parseCACount e (TrimSpace (cco_CAFile opts)) = Some ca" using parseCACount_returns [OF assms] by blast
  have n: "ca = Inr n \<longleftrightarrow> (\<exists>pem bs. ce_ReadFile e (TrimSpace (cco_CAFile opts)) = Inr pem \<and> pem_blocks e pem bs \<and> n = length (certificates bs) \<and> 0 < n \<and>
       (\<forall>d \<in> set (certificates bs). \<exists>c. ce_ParseCertificate e d = Inr c))" for n
    using parseCACount_Inr [OF assms, of "TrimSpace (cco_CAFile opts)" n] ca by simp
  show ?thesis
  proof (cases "TrimSpace (cco_CertFile opts) = [] \<or> TrimSpace (cco_KeyFile opts) = [] \<or> TrimSpace (cco_CAFile opts) = [] \<or>
      cco_Profile opts \<notin> {CertificateProfileServer, CertificateProfileClient}")
    case True
    then show ?thesis by (auto simp: CheckCertificateMaterial_def Let_def fields acceptable_def)
  next
    case ok: False
    show ?thesis
    proof (cases "\<exists>der chain leaf. ce_LoadX509KeyPair e (TrimSpace (cco_CertFile opts)) (TrimSpace (cco_KeyFile opts)) = Inr (der # chain) \<and>
        ce_ParseCertificate e der = Inr leaf")
      case False
      then show ?thesis using ok
        by (cases "ce_LoadX509KeyPair e (TrimSpace (cco_CertFile opts)) (TrimSpace (cco_KeyFile opts))")
           (auto simp: CheckCertificateMaterial_def Let_def fields acceptable_def split: list.splits sum.splits)
    next
      case True
      then obtain der chain leaf where l: "ce_LoadX509KeyPair e (TrimSpace (cco_CertFile opts)) (TrimSpace (cco_KeyFile opts)) = Inr (der # chain)"
        "ce_ParseCertificate e der = Inr leaf" by blast
      have leaf: "check_leaf e ?now (trim_options opts) leaf = None \<longleftrightarrow> leaf_ok e ?now opts leaf"
        using ok check_leaf_None by blast
      define rep_of where "rep_of = (\<lambda>n. \<lparr>ccr_ComponentName = cco_ComponentName (trim_options opts), ccr_Profile = cco_Profile opts,
         ccr_Subject = x_Subject leaf, ccr_Issuer = x_Issuer leaf, ccr_NotBefore = x_NotBefore leaf,
         ccr_NotAfter = x_NotAfter leaf, ccr_CACount = n\<rparr>)"
      define r where "r = (case ca of Inl err \<Rightarrow> Inl (wrapf (cco_ComponentName (trim_options opts) @ '' '') err)
         | Inr n \<Rightarrow> (case check_leaf e ?now (trim_options opts) leaf of Some err \<Rightarrow> Inl err | None \<Rightarrow> Inr (rep_of n)))"
      have "CheckCertificateMaterial e clock opts = Some r"
        using ok l ca unfolding CheckCertificateMaterial_def Let_def fields r_def rep_of_def by auto
      moreover have "r = Inr rep \<longleftrightarrow> (\<exists>n. ca = Inr n \<and> leaf_ok e ?now opts leaf \<and> rep = rep_of n)" for rep
        unfolding leaf [symmetric] by (auto simp: r_def split: sum.splits option.splits)
      ultimately show ?thesis
        using ok l by (intro exI [of _ r] conjI allI) (simp_all add: n rep_of_def acceptable_def, auto)
    qed
  qed
qed

text \<open>A concrete CA file: \<open>C\<close> opens a certificate block of one byte, every other byte a block of another kind.\<close>

definition sample_leaf :: X509 where
  "sample_leaf = \<lparr>x_SerialNumber = 7, x_CommonName = ''a'', x_NotBefore = 100, x_NotAfter = 900, x_KeyUsage = 1,
     x_ExtKeyUsage = [ExtKeyUsageServerAuth], x_IsCA = False, x_DNSNames = [''gw.example''], x_URIs = [], x_IPAddresses = [],
     x_PublicKey = Some ''key'', x_Subject = ''CN=a'', x_Issuer = ''CN=ca'', x_Raw = ''leaf''\<rparr>"

definition sample_certs :: certenv where
  "sample_certs = \<lparr>ce_ReadFile = (\<lambda>f. Inr ''KCC''), ce_LoadX509KeyPair = (\<lambda>c k. Inr [''leaf'']),
     ce_ParseCertificate = (\<lambda>d. Inr sample_leaf), ce_VerifyHostname = (\<lambda>c n. if n = ''gw.example'' then None else Some (Plain [])),
     ce_pem_Decode = (\<lambda>b. case b of [] \<Rightarrow> None | c # r \<Rightarrow> Some (if c = CHR ''C'' then ''CERTIFICATE'' else ''OTHER'', [c], r))\<rparr>"

definition sample_check_options :: CertificateCheckOptions where
  "sample_check_options = \<lparr>cco_Profile = ''server'', cco_CertFile = ''c'', cco_KeyFile = ''k'', cco_CAFile = ''ca'',
     cco_ExpectedDNS = ''gw.example'', cco_MinValidFor = 200, cco_Now = 0, cco_ComponentName = []\<rparr>"

lemma sample_blocks: "pem_blocks sample_certs ''KCC'' [(''OTHER'', ''K''), (''CERTIFICATE'', ''C''), (''CERTIFICATE'', ''C'')]"
proof -
  have "pem_blocks sample_certs [] []" by (rule finished) (simp add: sample_certs_def)
  then have "pem_blocks sample_certs ''C'' [(''CERTIFICATE'', ''C'')]" by (rule block [rotated]) (simp add: sample_certs_def)
  then have "pem_blocks sample_certs ''CC'' [(''CERTIFICATE'', ''C''), (''CERTIFICATE'', ''C'')]" by (rule block [rotated]) (simp add: sample_certs_def)
  then show ?thesis by (rule block [rotated]) (simp add: sample_certs_def)
qed

theorem CheckCertificateMaterial_returns_witness:
  "CheckCertificateMaterial sample_certs 500 sample_check_options =
     Some (Inr \<lparr>ccr_ComponentName = ''server'', ccr_Profile = ''server'', ccr_Subject = ''CN=a'', ccr_Issuer = ''CN=ca'',
       ccr_NotBefore = 100, ccr_NotAfter = 900, ccr_CACount = 2\<rparr>)"
proof -
  have "pem_consumes sample_certs" by (auto simp: pem_consumes_def sample_certs_def split: list.splits)
  from CheckCertificateMaterial_returns [OF this, of 500 sample_check_options] obtain r where
    r: "CheckCertificateMaterial sample_certs 500 sample_check_options = Some r"
    "\<And>rep. r = Inr rep \<longleftrightarrow> acceptable sample_certs 500 sample_check_options rep"
    by (auto simp: sample_check_options_def)
  have trims: "TrimSpace ''c'' = ''c''" "TrimSpace ''k'' = ''k''" "TrimSpace ''ca'' = ''ca''" "TrimSpace ''gw.example'' = ''gw.example''" "TrimSpace [] = []"
    by code_simp+
  have "leaf_ok sample_certs 500 sample_check_options sample_leaf"
    by (simp add: leaf_ok_def sample_check_options_def sample_leaf_def sample_certs_def CertificateProfileServer_def certificateAllowsUsage_def trims)
  then show ?thesis
    unfolding r(1) option.inject r(2) acceptable_def
    by (intro exI [of _ "''leaf''"] exI [of _ "[]"] exI [of _ sample_leaf] exI [of _ "''KCC''"]
        exI [of _ "[(''OTHER'', ''K''), (''CERTIFICATE'', ''C''), (''CERTIFICATE'', ''C'')]"] conjI sample_blocks)
      (simp_all add: sample_check_options_def sample_certs_def trims CertificateProfileServer_def certificates_def
        trim_options_def sample_leaf_def)
qed

end
