(* ===== verification/TlsConfig.thy ===== *)
theory TlsConfig
  imports CertCheck
begin

text \<open>
  Transport credentials (\<open>src/identity/tls.go\<close>): the TLS configurations of clients and servers and the
  check of a peer's chains against a revocation list. The record \<open>tlsenv\<close> adds to \<open>certenv\<close> what is used of
  \<open>crypto/x509\<close> here. The callback \<open>VerifyPeerCertificate\<close> closes over the name of the list's file and reads
  that file at each handshake: a configuration holds the name, and \<open>verify_peer\<close> is the callback.
\<close>

section \<open>Definitions\<close>

record RevocationList =
  rvl_Revoked :: "int list"
  rvl_Raw :: bytes

record tlsenv = certenv +
  x509_AppendCertsFromPEM :: "bytes \<Rightarrow> bool \<times> X509 list"
  x509_ParseRevocationList :: "bytes \<Rightarrow> goerror + RevocationList"
  crl_CheckSignatureFrom :: "RevocationList \<Rightarrow> X509 \<Rightarrow> goerror option"

record ClientTLSConfig =
  ctc_CertFile :: string
  ctc_KeyFile :: string
  ctc_CAFile :: string
  ctc_ServerName :: string

record ServerTLSConfig =
  stc_CertFile :: string
  stc_KeyFile :: string
  stc_ClientCAFile :: string
  stc_CRLFile :: string

record tls_Config =
  tc_MinVersion :: nat
  tc_ServerName :: string
  tc_Certificates :: "bytes list list"
  tc_RootCAs :: "X509 list option"
  tc_ClientCAs :: "X509 list option"
  tc_ClientAuth :: nat
  tc_VerifyPeerCertificate :: "string option"

definition VersionTLS12 :: nat where "VersionTLS12 = 0x0303"
definition NoClientCert :: nat where "NoClientCert = 0"
definition RequireAndVerifyClientCert :: nat where "RequireAndVerifyClientCert = 4"

definition ClientTransportCredentials :: "tlsenv \<Rightarrow> ClientTLSConfig \<Rightarrow> goerror + tls_Config" where
  "ClientTransportCredentials e cfg =
     (if TrimSpace (ctc_CertFile cfg) = [] \<or> TrimSpace (ctc_KeyFile cfg) = [] \<or> TrimSpace (ctc_CAFile cfg) = [] \<or>
         TrimSpace (ctc_ServerName cfg) = [] then
        Inl (Plain ''mTLS client cert, key, CA, and server name are required'')
      else case labelled ''load mTLS client key pair: '' (ce_LoadX509KeyPair e (TrimSpace (ctc_CertFile cfg)) (TrimSpace (ctc_KeyFile cfg))) of
        Inl err \<Rightarrow> Inl err | Inr cert \<Rightarrow>
      case labelled ''read mTLS CA file: '' (ce_ReadFile e (TrimSpace (ctc_CAFile cfg))) of
        Inl err \<Rightarrow> Inl err | Inr caPEM \<Rightarrow>
      (case x509_AppendCertsFromPEM e caPEM of (appended, roots) \<Rightarrow>
         if \<not> appended then Inl (Plain ''mTLS CA file did not contain any certificates'')
         else Inr \<lparr>tc_MinVersion = VersionTLS12, tc_ServerName = TrimSpace (ctc_ServerName cfg), tc_Certificates = [cert],
                   tc_RootCAs = Some roots, tc_ClientCAs = None, tc_ClientAuth = NoClientCert, tc_VerifyPeerCertificate = None\<rparr>))"

definition ServerTransportCredentials :: "tlsenv \<Rightarrow> ServerTLSConfig \<Rightarrow> goerror + tls_Config" where
  "ServerTransportCredentials e cfg =
     (if TrimSpace (stc_CertFile cfg) = [] \<or> TrimSpace (stc_KeyFile cfg) = [] \<or> TrimSpace (stc_ClientCAFile cfg) = [] then
        Inl (Plain ''mTLS server cert, key, and client CA are required'')
      else case labelled ''load mTLS server key pair: '' (ce_LoadX509KeyPair e (TrimSpace (stc_CertFile cfg)) (TrimSpace (stc_KeyFile cfg))) of
        Inl err \<Rightarrow> Inl err | Inr cert \<Rightarrow>
      case labelled ''read mTLS client CA file: '' (ce_ReadFile e (TrimSpace (stc_ClientCAFile cfg))) of
        Inl err \<Rightarrow> Inl err | Inr caPEM \<Rightarrow>
      (case x509_AppendCertsFromPEM e caPEM of (appended, clientCAs) \<Rightarrow>
         if \<not> appended then Inl (Plain ''mTLS client CA file did not contain any certificates'')
         else let crlFile = TrimSpace (stc_CRLFile cfg)
              in Inr \<lparr>tc_MinVersion = VersionTLS12, tc_ServerName = [], tc_Certificates = [cert], tc_RootCAs = None,
                      tc_ClientCAs = Some clientCAs, tc_ClientAuth = RequireAndVerifyClientCert,
                      tc_VerifyPeerCertificate = (if crlFile \<noteq> [] then Some crlFile else None)\<rparr>))"

definition ServerTLSOnlyCredentials :: "tlsenv \<Rightarrow> string \<Rightarrow> string \<Rightarrow> goerror + tls_Config" where
  "ServerTLSOnlyCredentials e certFile keyFile =
     (if TrimSpace certFile = [] \<or> TrimSpace keyFile = [] then Inl (Plain ''one-way server TLS requires a server cert and key'')
      else case labelled ''load one-way server key pair: '' (ce_LoadX509KeyPair e (TrimSpace certFile) (TrimSpace keyFile)) of
        Inl err \<Rightarrow> Inl err
      | Inr cert \<Rightarrow> Inr \<lparr>tc_MinVersion = VersionTLS12, tc_ServerName = [], tc_Certificates = [cert], tc_RootCAs = None,
                         tc_ClientCAs = None, tc_ClientAuth = NoClientCert, tc_VerifyPeerCertificate = None\<rparr>)"

text \<open>The callback: the loop over the verified chains, and the reading of the list.\<close>

fun check_chains :: "tlsenv \<Rightarrow> RevocationList \<Rightarrow> X509 list list \<Rightarrow> goerror option" where
  "check_chains e crl [] = None"
| "check_chains e crl ([] # verified) = check_chains e crl verified"
| "check_chains e crl ((leaf # issuers) # verified) =
     (case (case issuers of [] \<Rightarrow> None | parent # rest \<Rightarrow> crl_CheckSignatureFrom e crl parent) of
        Some err \<Rightarrow> Some (wrapf ''invalid CRL signature: '' err)
      | None \<Rightarrow>
          if x_SerialNumber leaf \<in> set (rvl_Revoked crl) then
            Some (Plain (''client certificate (serial: '' @ dec_int (x_SerialNumber leaf) @ '') has been revoked by CRL''))
          else check_chains e crl verified)"

definition verify_peer :: "tlsenv \<Rightarrow> string \<Rightarrow> X509 list list \<Rightarrow> goerror option" where
  "verify_peer e crlFile verifiedChains =
     (case labelled ''read CRL file: '' (ce_ReadFile e crlFile) of Inl err \<Rightarrow> Some err | Inr crlBytes \<Rightarrow>
      let der = (case ce_pem_Decode e crlBytes of Some (kind, data, rest) \<Rightarrow> data | None \<Rightarrow> crlBytes)
      in case labelled ''parse CRL: '' (x509_ParseRevocationList e der) of Inl err \<Rightarrow> Some err | Inr crl \<Rightarrow>
      check_chains e crl verifiedChains)"

section \<open>Properties\<close>

text \<open>What the callback requires of a chain.\<close>

definition chain_ok :: "tlsenv \<Rightarrow> RevocationList \<Rightarrow> X509 list \<Rightarrow> bool" where
  "chain_ok e crl chain \<longleftrightarrow>
     (chain \<noteq> [] \<longrightarrow> x_SerialNumber (hd chain) \<notin> set (rvl_Revoked crl)) \<and>
     (1 < length chain \<longrightarrow> crl_CheckSignatureFrom e crl (chain ! 1) = None)"

lemma check_chains_None: "check_chains e crl verified = None \<longleftrightarrow> list_all (chain_ok e crl) verified"
  by (induction e crl verified rule: check_chains.induct) (auto simp: chain_ok_def split: option.splits list.splits)

definition crl_of :: "tlsenv \<Rightarrow> string \<Rightarrow> RevocationList \<Rightarrow> bool" where
  "crl_of e crlFile crl \<longleftrightarrow>
     (\<exists>b. ce_ReadFile e crlFile = Inr b \<and>
        x509_ParseRevocationList e (case ce_pem_Decode e b of Some (kind, data, rest) \<Rightarrow> data | None \<Rightarrow> b) = Inr crl)"

lemma verify_peer_None: "verify_peer e crlFile verified = None \<longleftrightarrow> (\<exists>crl. crl_of e crlFile crl \<and> list_all (chain_ok e crl) verified)"
proof (cases "ce_ReadFile e crlFile")
  case (Inl err)
  then show ?thesis by (simp add: verify_peer_def crl_of_def labelled_def)
next
  case (Inr b)
  let ?der = "case ce_pem_Decode e b of Some (kind, data, rest) \<Rightarrow> data | None \<Rightarrow> b"
  show ?thesis
    by (cases "x509_ParseRevocationList e ?der") (simp_all add: Inr verify_peer_def crl_of_def labelled_def check_chains_None)
qed

text \<open>
  C39. Mutual TLS fails closed. Whenever server credentials with client authentication are made, they
  demand and verify a client certificate under a pool read from the client CA file, with TLS 1.2 at
  least; and when a revocation list is configured, its callback accepts the verified chains exactly
  if the list can be read and parsed at that handshake, is signed by the issuer of each chain that
  has one, and lists no leaf. One-way credentials never ask for a client certificate.
\<close>

theorem mtls_fails_closed:
  "(ServerTransportCredentials e cfg = Inr c \<longrightarrow>
      tc_ClientAuth c = RequireAndVerifyClientCert \<and> tc_MinVersion c = VersionTLS12 \<and>
      (\<exists>pem pool. ce_ReadFile e (TrimSpace (stc_ClientCAFile cfg)) = Inr pem \<and> x509_AppendCertsFromPEM e pem = (True, pool) \<and>
         tc_ClientCAs c = Some pool) \<and>
      (if TrimSpace (stc_CRLFile cfg) = [] then tc_VerifyPeerCertificate c = None
       else \<exists>f. tc_VerifyPeerCertificate c = Some f \<and>
         (\<forall>e' verified. verify_peer e' f verified = None \<longleftrightarrow>
            (\<exists>crl. crl_of e' (TrimSpace (stc_CRLFile cfg)) crl \<and> list_all (chain_ok e' crl) verified)))) \<and>
   (ServerTLSOnlyCredentials e certFile keyFile = Inr c' \<longrightarrow> tc_ClientAuth c' = NoClientCert \<and> tc_ClientCAs c' = None)"
  by (auto simp: ServerTransportCredentials_def ServerTLSOnlyCredentials_def verify_peer_None Let_def
      split: if_splits sum.splits prod.splits)

definition sample_tls :: "int list \<Rightarrow> tlsenv" where
  "sample_tls revoked =
     \<lparr>ce_ReadFile = (\<lambda>f. if f \<in> {''ca.pem'', ''crl.pem''} then Inr f else Inl (Plain ''no such file'')),
      ce_LoadX509KeyPair = (\<lambda>c k. Inr [''leaf'']), ce_ParseCertificate = (\<lambda>d. Inr sample_leaf),
      ce_VerifyHostname = (\<lambda>c n. None), ce_pem_Decode = (\<lambda>b. None),
      x509_AppendCertsFromPEM = (\<lambda>b. (True, [sample_leaf])),
      x509_ParseRevocationList = (\<lambda>b. Inr \<lparr>rvl_Revoked = revoked, rvl_Raw = b\<rparr>),
      crl_CheckSignatureFrom = (\<lambda>crl c. None)\<rparr>"

definition sample_server :: ServerTLSConfig where
  "sample_server = \<lparr>stc_CertFile = ''s.pem'', stc_KeyFile = ''s.key'', stc_ClientCAFile = ''ca.pem'', stc_CRLFile = '' crl.pem''\<rparr>"

theorem mtls_fails_closed_witness:
  "\<exists>c f. ServerTransportCredentials (sample_tls [7]) sample_server = Inr c \<and> tc_VerifyPeerCertificate c = Some f \<and>
     verify_peer (sample_tls [7]) f [[sample_leaf, sample_leaf]] \<noteq> None \<and> verify_peer (sample_tls [8]) f [[sample_leaf, sample_leaf]] = None"
proof -
  have trims: "TrimSpace ''s.pem'' = ''s.pem''" "TrimSpace ''s.key'' = ''s.key''" "TrimSpace ''ca.pem'' = ''ca.pem''" "TrimSpace '' crl.pem'' = ''crl.pem''"
    by code_simp+
  obtain c where c: "ServerTransportCredentials (sample_tls [7]) sample_server = Inr c"
    by (simp add: ServerTransportCredentials_def sample_server_def sample_tls_def trims labelled_def)
  then obtain f where f: "tc_VerifyPeerCertificate c = Some f"
    "\<And>e' verified. verify_peer e' f verified = None \<longleftrightarrow> (\<exists>crl. crl_of e' ''crl.pem'' crl \<and> list_all (chain_ok e' crl) verified)"
    using mtls_fails_closed [of "sample_tls [7]" sample_server c "[]" "[]" c] by (simp add: sample_server_def trims) blast
  have crl: "crl_of (sample_tls revoked) ''crl.pem'' crl \<longleftrightarrow> crl = \<lparr>rvl_Revoked = revoked, rvl_Raw = ''crl.pem''\<rparr>" for revoked crl
    by (auto simp: crl_of_def sample_tls_def)
  have ok: "chain_ok (sample_tls revoked) \<lparr>rvl_Revoked = revoked, rvl_Raw = b\<rparr> [sample_leaf, sample_leaf] \<longleftrightarrow> 7 \<notin> set revoked" for revoked b
    by (simp add: chain_ok_def sample_leaf_def sample_tls_def)
  show ?thesis by (intro exI [of _ c] exI [of _ f]) (simp add: c f crl ok del: not_None_eq)
qed

end
