(* ===== verification/CertIssue.thy ===== *)
theory CertIssue
  imports CertCheck
begin

unbundle bit_operations_syntax

text \<open>
  Issuing certificates (\<open>src/identity/certissue.go\<close>): certificate authorities, leaf certificates, the
  signing of requests and the requests themselves. The record \<open>pki\<close> extends \<open>certenv\<close> by the primitives
  of \<open>crypto/x509\<close>, \<open>crypto/ed25519\<close>, \<open>encoding/asn1\<close>, \<open>encoding/pem\<close> and \<open>net/url\<close>; those that read random
  bytes change a world \<open>'w\<close>. Keys are byte strings, a nil key is \<open>None\<close>. \<open>rand.Int\<close> is modelled on the
  reader it is given: below a power of two with whole bytes its loop ends in the first round.
\<close>

section \<open>Data and environment\<close>

datatype reader = SystemReader | CallerReader nat

type_synonym oid = "nat list"

record CertTemplate =
  tp_SerialNumber :: int
  tp_CommonName :: string
  tp_NotBefore :: gotime
  tp_NotAfter :: gotime
  tp_KeyUsage :: int
  tp_ExtKeyUsage :: "nat list"
  tp_BasicConstraintsValid :: bool
  tp_IsCA :: bool
  tp_DNSNames :: "string list"
  tp_URIs :: "URL list"
  tp_IPAddresses :: "bytes list"

record RequestTemplate =
  rt_CommonName :: string
  rt_DNSNames :: "string list"
  rt_URIs :: "URL list"
  rt_PublicKey :: bytes
  rt_ExtraExtensions :: "(oid \<times> bytes) list"

record X509Request =
  rq_CommonName :: string
  rq_DNSNames :: "string list"
  rq_URIs :: "URL list"
  rq_PublicKey :: "bytes option"
  rq_Extensions :: "(oid \<times> bytes) list"

datatype private_key = SignerKey bytes | OtherKey

text \<open>\<open>x509.CreateCertificate\<close> takes the parent certificate; \<open>None\<close> is the template itself.\<close>

record 'w pki = certenv +
  url_Parse :: "string \<Rightarrow> goerror + URL"
  io_ReadFull :: "reader \<Rightarrow> nat \<Rightarrow> 'w \<Rightarrow> (goerror + bytes) \<times> 'w"
  ed25519_GenerateKey :: "reader \<Rightarrow> 'w \<Rightarrow> (goerror + bytes \<times> bytes) \<times> 'w"
  signer_Public :: "bytes \<Rightarrow> bytes"
  x509_CreateCertificate :: "reader \<Rightarrow> CertTemplate \<Rightarrow> X509 option \<Rightarrow> bytes \<Rightarrow> bytes \<Rightarrow> 'w \<Rightarrow> (goerror + bytes) \<times> 'w"
  x509_CreateCertificateRequest :: "reader \<Rightarrow> RequestTemplate \<Rightarrow> bytes \<Rightarrow> 'w \<Rightarrow> (goerror + bytes) \<times> 'w"
  x509_ParseCertificateRequest :: "bytes \<Rightarrow> goerror + X509Request"
  x509_CheckSignature :: "X509Request \<Rightarrow> goerror option"
  x509_MarshalPKCS8PrivateKey :: "bytes \<Rightarrow> goerror + bytes"
  x509_ParsePKCS8PrivateKey :: "bytes \<Rightarrow> goerror + private_key"
  x509_MarshalPKIXPublicKey :: "bytes option \<Rightarrow> goerror + bytes"
  x509_Verify :: "X509 \<Rightarrow> X509 list \<Rightarrow> X509 list \<Rightarrow> gotime \<Rightarrow> nat list \<Rightarrow> goerror option"
  asn1_Marshal :: "oid list \<Rightarrow> goerror + bytes"
  asn1_Unmarshal :: "bytes \<Rightarrow> goerror + oid list"
  pem_EncodeToMemory :: "string \<Rightarrow> bytes \<Rightarrow> bytes"

record CertificateAuthority =
  ca_Certificate :: "X509 option"
  ca_PrivateKey :: "bytes option"
  ca_CertPEM :: bytes
  ca_KeyPEM :: bytes

record IssuedCertificate =
  ic_Certificate :: X509
  ic_CertPEM :: bytes
  ic_KeyPEM :: bytes

record CertificateSigningRequest =
  cr_Request :: X509Request
  cr_CSRPEM :: bytes
  cr_KeyPEM :: bytes

record CertificateAuthorityOptions =
  cao_CommonName :: string
  cao_NotBefore :: gotime
  cao_TTL :: int64
  cao_Random :: "reader option"

record CertificateIssueOptions =
  cio_Profile :: string
  cio_CommonName :: string
  cio_DNSNames :: "string list"
  cio_URIs :: "string list"
  cio_NotBefore :: gotime
  cio_TTL :: int64
  cio_CA :: CertificateAuthority
  cio_Random :: "reader option"

record CertificateSigningRequestOptions =
  cso_Profile :: string
  cso_CommonName :: string
  cso_DNSNames :: "string list"
  cso_URIs :: "string list"
  cso_Random :: "reader option"

record CertificateSignOptions =
  sgo_Profile :: string
  sgo_CommonName :: string
  sgo_DNSNames :: "string list"
  sgo_URIs :: "string list"
  sgo_NotBefore :: gotime
  sgo_TTL :: int64
  sgo_CA :: CertificateAuthority
  sgo_Random :: "reader option"

record SelfSignedServerCertificateOptions =
  sso_CommonName :: string
  sso_DNSNames :: "string list"
  sso_IPAddresses :: "bytes option list"
  sso_NotBefore :: gotime
  sso_TTL :: int64
  sso_Random :: "reader option"

definition oidExtensionExtendedKeyUsage :: oid where "oidExtensionExtendedKeyUsage = [2, 5, 29, 37]"
definition oidExtKeyUsageServerAuth :: oid where "oidExtKeyUsageServerAuth = [1, 3, 6, 1, 5, 5, 7, 3, 1]"
definition oidExtKeyUsageClientAuth :: oid where "oidExtKeyUsageClientAuth = [1, 3, 6, 1, 5, 5, 7, 3, 2]"

definition KeyUsageDigitalSignature :: int where "KeyUsageDigitalSignature = 1"
definition KeyUsageCertSign :: int where "KeyUsageCertSign = 32"
definition KeyUsageCRLSign :: int where "KeyUsageCRLSign = 64"

definition Hour :: int where "Hour = 3600 * 1000000000"

section \<open>Operations that may fail and read random bytes\<close>

type_synonym ('a, 'w) effect = "'w \<Rightarrow> (goerror + 'a) \<times> 'w"

definition andthen :: "('a, 'w) effect \<Rightarrow> ('a \<Rightarrow> ('b, 'w) effect) \<Rightarrow> ('b, 'w) effect" where
  "andthen m f w = (case m w of (Inl err, w') \<Rightarrow> (Inl err, w') | (Inr x, w') \<Rightarrow> f x w')"

definition pure_result :: "goerror + 'a \<Rightarrow> ('a, 'w) effect" where
  "pure_result r w = (r, w)"

definition labelling :: "string \<Rightarrow> ('a, 'w) effect \<Rightarrow> ('a, 'w) effect" where
  "labelling text m w = (case m w of (r, w') \<Rightarrow> (labelled text r, w'))"

lemma andthen_Inr:
  "andthen m f w = (Inr y, w'') \<longleftrightarrow> (\<exists>x w'. m w = (Inr x, w') \<and> f x w' = (Inr y, w''))"
  by (auto simp: andthen_def split: prod.splits sum.splits)

lemma labelling_Inr [simp]: "labelling text m w = (Inr x, w') \<longleftrightarrow> m w = (Inr x, w')"
  by (auto simp: labelling_def split: prod.splits)

lemma pure_result_Inr [simp]: "pure_result r w = (Inr x, w') \<longleftrightarrow> r = Inr x \<and> w' = w"
  by (auto simp: pure_result_def)

section \<open>Keys, serial numbers, names\<close>

definition parsePrivateKey :: "('w, 'e) pki_scheme \<Rightarrow> bytes \<Rightarrow> goerror + bytes" where
  "parsePrivateKey e keyPEM =
     (case ce_pem_Decode e keyPEM of
        None \<Rightarrow> Inl (Plain ''private key PEM block is missing'')
      | Some (kind, data, rest) \<Rightarrow>
          (case x509_ParsePKCS8PrivateKey e data of
             Inl err \<Rightarrow> Inl err
           | Inr OtherKey \<Rightarrow> Inl (Plain ''private key does not implement crypto.Signer'')
           | Inr (SignerKey signer) \<Rightarrow> Inr signer))"

definition encodePrivateKey :: "('w, 'e) pki_scheme \<Rightarrow> bytes \<Rightarrow> goerror + bytes" where
  "encodePrivateKey e privateKey =
     (case labelled ''marshal private key: '' (x509_MarshalPKCS8PrivateKey e privateKey) of
        Inl err \<Rightarrow> Inl err
      | Inr keyDER \<Rightarrow> Inr (pem_EncodeToMemory e ''PRIVATE KEY'' keyDER))"

definition big_endian :: "bytes \<Rightarrow> int" where
  "big_endian b = foldl (\<lambda>n c. n * 256 + of_char c) 0 b"

definition randomSerial :: "('w, 'e) pki_scheme \<Rightarrow> reader \<Rightarrow> (int, 'w) effect" where
  "randomSerial e random =
     andthen (labelling ''generate certificate serial: '' (io_ReadFull e random 16))
       (\<lambda>b. pure_result (Inr (if big_endian b = 0 then 1 else big_endian b)))"

definition cleanStrings :: "string list \<Rightarrow> string list" where
  "cleanStrings values = filter (\<lambda>value. value \<noteq> []) (map TrimSpace values)"

definition cleanIPs :: "bytes option list \<Rightarrow> bytes list" where
  "cleanIPs ips = List.map_filter id ips"

fun parse_uris :: "('w, 'e) pki_scheme \<Rightarrow> string list \<Rightarrow> goerror + URL list" where
  "parse_uris e [] = Inr []"
| "parse_uris e (value # values) =
     (case labelled ''parse URI SAN : '' (url_Parse e value) of
        Inl err \<Rightarrow> Inl err
      | Inr parsed \<Rightarrow> (case parse_uris e values of Inl err \<Rightarrow> Inl err | Inr out \<Rightarrow> Inr (parsed # out)))"

definition parseURIs :: "('w, 'e) pki_scheme \<Rightarrow> string list \<Rightarrow> goerror + URL list" where
  "parseURIs e values = parse_uris e (cleanStrings values)"

text \<open>The defaults of the options: the clock for a zero time, a lifetime, the system's reader.\<close>

definition or_clock :: "gotime \<Rightarrow> gotime \<Rightarrow> gotime" where
  "or_clock clock t = (if t = 0 then clock else t)"

definition or_days :: "int \<Rightarrow> int64 \<Rightarrow> int" where
  "or_days days ttl = (if sint ttl \<le> 0 then days * 24 * Hour else sint ttl)"

definition or_system :: "reader option \<Rightarrow> reader" where
  "or_system random = (case random of None \<Rightarrow> SystemReader | Some r \<Rightarrow> r)"

section \<open>Certificate authorities\<close>

definition ca_template :: "int \<Rightarrow> string \<Rightarrow> gotime \<Rightarrow> int \<Rightarrow> CertTemplate" where
  "ca_template serial commonName now ttl =
     \<lparr>tp_SerialNumber = serial, tp_CommonName = commonName, tp_NotBefore = now, tp_NotAfter = now + ttl,
      tp_KeyUsage = KeyUsageCertSign OR KeyUsageCRLSign OR KeyUsageDigitalSignature, tp_ExtKeyUsage = [],
      tp_BasicConstraintsValid = True, tp_IsCA = True, tp_DNSNames = [], tp_URIs = [], tp_IPAddresses = []\<rparr>"

definition GenerateCertificateAuthority :: "('w, 'e) pki_scheme \<Rightarrow> gotime \<Rightarrow> CertificateAuthorityOptions \<Rightarrow> (CertificateAuthority, 'w) effect" where
  "GenerateCertificateAuthority e clock opts =
     (let now = or_clock clock (cao_NotBefore opts); ttl = or_days 365 (cao_TTL opts); random = or_system (cao_Random opts);
          commonName = (if TrimSpace (cao_CommonName opts) = [] then ''builders-net-mtls-ca'' else TrimSpace (cao_CommonName opts))
      in andthen (labelling ''generate CA key: '' (ed25519_GenerateKey e random)) (\<lambda>(publicKey, privateKey).
         andthen (randomSerial e random) (\<lambda>serial.
         andthen (labelling ''create CA certificate: ''
             (x509_CreateCertificate e random (ca_template serial commonName now ttl) None publicKey privateKey)) (\<lambda>der.
         andthen (pure_result (encodePrivateKey e privateKey)) (\<lambda>keyPEM.
         andthen (pure_result (labelled ''parse generated CA certificate: '' (ce_ParseCertificate e der))) (\<lambda>cert.
         pure_result (Inr \<lparr>ca_Certificate = Some cert, ca_PrivateKey = Some privateKey,
           ca_CertPEM = pem_EncodeToMemory e ''CERTIFICATE'' der, ca_KeyPEM = keyPEM\<rparr>)))))))"

definition LoadCertificateAuthority :: "('w, 'e) pki_scheme \<Rightarrow> string \<Rightarrow> string \<Rightarrow> goerror + CertificateAuthority" where
  "LoadCertificateAuthority e certFile keyFile =
     (case labelled ''read CA certificate: '' (ce_ReadFile e (TrimSpace certFile)) of Inl err \<Rightarrow> Inl err | Inr certPEM \<Rightarrow>
      case labelled ''read CA private key: '' (ce_ReadFile e (TrimSpace keyFile)) of Inl err \<Rightarrow> Inl err | Inr keyPEM \<Rightarrow>
      case ce_pem_Decode e certPEM of
        None \<Rightarrow> Inl (Plain ''CA certificate file did not contain a certificate'')
      | Some (kind, data, rest) \<Rightarrow>
          if kind \<noteq> ''CERTIFICATE'' then Inl (Plain ''CA certificate file did not contain a certificate'')
          else case labelled ''parse CA certificate: '' (ce_ParseCertificate e data) of Inl err \<Rightarrow> Inl err | Inr cert \<Rightarrow>
          if \<not> x_IsCA cert then Inl (Plain ''CA certificate is not a certificate authority'')
          else case labelled ''parse CA private key: '' (parsePrivateKey e keyPEM) of Inl err \<Rightarrow> Inl err | Inr privateKey \<Rightarrow>
          Inr \<lparr>ca_Certificate = Some cert, ca_PrivateKey = Some privateKey, ca_CertPEM = certPEM, ca_KeyPEM = keyPEM\<rparr>)"

section \<open>Leaf certificates\<close>

definition leaf_template :: "string \<Rightarrow> string list \<Rightarrow> URL list \<Rightarrow> gotime \<Rightarrow> int \<Rightarrow> int \<Rightarrow> CertTemplate" where
  "leaf_template commonName dnsNames uris now ttl serial =
     \<lparr>tp_SerialNumber = serial, tp_CommonName = commonName, tp_NotBefore = now, tp_NotAfter = now + ttl,
      tp_KeyUsage = KeyUsageDigitalSignature, tp_ExtKeyUsage = [], tp_BasicConstraintsValid = False, tp_IsCA = False,
      tp_DNSNames = dnsNames, tp_URIs = uris, tp_IPAddresses = []\<rparr>"

definition newLeafTemplate ::
  "('w, 'e) pki_scheme \<Rightarrow> string \<Rightarrow> string \<Rightarrow> string list \<Rightarrow> string list \<Rightarrow> gotime \<Rightarrow> int \<Rightarrow> reader \<Rightarrow> (CertTemplate, 'w) effect" where
  "newLeafTemplate e profile commonName dnsNames uriStrings now ttl random =
     andthen (randomSerial e random) (\<lambda>serial.
     andthen (pure_result (parseURIs e uriStrings)) (\<lambda>uris.
       let template = leaf_template commonName (cleanStrings dnsNames) uris now ttl serial
       in if profile = CertificateProfileServer then
            (if tp_DNSNames template = [] then pure_result (Inl (Plain ''server certificate requires at least one DNS SAN''))
             else pure_result (Inr (template\<lparr>tp_ExtKeyUsage := [ExtKeyUsageServerAuth]\<rparr>)))
          else if profile = CertificateProfileClient then
            (if tp_URIs template = [] then pure_result (Inl (Plain ''client certificate requires at least one URI SAN''))
             else pure_result (Inr (template\<lparr>tp_ExtKeyUsage := [ExtKeyUsageClientAuth]\<rparr>)))
          else pure_result (Inl (Plain ''unsupported certificate profile ''))))"

definition known_profile :: "string \<Rightarrow> bool" where
  "known_profile profile \<longleftrightarrow> profile = CertificateProfileServer \<or> profile = CertificateProfileClient"

definition IssueCertificate :: "('w, 'e) pki_scheme \<Rightarrow> gotime \<Rightarrow> CertificateIssueOptions \<Rightarrow> (IssuedCertificate, 'w) effect" where
  "IssueCertificate e clock opts =
     (case (ca_Certificate (cio_CA opts), ca_PrivateKey (cio_CA opts)) of
        (Some caCert, Some caKey) \<Rightarrow>
          if \<not> known_profile (cio_Profile opts) then pure_result (Inl (Plain ''unsupported certificate profile ''))
          else let now = or_clock clock (cio_NotBefore opts); ttl = or_days 90 (cio_TTL opts); random = or_system (cio_Random opts);
                   commonName = TrimSpace (cio_CommonName opts)
          in if commonName = [] then pure_result (Inl (Plain ''certificate common name is required''))
             else andthen (labelling ''generate certificate key: '' (ed25519_GenerateKey e random)) (\<lambda>(publicKey, privateKey).
               andthen (newLeafTemplate e (cio_Profile opts) commonName (cio_DNSNames opts) (cio_URIs opts) now ttl random) (\<lambda>template.
               andthen (labelling ''create certificate: ''
                   (x509_CreateCertificate e random template (Some caCert) publicKey caKey)) (\<lambda>der.
               andthen (pure_result (encodePrivateKey e privateKey)) (\<lambda>keyPEM.
               andthen (pure_result (labelled ''parse generated certificate: '' (ce_ParseCertificate e der))) (\<lambda>cert.
               pure_result (Inr \<lparr>ic_Certificate = cert, ic_CertPEM = pem_EncodeToMemory e ''CERTIFICATE'' der, ic_KeyPEM = keyPEM\<rparr>))))))
      | _ \<Rightarrow> pure_result (Inl (Plain ''CA certificate and private key are required'')))"

definition SignCertificateRequest ::
  "('w, 'e) pki_scheme \<Rightarrow> gotime \<Rightarrow> X509Request option \<Rightarrow> CertificateSignOptions \<Rightarrow> (IssuedCertificate, 'w) effect" where
  "SignCertificateRequest e clock csr opts =
     (case (ca_Certificate (sgo_CA opts), ca_PrivateKey (sgo_CA opts)) of
        (Some caCert, Some caKey) \<Rightarrow>
          if \<not> known_profile (sgo_Profile opts) then pure_result (Inl (Plain ''unsupported certificate profile ''))
          else (case csr of
            None \<Rightarrow> pure_result (Inl (Plain ''a parsed certificate signing request is required''))
          | Some request \<Rightarrow>
             (case rq_PublicKey request of
                None \<Rightarrow> pure_result (Inl (Plain ''certificate signing request is missing a public key''))
              | Some publicKey \<Rightarrow>
                (case x509_CheckSignature e request of
                   Some err \<Rightarrow> pure_result (Inl (wrapf ''certificate signing request signature is invalid: '' err))
                 | None \<Rightarrow>
                    let now = or_clock clock (sgo_NotBefore opts); ttl = or_days 90 (sgo_TTL opts); random = or_system (sgo_Random opts);
                        commonName = (if TrimSpace (sgo_CommonName opts) = [] then TrimSpace (rq_CommonName request)
                                      else TrimSpace (sgo_CommonName opts))
                    in if commonName = [] then
                         pure_result (Inl (Plain ''certificate common name is required (empty in both options and CSR)''))
                       else andthen (newLeafTemplate e (sgo_Profile opts) commonName (sgo_DNSNames opts) (sgo_URIs opts) now ttl random) (\<lambda>template.
                         andthen (labelling ''sign certificate request: ''
                             (x509_CreateCertificate e random template (Some caCert) publicKey caKey)) (\<lambda>der.
                         andthen (pure_result (labelled ''parse signed certificate: '' (ce_ParseCertificate e der))) (\<lambda>cert.
                         pure_result (Inr \<lparr>ic_Certificate = cert, ic_CertPEM = pem_EncodeToMemory e ''CERTIFICATE'' der, ic_KeyPEM = []\<rparr>)))))))
      | _ \<Rightarrow> pure_result (Inl (Plain ''CA certificate and private key are required'')))"

definition self_signed_template :: "int \<Rightarrow> string \<Rightarrow> string list \<Rightarrow> bytes list \<Rightarrow> gotime \<Rightarrow> int \<Rightarrow> CertTemplate" where
  "self_signed_template serial commonName dnsNames ips now ttl =
     (leaf_template commonName dnsNames [] now ttl serial)\<lparr>tp_ExtKeyUsage := [ExtKeyUsageServerAuth], tp_IPAddresses := ips\<rparr>"

definition GenerateSelfSignedServerCertificate ::
  "('w, 'e) pki_scheme \<Rightarrow> gotime \<Rightarrow> SelfSignedServerCertificateOptions \<Rightarrow> (IssuedCertificate, 'w) effect" where
  "GenerateSelfSignedServerCertificate e clock opts =
     (let now = or_clock clock (sso_NotBefore opts); ttl = or_days 90 (sso_TTL opts); random = or_system (sso_Random opts);
          commonName = TrimSpace (sso_CommonName opts); dnsNames = cleanStrings (sso_DNSNames opts); ips = cleanIPs (sso_IPAddresses opts)
      in if commonName = [] then pure_result (Inl (Plain ''certificate common name is required''))
         else if length dnsNames + length ips = 0 then
           pure_result (Inl (Plain ''self-signed server certificate requires at least one SAN (DNS or IP)''))
         else andthen (labelling ''generate certificate key: '' (ed25519_GenerateKey e random)) (\<lambda>(publicKey, privateKey).
           andthen (randomSerial e random) (\<lambda>serial.
           andthen (labelling ''create certificate: ''
               (x509_CreateCertificate e random (self_signed_template serial commonName dnsNames ips now ttl) None publicKey privateKey)) (\<lambda>der.
           andthen (pure_result (encodePrivateKey e privateKey)) (\<lambda>keyPEM.
           andthen (pure_result (labelled ''parse generated certificate: '' (ce_ParseCertificate e der))) (\<lambda>cert.
           pure_result (Inr \<lparr>ic_Certificate = cert, ic_CertPEM = pem_EncodeToMemory e ''CERTIFICATE'' der, ic_KeyPEM = keyPEM\<rparr>)))))))"

section \<open>Signing requests\<close>

definition requestedExtendedKeyUsage :: "('w, 'e) pki_scheme \<Rightarrow> string \<Rightarrow> goerror + oid \<times> bytes" where
  "requestedExtendedKeyUsage e profile =
     (if \<not> known_profile profile then Inl (Plain ''unsupported certificate profile '')
      else case labelled ''marshal CSR extended key usage: ''
          (asn1_Marshal e [if profile = CertificateProfileServer then oidExtKeyUsageServerAuth else oidExtKeyUsageClientAuth]) of
        Inl err \<Rightarrow> Inl err
      | Inr v \<Rightarrow> Inr (oidExtensionExtendedKeyUsage, v))"

definition GenerateCertificateSigningRequest ::
  "('w, 'e) pki_scheme \<Rightarrow> CertificateSigningRequestOptions \<Rightarrow> (CertificateSigningRequest, 'w) effect" where
  "GenerateCertificateSigningRequest e opts =
     (if \<not> known_profile (cso_Profile opts) then pure_result (Inl (Plain ''unsupported certificate profile ''))
      else let random = or_system (cso_Random opts); commonName = TrimSpace (cso_CommonName opts); dnsNames = cleanStrings (cso_DNSNames opts)
      in if commonName = [] then pure_result (Inl (Plain ''certificate common name is required''))
      else andthen (labelling ''generate CSR key: '' (ed25519_GenerateKey e random)) (\<lambda>(publicKey, privateKey).
        andthen (pure_result (parseURIs e (cso_URIs opts))) (\<lambda>uris.
        if cso_Profile opts = CertificateProfileServer \<and> dnsNames = [] then
          pure_result (Inl (Plain ''server CSR requires at least one DNS SAN''))
        else if cso_Profile opts = CertificateProfileClient \<and> uris = [] then
          pure_result (Inl (Plain ''client CSR requires at least one URI SAN''))
        else andthen (pure_result (requestedExtendedKeyUsage e (cso_Profile opts))) (\<lambda>eku.
        andthen (labelling ''create CSR: '' (x509_CreateCertificateRequest e random
            \<lparr>rt_CommonName = commonName, rt_DNSNames = dnsNames, rt_URIs = uris, rt_PublicKey = publicKey, rt_ExtraExtensions = [eku]\<rparr>
            privateKey)) (\<lambda>der.
        andthen (pure_result (encodePrivateKey e privateKey)) (\<lambda>keyPEM.
        andthen (pure_result (labelled ''parse generated CSR: '' (x509_ParseCertificateRequest e der))) (\<lambda>request.
        case x509_CheckSignature e request of
          Some err \<Rightarrow> pure_result (Inl (wrapf ''verify generated CSR signature: '' err))
        | None \<Rightarrow> pure_result (Inr \<lparr>cr_Request = request, cr_CSRPEM = pem_EncodeToMemory e ''CERTIFICATE REQUEST'' der, cr_KeyPEM = keyPEM\<rparr>))))))))"

end
