(* ===== verification/CsrVerify.thy ===== *)
theory CsrVerify
  imports CertIssue
begin

text \<open>
  The check of an issued certificate against the request it was issued for
  (\<open>src/identity/csrverify.go\<close>). The loops over PEM files are partial functions, as in \<open>CertCheck\<close>; that
  they return is proved from the behaviour of the PEM reader.
\<close>

section \<open>Definitions\<close>

record IssuedCSRVerificationOptions =
  ivo_Profile :: string
  ivo_CertFile :: string
  ivo_CSRFile :: string
  ivo_CAFile :: string
  ivo_MinValidFor :: int64
  ivo_Now :: gotime
  ivo_ComponentName :: string

record IssuedCSRVerificationReport =
  ivr_ComponentName :: string
  ivr_Profile :: string
  ivr_Subject :: string
  ivr_Issuer :: string
  ivr_NotBefore :: gotime
  ivr_NotAfter :: gotime
  ivr_DNSNames :: "string list"
  ivr_URIs :: "string list"
  ivr_CACount :: nat

text \<open>The certificates of a PEM file, in order; the error text is that of the caller.\<close>

partial_function (option) collect_certificates :: "('w, 'e) pki_scheme \<Rightarrow> string \<Rightarrow> X509 list \<Rightarrow> bytes \<Rightarrow> (goerror + X509 list) option" where
  "collect_certificates e failure certs certPEM =
     (case ce_pem_Decode e certPEM of
        None \<Rightarrow> Some (Inr certs)
      | Some (kind, data, rest) \<Rightarrow>
          if kind \<noteq> ''CERTIFICATE'' then collect_certificates e failure certs rest
          else (case labelled failure (ce_ParseCertificate e data) of
                  Inl err \<Rightarrow> Some (Inl err)
                | Inr cert \<Rightarrow> collect_certificates e failure (certs @ [cert]) rest))"

definition loadCertificates :: "('w, 'e) pki_scheme \<Rightarrow> string \<Rightarrow> (goerror + X509 list) option" where
  "loadCertificates e path =
     (case labelled ''read certificate file: '' (ce_ReadFile e (TrimSpace path)) of
        Inl err \<Rightarrow> Some (Inl err)
      | Inr certPEM \<Rightarrow> collect_certificates e ''parse certificate: '' [] certPEM)"

definition loadCertificateRequest :: "('w, 'e) pki_scheme \<Rightarrow> string \<Rightarrow> goerror + X509Request" where
  "loadCertificateRequest e path =
     (case labelled ''read CSR file: '' (ce_ReadFile e (TrimSpace path)) of
        Inl err \<Rightarrow> Inl err
      | Inr csrPEM \<Rightarrow>
          (case ce_pem_Decode e csrPEM of
             None \<Rightarrow> Inl (Plain ''CSR file did not contain a certificate request'')
           | Some (kind, data, rest) \<Rightarrow>
               if kind \<noteq> ''CERTIFICATE REQUEST'' then Inl (Plain ''CSR file did not contain a certificate request'')
               else labelled ''parse CSR: '' (x509_ParseCertificateRequest e data)))"

definition verifyPublicKeyMatches :: "('w, 'e) pki_scheme \<Rightarrow> bytes option \<Rightarrow> bytes option \<Rightarrow> goerror option" where
  "verifyPublicKeyMatches e requestKey certKey =
     (case labelled ''marshal CSR public key: '' (x509_MarshalPKIXPublicKey e requestKey) of Inl err \<Rightarrow> Some err | Inr requestDER \<Rightarrow>
      case labelled ''marshal certificate public key: '' (x509_MarshalPKIXPublicKey e certKey) of Inl err \<Rightarrow> Some err | Inr certDER \<Rightarrow>
      if requestDER \<noteq> certDER then Some (Plain ''public keys differ'') else None)"

definition ensureDNSNamesPreserved :: "string list \<Rightarrow> string list \<Rightarrow> goerror option" where
  "ensureDNSNamesPreserved requested issued =
     (if list_all (\<lambda>want. want \<in> set issued) requested then None
      else Some (Plain ''issued certificate is missing requested DNS SAN ''))"

definition certificateURIStrings :: "X509 \<Rightarrow> string list" where
  "certificateURIStrings cert = map url_String (x_URIs cert)"

definition ensureURIsPreserved :: "X509Request \<Rightarrow> X509 \<Rightarrow> goerror option" where
  "ensureURIsPreserved request cert =
     (if list_all (\<lambda>uri. url_String uri \<in> set (certificateURIStrings cert)) (rq_URIs request) then None
      else Some (Plain ''issued certificate is missing requested URI SAN ''))"

fun requests_usage :: "('w, 'e) pki_scheme \<Rightarrow> (oid \<times> bytes) list \<Rightarrow> oid \<Rightarrow> bool" where
  "requests_usage e [] want = False"
| "requests_usage e ((extension, v) # extensions) want =
     (if extension \<noteq> oidExtensionExtendedKeyUsage then requests_usage e extensions want
      else case asn1_Unmarshal e v of
             Inl err \<Rightarrow> False
           | Inr usages \<Rightarrow> if want \<in> set usages then True else requests_usage e extensions want)"

definition csrRequestsUsage :: "('w, 'e) pki_scheme \<Rightarrow> X509Request \<Rightarrow> oid \<Rightarrow> bool" where
  "csrRequestsUsage e request want = requests_usage e (rq_Extensions request) want"

definition certificateHasExplicitUsage :: "X509 \<Rightarrow> nat \<Rightarrow> bool" where
  "certificateHasExplicitUsage cert usage \<longleftrightarrow> list_ex (\<lambda>candidate. candidate = usage \<or> candidate = ExtKeyUsageAny) (x_ExtKeyUsage cert)"

definition verifyCertificateChain :: "('w, 'e) pki_scheme \<Rightarrow> string \<Rightarrow> X509 list \<Rightarrow> X509 \<Rightarrow> string \<Rightarrow> gotime \<Rightarrow> (goerror + nat) option" where
  "verifyCertificateChain e caFile certs leaf profile now =
     (case labelled ''read CA file: '' (ce_ReadFile e (TrimSpace caFile)) of
        Inl err \<Rightarrow> Some (Inl err)
      | Inr caPEM \<Rightarrow>
          map_option (\<lambda>r. case r of
              Inl err \<Rightarrow> Inl err
            | Inr roots \<Rightarrow>
                if length roots = 0 then Inl (Plain ''CA file did not contain any certificates'')
                else (case x509_Verify e leaf roots (tl certs) now
                          [if profile = CertificateProfileClient then ExtKeyUsageClientAuth else ExtKeyUsageServerAuth] of
                        Some err \<Rightarrow> Inl (wrapf ''verify certificate chain: '' err)
                      | None \<Rightarrow> Inr (length roots)))
            (collect_certificates e ''parse CA certificate: '' [] caPEM))"

definition trim_csr_options :: "IssuedCSRVerificationOptions \<Rightarrow> IssuedCSRVerificationOptions" where
  "trim_csr_options opts =
     opts\<lparr>ivo_CertFile := TrimSpace (ivo_CertFile opts), ivo_CSRFile := TrimSpace (ivo_CSRFile opts),
          ivo_CAFile := TrimSpace (ivo_CAFile opts),
          ivo_ComponentName := (if TrimSpace (ivo_ComponentName opts) = [] then ivo_Profile opts else TrimSpace (ivo_ComponentName opts))\<rparr>"

text \<open>The usage the profile asks for, of the certificate and of the request.\<close>

definition check_profile :: "('w, 'e) pki_scheme \<Rightarrow> IssuedCSRVerificationOptions \<Rightarrow> X509Request \<Rightarrow> X509 \<Rightarrow> goerror option" where
  "check_profile e opts request leaf =
     (let name = ivo_ComponentName opts
      in if ivo_Profile opts = CertificateProfileServer then
           (if rq_DNSNames request = [] then Some (Plain (name @ '' server CSR did not request a DNS SAN''))
            else if \<not> certificateHasExplicitUsage leaf ExtKeyUsageServerAuth then
              Some (Plain (name @ '' issued certificate does not allow server auth''))
            else if \<not> csrRequestsUsage e request oidExtKeyUsageServerAuth then
              Some (Plain (name @ '' CSR did not request server auth EKU''))
            else None)
         else if ivo_Profile opts = CertificateProfileClient then
           (if rq_URIs request = [] then Some (Plain (name @ '' client CSR did not request a URI SAN''))
            else if \<not> certificateHasExplicitUsage leaf ExtKeyUsageClientAuth then
              Some (Plain (name @ '' issued certificate does not allow client auth''))
            else if \<not> csrRequestsUsage e request oidExtKeyUsageClientAuth then
              Some (Plain (name @ '' CSR did not request client auth EKU''))
            else None)
         else None)"

definition check_issued :: "('w, 'e) pki_scheme \<Rightarrow> IssuedCSRVerificationOptions \<Rightarrow> gotime \<Rightarrow> X509Request \<Rightarrow> X509 \<Rightarrow> goerror option" where
  "check_issued e opts now request leaf =
     (let name = ivo_ComponentName opts
      in case x509_CheckSignature e request of Some err \<Rightarrow> Some (wrapf (name @ '' CSR signature check failed: '') err) | None \<Rightarrow>
         case verifyPublicKeyMatches e (rq_PublicKey request) (x_PublicKey leaf) of
           Some err \<Rightarrow> Some (wrapf (name @ '' issued certificate does not match CSR public key: '') err) | None \<Rightarrow>
         if rq_CommonName request \<noteq> [] \<and> x_CommonName leaf \<noteq> rq_CommonName request then
           Some (Plain (name @ '' issued certificate common name  does not match CSR common name ''))
         else if now < x_NotBefore leaf then Some (Plain (name @ '' certificate is not valid before ''))
         else if \<not> now < x_NotAfter leaf then Some (Plain (name @ '' certificate expired at ''))
         else if 0 < sint (ivo_MinValidFor opts) \<and> x_NotAfter leaf < now + sint (ivo_MinValidFor opts) then
           Some (Plain (name @ '' certificate expires before required rotation window: not_after= min_valid_for=''))
         else case check_profile e opts request leaf of Some err \<Rightarrow> Some err | None \<Rightarrow>
         case ensureDNSNamesPreserved (rq_DNSNames request) (x_DNSNames leaf) of Some err \<Rightarrow> Some (wrapf (name @ '' '') err) | None \<Rightarrow>
         map_option (wrapf (name @ '' '')) (ensureURIsPreserved request leaf))"

definition VerifyIssuedCertificateForCSR ::
  "('w, 'e) pki_scheme \<Rightarrow> gotime \<Rightarrow> IssuedCSRVerificationOptions \<Rightarrow> (goerror + IssuedCSRVerificationReport) option" where
  "VerifyIssuedCertificateForCSR e clock opts0 =
     (let opts = trim_csr_options opts0; name = ivo_ComponentName opts; now = or_clock clock (ivo_Now opts)
      in if ivo_CertFile opts = [] \<or> ivo_CSRFile opts = [] then Some (Inl (Plain (name @ '' certificate and CSR files are required'')))
         else if \<not> known_profile (ivo_Profile opts) then Some (Inl (Plain (name @ '' unsupported certificate profile '')))
         else case loadCertificates e (ivo_CertFile opts) of
           None \<Rightarrow> None
         | Some (Inl err) \<Rightarrow> Some (Inl (wrapf (name @ '' '') err))
         | Some (Inr []) \<Rightarrow> Some (Inl (Plain (name @ '' certificate file did not contain a leaf certificate'')))
         | Some (Inr (leaf # chain)) \<Rightarrow>
             (case loadCertificateRequest e (ivo_CSRFile opts) of
                Inl err \<Rightarrow> Some (Inl (wrapf (name @ '' '') err))
              | Inr request \<Rightarrow>
                  (case check_issued e opts now request leaf of
                     Some err \<Rightarrow> Some (Inl err)
                   | None \<Rightarrow>
                       map_option (\<lambda>r. case r of
                           Inl err \<Rightarrow> Inl (wrapf (name @ '' '') err)
                         | Inr caCount \<Rightarrow>
                             Inr \<lparr>ivr_ComponentName = name, ivr_Profile = ivo_Profile opts, ivr_Subject = x_Subject leaf,
                                  ivr_Issuer = x_Issuer leaf, ivr_NotBefore = x_NotBefore leaf, ivr_NotAfter = x_NotAfter leaf,
                                  ivr_DNSNames = x_DNSNames leaf, ivr_URIs = certificateURIStrings leaf, ivr_CACount = caCount\<rparr>)
                         (if ivo_CAFile opts = [] then Some (Inr 0)
                          else verifyCertificateChain e (ivo_CAFile opts) (leaf # chain) leaf (ivo_Profile opts) now))))"

section \<open>The files are read to their end\<close>

lemma collect_certificates_blocks:
  assumes "pem_blocks e b bs"
  shows "\<exists>r. collect_certificates e failure cs b = Some r \<and>
    (\<forall>ds. r = Inr ds \<longleftrightarrow> map Inr ds = map Inr cs @ map (ce_ParseCertificate e) (certificates bs))"
  using assms
proof (induction arbitrary: cs rule: pem_blocks.induct)
  case (finished b)
  then show ?case by (auto simp: collect_certificates.simps [of e failure cs b] certificates_def)
next
  case (block b kind data rest bs)
  show ?case
  proof (cases "kind = ''CERTIFICATE''")
    case True
    show ?thesis
    proof (cases "ce_ParseCertificate e data")
      case (Inl err)
      have "map Inr ds \<noteq> map Inr cs @ Inl err # rs" for ds :: "X509 list" and rs
        by (metis Inl_Inr_False in_set_conv_decomp in_set_conv_nth length_map nth_map)
      then show ?thesis using True Inl block(1)
        by (simp add: collect_certificates.simps [of e failure cs b] certificates_def labelled_def)
    next
      case (Inr c)
      then show ?thesis using True block(1) block(3) [of "cs @ [c]"]
        by (simp add: collect_certificates.simps [of e failure cs b] certificates_def labelled_def)
    qed
  next
    case False
    then show ?thesis using block(1) block(3) [of cs]
      by (simp add: collect_certificates.simps [of e failure cs b] certificates_def)
  qed
qed

lemma map_Inr_eq: "map Inr xs = map Inr ys \<longleftrightarrow> xs = ys"
  by (simp add: inj_map_eq_map)

lemma VerifyIssued_returns:
  assumes "pem_consumes e"
  shows "\<exists>r. VerifyIssuedCertificateForCSR e clock opts = Some r"
proof -
  have coll: "\<exists>r. collect_certificates e failure cs b = Some r" for failure cs b
    using pem_blocks_exist [OF assms] collect_certificates_blocks by blast
  have "\<exists>r. loadCertificates e f = Some r" for f using coll by (auto simp: loadCertificates_def split: sum.splits)
  moreover have "\<exists>r. verifyCertificateChain e f cs l pr n = Some r" for f cs l pr n
    using coll [of "''parse CA certificate: ''" "[]"] by (auto simp: verifyCertificateChain_def split: sum.splits)
  ultimately obtain l c where l: "\<And>f. loadCertificates e f = Some (l f)" "\<And>f cs lf pr n. verifyCertificateChain e f cs lf pr n = Some (c f cs lf pr n)"
    by metis
  show ?thesis
    unfolding VerifyIssuedCertificateForCSR_def Let_def l by (simp split: sum.split list.split option.split)
qed

end
