(* ===== verification/CaProvider.thy ===== *)
theory CaProvider
  imports CertIssue GoJSON GoPath
begin

text \<open>
  The providers of workload certificates (\<open>src/identity/provider.go\<close>): a local certificate authority, the
  PKI engine of HashiCorp Vault over HTTP, and a SPIFFE agent with a local authority that it makes
  when it has none. The record \<open>caenv\<close> adds \<open>net/http\<close> and the decoding of Vault's answers to \<open>pki\<close>. The
  SPIFFE provider changes its own authority, which is part of the state of its operations. Each
  reading of the clock is an argument.
\<close>

section \<open>Definitions\<close>

datatype http_client = DefaultClient | CallerClient nat

record http_request =
  hr_Method :: string
  hr_URL :: string
  hr_Header :: "(string \<times> string) list"
  hr_Body :: bytes

text \<open>The body of an answer: what can be read of it, and the error that ends it.\<close>

record http_response =
  hp_StatusCode :: int
  hp_Body :: "bytes \<times> goerror option"

record vaultSignRequest =
  vq_CSR :: string
  vq_CommonName :: string
  vq_AltNames :: string
  vq_URISans :: string
  vq_TTL :: string
  vq_ExcludeCNFromSANs :: bool

record vaultSignResponse =
  vr_Certificate :: string
  vr_CAChain :: "string list"
  vr_IssuingCA :: string
  vr_Errors :: "string list"

record 'w caenv = "'w pki" +
  url_JoinPath :: "string \<Rightarrow> string list \<Rightarrow> goerror + string"
  http_NewRequest :: "string \<Rightarrow> string \<Rightarrow> goerror option"
  http_Do :: "http_client \<Rightarrow> http_request \<Rightarrow> 'w \<Rightarrow> (goerror + http_response) \<times> 'w"
  vault_Decode :: "bytes \<times> goerror option \<Rightarrow> goerror + vaultSignResponse"
  Duration_whole_hours :: "int64 \<Rightarrow> int"

subsection \<open>A local authority\<close>

record LocalFSWorkloadCAProvider =
  lp_CA :: CertificateAuthority

definition NewLocalFSWorkloadCAProvider :: "CertificateAuthority \<Rightarrow> LocalFSWorkloadCAProvider" where
  "NewLocalFSWorkloadCAProvider ca = \<lparr>lp_CA = ca\<rparr>"

definition local_IssueCertificate ::
  "('w, 'e) pki_scheme \<Rightarrow> gotime \<Rightarrow> LocalFSWorkloadCAProvider \<Rightarrow> string \<Rightarrow> string \<Rightarrow> string list \<Rightarrow> string list \<Rightarrow> int64 \<Rightarrow> (IssuedCertificate, 'w) effect" where
  "local_IssueCertificate e clock p profile commonName dnsNames uris ttl =
     IssueCertificate e clock \<lparr>cio_Profile = profile, cio_CommonName = commonName, cio_DNSNames = dnsNames, cio_URIs = uris,
       cio_NotBefore = 0, cio_TTL = ttl, cio_CA = lp_CA p, cio_Random = None\<rparr>"

definition local_TrustRoots :: "LocalFSWorkloadCAProvider \<Rightarrow> goerror + X509 list" where
  "local_TrustRoots p =
     (case ca_Certificate (lp_CA p) of None \<Rightarrow> Inl (Plain ''local FS CA certificate is nil'') | Some cert \<Rightarrow> Inr [cert])"

subsection \<open>Vault\<close>

record VaultWorkloadCAProvider =
  vp_Address :: string
  vp_Token :: string
  vp_PKIEnginePath :: string
  vp_Role :: string
  vp_HTTPClient :: http_client

definition NewVaultWorkloadCAProvider :: "string \<Rightarrow> string \<Rightarrow> string \<Rightarrow> string \<Rightarrow> http_client option \<Rightarrow> VaultWorkloadCAProvider" where
  "NewVaultWorkloadCAProvider address token pkiEnginePath role httpClient =
     \<lparr>vp_Address = address, vp_Token = token, vp_PKIEnginePath = pkiEnginePath, vp_Role = role,
      vp_HTTPClient = (case httpClient of None \<Rightarrow> DefaultClient | Some c \<Rightarrow> c)\<rparr>"

definition vaultSignRequest_json :: "vaultSignRequest \<Rightarrow> jdoc" where
  "vaultSignRequest_json v = JObj
     (jfield ''csr'' (JStr (vq_CSR v)) @
      jomit (vq_CommonName v = []) ''common_name'' (JStr (vq_CommonName v)) @
      jomit (vq_AltNames v = []) ''alt_names'' (JStr (vq_AltNames v)) @
      jomit (vq_URISans v = []) ''uri_sans'' (JStr (vq_URISans v)) @
      jomit (vq_TTL v = []) ''ttl'' (JStr (vq_TTL v)) @
      jomit (\<not> vq_ExcludeCNFromSANs v) ''exclude_cn_from_sans'' (JBool (vq_ExcludeCNFromSANs v)))"

definition vault_sign_request :: "('w, 'e) caenv_scheme \<Rightarrow> CertificateSigningRequest \<Rightarrow> string \<Rightarrow> string list \<Rightarrow> string list \<Rightarrow> int64 \<Rightarrow> vaultSignRequest" where
  "vault_sign_request e csr commonName dnsNames uris ttl =
     \<lparr>vq_CSR = cr_CSRPEM csr, vq_CommonName = commonName, vq_AltNames = strings_Join dnsNames '','', vq_URISans = strings_Join uris '','',
      vq_TTL = (if 0 < sint ttl then dec_int (Duration_whole_hours e ttl) @ ''h'' else []), vq_ExcludeCNFromSANs = True\<rparr>"

definition vault_pkiPath :: "VaultWorkloadCAProvider \<Rightarrow> string" where
  "vault_pkiPath p = (if vp_PKIEnginePath p = [] then ''pki'' else vp_PKIEnginePath p)"

definition vault_roleName :: "VaultWorkloadCAProvider \<Rightarrow> string" where
  "vault_roleName p = (if vp_Role p = [] then ''builders-net'' else vp_Role p)"

text \<open>Sending a request, with the token where there is one.\<close>

definition vault_send ::
  "('w, 'e) caenv_scheme \<Rightarrow> VaultWorkloadCAProvider \<Rightarrow> string \<Rightarrow> string \<Rightarrow> string \<Rightarrow> string list \<Rightarrow> (string \<times> string) list \<Rightarrow> bytes \<Rightarrow>
   (http_response, 'w) effect" where
  "vault_send e p failure http_method pkiPath path headers body =
     andthen (pure_result (labelled ''vault: invalid endpoint address: '' (url_JoinPath e (vp_Address p) ([''/v1'', pkiPath] @ path)))) (\<lambda>endpoint.
     case http_NewRequest e http_method endpoint of
       Some err \<Rightarrow> pure_result (Inl (wrapf ''vault: new request: '' err))
     | None \<Rightarrow> labelling failure (http_Do e (vp_HTTPClient p)
         \<lparr>hr_Method = http_method, hr_URL = endpoint,
          hr_Header = headers @ (if vp_Token p \<noteq> [] then [(''X-Vault-Token'', vp_Token p)] else []), hr_Body = body\<rparr>))"

definition vault_certificate :: "('w, 'e) caenv_scheme \<Rightarrow> CertificateSigningRequest \<Rightarrow> http_response \<Rightarrow> goerror + IssuedCertificate" where
  "vault_certificate e csr resp =
     (if hp_StatusCode resp \<noteq> 200 then
        Inl (Plain (''vault: sign failed status='' @ dec_int (hp_StatusCode resp) @ '' response_len='' @ dec_int (int (length (fst (hp_Body resp))))))
      else case labelled ''vault: decode response: '' (vault_Decode e (hp_Body resp)) of Inl err \<Rightarrow> Inl err | Inr vaultResp \<Rightarrow>
      if 0 < length (vr_Errors vaultResp) then Inl (Plain (''vault: API returned errors: '' @ strings_Join (vr_Errors vaultResp) ''; ''))
      else case ce_pem_Decode e (vr_Certificate vaultResp) of
        None \<Rightarrow> Inl (Plain ''vault: invalid certificate PEM returned'')
      | Some (kind, data, rest) \<Rightarrow>
          if kind \<noteq> ''CERTIFICATE'' then Inl (Plain ''vault: invalid certificate PEM returned'')
          else case labelled ''vault: parse certificate: '' (ce_ParseCertificate e data) of Inl err \<Rightarrow> Inl err | Inr cert \<Rightarrow>
          Inr \<lparr>ic_Certificate = cert, ic_CertPEM = vr_Certificate vaultResp, ic_KeyPEM = cr_KeyPEM csr\<rparr>)"

definition vault_IssueCertificate ::
  "('w, 'e) caenv_scheme \<Rightarrow> VaultWorkloadCAProvider \<Rightarrow> string \<Rightarrow> string \<Rightarrow> string list \<Rightarrow> string list \<Rightarrow> int64 \<Rightarrow> (IssuedCertificate, 'w) effect" where
  "vault_IssueCertificate e p profile commonName dnsNames uris ttl =
     andthen (labelling ''vault: create CSR: '' (GenerateCertificateSigningRequest e
         \<lparr>cso_Profile = profile, cso_CommonName = commonName, cso_DNSNames = dnsNames, cso_URIs = uris, cso_Random = None\<rparr>)) (\<lambda>csr.
     andthen (vault_send e p ''vault: HTTP POST failed: '' ''POST'' (vault_pkiPath p) [''sign'', vault_roleName p]
         [(''Content-Type'', ''application/json'')]
         (marshal (vaultSignRequest_json (vault_sign_request e csr commonName dnsNames uris ttl)))) (\<lambda>resp.
     pure_result (vault_certificate e csr resp)))"

text \<open>The loop over the PEM blocks of the CA answer: a block that does not parse is passed over.\<close>

partial_function (option) parsed_blocks :: "('w, 'e) caenv_scheme \<Rightarrow> X509 list \<Rightarrow> bytes \<Rightarrow> X509 list option" where
  "parsed_blocks e certs rest =
     (case ce_pem_Decode e rest of
        None \<Rightarrow> Some certs
      | Some (kind, data, rest') \<Rightarrow>
          if kind = ''CERTIFICATE'' then
            (case ce_ParseCertificate e data of
               Inl err \<Rightarrow> parsed_blocks e certs rest'
             | Inr cert \<Rightarrow> parsed_blocks e (certs @ [cert]) rest')
          else parsed_blocks e certs rest')"

definition vault_roots :: "('w, 'e) caenv_scheme \<Rightarrow> bytes \<Rightarrow> (goerror + X509 list) option" where
  "vault_roots e respBytes =
     map_option (\<lambda>certs.
         let certs' = (if certs = [] then (case ce_ParseCertificate e respBytes of Inl err \<Rightarrow> [] | Inr cert \<Rightarrow> [cert]) else certs)
         in if certs' = [] then Inl (Plain ''vault: no valid certificates found in CA response'') else Inr certs')
       (parsed_blocks e [] respBytes)"

definition vault_TrustRoots :: "('w, 'e) caenv_scheme \<Rightarrow> VaultWorkloadCAProvider \<Rightarrow> 'w \<Rightarrow> ((goerror + X509 list) \<times> 'w) option" where
  "vault_TrustRoots e p w =
     (case vault_send e p ''vault: CA fetch failed: '' ''GET'' (vault_pkiPath p) [''ca''] [] [] w of
        (Inl err, w') \<Rightarrow> Some (Inl err, w')
      | (Inr resp, w') \<Rightarrow>
          if hp_StatusCode resp \<noteq> 200 then
            Some (Inl (Plain (''vault: CA fetch failed status='' @ dec_int (hp_StatusCode resp))), w')
          else (case hp_Body resp of
                  (b, Some err) \<Rightarrow> Some (Inl (wrapf ''vault: read CA body: '' err), w')
                | (b, None) \<Rightarrow> map_option (\<lambda>r. (r, w')) (vault_roots e b)))"

subsection \<open>SPIFFE\<close>

record SpireWorkloadCAProvider =
  sp_SocketPath :: string
  sp_TrustDomain :: string
  sp_LocalCA :: CertificateAuthority

definition NewSpireWorkloadCAProvider :: "string \<Rightarrow> string \<Rightarrow> CertificateAuthority \<Rightarrow> SpireWorkloadCAProvider" where
  "NewSpireWorkloadCAProvider socketPath trust_domain localCA =
     \<lparr>sp_SocketPath = socketPath, sp_TrustDomain = trust_domain, sp_LocalCA = localCA\<rparr>"

fun check_trust_domain :: "('w, 'e) pki_scheme \<Rightarrow> string \<Rightarrow> string list \<Rightarrow> goerror option" where
  "check_trust_domain e td [] = None"
| "check_trust_domain e td (uriStr # uris) =
     (case url_Parse e uriStr of
        Inl err \<Rightarrow> Some (wrapf ''spire: invalid URI: '' err)
      | Inr u \<Rightarrow>
          if url_Scheme u \<noteq> ''spiffe'' then check_trust_domain e td uris
          else if url_Host u \<noteq> td then Some (Plain ''spire: URI host  does not match trust domain '')
          else check_trust_domain e td uris)"

definition spire_ca_options :: CertificateAuthorityOptions where
  "spire_ca_options =
     \<lparr>cao_CommonName = ''spire-trust-domain-ca'', cao_NotBefore = 0, cao_TTL = word_of_int (365 * 24 * Hour), cao_Random = None\<rparr>"

text \<open>The authority the provider makes for itself; the state is the provider and the world.\<close>

definition spire_autogen :: "('w, 'e) pki_scheme \<Rightarrow> gotime \<Rightarrow> (unit, SpireWorkloadCAProvider \<times> 'w) effect" where
  "spire_autogen e clock s =
     (case labelling ''spire: autogen simulated CA: '' (GenerateCertificateAuthority e clock spire_ca_options) (snd s) of
        (Inl err, w') \<Rightarrow> (Inl err, (fst s, w'))
      | (Inr spireCA, w') \<Rightarrow> (Inr (), ((fst s)\<lparr>sp_LocalCA := spireCA\<rparr>, w')))"

definition spire_IssueCertificate ::
  "('w, 'e) pki_scheme \<Rightarrow> (nat \<Rightarrow> gotime) \<Rightarrow> string \<Rightarrow> string \<Rightarrow> string list \<Rightarrow> string list \<Rightarrow> int64 \<Rightarrow>
   (IssuedCertificate, SpireWorkloadCAProvider \<times> 'w) effect" where
  "spire_IssueCertificate e clock profile commonName dnsNames uris ttl s =
     (case check_trust_domain e (sp_TrustDomain (fst s)) uris of
        Some err \<Rightarrow> (Inl err, s)
      | None \<Rightarrow>
          andthen (if ca_Certificate (sp_LocalCA (fst s)) = None \<or> ca_PrivateKey (sp_LocalCA (fst s)) = None
                   then spire_autogen e (clock 0) else pure_result (Inr ()))
            (\<lambda>_ (p, w).
               (case labelling ''spire: issue SVID: '' (IssueCertificate e (clock 2)
                   \<lparr>cio_Profile = profile, cio_CommonName = commonName, cio_DNSNames = dnsNames, cio_URIs = uris, cio_NotBefore = clock 1,
                    cio_TTL = (if sint ttl \<le> 0 then word_of_int Hour else ttl), cio_CA = sp_LocalCA p, cio_Random = None\<rparr>) w of
                  (r, w') \<Rightarrow> (r, (p, w')))) s)"

text \<open>After the first step there is always a certificate: the last branch is never taken.\<close>

definition spire_TrustRoots :: "('w, 'e) pki_scheme \<Rightarrow> gotime \<Rightarrow> (X509 list, SpireWorkloadCAProvider \<times> 'w) effect" where
  "spire_TrustRoots e clock s =
     andthen (if ca_Certificate (sp_LocalCA (fst s)) = None then spire_autogen e clock else pure_result (Inr ()))
       (\<lambda>_ (p, w). case ca_Certificate (sp_LocalCA p) of
           Some cert \<Rightarrow> (Inr [cert], (p, w))
         | None \<Rightarrow> (Inr [], (p, w))) s"

end
