(* ===== verification/PkiProps.thy ===== *)
theory PkiProps
  imports CsrVerify CaProvider IdentityProps
begin

text \<open>
  Properties of issuing, checking and providing certificates. What is relied on of \<open>crypto/x509\<close> is
  named: a created certificate or request parses to what its template says, with times cut to
  seconds and URIs through their text (\<open>x509_faithful\<close>, \<open>csr_faithful\<close>), a reader fills the buffer
  (\<open>reads_full\<close>), PEM and ASN.1 values are read back (\<open>pem_faithful\<close>, \<open>asn1_faithful\<close>).
\<close>

section \<open>What is relied on\<close>

definition to_second :: "gotime \<Rightarrow> gotime" where
  "to_second t = t div 1000000000 * 1000000000"

definition carries :: "('w, 'e) pki_scheme \<Rightarrow> X509 \<Rightarrow> CertTemplate \<Rightarrow> bool" where
  "carries e c t \<longleftrightarrow>
     x_SerialNumber c = tp_SerialNumber t \<and> x_CommonName c = tp_CommonName t \<and>
     x_NotBefore c = to_second (tp_NotBefore t) \<and> x_NotAfter c = to_second (tp_NotAfter t) \<and>
     x_KeyUsage c = tp_KeyUsage t \<and> x_ExtKeyUsage c = tp_ExtKeyUsage t \<and> x_IsCA c = (tp_BasicConstraintsValid t \<and> tp_IsCA t) \<and>
     x_DNSNames c = tp_DNSNames t \<and> map Inr (x_URIs c) = map (\<lambda>u. url_Parse e (url_String u)) (tp_URIs t)"

definition x509_faithful :: "('w, 'e) pki_scheme \<Rightarrow> bool" where
  "x509_faithful e \<longleftrightarrow>
     (\<forall>random t parent pub key w der w'. x509_CreateCertificate e random t parent pub key w = (Inr der, w') \<longrightarrow>
        (\<forall>c. ce_ParseCertificate e der = Inr c \<longrightarrow> carries e c t \<and> x_PublicKey c = Some pub))"

definition csr_faithful :: "('w, 'e) pki_scheme \<Rightarrow> bool" where
  "csr_faithful e \<longleftrightarrow>
     (\<forall>random t key w der w'. x509_CreateCertificateRequest e random t key w = (Inr der, w') \<longrightarrow>
        (\<forall>r. x509_ParseCertificateRequest e der = Inr r \<longrightarrow> rq_CommonName r = rt_CommonName t \<and> rq_DNSNames r = rt_DNSNames t \<and>
           map Inr (rq_URIs r) = map (\<lambda>u. url_Parse e (url_String u)) (rt_URIs t) \<and>
           rq_PublicKey r = Some (signer_Public e key) \<and>
           (\<exists>before. rq_Extensions r = before @ rt_ExtraExtensions t \<and> oidExtensionExtendedKeyUsage \<notin> fst ` set before)))"

definition reads_full :: "('w, 'e) pki_scheme \<Rightarrow> bool" where
  "reads_full e \<longleftrightarrow> (\<forall>random n w b w'. io_ReadFull e random n w = (Inr b, w') \<longrightarrow> length b = n)"

definition pem_faithful :: "('w, 'e) pki_scheme \<Rightarrow> bool" where
  "pem_faithful e \<longleftrightarrow>
     (\<forall>kind\<in>{''CERTIFICATE'', ''CERTIFICATE REQUEST'', ''PRIVATE KEY''}. \<forall>data.
        ce_pem_Decode e (pem_EncodeToMemory e kind data) = Some (kind, data, [])) \<and>
     ce_pem_Decode e [] = None"

definition asn1_faithful :: "('w, 'e) pki_scheme \<Rightarrow> bool" where
  "asn1_faithful e \<longleftrightarrow> (\<forall>oids v. asn1_Marshal e oids = Inr v \<longrightarrow> asn1_Unmarshal e v = Inr oids)"

section \<open>What the operations return\<close>

definition usage_of :: "string \<Rightarrow> nat" where
  "usage_of profile = (if profile = CertificateProfileServer then ExtKeyUsageServerAuth else ExtKeyUsageClientAuth)"

text \<open>A leaf template for a profile: one usage, and the subject names the profile needs.\<close>

definition leaf_for :: "('w, 'e) pki_scheme \<Rightarrow> string \<Rightarrow> string \<Rightarrow> string list \<Rightarrow> string list \<Rightarrow> gotime \<Rightarrow> int \<Rightarrow> CertTemplate \<Rightarrow> bool" where
  "leaf_for e profile commonName dnsNames uris now ttl t \<longleftrightarrow>
     known_profile profile \<and>
     (\<exists>serial us. parseURIs e uris = Inr us \<and>
        t = (leaf_template commonName (cleanStrings dnsNames) us now ttl serial)\<lparr>tp_ExtKeyUsage := [usage_of profile]\<rparr> \<and>
        (if profile = CertificateProfileServer then cleanStrings dnsNames \<noteq> [] else us \<noteq> []))"

lemma profiles_differ: "CertificateProfileServer \<noteq> CertificateProfileClient"
  by (simp add: CertificateProfileServer_def CertificateProfileClient_def)

lemma newLeafTemplate_Inr:
  assumes "newLeafTemplate e profile commonName dnsNames uris now ttl random w = (Inr t, w')"
  shows "leaf_for e profile commonName dnsNames uris now ttl t"
    "\<exists>w''. randomSerial e random w = (Inr (tp_SerialNumber t), w'')"
  using assms profiles_differ
  by (auto simp: newLeafTemplate_def andthen_Inr leaf_for_def known_profile_def usage_of_def Let_def leaf_template_def split: if_splits)

lemma IssueCertificate_Inr:
  assumes "IssueCertificate e clock opts w = (Inr ic, w')"
  obtains caCert caKey pub key t der keyPEM w1 w2 w3 where
    "ca_Certificate (cio_CA opts) = Some caCert" "ca_PrivateKey (cio_CA opts) = Some caKey" "TrimSpace (cio_CommonName opts) \<noteq> []"
    "newLeafTemplate e (cio_Profile opts) (TrimSpace (cio_CommonName opts)) (cio_DNSNames opts) (cio_URIs opts)
       (or_clock clock (cio_NotBefore opts)) (or_days 90 (cio_TTL opts)) (or_system (cio_Random opts)) w1 = (Inr t, w2)"
    "x509_CreateCertificate e (or_system (cio_Random opts)) t (Some caCert) pub caKey w2 = (Inr der, w3)"
    "ce_ParseCertificate e der = Inr (ic_Certificate ic)" "ic_CertPEM ic = pem_EncodeToMemory e ''CERTIFICATE'' der"
  using assms by (auto simp: IssueCertificate_def andthen_Inr Let_def split: option.splits if_splits)

lemma SignCertificateRequest_Inr:
  assumes "SignCertificateRequest e clock csr opts w = (Inr ic, w')"
  obtains caCert caKey request key commonName t der w1 w2 where
    "ca_Certificate (sgo_CA opts) = Some caCert" "ca_PrivateKey (sgo_CA opts) = Some caKey"
    "csr = Some request" "rq_PublicKey request = Some key" "x509_CheckSignature e request = None"
    "commonName = (if TrimSpace (sgo_CommonName opts) = [] then TrimSpace (rq_CommonName request) else TrimSpace (sgo_CommonName opts))"
    "commonName \<noteq> []"
    "newLeafTemplate e (sgo_Profile opts) commonName (sgo_DNSNames opts) (sgo_URIs opts)
       (or_clock clock (sgo_NotBefore opts)) (or_days 90 (sgo_TTL opts)) (or_system (sgo_Random opts)) w = (Inr t, w1)"
    "x509_CreateCertificate e (or_system (sgo_Random opts)) t (Some caCert) key caKey w1 = (Inr der, w2)"
    "ce_ParseCertificate e der = Inr (ic_Certificate ic)" "ic_CertPEM ic = pem_EncodeToMemory e ''CERTIFICATE'' der" "ic_KeyPEM ic = []"
  using assms by (auto simp: SignCertificateRequest_def andthen_Inr Let_def split: option.splits if_splits)

lemma created_leaf:
  assumes "x509_faithful e" "leaf_for e profile commonName dnsNames uris now ttl t"
    and "x509_CreateCertificate e random t parent pub key w = (Inr der, w')" "ce_ParseCertificate e der = Inr c"
  shows "x_PublicKey c = Some pub" "x_CommonName c = commonName" "x_DNSNames c = cleanStrings dnsNames"
    "\<exists>us. parseURIs e uris = Inr us \<and> map Inr (x_URIs c) = map (\<lambda>u. url_Parse e (url_String u)) us \<and>
       (profile \<noteq> CertificateProfileServer \<longrightarrow> us \<noteq> [])"
    "x_ExtKeyUsage c = [usage_of profile]" "\<not> x_IsCA c" "x_KeyUsage c = KeyUsageDigitalSignature"
    "x_NotBefore c = to_second now" "x_NotAfter c = to_second (now + ttl)" "x_SerialNumber c = tp_SerialNumber t"
    "profile = CertificateProfileServer \<longrightarrow> cleanStrings dnsNames \<noteq> []"
proof -
  have "carries e c t" "x_PublicKey c = Some pub" using assms(1,3,4) unfolding x509_faithful_def by fastforce+
  then show "x_PublicKey c = Some pub" "x_CommonName c = commonName" "x_DNSNames c = cleanStrings dnsNames"
    "\<exists>us. parseURIs e uris = Inr us \<and> map Inr (x_URIs c) = map (\<lambda>u. url_Parse e (url_String u)) us \<and>
       (profile \<noteq> CertificateProfileServer \<longrightarrow> us \<noteq> [])"
    "x_ExtKeyUsage c = [usage_of profile]" "\<not> x_IsCA c" "x_KeyUsage c = KeyUsageDigitalSignature"
    "x_NotBefore c = to_second now" "x_NotAfter c = to_second (now + ttl)" "x_SerialNumber c = tp_SerialNumber t"
    "profile = CertificateProfileServer \<longrightarrow> cleanStrings dnsNames \<noteq> []"
    using assms(2) by (auto simp: leaf_for_def carries_def leaf_template_def split: if_splits)
qed

lemma big_endian_bounds: "0 \<le> big_endian b \<and> big_endian b < 256 ^ length b"
proof (induction b rule: rev_induct)
  case (snoc c b)
  have "(of_char c :: int) = int (of_char c)" by (simp add: of_nat_of_char)
  then have "of_char c < (256 :: int)" "0 \<le> (of_char c :: int)" using of_char_less [of c] by simp_all
  then show ?case using snoc by (auto simp: big_endian_def)
qed (simp add: big_endian_def)

lemma randomSerial_bounds:
  assumes "reads_full e" "randomSerial e random w = (Inr serial, w')"
  shows "0 < serial" "serial < 2 ^ 128"
proof -
  obtain b w'' where b: "io_ReadFull e random 16 w = (Inr b, w'')" "serial = (if big_endian b = 0 then 1 else big_endian b)"
    using assms(2) by (auto simp: randomSerial_def andthen_Inr)
  moreover have "length b = 16" using b(1) assms(1) unfolding reads_full_def by blast
  ultimately show "0 < serial" "serial < 2 ^ 128" using big_endian_bounds [of b] by auto
qed

lemma or_days_pos: "0 < or_days n ttl" if "0 < n"
  using that by (auto simp: or_days_def Hour_def)

section \<open>Issued certificates\<close>

text \<open>
  C32. Every leaf the package issues is well formed, whether for a key it generates or for a request:
  its serial number is positive and below 2^128, it is no authority and may only sign, it has the
  one extended usage of its profile, a server has a DNS name and a client a URI, its names are the
  cleaned ones asked for, and it becomes valid before it expires when it lives for at least a second.
\<close>

definition well_formed :: "string \<Rightarrow> string list \<Rightarrow> X509 \<Rightarrow> bool" where
  "well_formed profile dnsNames c \<longleftrightarrow>
     0 < x_SerialNumber c \<and> x_SerialNumber c < 2 ^ 128 \<and> \<not> x_IsCA c \<and> x_KeyUsage c = KeyUsageDigitalSignature \<and>
     x_ExtKeyUsage c = [usage_of profile] \<and> x_CommonName c \<noteq> [] \<and> x_DNSNames c = cleanStrings dnsNames \<and>
     (if profile = CertificateProfileServer then x_DNSNames c \<noteq> [] else profile = CertificateProfileClient \<and> x_URIs c \<noteq> [])"

lemma leaf_well_formed:
  assumes "x509_faithful e" "reads_full e" "commonName \<noteq> []"
    and "newLeafTemplate e profile commonName dnsNames uris now ttl random w1 = (Inr t, w2)"
    and "x509_CreateCertificate e random' t parent pub key w3 = (Inr der, w4)" "ce_ParseCertificate e der = Inr c"
  shows "well_formed profile dnsNames c"
proof -
  note t = newLeafTemplate_Inr [OF assms(4)]
  obtain w'' where "randomSerial e random w1 = (Inr (tp_SerialNumber t), w'')" using t(2) by blast
  note serial = randomSerial_bounds [OF assms(2) this]
  note c = created_leaf [OF assms(1) t(1) assms(5,6)]
  have "known_profile profile" using t(1) by (simp add: leaf_for_def)
  moreover have "x_URIs c \<noteq> []" if "profile \<noteq> CertificateProfileServer" using c(4) that by force
  ultimately show ?thesis using c serial assms(3) by (auto simp: well_formed_def known_profile_def)
qed


text \<open>
  C33. The names of a certificate come from the authority and never from the request: a signed
  request yields the requester's key and only the names and the usage the options authorise, no
  private key, and the request must be validly signed; and any two requests with the same key and
  common name give the same certificate, whatever names and extensions they ask for.
\<close>

theorem request_names_ignored:
  assumes "x509_faithful e" "SignCertificateRequest e clock csr opts w = (Inr ic, w')"
  shows "(\<exists>request us. csr = Some request \<and> x509_CheckSignature e request = None \<and>
      x_PublicKey (ic_Certificate ic) = rq_PublicKey request \<and>
      x_DNSNames (ic_Certificate ic) = cleanStrings (sgo_DNSNames opts) \<and>
      parseURIs e (sgo_URIs opts) = Inr us \<and> map Inr (x_URIs (ic_Certificate ic)) = map (\<lambda>u. url_Parse e (url_String u)) us \<and>
      x_ExtKeyUsage (ic_Certificate ic) = [usage_of (sgo_Profile opts)] \<and> ic_KeyPEM ic = [] \<and>
      (\<forall>other. rq_PublicKey other = rq_PublicKey request \<and> rq_CommonName other = rq_CommonName request \<and>
         x509_CheckSignature e other = None \<longrightarrow> SignCertificateRequest e clock (Some other) opts w = (Inr ic, w')))"
  using assms(2)
proof (rule SignCertificateRequest_Inr)
  fix caCert caKey request key commonName t der w1 w2
  assume r: "csr = Some request" "rq_PublicKey request = Some key" "x509_CheckSignature e request = None" "ic_KeyPEM ic = []"
    and t: "newLeafTemplate e (sgo_Profile opts) commonName (sgo_DNSNames opts) (sgo_URIs opts)
       (or_clock clock (sgo_NotBefore opts)) (or_days 90 (sgo_TTL opts)) (or_system (sgo_Random opts)) w = (Inr t, w1)"
      "x509_CreateCertificate e (or_system (sgo_Random opts)) t (Some caCert) key caKey w1 = (Inr der, w2)"
      "ce_ParseCertificate e der = Inr (ic_Certificate ic)"
  note c = created_leaf [OF assms(1) newLeafTemplate_Inr(1) [OF t(1)] t(2,3)]
  have same: "SignCertificateRequest e clock (Some other) opts w = SignCertificateRequest e clock (Some request) opts w"
    if "rq_PublicKey other = rq_PublicKey request" "rq_CommonName other = rq_CommonName request" "x509_CheckSignature e other = None" for other
    unfolding SignCertificateRequest_def option.case that r(3) ..
  obtain us where us: "parseURIs e (sgo_URIs opts) = Inr us" "map Inr (x_URIs (ic_Certificate ic)) = map (\<lambda>u. url_Parse e (url_String u)) us"
    using c(4) by blast
  have key: "x_PublicKey (ic_Certificate ic) = rq_PublicKey request" using c(1) r(2) by simp
  have "SignCertificateRequest e clock (Some other) opts w = (Inr ic, w')"
    if "rq_PublicKey other = rq_PublicKey request \<and> rq_CommonName other = rq_CommonName request \<and> x509_CheckSignature e other = None" for other
    using same [of other] that assms(2) unfolding r(1) by simp
  then show ?thesis using r(1,3,4) key us c(3,5) by blast
qed

section \<open>Checking an issued certificate against its request\<close>

definition parsed_file :: "('w, 'e) pki_scheme \<Rightarrow> string \<Rightarrow> X509 list \<Rightarrow> bool" where
  "parsed_file e path certs \<longleftrightarrow>
     (\<exists>pem bs. ce_ReadFile e (TrimSpace path) = Inr pem \<and> pem_blocks e pem bs \<and> map (ce_ParseCertificate e) (certificates bs) = map Inr certs)"

lemma collected:
  assumes "pem_consumes e"
  shows "\<exists>r. collect_certificates e failure [] pem = Some r \<and>
    (\<forall>certs. r = Inr certs \<longleftrightarrow> (\<exists>bs. pem_blocks e pem bs \<and> map (ce_ParseCertificate e) (certificates bs) = map Inr certs))"
proof -
  obtain bs where bs: "pem_blocks e pem bs" using pem_blocks_exist [OF assms] by blast
  then have "pem_blocks e pem bs' \<longleftrightarrow> bs' = bs" for bs' using pem_blocks_unique by blast
  moreover obtain r where "collect_certificates e failure [] pem = Some r"
    "\<forall>ds. r = Inr ds \<longleftrightarrow> map Inr ds = map (ce_ParseCertificate e) (certificates bs)"
    using collect_certificates_blocks [OF bs, of failure "[]"] by auto
  ultimately show ?thesis by (metis (no_types, lifting))
qed

lemma loadCertificates_Inr:
  assumes "pem_consumes e"
  shows "loadCertificates e path = Some (Inr certs) \<longleftrightarrow> parsed_file e path certs"
proof (cases "ce_ReadFile e (TrimSpace path)")
  case (Inr pem)
  obtain r where "collect_certificates e ''parse certificate: '' [] pem = Some r"
    "\<And>certs. r = Inr certs \<longleftrightarrow> (\<exists>bs. pem_blocks e pem bs \<and> map (ce_ParseCertificate e) (certificates bs) = map Inr certs)"
    using collected [OF assms] by blast
  then show ?thesis using Inr by (simp add: loadCertificates_def labelled_def parsed_file_def)
qed (simp add: loadCertificates_def labelled_def parsed_file_def)

lemma verifyCertificateChain_Inr:
  assumes "pem_consumes e"
  shows "verifyCertificateChain e caFile certs leaf profile now = Some (Inr n) \<longleftrightarrow>
    (\<exists>roots. parsed_file e caFile roots \<and> roots \<noteq> [] \<and> n = length roots \<and>
       x509_Verify e leaf roots (tl certs) now [if profile = CertificateProfileClient then ExtKeyUsageClientAuth else ExtKeyUsageServerAuth] = None)"
proof (cases "ce_ReadFile e (TrimSpace caFile)")
  case (Inr pem)
  obtain r where r: "collect_certificates e ''parse CA certificate: '' [] pem = Some r"
    "\<And>certs. r = Inr certs \<longleftrightarrow> (\<exists>bs. pem_blocks e pem bs \<and> map (ce_ParseCertificate e) (certificates bs) = map Inr certs)"
    using collected [OF assms] by blast
  then have parsed: "parsed_file e caFile roots \<longleftrightarrow> r = Inr roots" for roots using Inr by (simp add: parsed_file_def)
  show ?thesis unfolding parsed using Inr r(1)
    by (auto simp: verifyCertificateChain_def labelled_def split: sum.splits option.splits if_splits)
qed (simp add: verifyCertificateChain_def labelled_def parsed_file_def)

definition issued_ok :: "('w, 'e) pki_scheme \<Rightarrow> IssuedCSRVerificationOptions \<Rightarrow> gotime \<Rightarrow> X509Request \<Rightarrow> X509 \<Rightarrow> bool" where
  "issued_ok e opts now request leaf \<longleftrightarrow>
     x509_CheckSignature e request = None \<and>
     (\<exists>der. x509_MarshalPKIXPublicKey e (rq_PublicKey request) = Inr der \<and> x509_MarshalPKIXPublicKey e (x_PublicKey leaf) = Inr der) \<and>
     (rq_CommonName request = [] \<or> x_CommonName leaf = rq_CommonName request) \<and>
     x_NotBefore leaf \<le> now \<and> now < x_NotAfter leaf \<and>
     (0 < sint (ivo_MinValidFor opts) \<longrightarrow> now + sint (ivo_MinValidFor opts) \<le> x_NotAfter leaf) \<and>
     certificateHasExplicitUsage leaf (usage_of (ivo_Profile opts)) \<and>
     (if ivo_Profile opts = CertificateProfileServer
      then rq_DNSNames request \<noteq> [] \<and> csrRequestsUsage e request oidExtKeyUsageServerAuth
      else rq_URIs request \<noteq> [] \<and> csrRequestsUsage e request oidExtKeyUsageClientAuth) \<and>
     set (rq_DNSNames request) \<subseteq> set (x_DNSNames leaf) \<and> url_String ` set (rq_URIs request) \<subseteq> url_String ` set (x_URIs leaf)"

lemma case_option_None: "(case x of None \<Rightarrow> y | Some err \<Rightarrow> Some (f err)) = None \<longleftrightarrow> x = None \<and> y = None"
  by (cases x) auto

lemma check_issued_None:
  assumes "known_profile (ivo_Profile opts)"
  shows "check_issued e opts now request leaf = None \<longleftrightarrow> issued_ok e opts now request leaf"
proof -
  have key: "verifyPublicKeyMatches e k k' = None \<longleftrightarrow> (\<exists>der. x509_MarshalPKIXPublicKey e k = Inr der \<and> x509_MarshalPKIXPublicKey e k' = Inr der)" for k k'
    by (auto simp: verifyPublicKeyMatches_def labelled_def split: sum.splits)
  have dns: "ensureDNSNamesPreserved xs ys = None \<longleftrightarrow> set xs \<subseteq> set ys" for xs ys by (auto simp: ensureDNSNamesPreserved_def list_all_iff)
  have uris: "ensureURIsPreserved request leaf = None \<longleftrightarrow> url_String ` set (rq_URIs request) \<subseteq> url_String ` set (x_URIs leaf)"
    by (auto simp: ensureURIsPreserved_def certificateURIStrings_def list_all_iff)
  have prof: "check_profile e opts request leaf = None \<longleftrightarrow> certificateHasExplicitUsage leaf (usage_of (ivo_Profile opts)) \<and>
     (if ivo_Profile opts = CertificateProfileServer
      then rq_DNSNames request \<noteq> [] \<and> csrRequestsUsage e request oidExtKeyUsageServerAuth
      else rq_URIs request \<noteq> [] \<and> csrRequestsUsage e request oidExtKeyUsageClientAuth)"
    using assms profiles_differ by (auto simp: check_profile_def known_profile_def usage_of_def Let_def)
  have step: "(if c then Some err else y) = None \<longleftrightarrow> \<not> c \<and> y = None" "map_option f (z :: goerror option) = None \<longleftrightarrow> z = None"
    for c and err :: goerror and y z and f :: "goerror \<Rightarrow> goerror" by simp_all
  show ?thesis
    unfolding check_issued_def Let_def case_option_None case_option_None [where f = id, simplified] step key dns uris prof issued_ok_def
    by (simp only: not_less not_le de_Morgan_conj not_not not_imp imp_conv_disj conj_assoc)
qed

definition csr_report :: "IssuedCSRVerificationOptions \<Rightarrow> X509 \<Rightarrow> nat \<Rightarrow> IssuedCSRVerificationReport" where
  "csr_report opts leaf n =
     \<lparr>ivr_ComponentName = ivo_ComponentName (trim_csr_options opts), ivr_Profile = ivo_Profile opts, ivr_Subject = x_Subject leaf,
      ivr_Issuer = x_Issuer leaf, ivr_NotBefore = x_NotBefore leaf, ivr_NotAfter = x_NotAfter leaf,
      ivr_DNSNames = x_DNSNames leaf, ivr_URIs = map url_String (x_URIs leaf), ivr_CACount = n\<rparr>"

definition csr_accepted :: "('w, 'e) pki_scheme \<Rightarrow> gotime \<Rightarrow> IssuedCSRVerificationOptions \<Rightarrow> IssuedCSRVerificationReport \<Rightarrow> bool" where
  "csr_accepted e now opts rep \<longleftrightarrow>
     TrimSpace (ivo_CertFile opts) \<noteq> [] \<and> TrimSpace (ivo_CSRFile opts) \<noteq> [] \<and> known_profile (ivo_Profile opts) \<and>
     (\<exists>leaf chain request n.
        parsed_file e (ivo_CertFile opts) (leaf # chain) \<and> loadCertificateRequest e (ivo_CSRFile opts) = Inr request \<and>
        issued_ok e opts now request leaf \<and> rep = csr_report opts leaf n \<and>
        (if TrimSpace (ivo_CAFile opts) = [] then n = 0
         else \<exists>roots. parsed_file e (ivo_CAFile opts) roots \<and> roots \<noteq> [] \<and> n = length roots \<and>
           x509_Verify e leaf roots chain now [usage_of (ivo_Profile opts)] = None))"

lemma map_sum_Inr:
  "map_option (case_sum (\<lambda>err. Inl (f err)) (\<lambda>n. Inr (g n))) x = Some (Inr y) \<longleftrightarrow> (\<exists>n. x = Some (Inr n) \<and> y = g n)"
  by (cases x) (auto split: sum.splits)

lemma VerifyIssued_iff:
  assumes "pem_consumes e"
  shows "\<exists>r. VerifyIssuedCertificateForCSR e clock opts = Some r \<and>
    (\<forall>rep. r = Inr rep \<longleftrightarrow> csr_accepted e (or_clock clock (ivo_Now opts)) opts rep)"
proof -
  let ?now = "or_clock clock (ivo_Now opts)" and ?o = "trim_csr_options opts"
  have o: "ivo_CertFile ?o = TrimSpace (ivo_CertFile opts)" "ivo_CSRFile ?o = TrimSpace (ivo_CSRFile opts)" "ivo_CAFile ?o = TrimSpace (ivo_CAFile opts)"
    "ivo_Profile ?o = ivo_Profile opts" "ivo_Now ?o = ivo_Now opts" "issued_ok e ?o = issued_ok e opts"
    by (auto simp: trim_csr_options_def issued_ok_def fun_eq_iff)
  have trim: "parsed_file e (TrimSpace f) = parsed_file e f" "loadCertificateRequest e (TrimSpace f) = loadCertificateRequest e f" for f
    by (simp_all add: parsed_file_def loadCertificateRequest_def fun_eq_iff)
  obtain r where r: "VerifyIssuedCertificateForCSR e clock opts = Some r" using VerifyIssued_returns [OF assms] by blast
  have "r = Inr rep \<longleftrightarrow> csr_accepted e ?now opts rep" for rep
  proof (cases "TrimSpace (ivo_CertFile opts) = [] \<or> TrimSpace (ivo_CSRFile opts) = [] \<or> \<not> known_profile (ivo_Profile opts)")
    case True
    then show ?thesis using r unfolding VerifyIssuedCertificateForCSR_def Let_def o csr_accepted_def by (auto split: if_splits)
  next
    case ok: False
    then have usage: "(if ivo_Profile opts = CertificateProfileClient then ExtKeyUsageClientAuth else ExtKeyUsageServerAuth) = usage_of (ivo_Profile opts)"
      using profiles_differ by (auto simp: usage_of_def known_profile_def)
    have leaf: "check_issued e ?o ?now request l = None \<longleftrightarrow> issued_ok e opts ?now request l" for request l
      using check_issued_None [of ?o e ?now request l] ok o by simp
    have "r = Inr rep \<longleftrightarrow> VerifyIssuedCertificateForCSR e clock opts = Some (Inr rep)" using r by simp
    also have "\<dots> \<longleftrightarrow> (\<exists>l ls request n. loadCertificates e (TrimSpace (ivo_CertFile opts)) = Some (Inr (l # ls)) \<and>
        loadCertificateRequest e (TrimSpace (ivo_CSRFile opts)) = Inr request \<and> check_issued e ?o ?now request l = None \<and> rep = csr_report opts l n \<and>
        (if TrimSpace (ivo_CAFile opts) = [] then n = 0
         else verifyCertificateChain e (TrimSpace (ivo_CAFile opts)) (l # ls) l (ivo_Profile opts) ?now = Some (Inr n)))"
      using ok unfolding VerifyIssuedCertificateForCSR_def Let_def o
      by (auto simp: map_sum_Inr csr_report_def certificateURIStrings_def simp del: map_option_eq_Some split: option.splits sum.splits list.splits)
    finally show ?thesis
      unfolding loadCertificates_Inr [OF assms] verifyCertificateChain_Inr [OF assms] trim leaf usage csr_accepted_def using ok by auto
  qed
  then show ?thesis using r by blast
qed

text \<open>
  C34. The check of an issued certificate always returns, and it accepts exactly a certificate file
  whose first certificate belongs to the request: the request is validly signed, the keys are the
  same, the common name is the one asked for, the certificate is in force for the rotation window,
  request and certificate both name the usage of the profile, every requested name was granted, and,
  when a CA file is given, the chain verifies under its certificates for that usage.
\<close>

theorem VerifyIssued_exact:
  assumes "pem_consumes e"
  shows "\<exists>r. VerifyIssuedCertificateForCSR e clock opts = Some r \<and>
    (\<forall>rep. r = Inr rep \<longleftrightarrow> csr_accepted e (or_clock clock (ivo_Now opts)) opts rep)"
  using assms by (rule VerifyIssued_iff)

section \<open>From a request to an accepted certificate\<close>

lemma GenerateCSR_Inr:
  assumes "GenerateCertificateSigningRequest e opts w = (Inr csr, w')"
  obtains us pub key eku der w1 w2 where
    "known_profile (cso_Profile opts)" "TrimSpace (cso_CommonName opts) \<noteq> []" "parseURIs e (cso_URIs opts) = Inr us"
    "if cso_Profile opts = CertificateProfileServer then cleanStrings (cso_DNSNames opts) \<noteq> [] else us \<noteq> []"
    "requestedExtendedKeyUsage e (cso_Profile opts) = Inr eku"
    "x509_CreateCertificateRequest e (or_system (cso_Random opts))
       \<lparr>rt_CommonName = TrimSpace (cso_CommonName opts), rt_DNSNames = cleanStrings (cso_DNSNames opts), rt_URIs = us,
        rt_PublicKey = pub, rt_ExtraExtensions = [eku]\<rparr> key w1 = (Inr der, w2)"
    "x509_ParseCertificateRequest e der = Inr (cr_Request csr)" "x509_CheckSignature e (cr_Request csr) = None"
    "cr_CSRPEM csr = pem_EncodeToMemory e ''CERTIFICATE REQUEST'' der"
  using assms profiles_differ
  by (auto simp: GenerateCertificateSigningRequest_def andthen_Inr Let_def known_profile_def split: option.splits if_splits)

lemma single_block: "pem_faithful e \<Longrightarrow> pem_blocks e (pem_EncodeToMemory e ''CERTIFICATE'' data) [(''CERTIFICATE'', data)]"
  unfolding pem_faithful_def by (blast intro: pem_blocks.intros)

text \<open>
  C35. Enrolment completes: a certificate signed for a request the package generated, under the same
  profile and names, is accepted by the check against that request once both are in their files,
  at every time the certificate is in force for the rotation window; the report names exactly
  the names that were asked for.
\<close>

theorem enrolled_certificate_accepted:
  assumes laws: "x509_faithful e" "csr_faithful e" "pem_faithful e" "pem_consumes e" "asn1_faithful e"
    and "\<forall>k. \<exists>der. x509_MarshalPKIXPublicKey e (Some k) = Inr der"
    and csr: "GenerateCertificateSigningRequest e copts w0 = (Inr csr, w1)"
    and ic: "SignCertificateRequest e clock (Some (cr_Request csr)) sopts w2 = (Inr ic, w3)"
    and same: "sgo_Profile sopts = cso_Profile copts" "sgo_DNSNames sopts = cso_DNSNames copts" "sgo_URIs sopts = cso_URIs copts"
      "TrimSpace (sgo_CommonName sopts) \<in> {[], TrimSpace (cso_CommonName copts)}"
    and v: "ivo_Profile v = cso_Profile copts" "TrimSpace (ivo_CAFile v) = []" "TrimSpace (ivo_CertFile v) \<noteq> []" "TrimSpace (ivo_CSRFile v) \<noteq> []"
    and files: "ce_ReadFile e (TrimSpace (ivo_CertFile v)) = Inr (ic_CertPEM ic)" "ce_ReadFile e (TrimSpace (ivo_CSRFile v)) = Inr (cr_CSRPEM csr)"
    and time: "x_NotBefore (ic_Certificate ic) \<le> or_clock vclock (ivo_Now v)" "or_clock vclock (ivo_Now v) < x_NotAfter (ic_Certificate ic)"
      "or_clock vclock (ivo_Now v) + sint (ivo_MinValidFor v) \<le> x_NotAfter (ic_Certificate ic)"
  shows "\<exists>rep. VerifyIssuedCertificateForCSR e vclock v = Some (Inr rep) \<and> ivr_Profile rep = cso_Profile copts \<and>
    ivr_DNSNames rep = cleanStrings (cso_DNSNames copts) \<and> ivr_URIs rep = map url_String (rq_URIs (cr_Request csr))"
proof -
  let ?r = "cr_Request csr" and ?c = "ic_Certificate ic" and ?now = "or_clock vclock (ivo_Now v)"
  obtain us pub key eku der w4 w5 where g: "known_profile (cso_Profile copts)" "parseURIs e (cso_URIs copts) = Inr us"
    "if cso_Profile copts = CertificateProfileServer then cleanStrings (cso_DNSNames copts) \<noteq> [] else us \<noteq> []"
    "requestedExtendedKeyUsage e (cso_Profile copts) = Inr eku"
    "x509_CreateCertificateRequest e (or_system (cso_Random copts))
       \<lparr>rt_CommonName = TrimSpace (cso_CommonName copts), rt_DNSNames = cleanStrings (cso_DNSNames copts), rt_URIs = us,
        rt_PublicKey = pub, rt_ExtraExtensions = [eku]\<rparr> key w4 = (Inr der, w5)"
    "x509_ParseCertificateRequest e der = Inr ?r" "x509_CheckSignature e ?r = None"
    "cr_CSRPEM csr = pem_EncodeToMemory e ''CERTIFICATE REQUEST'' der"
    by (rule GenerateCSR_Inr [OF csr]) (rule that)
  obtain before where r: "rq_CommonName ?r = TrimSpace (cso_CommonName copts)" "rq_DNSNames ?r = cleanStrings (cso_DNSNames copts)"
    "map Inr (rq_URIs ?r) = map (\<lambda>u. url_Parse e (url_String u)) us" "rq_PublicKey ?r = Some (signer_Public e key)"
    "rq_Extensions ?r = before @ [eku]" "oidExtensionExtendedKeyUsage \<notin> fst ` set before"
    using laws(2) g(5,6) unfolding csr_faithful_def by fastforce
  obtain caCert caKey k commonName t cder w6 w7 where s: "rq_PublicKey ?r = Some k"
    "commonName = (if TrimSpace (sgo_CommonName sopts) = [] then TrimSpace (rq_CommonName ?r) else TrimSpace (sgo_CommonName sopts))"
    "newLeafTemplate e (sgo_Profile sopts) commonName (sgo_DNSNames sopts) (sgo_URIs sopts)
       (or_clock clock (sgo_NotBefore sopts)) (or_days 90 (sgo_TTL sopts)) (or_system (sgo_Random sopts)) w2 = (Inr t, w6)"
    "x509_CreateCertificate e (or_system (sgo_Random sopts)) t (Some caCert) k caKey w6 = (Inr cder, w7)"
    "ce_ParseCertificate e cder = Inr ?c" "ic_CertPEM ic = pem_EncodeToMemory e ''CERTIFICATE'' cder"
    by (rule SignCertificateRequest_Inr [OF ic]) (auto intro: that)
  note c = created_leaf [OF laws(1) newLeafTemplate_Inr(1) [OF s(3)] s(4,5)]
  have "map Inr (x_URIs ?c) = (map Inr (rq_URIs ?r) :: (goerror + URL) list)" using c(4) r(3) g(2) unfolding same by auto
  then have uris: "x_URIs ?c = rq_URIs ?r" unfolding map_Inr_eq .
  have cn: "x_CommonName ?c = rq_CommonName ?r" using c(2) s(2) same(4) r(1) by (auto split: if_splits)
  have "requests_usage e (before @ [eku]) want = requests_usage e [eku] want" for want using r(6) by (induction before) auto
  then have eku: "csrRequestsUsage e ?r (if cso_Profile copts = CertificateProfileServer then oidExtKeyUsageServerAuth else oidExtKeyUsageClientAuth)"
    using g(1,4) laws(5) r(5) unfolding csrRequestsUsage_def asn1_faithful_def
    by (auto simp: requestedExtendedKeyUsage_def split: sum.splits)
  have "issued_ok e v ?now ?r ?c"
    unfolding issued_ok_def using g(7) r(1,2) s(1) c(1,3,5) cn uris eku g(3) r(3) assms(6) time v(1) unfolding same
    by (auto simp: certificateHasExplicitUsage_def split: if_splits)
  moreover have "parsed_file e (ivo_CertFile v) [?c]"
    using files(1) s(5,6) single_block [OF laws(3)] by (auto simp: parsed_file_def certificates_def intro!: exI [of _ "[(''CERTIFICATE'', cder)]"])
  moreover have "loadCertificateRequest e (ivo_CSRFile v) = Inr ?r"
    using files(2) g(6,8) laws(3) by (simp add: loadCertificateRequest_def labelled_def pem_faithful_def)
  ultimately have "csr_accepted e ?now v (csr_report v ?c 0)"
    unfolding csr_accepted_def using v g(1) by auto
  moreover obtain res where "VerifyIssuedCertificateForCSR e vclock v = Some res" "\<And>rep. res = Inr rep \<longleftrightarrow> csr_accepted e ?now v rep"
    using VerifyIssued_iff [OF laws(4)] by blast
  ultimately show ?thesis using v(1) c(3) same uris by (auto simp: csr_report_def)
qed

section \<open>A gateway certificate is recognised\<close>

text \<open>What \<open>url.Parse\<close> does with a SPIFFE URI of the trust domain whose path is validly encoded.\<close>

definition parses_spiffe :: "('w, 'e) pki_scheme \<Rightarrow> bool" where
  "parses_spiffe e \<longleftrightarrow>
     (\<forall>path u. validEncoded encodePath (CHR ''/'' # path) \<and> setPath (CHR ''/'' # path) spiffe_base = Some u \<longrightarrow>
        url_Parse e (''spiffe://'' @ trustDomain @ CHR ''/'' # path) = Inr u)"

text \<open>What the identity functions read of a certificate.\<close>

definition seen :: "X509 \<Rightarrow> Certificate" where
  "seen c = \<lparr>crt_URIs = map Some (x_URIs c), crt_Subject = x_Subject c, crt_Raw = x_Raw c\<rparr>"

lemma GatewayURI_chars:
  assumes "gateway_ok i" "\<And>t. list_all P (PathEscape t)"
    and words: "list_all (list_all P) [''spiffe:/'', trustDomain, ''federation-gateway'', ''tenant'', ''gateway'', ''service-principal'']"
  shows "list_all P (GatewayURI i)"
proof -
  have "P CHR ''/''" using words by simp
  then have "list_all P (slashes ps)" if "list_all (list_all P) ps" for ps using that by (induction ps) (auto simp: slashes_def)
  moreover have "list_all (list_all P) (gateway_parts i)" using words assms(2) by (auto simp: gateway_parts_def)
  ultimately show ?thesis unfolding GatewayURI_slashes [OF assms(1)] using words by simp
qed

lemma GatewayURI_parsed:
  assumes "parses_spiffe e" "gateway_ok i"
  obtains u where "setPath (slashes (gateway_parts i)) spiffe_base = Some u" "url_Parse e (GatewayURI i) = Inr u"
    "url_String u = GatewayURI i" "cleanStrings [GatewayURI i] = [GatewayURI i]"
proof -
  obtain u where u: "setPath (slashes (gateway_parts i)) spiffe_base = Some u"
    using gateway_path_decodes [of i] by (auto simp: setPath_def split: option.splits)
  obtain s where s: "slashes (gateway_parts i) = CHR ''/'' # s" by (simp add: gateway_parts_def slashes_def)
  have "validEncoded encodePath (CHR ''/'' # s)"
    using validEncoded_slashes [OF gateway_parts_facts(2) [OF assms(2)]] unfolding s .
  then have parsed: "url_Parse e (GatewayURI i) = Inr u"
    using assms(1) u unfolding parses_spiffe_def GatewayURI_slashes [OF assms(2)] s by blast
  have words: "list_all (list_all (\<lambda>c. c \<notin> set (concat ws_runes)))
      [''spiffe:/'', trustDomain, ''federation-gateway'', ''tenant'', ''gateway'', ''service-principal'']"
    by code_simp
  have "list_all (\<lambda>c. c \<notin> set (concat ws_runes)) (PathEscape t)" for t
    using PathEscape_chars(2) [of _ t] by (simp only: list_all_iff) blast
  then have "list_all (\<lambda>c. c \<notin> set (concat ws_runes)) (GatewayURI i)" using words by (rule GatewayURI_chars [OF assms(2)])
  then have "TrimSpace (GatewayURI i) = GatewayURI i" unfolding list_all_iff by (intro trimmed_no_ws) blast
  moreover have "GatewayURI i \<noteq> []" by (simp add: GatewayURI_slashes [OF assms(2)])
  ultimately have "cleanStrings [GatewayURI i] = [GatewayURI i]" by (simp add: cleanStrings_def)
  then show ?thesis using that u parsed parse_gateway_path(3) [OF assms(2) u] by blast
qed

text \<open>
  C36. A gateway is recognised by its certificate: a client certificate issued for the URI of a
  gateway, presented by its holder, is read back as exactly that tenant, gateway and service
  principal, with the URI as its SPIFFE id, the subject of the certificate and the fingerprint of
  its bytes.
\<close>

theorem issued_gateway_recognised:
  assumes "x509_faithful e" "parses_spiffe e" "gateway_ok i" "cio_URIs opts = [GatewayURI i]"
    and "IssueCertificate e clock opts w = (Inr ic, w')"
  shows "GatewayIdentityFromCertificate p (Some (seen (ic_Certificate ic))) =
    Inr (i\<lparr>gi_SPIFFEID := GatewayURI i, gi_Subject := x_Subject (ic_Certificate ic),
           gi_FingerprintSHA256 := hexEncode (sha256 p (x_Raw (ic_Certificate ic)))\<rparr>)"
proof -
  obtain u where u: "setPath (slashes (gateway_parts i)) spiffe_base = Some u" "url_Parse e (GatewayURI i) = Inr u"
    "url_String u = GatewayURI i" "cleanStrings [GatewayURI i] = [GatewayURI i]"
    using GatewayURI_parsed [OF assms(2,3)] .
  have "parseURIs e (cio_URIs opts) = Inr [u]" by (simp add: assms(4) parseURIs_def u labelled_def)
  moreover obtain us where "parseURIs e (cio_URIs opts) = Inr us"
    "map Inr (x_URIs (ic_Certificate ic)) = map (\<lambda>u. url_Parse e (url_String u)) us"
    using assms(5) by (rule IssueCertificate_Inr) (use created_leaf(4) [OF assms(1) newLeafTemplate_Inr(1)] in blast)
  ultimately have "map Inr (x_URIs (ic_Certificate ic)) = (map Inr [u] :: (goerror + URL) list)" using u by simp
  then have "x_URIs (ic_Certificate ic) = [u]" unfolding map_Inr_eq .
  then show ?thesis using parse_gateway_path [OF assms(3) u(1)]
    by (simp add: seen_def GatewayIdentityFromCertificate_def GatewayIdentityFromCertificateIfPresent_def gateway_identity_def CertificateFingerprintSHA256_def)
qed

end
