(* ===== verification/ProviderProps.thy ===== *)
theory ProviderProps
  imports PkiProps
begin

text \<open>
  Properties of the providers of workload certificates. The interface of \<open>provider.go\<close>, issuing and
  reading the trust roots, is the locale \<open>workload_ca\<close>: an authority, once there is one, stays, and both
  operations use it. It holds of the local provider and of the SPIFFE provider when the authority
  they are made with has its private key. That the roots of Vault are all read is proved from the
  behaviour of the PEM reader.
\<close>

section \<open>The interface\<close>

text \<open>The arguments of \<open>IssueCertificate\<close>, with the readings of the clock.\<close>

record ca_query =
  qy_clock :: "nat \<Rightarrow> gotime"
  qy_Profile :: string
  qy_CommonName :: string
  qy_DNSNames :: "string list"
  qy_URIs :: "string list"
  qy_TTL :: int64

datatype ca_call = Issue ca_query | Roots gotime

text \<open>A sequence of calls: the certificates issued and the trust roots returned.\<close>

fun ca_run ::
  "(ca_query \<Rightarrow> (IssuedCertificate, 's) effect) \<Rightarrow> (gotime \<Rightarrow> (X509 list, 's) effect) \<Rightarrow> ca_call list \<Rightarrow> 's \<Rightarrow>
   X509 list \<times> X509 list list" where
  "ca_run issue roots [] s = ([], [])"
| "ca_run issue roots (Issue q # calls) s =
     (case issue q s of (r, s') \<Rightarrow> case ca_run issue roots calls s' of (issued, trusted) \<Rightarrow>
        (case r of Inl err \<Rightarrow> (issued, trusted) | Inr ic \<Rightarrow> (ic_Certificate ic # issued, trusted)))"
| "ca_run issue roots (Roots t # calls) s =
     (case roots t s of (r, s') \<Rightarrow> case ca_run issue roots calls s' of (issued, trusted) \<Rightarrow>
        (case r of Inl err \<Rightarrow> (issued, trusted) | Inr certs \<Rightarrow> (issued, certs # trusted)))"

locale workload_ca =
  fixes issue :: "ca_query \<Rightarrow> (IssuedCertificate, 's) effect"
    and roots :: "gotime \<Rightarrow> (X509 list, 's) effect"
    and sound :: "'s \<Rightarrow> bool"
    and authority :: "'s \<Rightarrow> X509 option"
    and issued_by :: "X509 \<Rightarrow> X509 \<Rightarrow> bool"
  assumes issue_keeps: "sound s \<Longrightarrow> issue q s = (r, s') \<Longrightarrow> sound s' \<and> (authority s = None \<or> authority s' = authority s)"
    and roots_keeps: "sound s \<Longrightarrow> roots t s = (r', s') \<Longrightarrow> sound s' \<and> (authority s = None \<or> authority s' = authority s)"
    and issue_uses: "sound s \<Longrightarrow> issue q s = (Inr ic, s') \<Longrightarrow> \<exists>a. authority s' = Some a \<and> issued_by a (ic_Certificate ic)"
    and roots_are: "sound s \<Longrightarrow> roots t s = (Inr certs, s') \<Longrightarrow> \<exists>a. authority s' = Some a \<and> certs = [a]"
begin

lemma run_under_authority:
  assumes "sound s" "authority s = Some a" "ca_run issue roots calls s = (issued, trusted)"
  shows "list_all (issued_by a) issued \<and> list_all (\<lambda>certs. certs = [a]) trusted"
  using assms
proof (induction calls arbitrary: s issued trusted)
  case (Cons call calls)
  show ?case
  proof (cases call)
    case (Issue q)
    obtain r s' where i: "issue q s = (r, s')" by fastforce
    then have "sound s'" "authority s' = Some a" using issue_keeps [OF Cons(2) i] Cons(3) by auto
    then show ?thesis using Cons(1) [of s'] Cons(4) issue_uses [OF Cons(2)] i
      unfolding Issue by (fastforce split: prod.splits sum.splits)
  next
    case (Roots t)
    obtain r s' where i: "roots t s = (r, s')" by fastforce
    then have "sound s'" "authority s' = Some a" using roots_keeps [OF Cons(2) i] Cons(3) by auto
    then show ?thesis using Cons(1) [of s'] Cons(4) roots_are [OF Cons(2)] i
      unfolding Roots by (fastforce split: prod.splits sum.splits)
  qed
qed simp

lemma one_authority:
  assumes "sound s" "ca_run issue roots calls s = (issued, trusted)"
  shows "\<exists>a. list_all (issued_by a) issued \<and> list_all (\<lambda>certs. certs = [a]) trusted"
  using assms
proof (induction calls arbitrary: s issued trusted)
  case (Cons call calls)
  show ?case
  proof (cases call)
    case (Issue q)
    obtain r s' where i: "issue q s = (r, s')" by fastforce
    obtain issued' trusted' where rest: "ca_run issue roots calls s' = (issued', trusted')" by fastforce
    have s': "sound s'" using issue_keeps [OF Cons(2) i] by blast
    show ?thesis
    proof (cases r)
      case (Inl err)
      then show ?thesis using Cons(1) [OF s' rest] Cons(3) i rest unfolding Issue by simp
    next
      case (Inr ic)
      obtain a where "authority s' = Some a" "issued_by a (ic_Certificate ic)" using issue_uses [OF Cons(2)] i Inr by blast
      then show ?thesis using run_under_authority [OF s' _ rest] Cons(3) i rest Inr unfolding Issue by auto
    qed
  next
    case (Roots t)
    obtain r s' where i: "roots t s = (r, s')" by fastforce
    obtain issued' trusted' where rest: "ca_run issue roots calls s' = (issued', trusted')" by fastforce
    have s': "sound s'" using roots_keeps [OF Cons(2) i] by blast
    show ?thesis
    proof (cases r)
      case (Inl err)
      then show ?thesis using Cons(1) [OF s' rest] Cons(3) i rest unfolding Roots by simp
    next
      case (Inr certs)
      obtain a where "authority s' = Some a" "certs = [a]" using roots_are [OF Cons(2)] i Inr by blast
      then show ?thesis using run_under_authority [OF s' _ rest] Cons(3) i rest Inr unfolding Roots by auto
    qed
  qed
qed simp

end

section \<open>The local and the SPIFFE provider\<close>

definition created_under :: "('w, 'e) pki_scheme \<Rightarrow> X509 \<Rightarrow> X509 \<Rightarrow> bool" where
  "created_under e a c \<longleftrightarrow>
     (\<exists>random t pub key w der w'. x509_CreateCertificate e random t (Some a) pub key w = (Inr der, w') \<and> \<not> tp_IsCA t \<and>
        ce_ParseCertificate e der = Inr c)"

lemma IssueCertificate_created:
  assumes "IssueCertificate e clock opts w = (Inr ic, w')"
  shows "\<exists>a. ca_Certificate (cio_CA opts) = Some a \<and> created_under e a (ic_Certificate ic)"
  using assms
proof (rule IssueCertificate_Inr)
  fix caCert caKey pub t der w1 w2 w3
  assume i: "ca_Certificate (cio_CA opts) = Some caCert"
    "newLeafTemplate e (cio_Profile opts) (TrimSpace (cio_CommonName opts)) (cio_DNSNames opts) (cio_URIs opts)
       (or_clock clock (cio_NotBefore opts)) (or_days 90 (cio_TTL opts)) (or_system (cio_Random opts)) w1 = (Inr t, w2)"
    "x509_CreateCertificate e (or_system (cio_Random opts)) t (Some caCert) pub caKey w2 = (Inr der, w3)"
    "ce_ParseCertificate e der = Inr (ic_Certificate ic)"
  have "\<not> tp_IsCA t" using newLeafTemplate_Inr(1) [OF i(2)] by (auto simp: leaf_for_def leaf_template_def)
  then show ?thesis using i unfolding created_under_def by blast
qed

definition local_issue :: "('w, 'e) pki_scheme \<Rightarrow> ca_query \<Rightarrow> (IssuedCertificate, LocalFSWorkloadCAProvider \<times> 'w) effect" where
  "local_issue e q s =
     (case local_IssueCertificate e (qy_clock q 0) (fst s) (qy_Profile q) (qy_CommonName q) (qy_DNSNames q) (qy_URIs q) (qy_TTL q) (snd s) of
        (r, w') \<Rightarrow> (r, (fst s, w')))"

definition local_roots :: "gotime \<Rightarrow> (X509 list, LocalFSWorkloadCAProvider \<times> 'w) effect" where
  "local_roots t s = (local_TrustRoots (fst s), s)"

definition spire_issue :: "('w, 'e) pki_scheme \<Rightarrow> ca_query \<Rightarrow> (IssuedCertificate, SpireWorkloadCAProvider \<times> 'w) effect" where
  "spire_issue e q = spire_IssueCertificate e (qy_clock q) (qy_Profile q) (qy_CommonName q) (qy_DNSNames q) (qy_URIs q) (qy_TTL q)"

text \<open>An authority that has a certificate has its key.\<close>

definition complete_ca :: "CertificateAuthority \<Rightarrow> bool" where
  "complete_ca ca \<longleftrightarrow> (ca_Certificate ca \<noteq> None \<longrightarrow> ca_PrivateKey ca \<noteq> None)"

lemma spire_autogen_result:
  assumes "spire_autogen e clock s = (r, s')"
  shows "case r of Inl err \<Rightarrow> fst s' = fst s
    | Inr u \<Rightarrow> \<exists>a. ca_Certificate (sp_LocalCA (fst s')) = Some a \<and> complete_ca (sp_LocalCA (fst s')) \<and>
        sp_TrustDomain (fst s') = sp_TrustDomain (fst s)"
  using assms
  by (auto simp: spire_autogen_def GenerateCertificateAuthority_def Let_def andthen_Inr complete_ca_def split: prod.splits sum.splits)

text \<open>What a call of the SPIFFE provider leaves of its authority.\<close>

definition keeps_ca :: "SpireWorkloadCAProvider \<Rightarrow> SpireWorkloadCAProvider \<Rightarrow> bool" where
  "keeps_ca p p' \<longleftrightarrow> complete_ca (sp_LocalCA p') \<and> sp_TrustDomain p' = sp_TrustDomain p \<and>
     (ca_Certificate (sp_LocalCA p) = None \<or> sp_LocalCA p' = sp_LocalCA p)"

lemma spire_autogen_keeps:
  assumes "complete_ca (sp_LocalCA (fst s))" "ca_Certificate (sp_LocalCA (fst s)) = None" "spire_autogen e clock s = (r, s')"
  shows "keeps_ca (fst s) (fst s')" "r = Inr u \<Longrightarrow> ca_Certificate (sp_LocalCA (fst s')) \<noteq> None"
  using spire_autogen_result [OF assms(3)] assms(1,2) by (auto simp: keeps_ca_def split: sum.splits)

lemma spire_IssueCertificate_keeps:
  assumes "complete_ca (sp_LocalCA (fst s))" "spire_IssueCertificate e clock profile cn dns uris ttl s = (r, s')"
  shows "keeps_ca (fst s) (fst s') \<and>
    (\<forall>ic. r = Inr ic \<longrightarrow> (\<exists>a. ca_Certificate (sp_LocalCA (fst s')) = Some a \<and> created_under e a (ic_Certificate ic)))"
proof (cases "check_trust_domain e (sp_TrustDomain (fst s)) uris")
  case None
  define m where "m = (if ca_Certificate (sp_LocalCA (fst s)) = None \<or> ca_PrivateKey (sp_LocalCA (fst s)) = None
                   then spire_autogen e (clock 0) else pure_result (Inr ()))"
  obtain r1 p1 w1 where m: "m s = (r1, (p1, w1))" by (metis surj_pair)
  have p1: "keeps_ca (fst s) p1"
    using m assms(1) spire_autogen_keeps(1) [OF assms(1), of e "clock 0" r1 "(p1, w1)"] unfolding m_def
    by (auto simp: complete_ca_def keeps_ca_def pure_result_def split: if_splits)
  show ?thesis
  proof (cases r1)
    case (Inl err)
    then show ?thesis using assms(2) m None p1 unfolding spire_IssueCertificate_def m_def [symmetric] by (auto simp: andthen_def)
  next
    case (Inr u)
    obtain opts where "(case labelling ''spire: issue SVID: '' (IssueCertificate e (clock 2) opts) w1 of (r, w') \<Rightarrow> (r, (p1, w'))) = (r, s')"
      "cio_CA opts = sp_LocalCA p1"
      using assms(2) m None Inr unfolding spire_IssueCertificate_def m_def [symmetric] by (simp add: andthen_def)
    then show ?thesis using p1 IssueCertificate_created [of e "clock 2" opts w1] by (fastforce split: prod.splits)
  qed
qed (use assms in \<open>auto simp: spire_IssueCertificate_def keeps_ca_def\<close>)

lemma spire_TrustRoots_keeps:
  assumes "complete_ca (sp_LocalCA (fst s))" "spire_TrustRoots e clock s = (r, s')"
  shows "keeps_ca (fst s) (fst s') \<and> (\<forall>certs. r = Inr certs \<longrightarrow> (\<exists>a. ca_Certificate (sp_LocalCA (fst s')) = Some a \<and> certs = [a]))"
proof (cases "ca_Certificate (sp_LocalCA (fst s))")
  case None
  obtain r1 p1 w1 where m: "spire_autogen e clock s = (r1, (p1, w1))" by (metis surj_pair)
  then show ?thesis using spire_autogen_keeps [OF assms(1) None m] assms(2) None
    by (cases r1) (auto simp: spire_TrustRoots_def andthen_def split: option.splits)
next
  case (Some a)
  then show ?thesis using assms by (cases s) (auto simp: spire_TrustRoots_def andthen_def pure_result_def keeps_ca_def)
qed

text \<open>Both providers keep their authority and use it for every certificate and as the only root.\<close>

interpretation lca: workload_ca "local_issue e" local_roots "\<lambda>s. True" "\<lambda>s. ca_Certificate (lp_CA (fst s))" "created_under e"
proof
  show "\<exists>a. ca_Certificate (lp_CA (fst s')) = Some a \<and> created_under e a (ic_Certificate ic)"
    if "local_issue e q s = (Inr ic, s')" for q s ic s'
    using that IssueCertificate_created by (fastforce simp: local_issue_def local_IssueCertificate_def split: prod.splits)
qed (auto simp: local_issue_def local_roots_def local_TrustRoots_def split: prod.splits option.splits)

interpretation sca: workload_ca "spire_issue (e :: ('w, 'e) pki_scheme)" "spire_TrustRoots e" "\<lambda>s. complete_ca (sp_LocalCA (fst s))"
  "\<lambda>s. ca_Certificate (sp_LocalCA (fst s))" "created_under e"
proof
  fix q r t ic certs and r' :: "goerror + X509 list" and s s' :: "SpireWorkloadCAProvider \<times> 'w"
  assume s: "complete_ca (sp_LocalCA (fst s))"
  show "complete_ca (sp_LocalCA (fst s')) \<and> (ca_Certificate (sp_LocalCA (fst s)) = None \<or>
      ca_Certificate (sp_LocalCA (fst s')) = ca_Certificate (sp_LocalCA (fst s)))"
    if "spire_issue e q s = (r, s')"
    using spire_IssueCertificate_keeps [OF s] that unfolding spire_issue_def keeps_ca_def by metis
  show "complete_ca (sp_LocalCA (fst s')) \<and> (ca_Certificate (sp_LocalCA (fst s)) = None \<or>
      ca_Certificate (sp_LocalCA (fst s')) = ca_Certificate (sp_LocalCA (fst s)))"
    if "spire_TrustRoots e t s = (r', s')"
    using spire_TrustRoots_keeps [OF s that] unfolding keeps_ca_def by metis
  show "\<exists>a. ca_Certificate (sp_LocalCA (fst s')) = Some a \<and> created_under e a (ic_Certificate ic)"
    if "spire_issue e q s = (Inr ic, s')"
    using spire_IssueCertificate_keeps [OF s] that unfolding spire_issue_def by blast
  show "\<exists>a. ca_Certificate (sp_LocalCA (fst s')) = Some a \<and> certs = [a]" if "spire_TrustRoots e t s = (Inr certs, s')"
    using spire_TrustRoots_keeps [OF s that] by blast
qed

text \<open>
  C37. A provider has one authority. In every sequence of calls that issue certificates and read the
  trust roots, in any order and with failing calls among them, there is one certificate of an
  authority such that every certificate issued was created under it and every answer of
  \<open>TrustRoots\<close> is that certificate alone. This holds of the local provider and, also when it makes
  its authority itself in the course of the calls, of the SPIFFE provider, unless it is given a
  certificate without its key.
\<close>

theorem provider_one_authority:
  assumes "complete_ca (sp_LocalCA (fst s))"
  shows "(\<exists>a. list_all (created_under e a) (fst (ca_run (spire_issue e) (spire_TrustRoots e) calls s)) \<and>
              list_all (\<lambda>certs. certs = [a]) (snd (ca_run (spire_issue e) (spire_TrustRoots e) calls s))) \<and>
         (\<exists>a. list_all (created_under e a) (fst (ca_run (local_issue e) local_roots calls t)) \<and>
              list_all (\<lambda>certs. certs = [a]) (snd (ca_run (local_issue e) local_roots calls t)))"
  using sca.one_authority [OF assms prod.collapse [symmetric]] lca.one_authority [OF TrueI prod.collapse [symmetric]] by blast

section \<open>The trust domain of the SPIFFE provider\<close>

text \<open>A URI that is written out and parsed again as a SPIFFE URI was one, with the same host.\<close>

definition spiffe_stable :: "('w, 'e) pki_scheme \<Rightarrow> bool" where
  "spiffe_stable e \<longleftrightarrow>
     (\<forall>s u v. url_Parse e s = Inr u \<and> url_Parse e (url_String u) = Inr v \<and> url_Scheme v = ''spiffe'' \<longrightarrow>
        url_Scheme u = ''spiffe'' \<and> url_Host v = url_Host u)"

lemma case_pair_Inr: "(case m of (r, w') \<Rightarrow> (r, (p, w'))) = (Inr x, s') \<longleftrightarrow> (\<exists>w'. m = (Inr x, w') \<and> s' = (p, w'))"
  by (auto split: prod.splits)

lemma check_trust_domain_None:
  "check_trust_domain e td uris = None \<longleftrightarrow>
     list_all (\<lambda>s. \<exists>u. url_Parse e s = Inr u \<and> (url_Scheme u = ''spiffe'' \<longrightarrow> url_Host u = td)) uris"
  by (induction uris) (auto split: sum.splits)

lemma parse_uris_Inr: "parse_uris e values = Inr us \<Longrightarrow> map (url_Parse e) values = map Inr us"
  by (induction "values" arbitrary: us) (auto simp: labelled_def split: sum.splits)

text \<open>
  C38. The SPIFFE provider issues only for its own trust domain: whatever the trimmed URIs it is asked
  for, every URI with the scheme \<open>spiffe\<close> in a certificate it issues names the trust domain of the
  provider as its host.
\<close>

theorem svid_in_trust_domain:
  assumes "x509_faithful e" "spiffe_stable e" "list_all trimmed uris"
    and "spire_IssueCertificate e clock profile cn dns uris ttl s = (Inr ic, s')"
  shows "list_all (\<lambda>u. url_Scheme u = ''spiffe'' \<longrightarrow> url_Host u = sp_TrustDomain (fst s)) (x_URIs (ic_Certificate ic))"
proof -
  let ?td = "sp_TrustDomain (fst s)"
  have td: "check_trust_domain e ?td uris = None" using assms(4) by (auto simp: spire_IssueCertificate_def split: option.splits)
  then obtain opts w w' where "IssueCertificate e (clock 2) opts w = (Inr ic, w')" "cio_URIs opts = uris"
    using assms(4) by (auto simp: spire_IssueCertificate_def andthen_Inr case_pair_Inr intro: that)
  then obtain us where us: "parseURIs e uris = Inr us" "map Inr (x_URIs (ic_Certificate ic)) = map (\<lambda>u. url_Parse e (url_String u)) us"
    using created_leaf(4) [OF assms(1) newLeafTemplate_Inr(1)] by (metis (no_types, lifting) IssueCertificate_Inr)
  have "cleanStrings uris = filter (\<lambda>s. s \<noteq> []) uris"
    using assms(3) by (induction uris) (auto simp: cleanStrings_def trimmed_iff)
  then have parsed: "map (url_Parse e) (filter (\<lambda>s. s \<noteq> []) uris) = map Inr us" using us(1) by (simp add: parseURIs_def parse_uris_Inr [of e])
  have "url_Host v = ?td" if v: "v \<in> set (x_URIs (ic_Certificate ic))" "url_Scheme v = ''spiffe''" for v
  proof -
    have "Inr v \<in> set (map (\<lambda>u. url_Parse e (url_String u)) us)" using v(1) unfolding us(2) [symmetric] by simp
    then obtain u where u: "u \<in> set us" "url_Parse e (url_String u) = Inr v" by auto
    have "Inr u \<in> set (map (url_Parse e) (filter (\<lambda>s. s \<noteq> []) uris))" using u(1) unfolding parsed by simp
    then obtain t where t: "t \<in> set uris" "url_Parse e t = Inr u" by auto
    then have "url_Scheme u = ''spiffe''" "url_Host v = url_Host u" using assms(2) u(2) v(2) unfolding spiffe_stable_def by blast+
    then show ?thesis using td t unfolding check_trust_domain_None list_all_iff by auto
  qed
  then show ?thesis by (simp add: list_all_iff)
qed

section \<open>The roots of Vault\<close>

lemma parsed_blocks_all:
  assumes "pem_blocks e b bs"
  shows "parsed_blocks e cs b = Some (cs @ List.map_filter (\<lambda>data. case ce_ParseCertificate e data of Inl err \<Rightarrow> None | Inr c \<Rightarrow> Some c) (certificates bs))"
  using assms
proof (induction arbitrary: cs rule: pem_blocks.induct)
  case (finished b)
  then show ?case by (simp add: parsed_blocks.simps [of e cs b] certificates_def List.map_filter_simps)
next
  case (block b kind data rest bs)
  then show ?case
    by (auto simp: parsed_blocks.simps [of e cs b] certificates_def List.map_filter_simps split: sum.splits)
qed

lemma vault_TrustRoots_returns:
  assumes "pem_consumes e"
  shows "\<exists>r. vault_TrustRoots e p w = Some r"
proof -
  have "parsed_blocks e [] b \<noteq> None" for b
    using pem_blocks_exist [OF assms, of b] parsed_blocks_all [of e b _ "[]"] by auto
  then show ?thesis
    unfolding vault_TrustRoots_def vault_roots_def by (auto split: prod.splits sum.splits option.splits)
qed

end
