(* ===== verification/PkiWitness.thy ===== *)
theory PkiWitness
  imports ProviderProps
begin

text \<open>
  A small public key infrastructure in which the named laws hold, and the properties of issuing and
  checking certificates at it. It creates one leaf certificate and one authority, for one key, with
  PEM and ASN.1 reduced to tagged texts, and random bytes that are all zero, so that the serial
  number is the replacement for zero.
\<close>

definition demo_gateway :: GatewayIdentity where
  "demo_gateway = gateway_identity ''acme'' ''gw-1'' []"

definition demo_uri :: string where
  "demo_uri = ''spiffe://builders-net/federation-gateway/tenant/acme/gateway/gw-1''"

definition demo_url :: URL where
  "demo_url = spiffe_base\<lparr>url_Path := ''/federation-gateway/tenant/acme/gateway/gw-1''\<rparr>"

definition demo_parse :: "string \<Rightarrow> goerror + URL" where
  "demo_parse s = (if take 21 s = ''spiffe://builders-net''
     then (case setPath (drop 21 s) spiffe_base of None \<Rightarrow> Inl (Plain ''path'') | Some u \<Rightarrow> Inr u) else Inl (Plain ''scheme''))"

definition demo_template :: CertTemplate where
  "demo_template = (leaf_template ''gw-1'' [] [demo_url] 5000000000 1000000000000 1)\<lparr>tp_ExtKeyUsage := [ExtKeyUsageClientAuth]\<rparr>"

definition demo_root_template :: CertTemplate where
  "demo_root_template = ca_template 1 ''spire-trust-domain-ca'' 5000000000 (365 * 24 * Hour)"

definition demo_request_template :: RequestTemplate where
  "demo_request_template = \<lparr>rt_CommonName = ''gw-1'', rt_DNSNames = [], rt_URIs = [demo_url], rt_PublicKey = ''pub'',
     rt_ExtraExtensions = [(oidExtensionExtendedKeyUsage, ''eku'')]\<rparr>"

definition demo_leaf :: X509 where
  "demo_leaf = \<lparr>x_SerialNumber = 1, x_CommonName = ''gw-1'', x_NotBefore = 5000000000, x_NotAfter = 1005000000000, x_KeyUsage = KeyUsageDigitalSignature,
     x_ExtKeyUsage = [ExtKeyUsageClientAuth], x_IsCA = False, x_DNSNames = [], x_URIs = [demo_url], x_IPAddresses = [],
     x_PublicKey = Some ''pub'', x_Subject = ''CN=gw-1'', x_Issuer = ''CN=root'', x_Raw = ''der''\<rparr>"

definition demo_root :: X509 where
  "demo_root = \<lparr>x_SerialNumber = 1, x_CommonName = ''spire-trust-domain-ca'', x_NotBefore = 5000000000, x_NotAfter = 5000000000 + 365 * 24 * Hour,
     x_KeyUsage = tp_KeyUsage demo_root_template, x_ExtKeyUsage = [], x_IsCA = True, x_DNSNames = [], x_URIs = [], x_IPAddresses = [],
     x_PublicKey = Some ''pub'', x_Subject = ''CN=root'', x_Issuer = ''CN=root'', x_Raw = ''root''\<rparr>"

definition demo_request :: X509Request where
  "demo_request = \<lparr>rq_CommonName = ''gw-1'', rq_DNSNames = [], rq_URIs = [demo_url], rq_PublicKey = Some ''pub'',
     rq_Extensions = [(oidExtensionExtendedKeyUsage, ''eku'')]\<rparr>"

definition demo_kinds :: "(string \<times> char) list" where
  "demo_kinds = [(''CERTIFICATE'', CHR ''C''), (''CERTIFICATE REQUEST'', CHR ''R''), (''PRIVATE KEY'', CHR ''K'')]"

definition demo_pki :: "nat pki" where
  "demo_pki =
     \<lparr>ce_ReadFile = (\<lambda>f. if f = ''c.pem'' then Inr ''Cder'' else if f = ''r.pem'' then Inr ''Rcsr'' else Inl (Plain ''no such file'')),
      ce_LoadX509KeyPair = (\<lambda>c k. Inl (Plain ''no such file'')),
      ce_ParseCertificate = (\<lambda>d. if d = ''der'' then Inr demo_leaf else if d = ''root'' then Inr demo_root else Inl (Plain ''malformed'')),
      ce_VerifyHostname = (\<lambda>c n. None),
      ce_pem_Decode = (\<lambda>b. case b of [] \<Rightarrow> None
         | c # data \<Rightarrow> map_option (\<lambda>kind. (kind, data, [])) (map_of (map (\<lambda>(kind, c). (c, kind)) demo_kinds) c)),
      url_Parse = demo_parse,
      io_ReadFull = (\<lambda>random n w. (Inr (replicate n (CHR 0x00)), Suc w)),
      ed25519_GenerateKey = (\<lambda>random w. (Inr (''pub'', ''priv''), Suc w)),
      signer_Public = (\<lambda>key. ''pub''),
      x509_CreateCertificate = (\<lambda>random t parent pub key w.
         if pub \<noteq> ''pub'' then (Inl (Plain ''key''), w)
         else if t = demo_template \<and> parent \<noteq> None then (Inr ''der'', Suc w)
         else if t = demo_root_template \<and> parent = None then (Inr ''root'', Suc w) else (Inl (Plain ''template''), w)),
      x509_CreateCertificateRequest = (\<lambda>random t key w. if t = demo_request_template then (Inr ''csr'', Suc w) else (Inl (Plain ''template''), w)),
      x509_ParseCertificateRequest = (\<lambda>d. if d = ''csr'' then Inr demo_request else Inl (Plain ''malformed'')),
      x509_CheckSignature = (\<lambda>r. None),
      x509_MarshalPKCS8PrivateKey = (\<lambda>k. Inr k),
      x509_ParsePKCS8PrivateKey = (\<lambda>d. Inr (SignerKey d)),
      x509_MarshalPKIXPublicKey = (\<lambda>k. case k of None \<Rightarrow> Inl (Plain ''nil key'') | Some der \<Rightarrow> Inr der),
      x509_Verify = (\<lambda>leaf roots chain now usages. None),
      asn1_Marshal = (\<lambda>oids. if oids = [oidExtKeyUsageClientAuth] then Inr ''eku'' else Inl (Plain ''oids'')),
      asn1_Unmarshal = (\<lambda>v. if v = ''eku'' then Inr [oidExtKeyUsageClientAuth] else Inl (Plain ''oids'')),
      pem_EncodeToMemory = (\<lambda>kind data. case map_of demo_kinds kind of None \<Rightarrow> [] | Some c \<Rightarrow> c # data)\<rparr>"

section \<open>The laws hold\<close>

lemma demo_differ: "demo_template \<noteq> demo_root_template"
  by (simp add: demo_template_def demo_root_template_def leaf_template_def ca_template_def)

lemma demo_parse_uri: "demo_parse demo_uri = Inr demo_url" "url_String demo_url = demo_uri" "GatewayURI demo_gateway = demo_uri"
  by code_simp+

lemma demo_gateway_ok: "gateway_ok demo_gateway"
  by (auto simp: gateway_ok_def demo_gateway_def gateway_identity_def trimmed_iff ws_runes_def intro!: trimmed_no_ws)

lemma demo_x509_faithful: "x509_faithful demo_pki"
  unfolding x509_faithful_def
  by (auto simp: demo_pki_def carries_def demo_leaf_def demo_template_def leaf_template_def to_second_def demo_parse_uri demo_root_def
      demo_root_template_def ca_template_def Hour_def split: if_splits)

lemma demo_csr_faithful: "csr_faithful demo_pki"
  unfolding csr_faithful_def
  by (auto simp: demo_pki_def demo_request_def demo_request_template_def demo_parse_uri split: if_splits)

lemma demo_laws: "reads_full demo_pki" "pem_faithful demo_pki" "pem_consumes demo_pki" "asn1_faithful demo_pki" "parses_spiffe demo_pki"
  subgoal by (auto simp: reads_full_def demo_pki_def)
  subgoal by (simp add: pem_faithful_def demo_pki_def demo_kinds_def)
  subgoal by (auto simp: pem_consumes_def demo_pki_def split: list.splits)
  subgoal by (auto simp: asn1_faithful_def demo_pki_def split: if_splits)
  subgoal by (auto simp: parses_spiffe_def demo_pki_def demo_parse_def trustDomain_def)
  done

section \<open>Issuing and signing\<close>

definition demo_ca :: CertificateAuthority where
  "demo_ca = \<lparr>ca_Certificate = Some demo_root, ca_PrivateKey = Some ''priv'', ca_CertPEM = ''Croot'', ca_KeyPEM = ''Kpriv''\<rparr>"

definition demo_options :: CertificateIssueOptions where
  "demo_options = \<lparr>cio_Profile = ''client'', cio_CommonName = '' gw-1'', cio_DNSNames = ['' ''], cio_URIs = [demo_uri], cio_NotBefore = 0,
     cio_TTL = 1000000000000, cio_CA = demo_ca, cio_Random = None\<rparr>"

definition demo_sign_options :: CertificateSignOptions where
  "demo_sign_options = \<lparr>sgo_Profile = ''client'', sgo_CommonName = [], sgo_DNSNames = [], sgo_URIs = [demo_uri], sgo_NotBefore = 0,
     sgo_TTL = 1000000000000, sgo_CA = demo_ca, sgo_Random = None\<rparr>"

definition demo_request_options :: CertificateSigningRequestOptions where
  "demo_request_options = \<lparr>cso_Profile = ''client'', cso_CommonName = ''gw-1'', cso_DNSNames = [], cso_URIs = [demo_uri], cso_Random = None\<rparr>"

lemma demo_issue:
  "IssueCertificate demo_pki 5000000000 demo_options 0 = (Inr \<lparr>ic_Certificate = demo_leaf, ic_CertPEM = ''Cder'', ic_KeyPEM = ''Kpriv''\<rparr>, 3)"
  by code_simp

lemma demo_sign:
  "SignCertificateRequest demo_pki 5000000000 (Some demo_request) demo_sign_options 0 =
     (Inr \<lparr>ic_Certificate = demo_leaf, ic_CertPEM = ''Cder'', ic_KeyPEM = []\<rparr>, 2)"
  by code_simp

lemma demo_generate:
  "GenerateCertificateSigningRequest demo_pki demo_request_options 0 = (Inr \<lparr>cr_Request = demo_request, cr_CSRPEM = ''Rcsr'', cr_KeyPEM = ''Kpriv''\<rparr>, 2)"
  by code_simp


theorem request_names_ignored_witness:
  "SignCertificateRequest demo_pki 5000000000 (Some (demo_request\<lparr>rq_DNSNames := [''evil.example''], rq_URIs := []\<rparr>)) demo_sign_options 0 =
     (Inr \<lparr>ic_Certificate = demo_leaf, ic_CertPEM = ''Cder'', ic_KeyPEM = []\<rparr>, 2)"
proof -
  have "x509_CheckSignature demo_pki r = None" for r by (simp add: demo_pki_def)
  then show ?thesis using request_names_ignored [OF demo_x509_faithful demo_sign] by auto
qed

theorem issued_gateway_recognised_witness:
  "GatewayIdentityFromCertificate demo_platform (Some (seen demo_leaf)) =
     Inr (demo_gateway\<lparr>gi_SPIFFEID := demo_uri, gi_Subject := ''CN=gw-1'', gi_FingerprintSHA256 := hexEncode (sha256 demo_platform ''der'')\<rparr>)"
proof -
  have "cio_URIs demo_options = [GatewayURI demo_gateway]" by (simp add: demo_options_def demo_parse_uri)
  from issued_gateway_recognised [OF demo_x509_faithful demo_laws(5) demo_gateway_ok this demo_issue, of demo_platform]
  show ?thesis by (simp add: demo_parse_uri demo_leaf_def)
qed

section \<open>Checking\<close>

definition demo_check :: IssuedCSRVerificationOptions where
  "demo_check = \<lparr>ivo_Profile = ''client'', ivo_CertFile = ''c.pem'', ivo_CSRFile = '' r.pem'', ivo_CAFile = [], ivo_MinValidFor = 1000000000,
     ivo_Now = 6000000000, ivo_ComponentName = ''gw''\<rparr>"

definition demo_report :: IssuedCSRVerificationReport where
  "demo_report = \<lparr>ivr_ComponentName = ''gw'', ivr_Profile = ''client'', ivr_Subject = ''CN=gw-1'', ivr_Issuer = ''CN=root'', ivr_NotBefore = 5000000000,
     ivr_NotAfter = 1005000000000, ivr_DNSNames = [], ivr_URIs = [demo_uri], ivr_CACount = 0\<rparr>"

lemma demo_trims: "TrimSpace ''c.pem'' = ''c.pem''" "TrimSpace '' r.pem'' = ''r.pem''" "TrimSpace [] = []" "TrimSpace ''gw'' = ''gw''" "TrimSpace ''gw-1'' = ''gw-1''"
  by code_simp+

lemma demo_file: "parsed_file demo_pki ''c.pem'' [demo_leaf]"
proof -
  have "pem_blocks demo_pki ''Cder'' [(''CERTIFICATE'', ''der'')]"
    using single_block [OF demo_laws(2), of "''der''"] by (simp add: demo_pki_def demo_kinds_def)
  then show ?thesis unfolding parsed_file_def demo_trims
    by (intro exI [of _ "''Cder''"] exI [of _ "[(''CERTIFICATE'', ''der'')]"]) (simp add: demo_pki_def certificates_def)
qed

theorem VerifyIssued_exact_witness:
  "VerifyIssuedCertificateForCSR demo_pki 0 demo_check = Some (Inr demo_report)"
proof -
  have "loadCertificateRequest demo_pki '' r.pem'' = Inr demo_request" by code_simp
  moreover have "issued_ok demo_pki demo_check 6000000000 demo_request demo_leaf"
    by (simp add: issued_ok_def demo_check_def demo_pki_def demo_request_def demo_leaf_def certificateHasExplicitUsage_def usage_of_def
        CertificateProfileServer_def csrRequestsUsage_def)
  moreover have "demo_report = csr_report demo_check demo_leaf 0"
    by (simp add: demo_report_def csr_report_def demo_check_def demo_leaf_def trim_csr_options_def demo_trims demo_parse_uri)
  ultimately have "csr_accepted demo_pki (or_clock 0 (ivo_Now demo_check)) demo_check demo_report"
    unfolding csr_accepted_def using demo_file
    by (auto simp: demo_check_def demo_trims or_clock_def known_profile_def CertificateProfileClient_def)
  then show ?thesis using VerifyIssued_exact [OF demo_laws(3), of 0 demo_check] by auto
qed

theorem enrolled_certificate_accepted_witness:
  "\<exists>rep. VerifyIssuedCertificateForCSR demo_pki 0 demo_check = Some (Inr rep) \<and> ivr_URIs rep = [demo_uri]"
proof -
  have "\<exists>rep. VerifyIssuedCertificateForCSR demo_pki 0 demo_check = Some (Inr rep) \<and> ivr_Profile rep = cso_Profile demo_request_options \<and>
      ivr_DNSNames rep = cleanStrings (cso_DNSNames demo_request_options) \<and> ivr_URIs rep = map url_String (rq_URIs demo_request)"
    using enrolled_certificate_accepted [OF demo_x509_faithful demo_csr_faithful demo_laws(2,3,4) _ demo_generate,
        where ic = "\<lparr>ic_Certificate = demo_leaf, ic_CertPEM = ''Cder'', ic_KeyPEM = []\<rparr>" and sopts = demo_sign_options and clock = 5000000000 and
          ?w2.0 = 0 and ?w3.0 = 2 and v = demo_check and vclock = 0] demo_sign
    by (simp add: demo_sign_options_def demo_request_options_def demo_check_def demo_trims or_clock_def demo_leaf_def) (simp add: demo_pki_def)
  then show ?thesis by (simp add: demo_request_def demo_parse_uri) blast
qed

section \<open>A provider\<close>

definition demo_query :: ca_query where
  "demo_query = \<lparr>qy_clock = (\<lambda>n. 5000000000), qy_Profile = ''client'', qy_CommonName = ''gw-1'', qy_DNSNames = [], qy_URIs = [demo_uri],
     qy_TTL = 1000000000000\<rparr>"

definition empty_ca :: CertificateAuthority where
  "empty_ca = \<lparr>ca_Certificate = None, ca_PrivateKey = None, ca_CertPEM = [], ca_KeyPEM = []\<rparr>"

lemma demo_provider_run:
  "ca_run (spire_issue demo_pki) (spire_TrustRoots demo_pki) [Issue (demo_query\<lparr>qy_Profile := []\<rparr>), Issue demo_query, Roots 9]
     (NewSpireWorkloadCAProvider ''s'' ''builders-net'' empty_ca, 0) = ([demo_leaf], [[demo_root]])"
  by code_simp

theorem provider_one_authority_witness:
  "created_under demo_pki demo_root demo_leaf"
proof -
  let ?s = "(NewSpireWorkloadCAProvider ''s'' ''builders-net'' empty_ca, 0)"
  have "complete_ca (sp_LocalCA (fst ?s))" by code_simp
  from provider_one_authority [OF this, of demo_pki "[Issue (demo_query\<lparr>qy_Profile := []\<rparr>), Issue demo_query, Roots 9]"]
  show ?thesis unfolding demo_provider_run by simp
qed

theorem svid_in_trust_domain_witness:
  "list_all (\<lambda>u. url_Scheme u = ''spiffe'' \<longrightarrow> url_Host u = ''builders-net'') (x_URIs demo_leaf)"
proof -
  let ?p = "NewSpireWorkloadCAProvider ''s'' ''builders-net'' empty_ca"
  have "spiffe_stable demo_pki"
    by (auto simp: spiffe_stable_def demo_pki_def demo_parse_def setPath_def spiffe_base_def split: if_splits option.splits)
  moreover have "list_all trimmed [demo_uri]" by code_simp
  moreover have "spire_IssueCertificate demo_pki (\<lambda>n. 5000000000) ''client'' ''gw-1'' [] [demo_uri] 1000000000000 (?p, 0) =
      (Inr \<lparr>ic_Certificate = demo_leaf, ic_CertPEM = ''Cder'', ic_KeyPEM = ''Kpriv''\<rparr>,
       (?p\<lparr>sp_LocalCA := demo_ca\<rparr>, 6))"
    by code_simp
  ultimately show ?thesis
    using svid_in_trust_domain [OF demo_x509_faithful] by (fastforce simp: NewSpireWorkloadCAProvider_def)
qed

end
