(* ===== verification/ManifestSign.thy ===== *)
theory ManifestSign
  imports ManifestProps ProductionEvidence
begin

text \<open>
  The command that keeps the key of the manifest authority and signs manifests with it
  (\<open>src/contracts/cmd/manifestsign/main.go\<close>). The file system is the state of the record \<open>disk\<close>, extended by
  the generation of keys and the decoding of a manifest. A run prints, dies with a message on the
  standard error, or panics where Go indexes or slices out of range. The text of a base64 error and
  the command quoted with \<open>%q\<close> are left out of messages.
\<close>

section \<open>Definitions\<close>

datatype outcome = Printed string | Died string | Panicked

record 'fs signenv = "'fs disk" +
  ed_GenerateKey :: "'fs \<Rightarrow> (goerror + bytes \<times> bytes) \<times> 'fs"
  unmarshal_Manifest :: "bytes \<Rightarrow> goerror + Manifest"

definition die :: "string \<Rightarrow> outcome" where
  "die text = Died (''ERR: '' @ text @ [CHR 0x0A])"

definition ms_trim :: "string \<Rightarrow> string" where
  "ms_trim s = rev (dropWhile (\<lambda>c. c = CHR 0x0A \<or> c = CHR '' '' \<or> c = CHR 0x0D) (rev s))"

definition mustB64 :: "string \<Rightarrow> outcome + bytes" where
  "mustB64 s = (case StdDecode (ms_trim s) of None \<Rightarrow> Inl (die ''b64 decode: '') | Some b \<Rightarrow> Inr b)"

text \<open>\<open>PrivateKey.Public\<close> slices the key from its 32nd byte.\<close>

definition private_Public :: "platform \<Rightarrow> bytes \<Rightarrow> outcome + bytes" where
  "private_Public p priv = (if length priv < 32 then Inl Panicked else Inr (ed_public p priv))"

definition key_file :: "string \<Rightarrow> string" where "key_file dir = dir @ ''/manifest-ca.key''"
definition pub_file :: "string \<Rightarrow> string" where "pub_file dir = dir @ ''/manifest-ca.pub''"

definition mint :: "platform \<Rightarrow> ('fs, 'e) signenv_scheme \<Rightarrow> string \<Rightarrow> 'fs \<Rightarrow> outcome \<times> 'fs" where
  "mint p e dir s0 =
     (let s = snd (os_MkdirAll e dir s0)
      in case disk_ReadFile e (key_file dir) s of
           Inr b \<Rightarrow>
             (case mustB64 b of Inl out \<Rightarrow> (out, s) | Inr priv \<Rightarrow>
              case private_Public p priv of Inl out \<Rightarrow> (out, s) | Inr pub \<Rightarrow>
              (Printed (''EXISTS manifest key reused. pub='' @ take 16 (StdEncode pub) @ [CHR 0x0A]), s))
         | Inl _ \<Rightarrow>
             (case ed_GenerateKey e s of
                (Inl err, s1) \<Rightarrow> (die (''gen key: '' @ Error err), s1)
              | (Inr (pub, priv), s1) \<Rightarrow>
                  (case os_WriteFile e (key_file dir) (StdEncode priv) s1 of
                     (Some err, s2) \<Rightarrow> (die (''write key: '' @ Error err), s2)
                   | (None, s2) \<Rightarrow>
                       (case os_WriteFile e (pub_file dir) (StdEncode pub) s2 of
                          (Some err, s3) \<Rightarrow> (die (''write pub: '' @ Error err), s3)
                        | (None, s3) \<Rightarrow>
                            (Printed (''MINTED canonical manifest key -> '' @ dir @ ''/manifest-ca.{key,pub}'' @ [CHR 0x0A] @
                               '' pub='' @ StdEncode pub @ [CHR 0x0A]), s3)))))"

definition keyring_json :: "string \<Rightarrow> bytes \<Rightarrow> jdoc" where
  "keyring_json keyID pub = JObj [(keyID, JStr (StdEncode pub))]"

definition ms_sign ::
  "platform \<Rightarrow> ('fs, 'e) signenv_scheme \<Rightarrow> string \<Rightarrow> string \<Rightarrow> string \<Rightarrow> string \<Rightarrow> string \<Rightarrow> 'fs \<Rightarrow> outcome \<times> 'fs" where
  "ms_sign p e keydir input keyID out keyringOut s =
     (case disk_ReadFile e (key_file keydir) s of Inl err \<Rightarrow> (die (''read key: '' @ Error err), s) | Inr kb \<Rightarrow>
      case mustB64 kb of Inl result \<Rightarrow> (result, s) | Inr priv \<Rightarrow>
      if length priv \<noteq> PrivateKeySize then (die (''bad private key size '' @ dec_int (int (length priv))), s)
      else case disk_ReadFile e input s of Inl err \<Rightarrow> (die (''read manifest: '' @ Error err), s) | Inr mb \<Rightarrow>
      case unmarshal_Manifest e mb of Inl err \<Rightarrow> (die (''parse manifest: '' @ Error err), s) | Inr m \<Rightarrow>
      case cm_Sign p (m\<lparr>mf_SigningKeyID := keyID\<rparr>) priv of Inl err \<Rightarrow> (die (''sign: '' @ Error err), s) | Inr signedManifest \<Rightarrow>
      case os_WriteFile e out (marshal_indent 0 (manifest_json signedManifest)) s of
        (Some err, s1) \<Rightarrow> (die (''write out: '' @ Error err), s1)
      | (None, s1) \<Rightarrow>
          (case private_Public p priv of Inl result \<Rightarrow> (result, s1) | Inr pub \<Rightarrow>
           let krb = marshal (keyring_json keyID pub)
           in case os_WriteFile e keyringOut krb s1 of
                (Some err, s2) \<Rightarrow> (die (''write keyring: '' @ Error err), s2)
              | (None, s2) \<Rightarrow>
                  (if length (mf_ManifestHashSHA256 signedManifest) < 16 then Panicked
                   else Printed (''SIGNED '' @ out @ [CHR 0x0A] @ ''  signing_key_id='' @ keyID @ [CHR 0x0A] @ ''  manifest_hash='' @
                     take 16 (mf_ManifestHashSHA256 signedManifest) @ [CHR 0x0A] @ ''  keyring(public)='' @ krb @ [CHR 0x0A]), s2)))"

definition manifestsign_main :: "platform \<Rightarrow> ('fs, 'e) signenv_scheme \<Rightarrow> string list \<Rightarrow> 'fs \<Rightarrow> outcome \<times> 'fs" where
  "manifestsign_main p e os_Args s =
     (if length os_Args < 2 then (die ''usage: manifestsign mint|sign ...'', s)
      else if os_Args ! 1 = ''mint'' then (if length os_Args < 3 then (Panicked, s) else mint p e (os_Args ! 2) s)
      else if os_Args ! 1 = ''sign'' then
        (if length os_Args < 7 then (Panicked, s)
         else ms_sign p e (os_Args ! 2) (os_Args ! 3) (os_Args ! 4) (os_Args ! 5) (os_Args ! 6) s)
      else (die ''unknown cmd '', s))"

section \<open>A key that is kept\<close>

text \<open>
  What is relied on of the file system, for the paths of distinct files: a file that was written holds
  what was written, the others stay, and neither making a directory nor generating a key
  changes a file.
\<close>

definition files_kept :: "('fs, 'e) signenv_scheme \<Rightarrow> string set \<Rightarrow> 'fs \<Rightarrow> 'fs \<Rightarrow> bool" where
  "files_kept e F s s' \<longleftrightarrow> (\<forall>f\<in>F. disk_ReadFile e f s' = disk_ReadFile e f s)"

definition distinct_files :: "platform \<Rightarrow> ('fs, 'e) signenv_scheme \<Rightarrow> string set \<Rightarrow> bool" where
  "distinct_files p e F \<longleftrightarrow>
     (\<forall>f\<in>F. \<forall>data s. case os_WriteFile e f data s of (err, s') \<Rightarrow>
        err = None \<and> disk_ReadFile e f s' = Inr data \<and> files_kept e (F - {f}) s s') \<and>
     (\<forall>dir s. files_kept e F s (snd (os_MkdirAll e dir s))) \<and>
     (\<forall>s. \<exists>priv s'. ed_GenerateKey e s = (Inr (ed_public p priv, priv), s') \<and> length priv = PrivateKeySize \<and> files_kept e F s s')"

lemma written:
  assumes "distinct_files p e F" "f \<in> F"
  obtains s' where "os_WriteFile e f data s = (None, s')" "disk_ReadFile e f s' = Inr data" "files_kept e (F - {f}) s s'"
proof -
  obtain err s' where w: "os_WriteFile e f data s = (err, s')" by fastforce
  have "case os_WriteFile e f data s of (err, s') \<Rightarrow> err = None \<and> disk_ReadFile e f s' = Inr data \<and> files_kept e (F - {f}) s s'"
    using assms(1) [unfolded distinct_files_def, THEN conjunct1, rule_format, OF assms(2)] .
  then show ?thesis using that unfolding w by auto
qed

lemma mustB64_StdEncode [simp]: "mustB64 (StdEncode b) = Inr b"
proof -
  let ?P = "\<lambda>c. c = CHR 0x0A \<or> c = CHR '' '' \<or> c = CHR 0x0D"
  have "list_all (\<lambda>c. \<not> ?P c) (CHR ''='' # b64_std)" by code_simp
  moreover have "set (StdEncode b) \<subseteq> set (CHR ''='' # b64_std)"
    using b64_enc_set [of b64_std True b] b64_alphabets(1) by (simp only: b64_alphabet_def list.set)
  ultimately have "\<forall>c\<in>set (StdEncode b). \<not> ?P c" unfolding list_all_iff by blast
  then have "StdEncode b = [] \<or> \<not> ?P (hd (rev (StdEncode b)))" by (metis hd_rev last_in_set)
  then have "dropWhile ?P (rev (StdEncode b)) = rev (StdEncode b)" unfolding dropWhile_eq_self_iff by (simp only: rev_is_Nil_conv)
  then have "ms_trim (StdEncode b) = StdEncode b" unfolding ms_trim_def by (simp only: rev_rev_ident)
  then show ?thesis by (simp add: mustB64_def)
qed

text \<open>The state of a key directory after minting: the two halves of one key.\<close>

definition holds_key :: "platform \<Rightarrow> ('fs, 'e) signenv_scheme \<Rightarrow> string \<Rightarrow> bytes \<Rightarrow> 'fs \<Rightarrow> bool" where
  "holds_key p e dir priv s \<longleftrightarrow> length priv = PrivateKeySize \<and>
     disk_ReadFile e (key_file dir) s = Inr (StdEncode priv) \<and> disk_ReadFile e (pub_file dir) s = Inr (StdEncode (ed_public p priv))"

lemma files_differ: "key_file dir \<noteq> pub_file dir"
  by (simp add: key_file_def pub_file_def)

lemma mint_first:
  assumes "distinct_files p e F" "{key_file dir, pub_file dir} \<subseteq> F" "disk_ReadFile e (key_file dir) s = Inl err"
  shows "\<exists>priv text s'. mint p e dir s = (Printed text, s') \<and> holds_key p e dir priv s' \<and> files_kept e (F - {key_file dir, pub_file dir}) s s'"
proof -
  let ?k = "key_file dir" and ?b = "pub_file dir" and ?s = "snd (os_MkdirAll e dir s)"
  have F: "?k \<in> F" "?b \<in> F" using assms(2) by auto
  have mk: "files_kept e F s ?s" using assms(1) unfolding distinct_files_def by blast
  obtain priv s1 where g: "ed_GenerateKey e ?s = (Inr (ed_public p priv, priv), s1)" "length priv = PrivateKeySize" "files_kept e F ?s s1"
    using assms(1) unfolding distinct_files_def by blast
  obtain s2 where w: "os_WriteFile e ?k (StdEncode priv) s1 = (None, s2)" "disk_ReadFile e ?k s2 = Inr (StdEncode priv)" "files_kept e (F - {?k}) s1 s2"
    using written [OF assms(1) F(1)] .
  obtain s3 where x: "os_WriteFile e ?b (StdEncode (ed_public p priv)) s2 = (None, s3)" "disk_ReadFile e ?b s3 = Inr (StdEncode (ed_public p priv))"
    "files_kept e (F - {?b}) s2 s3"
    using written [OF assms(1) F(2)] .
  have "disk_ReadFile e ?k ?s = Inl err" using mk F(1) assms(3) by (simp add: files_kept_def)
  then have "\<exists>text. mint p e dir s = (Printed text, s3)" using g w x by (simp add: mint_def Let_def)
  moreover have "holds_key p e dir priv s3"
    using g(2) w(2) x(2,3) F(1) files_differ [of dir] by (simp add: holds_key_def files_kept_def)
  moreover have "files_kept e (F - {?k, ?b}) s s3" using mk g(3) w(3) x(3) by (simp add: files_kept_def)
  ultimately show ?thesis by blast
qed

lemma mint_again:
  assumes "distinct_files p e F" "{key_file dir, pub_file dir} \<subseteq> F" "holds_key p e dir priv s"
  shows "\<exists>text s'. mint p e dir s = (Printed text, s') \<and> files_kept e F s s'"
proof -
  have mk: "files_kept e F s (snd (os_MkdirAll e dir s))" using assms(1) unfolding distinct_files_def by blast
  then have "disk_ReadFile e (key_file dir) (snd (os_MkdirAll e dir s)) = Inr (StdEncode priv)"
    using assms(2,3) by (simp add: files_kept_def holds_key_def)
  then show ?thesis using mk assms(3) by (auto simp: mint_def Let_def private_Public_def holds_key_def)
qed

lemma sign_with_key:
  assumes "distinct_files p e F" "{out, keyringOut} \<subseteq> F" "out \<noteq> keyringOut" "holds_key p e dir priv s"
    and "disk_ReadFile e input s = Inr mb" "unmarshal_Manifest e mb = Inr m"
    and "cm_Sign p (m\<lparr>mf_SigningKeyID := keyID\<rparr>) priv = Inr signedManifest" "sha256_sized p"
  shows "\<exists>text s'. ms_sign p e dir input keyID out keyringOut s = (Printed text, s') \<and>
    disk_ReadFile e out s' = Inr (marshal_indent 0 (manifest_json signedManifest)) \<and>
    disk_ReadFile e keyringOut s' = Inr (marshal (keyring_json keyID (ed_public p priv))) \<and> files_kept e (F - {out, keyringOut}) s s'"
proof -
  let ?d = "marshal_indent 0 (manifest_json signedManifest)" and ?r = "marshal (keyring_json keyID (ed_public p priv))"
  obtain s1 where w: "os_WriteFile e out ?d s = (None, s1)" "disk_ReadFile e out s1 = Inr ?d" "files_kept e (F - {out}) s s1"
    using written [OF assms(1)] assms(2) by blast
  obtain s2 where x: "os_WriteFile e keyringOut ?r s1 = (None, s2)" "disk_ReadFile e keyringOut s2 = Inr ?r" "files_kept e (F - {keyringOut}) s1 s2"
    using written [OF assms(1)] assms(2) by blast
  have "length (mf_ManifestHashSHA256 signedManifest) = 64"
    using cm_Sign_signed(3) [OF assms(7)] hex_sha256_length [OF assms(8)] by (simp add: ComputeManifestHash_def)
  then have "\<exists>text. ms_sign p e dir input keyID out keyringOut s = (Printed text, s2)"
    using assms(4-7) w(1) x(1) by (simp add: ms_sign_def holds_key_def private_Public_def Let_def)
  moreover have "disk_ReadFile e out s2 = Inr ?d" using w(2) x(3) assms(2,3) by (simp add: files_kept_def)
  moreover have "files_kept e (F - {out, keyringOut}) s s2" using w(3) x(3) by (simp add: files_kept_def)
  ultimately show ?thesis using x(2) by blast
qed


definition demo_signer :: "(string \<Rightarrow> bytes option) signenv" where
  "demo_signer =
     \<lparr>os_MkdirAll = (\<lambda>dir fs. (Some (Plain ''exists''), fs)), os_WriteFile = (\<lambda>f data fs. (None, fs(f \<mapsto> data))),
      os_Create = (\<lambda>f fs. (None, fs(f \<mapsto> []))), file_Write = (\<lambda>f data fs. (None, fs(f \<mapsto> data))),
      disk_ReadFile = (\<lambda>f fs. case fs f of None \<Rightarrow> Inl (Plain ''no such file'') | Some data \<Rightarrow> Inr data),
      disk_Open = (\<lambda>f fs. Inl (Plain ''no such file'')),
      ed_GenerateKey = (\<lambda>fs. (Inr (ed_public demo_platform sample_key, sample_key), fs)),
      unmarshal_Manifest = (\<lambda>b. if b = ''manifest'' then Inr sample_manifest else Inl (Plain ''syntax''))\<rparr>"


end
