(* ===== verification/Spec2Isabelle.thy ===== *)
theory Spec2Isabelle
  imports Gateway MembershipProps ServiceAccessProps IdentityProps CatalogProps KeyMaterialProps ReleaseProps TlsConfig PkiWitness ManifestSign
begin

text \<open>
  Federation contracts: a verification library for the Go module under \<open>src/\<close>, by which companies
  let each other's gateways call a narrow set of federation services.

  \<^bold>\<open>The program.\<close> A gateway receives an envelope over an authenticated session. The exchange
  handler (\<open>contracts/exchange\<close>) normalises it, checks session, link, policies, replay and payload,
  resolves the contract it names to a signed manifest (\<open>contracts/contractmanifest\<close>), asks whether
  the tenant approved that manifest for this partner (\<open>contracts/contractapproval\<close>), records an audit
  decision and only then calls the facade. Contract packs (\<open>contracts/contractpacks/ordertocash\<close>) supply
  manifests, catalog entries (\<open>contracts/servicecatalog\<close>) and payload validators. Membership of the
  libp2p fabric rests on signed capabilities, revocation lists, peer rosters and mesh registrations
  (\<open>membershipcap\<close>), access to a published service on a signed capability and its tombstones
  (\<open>serviceaccesscap\<close>). Certificates carry identities as SPIFFE URIs (\<open>identity\<close>), signing keys and
  trust sets come from mounted files (\<open>keymaterial\<close>), and errors carry codes (\<open>apperrors\<close>). Release
  records and the evidence kept for production are assembled and scanned for leaks by \<open>release\<close>.

  \<^bold>\<open>The theories and what they model.\<close>
  \<^item> \<open>FedPrelude\<close>: shared types (byte strings, nil-able slices, \<open>int64\<close> as 64-bit words), collections of
    rewrite rules and generic lemmas. \<open>GoStrings\<close>, \<open>GoJSON\<close>, \<open>GoNetip\<close>, \<open>GoNet\<close>, \<open>GoURL\<close>, \<open>GoPath\<close>:
    what the program uses of \<open>strings\<close>, \<open>utf8\<close>, \<open>hex\<close>, \<open>base64\<close>, \<open>strconv\<close>, \<open>encoding/json\<close>, \<open>net/netip\<close>,
    \<open>net\<close>, \<open>net/url\<close> and \<open>path/filepath\<close>. \<open>GoJSON\<close> shows that the JSON writer is injective and holds the
    locale \<open>json_scan\<close> of the recursive searches through decoded values. \<open>GoPlatform\<close>: the primitives
    taken as parameters.
  \<^item> \<open>AppErrors\<close>: \<open>apperrors/errors.go\<close> and Go error trees (\<open>errors.As\<close>, \<open>errors.Is\<close>).
  \<^item> \<open>Exchange\<close> (data, checks and the in-memory replay cache), \<open>ExchangeHandler\<close> (\<open>Handle\<close>, both preflights,
    the discovery of manifests, audit and delivery) model \<open>exchange.go\<close> and \<open>discovery.go\<close>. The handler
    runs in a state monad over a world with a log of the calls to its interfaces. \<open>ExchangeGuards\<close>
    gives the proof rules for such runs, \<open>ExchangeProps\<close> the properties: no dispatch without every
    gate, no response without its audit record, no envelope or idempotency key dispatched twice,
    every denial has its reason.
  \<^item> \<open>ContractManifest\<close>, \<open>ManifestProps\<close>: \<open>manifest.go\<close>; documents, canonical bytes, signing, verification
    and the verified cache (locale \<open>manifest_cache\<close>). \<open>ContractApproval\<close>, \<open>ApprovalProps\<close>: \<open>approval.go\<close>;
    approval records, pins, the registry as a step relation and its authorisation (locale
    \<open>approval_gate\<close>). \<open>Gateway\<close> and this theory put handler, cache and registry together.
  \<^item> \<open>SignedDocument\<close>: the locale \<open>signed_document\<close>, the contract that capabilities, revocation lists,
    rosters, access capabilities and tombstones share. \<open>MembershipCap\<close>, \<open>PeerRoster\<close>, \<open>MeshRegistration\<close>,
    \<open>RosterBuild\<close>, \<open>MembershipProps\<close>: \<open>membershipcap\<close>, from single documents to the assembly of a roster
    from mesh claims. \<open>ServiceAccessCap\<close>, \<open>ServiceAccessProps\<close>: \<open>serviceaccesscap\<close>.
  \<^item> \<open>Identity\<close>, \<open>IdentityProps\<close>: \<open>identity/identity.go\<close>; \<open>CertCheck\<close>: \<open>identity/certcheck.go\<close>, with a proof
    that its loop over PEM blocks ends. \<open>CertIssue\<close>, \<open>CsrVerify\<close>, \<open>CaProvider\<close>, \<open>TlsConfig\<close>: \<open>certissue.go\<close>,
    \<open>csrverify.go\<close>, \<open>provider.go\<close> and \<open>tls.go\<close>, with random bytes and the answers of the network as a state.
    \<open>PkiProps\<close>: issued certificates are well formed, their names come from the authority alone, the
    check against a request accepts exactly what belongs to it, an enrolment completes, and a
    gateway is recognised by the certificate issued for it. \<open>ProviderProps\<close> (locale \<open>workload_ca\<close>): a
    provider has one authority and keeps to its trust domain. \<open>PkiWitness\<close>: a small public key
    infrastructure in which the laws these properties name hold.
  \<^item> \<open>ServiceCatalog\<close>, \<open>OrderToCash\<close>, with \<open>PackProps\<close>, \<open>TopologyProps\<close>, \<open>CatalogProps\<close>: \<open>servicecatalog.go\<close> and
    \<open>ordertocash/pack.go\<close>; what the pack publishes is accepted by the manifest, catalog and payload
    checks, and no internal IPv4 address passes the searches.
  \<^item> \<open>KeyMaterial\<close>, \<open>KeyMaterialProps\<close>: \<open>keymaterial/keymaterial.go\<close>; signers fail closed, trust directories
    load exactly when they are sound, and what the membership signer issues is admitted (locale
    \<open>signing_source\<close>).
  \<^item> \<open>GoRegexp\<close>, \<open>GoFlag\<close>: Go's regular expressions (compiler, search, and their declarative meaning) and
    command-line flags. \<open>Release\<close>: \<open>release/release.go\<close> and \<open>acceptance.go\<close>; \<open>ProductionEvidence\<close>:
    \<open>production_evidence.go\<close> with the file system as an explicit state. \<open>ReleaseProps\<close>: the leak scan is
    exactly the meaning of its patterns, an internal address stops a release, which options give a
    record, and that the evidence files on disk are the ones the fragment describes.
  \<^item> \<open>ManifestSign\<close>: \<open>contracts/cmd/manifestsign/main.go\<close>, the command of the manifest authority; what it
    signs verifies under the keyring it writes.
  Names follow the source; a name that clashes with another package or a HOL constant carries a prefix
  (\<open>cm_Sign\<close> is \<open>contractmanifest.Sign\<close>, \<open>o2c_\<close> the order-to-cash pack, \<open>sc_\<close> the service catalog,
  \<open>sa_\<close>, \<open>tb_\<close> service access and tombstones), and the fields of a record carry a short prefix of it.

  \<^bold>\<open>Modelling decisions.\<close> A Go string and a \<open>[]byte\<close> are byte strings; a slice is an option where its nil
  value can be seen. Signed integers are words read with \<open>sint\<close>, so sums and comparisons wrap as in
  Go. Errors are values (\<open>goerror\<close>); the operands that \<open>fmt.Errorf\<close> quotes with \<open>%q\<close> and the texts of JSON
  decoding errors are left out of messages. SHA-256, ed25519, the JSON decoder and the Unicode case
  table are the fields of the record \<open>platform\<close>, an argument of every definition that uses them;
  theorems name what they need of them (\<open>sha256_sized\<close>, \<open>ed25519_correct\<close>, \<open>signs_only\<close>, and
  absence of collisions where a digest is concerned). \<open>url.Parse\<close>, \<open>uuid.NewSHA1\<close>, \<open>crypto/x509\<close>,
  \<open>net/http\<close>, \<open>golang.org/x/crypto/ssh\<close> and the file system are arguments likewise. Clock readings and the order in
  which a map is visited are arguments, so the theorems hold for every reading and order. Locks and
  contexts are left out: each operation of the registries and caches holds its lock for its whole
  body, so concurrent use is a sequence of operations, and the theorems on reachable states hold
  for every sequence.

  \<^bold>\<open>Bounds and termination.\<close> Every definition is total and none uses fuel, except the loops over the PEM
  blocks of a file or an answer (\<open>count_certificates\<close>, \<open>collect_certificates\<close>, \<open>parsed_blocks\<close>), which are
  partial functions with proofs that they return.

  \<^bold>\<open>Not modelled.\<close> The standard library and third-party packages beyond what is named above: they are
  parameters. File modes, contexts and their deadlines, and the JSON names of documents that the
  module only decodes through the library's decoder are not represented.
\<close>

section \<open>Properties that span components\<close>

text \<open>
  C1. Behind every contract dispatch stand an authentic manifest and an approval. On a handler
  whose manifests come from a cache filled only by \<open>PutVerified\<close> and whose approvals come from a
  registry changed only by its operations, whenever an envelope with a contract reaches the facade,
  the manifest handed over was resolved from a document of the cache that is of valid shape, has the
  referenced digest and is signed by a key of the ring; the facade method is the one of a contract
  of that document for the envelope's action; and the registry holds an approved record and a pin
  for this tenant, partner link, contract and action.
\<close>

theorem gateway_dispatch_evidence:
  assumes "run_state (Handle p h s0 e0) w = (res, w')" "w_calls w' = w_calls w @ tr"
    and "FacadeCall meth acc out \<in> set tr"
    and "h_Manifests h = Some f" "backed_by_cache p c f" "load p clk0 ms (Some (NewMemoryCache ring)) = Some c"
    and "h_Approvals h = Some g" "backed_by_registry r g" "registry_reachable p r"
    and "env_Contract (normalizeEnvelope e0) \<noteq> zero_ContractRef"
  shows "\<exists>doc ct mutating.
      mc_manifests c (TrimSpace (cr_ManifestHashSHA256 (env_Contract (normalizeEnvelope e0)))) = Some doc \<and>
      authentic p (cloneKeyring ring) doc \<and> ct \<in> set (mf_Contracts doc) \<and>
      ct_Action ct = env_Action (normalizeEnvelope e0) \<and> facadeForAction (ct_Action ct) = Inr (meth, mutating) \<and>
      approved_for r (check_of (normalizeSession s0) (normalizeEnvelope e0) (acc_Manifest acc) (acc_Action acc))"
proof (rule Handle_dispatch [OF assms(1)])
  fix tr' assume "w_calls w' = w_calls w @ tr'" "quiet tr'"
  with assms(2,3) show ?thesis by (auto simp: quiet_def list_all_iff)
next
  fix m a gates out' post
  let ?s = "normalizeSession s0" and ?e = "normalizeEnvelope e0"
  assume cl: "cleared p h ?s ?e m a gates" and po: "quiet post"
    and wc: "w_calls w' = w_calls w @ gates @ [RecordExchangeAudit (auditEvent (allow ?s ?e m a)) None,
       FacadeCall (ac_FacadeMethod a) (accepted_envelope ?s ?e m a) out'] @ post"
  have tr: "tr = gates @ [RecordExchangeAudit (auditEvent (allow ?s ?e m a)) None,
       FacadeCall (ac_FacadeMethod a) (accepted_envelope ?s ?e m a) out'] @ post"
    using wc assms(2) by simp
  have same: "meth = ac_FacadeMethod a \<and> acc = accepted_envelope ?s ?e m a \<and> out = out'"
    using facade_split_unique [OF cleared_quiet [OF cl] po] assms(3) tr by blast
  have "list_all (answered p c r) gates"
    using Handle_trace_answered [OF assms(4,5,7,8,1,2)] unfolding tr list_all_append by blast
  from cleared_answers [OF cl assms(10) _ this] assms(7)
  obtain clk where rs: "mc_ResolveManifest p clk (Some c) (env_Contract ?e) = Inr m"
    and au: "reg_Authorize (Some r) (check_of ?s ?e m a) = None" and ac: "xm_Actions m (env_Action ?e) = Some a"
    by auto
  have ok: "cache_ok p c" "mc_keyring c = cloneKeyring ring"
    using load_ok [OF NewMemoryCache_ok, of p clk0 ms ring] assms(6) by (auto simp: NewMemoryCache_def)
  have "approved_for r (check_of ?s ?e m a)"
    using registry.authorize_sound [OF registry_reachable_ok [OF assms(9)] au] .
  moreover obtain doc ct act where
    "mc_manifests c (TrimSpace (cr_ManifestHashSHA256 (env_Contract ?e))) = Some doc"
    "authentic p (mc_keyring c) doc" "ct \<in> set (mf_Contracts doc)" "toExchangeAction ct = Inr act"
    "xm_Actions m = [ct_Action ct \<mapsto> act]"
    by (rule mc_ResolveManifest_Inr [OF rs ok(1)])
  ultimately show ?thesis
    using ok(2) same ac by (auto simp: accepted_envelope_def toExchangeAction_def split: if_splits sum.splits prod.splits)
qed

theorem gateway_dispatch_evidence_witness:
  "\<exists>(c :: MemoryCache) doc ct mutating. mc_manifests c (TrimSpace demo_hash) = Some doc \<and>
      authentic demo_platform (cloneKeyring sample_ring) doc \<and> ct \<in> set (mf_Contracts doc) \<and>
      facadeForAction (ct_Action ct) = Inr (FacadeRequestBuilderWork, mutating) \<and>
      approved_for sample_registry (check_of demo_session demo_envelope demo_manifest demo_action)"
proof -
  obtain m' c where l: "load demo_platform sample_clock [m'] (Some (NewMemoryCache sample_ring)) = Some c"
    and x: "mc_ResolveManifest demo_platform sample_clock (Some c) sample_ref = Inr sample_answer"
    by (rule sample_resolves)
  obtain f g where fg: "h_Manifests (gateway_with (cache_method c) (registry_method sample_registry)) = Some f"
    "backed_by_cache demo_platform c f"
    "h_Approvals (gateway_with (cache_method c) (registry_method sample_registry)) = Some g" "backed_by_registry sample_registry g"
    using gateway_backed by blast
  obtain rsp w' where w: "run_state (Handle demo_platform (gateway_with (cache_method c) (registry_method sample_registry))
      demo_session demo_envelope) demo_world = (rsp, w')" "w_calls w' = w_calls demo_world @ demo_trace"
    using backed_run [OF x] by blast
  have t: "FacadeCall FacadeRequestBuilderWork (accepted_envelope demo_session demo_envelope demo_manifest demo_action)
      (Inr demo_result) \<in> set demo_trace"
    by (simp add: demo_trace_def)
  have z: "env_Contract (normalizeEnvelope demo_envelope) \<noteq> zero_ContractRef"
    by (simp add: demo_normal demo_fields demo_ref_def zero_ContractRef_def)
  have r: "TrimSpace (cr_ManifestHashSHA256 (env_Contract (normalizeEnvelope demo_envelope))) = TrimSpace demo_hash"
    by (simp add: demo_normal demo_fields demo_ref_def)
  from gateway_dispatch_evidence [OF w t fg(1,2) l fg(3,4) sample_reachable z] show ?thesis
    unfolding r unfolding demo_normal accepted_envelope_def AcceptedEnvelope.simps by blast
qed

end
